(* ===== verification/Prelude.thy ===== *)
theory Prelude
  imports Main "HOL-Library.Word" "HOL-Library.AList" "HOL-Library.Product_Lexorder"
    "HOL-Library.Monad_Syntax"
begin

text \<open>
  What every theory of the development shares: the names of the machine types, the collections
  that carry the component proofs, and the generic facts about lists, options and words the Rust
  standard library's operations are modelled with.

  Conventions.  A \<open>u8\<close>, \<open>u32\<close> or \<open>u64\<close> whose wrap-around matters is a word of that width; a
  \<open>usize\<close> that only counts what is in memory is a \<open>nat\<close>; an \<open>Instant\<close> and a \<open>Duration\<close> are their
  nanoseconds, as \<open>nat\<close>; a byte slice is a list of bytes; a \<open>VecDeque\<close> is a list with its front
  first.
\<close>

unbundle bit_operations_syntax

type_synonym u8 = "8 word"
type_synonym u16 = "16 word"
type_synonym u32 = "32 word"
type_synonym u64 = "64 word"
type_synonym bytes = "8 word list"
type_synonym instant = nat
type_synonym duration = nat

named_theorems mx_inv \<open>what every operation keeps of its component's invariant\<close>
named_theorems mx_simps \<open>equations of the model's operations that simplify towards states\<close>

section \<open>Words\<close>

text \<open>A 64-bit word mixed with its own upper bits is recovered in three steps when the shift is at
  least a third of the width: the step SplitMix64 and XXH3 are built from.\<close>

lemma xorshift_undo:
  fixes x :: "'a::len word"
  assumes "LENGTH('a) \<le> 3 * s"
  defines "y \<equiv> x XOR drop_bit s x"
  shows "y XOR drop_bit s y XOR drop_bit (2 * s) y = x"
proof -
  have "drop_bit s y = drop_bit s x XOR drop_bit (2 * s) x"
    by (simp add: y_def drop_bit_xor drop_bit_drop_bit mult_2)
  moreover have "drop_bit (2 * s) y = drop_bit (2 * s) x"
    using assms(1) by (simp add: y_def drop_bit_xor drop_bit_drop_bit add.commute mult_2)
  ultimately show ?thesis
    by (simp add: y_def xor.assoc xor.commute xor.left_commute)
qed

lemma xorshift_inj:
  fixes x y :: "'a::len word"
  assumes "LENGTH('a) \<le> 3 * s" "x XOR drop_bit s x = y XOR drop_bit s y"
  shows "x = y"
  using xorshift_undo [OF assms(1), of x] xorshift_undo [OF assms(1), of y] assms(2) by simp

lemma mult_unit_inj:
  fixes x y c :: "'a::comm_monoid_mult"
  assumes "c * d = 1" "x * c = y * c"
  shows "x = y"
proof -
  have "x * c * d = y * c * d"
    using assms(2) by simp
  then show ?thesis
    using assms(1) by (simp add: mult.assoc)
qed

lemma of_nat_word_inj:
  assumes "(of_nat m :: 'a::len word) = of_nat n" "m < 2 ^ LENGTH('a)" "n < 2 ^ LENGTH('a)"
  shows "m = n"
  using assms by (simp add: word_of_nat_eq_iff take_bit_nat_eq_self)

section \<open>Little-endian bytes\<close>

text \<open>\<open>from_le_bytes\<close> and \<open>to_le_bytes\<close> of Rust's integers, for any number of bytes.\<close>

fun from_le_bytes :: "bytes \<Rightarrow> 'a::len word" where
  "from_le_bytes [] = 0"
| "from_le_bytes (b # bs) = ucast b OR push_bit 8 (from_le_bytes bs)"

definition to_le_bytes :: "nat \<Rightarrow> 'a::len word \<Rightarrow> bytes" where
  "to_le_bytes n x = map (\<lambda>i. ucast (drop_bit (8 * i) x)) [0..<n]"

lemma length_to_le_bytes [simp]: "length (to_le_bytes n x) = n"
  by (simp add: to_le_bytes_def)

lemma bit_from_le_bytes:
  "bit (from_le_bytes bs :: 'a::len word) n \<longleftrightarrow>
    n < LENGTH('a) \<and> n div 8 < length bs \<and> bit (bs ! (n div 8)) (n mod 8)"
proof (induction bs arbitrary: n)
  case (Cons b bs)
  show ?case
  proof (cases "n < 8")
    case True
    then show ?thesis
      by (auto simp: bit_simps not_le)
  next
    case False
    then obtain m where n: "n = m + 8"
      by (metis add.commute le_Suc_ex not_le)
    have "\<not> bit b (m + 8)"
      by (simp add: bit_word_def not_less)
    then show ?thesis
      using Cons.IH [of m] by (auto simp: n bit_simps div_add_self2)
  qed
qed simp

lemma from_to_le_bytes:
  assumes "LENGTH('a) \<le> 8 * n"
  shows "from_le_bytes (to_le_bytes n x) = (x :: 'a::len word)"
proof (rule bit_word_eqI)
  fix m
  assume "m < LENGTH('a)"
  moreover from this assms have "m div 8 < n"
    by auto
  ultimately show "bit (from_le_bytes (to_le_bytes n x) :: 'a word) m = bit x m"
    by (auto simp: bit_from_le_bytes to_le_bytes_def bit_simps)
qed

lemma to_from_le_bytes:
  assumes "8 * length bs \<le> LENGTH('a)"
  shows "to_le_bytes (length bs) (from_le_bytes bs :: 'a::len word) = bs"
proof (rule nth_equalityI)
  fix i
  assume i: "i < length (to_le_bytes (length bs) (from_le_bytes bs :: 'a word))"
  show "to_le_bytes (length bs) (from_le_bytes bs :: 'a word) ! i = bs ! i"
    using i assms
    by (intro bit_word_eqI) (auto simp: bit_from_le_bytes to_le_bytes_def bit_simps)
qed simp

section \<open>Results\<close>

text \<open>\<open>Result<T, E>\<close> is \<open>'e + 'a\<close>, \<open>Inl\<close> the error; \<open>?\<close> is \<open>and_then\<close>.\<close>

definition and_then :: "'e + 'a \<Rightarrow> ('a \<Rightarrow> 'e + 'b) \<Rightarrow> 'e + 'b" where
  "and_then r f = (case r of Inl e \<Rightarrow> Inl e | Inr x \<Rightarrow> f x)"

lemma and_then_simps [simp]:
  "and_then (Inl e) f = Inl e"
  "and_then (Inr x) f = f x"
  by (simp_all add: and_then_def)

lemma and_then_Inr: "and_then r f = Inr y \<longleftrightarrow> (\<exists>x. r = Inr x \<and> f x = Inr y)"
  by (cases r) auto

section \<open>Loops that may panic\<close>

text \<open>A loop over a sequence whose body may panic: \<open>None\<close> is the panic.\<close>

fun fold_opt :: "('a \<Rightarrow> 's \<Rightarrow> 's option) \<Rightarrow> 'a list \<Rightarrow> 's \<Rightarrow> 's option" where
  "fold_opt f [] s = Some s"
| "fold_opt f (x # xs) s = f x s \<bind> fold_opt f xs"

lemma fold_opt_Some:
  assumes "\<And>x s. x \<in> set xs \<Longrightarrow> I s \<Longrightarrow> f x s = Some (g x s) \<and> I (g x s)" "I s"
  shows "fold_opt f xs s = Some (fold g xs s) \<and> I (fold g xs s)"
  using assms by (induction xs arbitrary: s) auto

lemma bind_returns:
  "\<exists>x. m = Some x \<Longrightarrow> (\<And>x. \<exists>y. f x = Some y) \<Longrightarrow> \<exists>y. m \<bind> f = Some y"
  by auto

lemma fold_opt_cong_inv:
  assumes "\<And>x s. x \<in> set xs \<Longrightarrow> I s \<Longrightarrow> f x s = g x s"
    and "\<And>x s s'. x \<in> set xs \<Longrightarrow> I s \<Longrightarrow> g x s = Some s' \<Longrightarrow> I s'" and "I s"
  shows "fold_opt f xs s = fold_opt g xs s"
  using assms
proof (induction xs arbitrary: s)
  case (Cons x xs)
  show ?case
  proof (cases "g x s")
    case (Some s')
    have "fold_opt f xs s' = fold_opt g xs s'"
    proof (rule Cons.IH)
      show "I s'"
        using Cons.prems(2) [of x s s'] Cons.prems(3) Some by simp
      show "f x s = g x s" if "x \<in> set xs" "I s" for x s
        using Cons.prems(1) [of x s] that by simp
      show "I s'" if "x \<in> set xs" "I s" "g x s = Some s'" for x s s'
        using Cons.prems(2) [of x s s'] that by simp
    qed
    then show ?thesis
      using Some Cons.prems(1,3) by simp
  qed (use Cons.prems(1,3) in simp)
qed simp

section \<open>Chunks\<close>

text \<open>\<open>as_chunks::<N>()\<close>: the whole chunks of \<open>n\<close>, and, for pairs, what is left.\<close>

definition chunks :: "nat \<Rightarrow> 'a list \<Rightarrow> 'a list list" where
  "chunks n xs = map (\<lambda>i. take n (drop (n * i) xs)) [0..<length xs div n]"

fun pairs_of :: "'a list \<Rightarrow> ('a \<times> 'a) list \<times> 'a list" where
  "pairs_of (x # y # xs) = (let (ps, rest) = pairs_of xs in ((x, y) # ps, rest))"
| "pairs_of xs = ([], xs)"

lemma length_chunks [simp]: "length (chunks n xs) = length xs div n"
  by (simp add: chunks_def)

lemma chunk_length: "c \<in> set (chunks n xs) \<Longrightarrow> length c = n"
proof -
  assume "c \<in> set (chunks n xs)"
  then obtain i where i: "i < length xs div n" "c = take n (drop (n * i) xs)"
    by (auto simp: chunks_def)
  then have "n * Suc i \<le> length xs"
    by (metis Suc_leI mult.commute mult_le_mono1 div_times_less_eq_dividend le_trans)
  then show ?thesis
    using i by simp
qed

lemma pairs_of_cases:
  "\<exists>ps rest. pairs_of xs = (ps, rest) \<and> xs = concat (map (\<lambda>(x, y). [x, y]) ps) @ rest
     \<and> (rest = [] \<or> (\<exists>x. rest = [x])) \<and> length xs = 2 * length ps + length rest"
  by (induction xs rule: pairs_of.induct) (auto split: prod.splits)

section \<open>The first of a list\<close>

text \<open>\<open>iter_mut().find(..)\<close> changed, and \<open>position(..)\<close> removed.\<close>

fun update_first :: "('a \<Rightarrow> bool) \<Rightarrow> ('a \<Rightarrow> 'a) \<Rightarrow> 'a list \<Rightarrow> 'a list" where
  "update_first P f [] = []"
| "update_first P f (x # xs) = (if P x then f x # xs else x # update_first P f xs)"

fun remove_first :: "('a \<Rightarrow> bool) \<Rightarrow> 'a list \<Rightarrow> 'a list" where
  "remove_first P [] = []"
| "remove_first P (x # xs) = (if P x then xs else x # remove_first P xs)"

lemma length_update_first [simp]: "length (update_first P f xs) = length xs"
  by (induction xs) auto

lemma map_update_first:
  "(\<And>x. P x \<Longrightarrow> g (f x) = g x) \<Longrightarrow> map g (update_first P f xs) = map g xs"
  by (induction xs) auto

lemma set_remove_first_subset: "set (remove_first P xs) \<subseteq> set xs"
  by (induction xs) auto

section \<open>Binary heaps\<close>

text \<open>A \<open>BinaryHeap\<close> of \<open>Reverse\<close>d values, by what can be observed of it: its entries in ascending
  order.  \<open>push\<close> inserts, \<open>peek\<close> is the least entry, \<open>pop\<close> removes it, \<open>retain\<close> filters.\<close>

type_synonym 'a min_heap = "'a list"

abbreviation heap_push :: "'a::linorder \<Rightarrow> 'a min_heap \<Rightarrow> 'a min_heap" where
  "heap_push \<equiv> insort"

abbreviation heap_retain :: "('a \<Rightarrow> bool) \<Rightarrow> 'a min_heap \<Rightarrow> 'a min_heap" where
  "heap_retain \<equiv> filter"

lemma sorted_filter_id: "sorted xs \<Longrightarrow> sorted (filter P xs)"
  using sorted_filter [of id xs P] by simp

lemma sorted_dropWhile_le: "sorted xs \<Longrightarrow> sorted (dropWhile P xs)"
  by (rule sorted_dropWhile)

lemma distinct_map_insort:
  "distinct (map f (insort x xs)) \<longleftrightarrow> f x \<notin> f ` set xs \<and> distinct (map f xs)"
  by (induction xs) (auto simp: set_insort_key)

lemma option_eqI: "(\<And>x. a = Some x \<longleftrightarrow> b = Some x) \<Longrightarrow> a = b"
  by (cases a; cases b) auto

section \<open>Hash maps\<close>

text \<open>A \<open>HashMap\<close> is an association list with distinct keys, read with \<open>map_of\<close> and changed with
  \<open>AList.update\<close> and \<open>AList.delete\<close>; its \<open>len\<close> is the list's.\<close>

type_synonym ('k, 'v) hash_map = "('k \<times> 'v) list"

abbreviation hm_contains :: "('k, 'v) hash_map \<Rightarrow> 'k \<Rightarrow> bool" where
  "hm_contains m k \<equiv> map_of m k \<noteq> None"

abbreviation hm_ok :: "('k, 'v) hash_map \<Rightarrow> bool" where
  "hm_ok m \<equiv> distinct (map fst m)"

declare map_of_eq_Some_iff [simp del] Some_eq_map_of_iff [simp del]

lemma hm_delete [simp]: "map_of (AList.delete k m) = (map_of m)(k := None)"
  by (rule delete_conv')

lemma hm_update [simp]: "map_of (AList.update k v m) = (map_of m)(k \<mapsto> v)"
  by (rule update_conv')

lemma hm_ok_update [mx_inv]: "hm_ok m \<Longrightarrow> hm_ok (AList.update k v m)"
  by (rule distinct_update)

lemma hm_ok_delete [mx_inv]: "hm_ok m \<Longrightarrow> hm_ok (AList.delete k m)"
  by (rule distinct_delete)

lemma hm_length: "hm_ok m \<Longrightarrow> length m = card (dom (map_of m))"
  by (metis distinct_card dom_map_of_conv_image_fst length_map set_map)

section \<open>Ordered maps\<close>

text \<open>A \<open>BTreeMap\<close> is an association list in ascending order of its keys, the order it is walked in;
  it is read with \<open>map_of\<close>, and \<open>AList.delete\<close> takes a key out.  A \<open>BTreeSet\<close> is one of units.\<close>

type_synonym ('k, 'v) btree_map = "('k \<times> 'v) list"

fun bt_insert :: "'k::linorder \<Rightarrow> 'v \<Rightarrow> ('k, 'v) btree_map \<Rightarrow> ('k, 'v) btree_map" where
  "bt_insert k v [] = [(k, v)]"
| "bt_insert k v ((k', v') # m) =
    (if k < k' then (k, v) # (k', v') # m
     else if k = k' then (k, v) # m
     else (k', v') # bt_insert k v m)"

abbreviation bt_ok :: "('k::linorder, 'v) btree_map \<Rightarrow> bool" where
  "bt_ok m \<equiv> sorted_wrt (<) (map fst m)"

lemma bt_ok_distinct: "bt_ok m \<Longrightarrow> hm_ok m"
  by (induction m) auto

lemma set_bt_insert: "fst ` set (bt_insert k v m) = insert k (fst ` set m)"
  by (induction k v m rule: bt_insert.induct) auto

lemma bt_ok_insert [mx_inv]: "bt_ok m \<Longrightarrow> bt_ok (bt_insert k v m)"
proof (induction k v m rule: bt_insert.induct)
  case (2 k v k' v' m)
  then show ?case
    using set_bt_insert [of k v m] by auto
qed simp

lemma bt_insert_lookup [simp]: "bt_ok m \<Longrightarrow> map_of (bt_insert k v m) = (map_of m)(k \<mapsto> v)"
  by (induction k v m rule: bt_insert.induct) (auto simp: fun_eq_iff)

lemma bt_ok_filter [mx_inv]: "bt_ok m \<Longrightarrow> bt_ok (filter P m)"
  by (induction m) auto

lemma bt_ok_delete [mx_inv]: "bt_ok m \<Longrightarrow> bt_ok (AList.delete k m)"
  unfolding AList.delete_eq by (rule bt_ok_filter)

lemma length_bt_insert:
  "bt_ok m \<Longrightarrow> length (bt_insert k v m) = (if hm_contains m k then length m else Suc (length m))"
proof (induction k v m rule: bt_insert.induct)
  case (2 k v k' v' m)
  moreover have "k < k' \<Longrightarrow> map_of m k = None"
    using 2 by (auto simp: map_of_eq_None_iff)
  ultimately show ?case
    by auto
qed simp

text \<open>A \<open>BTreeSet\<close> is its values in ascending order; \<open>filter\<close> takes values out.\<close>

type_synonym 'a btree_set = "'a list"

definition bts_insert :: "'a::linorder \<Rightarrow> 'a btree_set \<Rightarrow> 'a btree_set" where
  "bts_insert x xs = (if x \<in> set xs then xs else insort x xs)"

abbreviation bts_remove :: "'a \<Rightarrow> 'a btree_set \<Rightarrow> 'a btree_set" where
  "bts_remove x \<equiv> filter (\<lambda>y. y \<noteq> x)"

abbreviation bts_ok :: "'a::linorder btree_set \<Rightarrow> bool" where
  "bts_ok \<equiv> sorted_wrt (<)"

lemma set_bts_insert [simp]: "set (bts_insert x xs) = insert x (set xs)"
  by (auto simp: bts_insert_def set_insort_key)

lemma bts_ok_insert [mx_inv]: "bts_ok xs \<Longrightarrow> bts_ok (bts_insert x xs)"
  by (simp add: bts_insert_def strict_sorted_iff distinct_insort sorted_insort)

lemma bts_ok_filter [mx_inv]: "bts_ok xs \<Longrightarrow> bts_ok (filter P xs)"
  by (rule sorted_wrt_filter)

end
