(* ===== verification/Defaults.thy ===== *)
theory Defaults
  imports Prelude
begin

text \<open>
  The timeouts and limits (\<open>defaults.rs\<close>), the message and peer types of the rules file
  (\<open>constants.rs\<close>) and the ways a call fails (\<open>error.rs\<close>).  Durations are nanoseconds; a
  timeout that may be none is an option.
\<close>

section \<open>defaults.rs\<close>

definition secs :: "nat \<Rightarrow> duration" where
  "secs n = n * 1000000000"

definition millis :: "nat \<Rightarrow> duration" where
  "millis n = n * 1000000"

definition DEFAULT_INCOMING_QUEUE_MAX_SIZE :: nat where
  "DEFAULT_INCOMING_QUEUE_MAX_SIZE = 1024"

definition FORCED_FRAMES_PAST_FULL_QUEUE :: nat where
  "FORCED_FRAMES_PAST_FULL_QUEUE = 64"

definition AUTO_RECONNECT_TIME :: duration where
  "AUTO_RECONNECT_TIME = secs 3"

definition CONNECT_ATTEMPT_SECONDS :: duration where
  "CONNECT_ATTEMPT_SECONDS = secs 5"

definition DEFAULT_TIMEOUT :: duration where
  "DEFAULT_TIMEOUT = secs 10"

definition ROOM_GRACE_SECONDS :: duration where
  "ROOM_GRACE_SECONDS = millis 10"

definition DEFAULT_READ_TIMEOUT :: "duration option" where
  "DEFAULT_READ_TIMEOUT = None"

definition MAX_MESSAGE_SIZE :: nat where
  "MAX_MESSAGE_SIZE = 128 * 1024 * 1024"

definition MAX_KEY_SIZE :: nat where
  "MAX_KEY_SIZE = 256"

definition MAX_KEY_PATTERN_SIZE :: nat where
  "MAX_KEY_PATTERN_SIZE = 1024"

definition DEFAULT_BATCH_MAX_RECORDS :: nat where
  "DEFAULT_BATCH_MAX_RECORDS = 1000"

definition DEFAULT_BATCH_MAX_BYTES :: nat where
  "DEFAULT_BATCH_MAX_BYTES = 1024 * 1024"

definition MAX_BATCH_RECORDS :: nat where
  "MAX_BATCH_RECORDS = 1024"

definition DEFAULT_RETRY_AFTER :: duration where
  "DEFAULT_RETRY_AFTER = secs 5"

definition CONFIRMATIONS_GATHERED_MAX :: nat where
  "CONFIRMATIONS_GATHERED_MAX = 256"

definition HEARTBIT_INTERVAL :: duration where
  "HEARTBIT_INTERVAL = secs 3"

definition CLOSE_READ_SECONDS :: duration where
  "CLOSE_READ_SECONDS = secs 1"

definition CLOSE_FLUSH_SECONDS :: duration where
  "CLOSE_FLUSH_SECONDS = secs 1"

definition NO_HEARTBIT_SO_PREPARE_DROP_INTERVAL :: duration where
  "NO_HEARTBIT_SO_PREPARE_DROP_INTERVAL = secs 30"

definition NO_HEARTBIT_SO_REALLY_DROP_INTERVAL :: duration where
  "NO_HEARTBIT_SO_REALLY_DROP_INTERVAL = secs 60"

section \<open>constants.rs\<close>

text \<open>The message types and the peer types the client's own code names.\<close>

definition PING :: u32 where "PING = 1"
definition CONNECTION_WELCOME :: u32 where "CONNECTION_WELCOME = 2"
definition BACKEND_FOR_PACKET_SEARCH :: u32 where "BACKEND_FOR_PACKET_SEARCH = 3"
definition HEARTBIT :: u32 where "HEARTBIT = 4"
definition DELIVERY_ERROR :: u32 where "DELIVERY_ERROR = 5"
definition RECORDING_STATUS :: u32 where "RECORDING_STATUS = 7"
definition RULES_STATUS :: u32 where "RULES_STATUS = 10"
definition PEER_CONTROL :: u32 where "PEER_CONTROL = 11"
definition PEER_STATUS :: u32 where "PEER_STATUS = 12"
definition CONFIRMATION :: u32 where "CONFIRMATION = 13"
definition MAX_MULTIPLEXER_META_PACKET :: u32 where "MAX_MULTIPLEXER_META_PACKET = 99"
definition REQUEST_RECEIVED :: u32 where "REQUEST_RECEIVED = 113"
definition BACKEND_ERROR :: u32 where "BACKEND_ERROR = 114"

lemmas type_constants = PING_def CONNECTION_WELCOME_def BACKEND_FOR_PACKET_SEARCH_def HEARTBIT_def
  DELIVERY_ERROR_def RECORDING_STATUS_def RULES_STATUS_def PEER_CONTROL_def PEER_STATUS_def CONFIRMATION_def
  MAX_MULTIPLEXER_META_PACKET_def REQUEST_RECEIVED_def BACKEND_ERROR_def

section \<open>error.rs\<close>

datatype limit = LimitMessage | LimitKey

text \<open>\<open>Backend\<close> carries the reply, of the type of incoming messages.\<close>

datatype 'i error =
    Backend 'i
  | NotConnected
  | OperationTimedOut
  | OperationFailed
  | TooLarge limit nat nat
  | InvalidArgument string
  | OnIoThread
  | UsedAfterFork
  | Io string

end
