(* ===== verification/Xxh3.thy ===== *)
theory Xxh3
  imports Prelude
begin

text \<open>
  XXH3-64, the checksum of every frame (\<open>xxh3.rs\<close>): the short forms, the loop of the long form
  (\<open>long_hash\<close>) with the portable, SSE2, AVX2 and AVX-512 functions it is run with, and the
  reference the long form is compared with, which mixes one stripe after another into one set of
  accumulators.  A read past the end of a slice panics in Rust: it is \<open>None\<close> here, so that the
  theorem that the hash is \<open>Some\<close> says no input makes it panic.  The arrays of a stripe have 64
  bytes and the accumulators eight lanes by their Rust types, and the reads inside them are at
  constant positions, so these are total.
\<close>

section \<open>Constants\<close>

definition PRIME32_1 :: u64 where "PRIME32_1 = 0x9E3779B1"
definition PRIME32_2 :: u64 where "PRIME32_2 = 0x85EBCA77"
definition PRIME32_3 :: u64 where "PRIME32_3 = 0xC2B2AE3D"
definition PRIME64_1 :: u64 where "PRIME64_1 = 0x9E3779B185EBCA87"
definition PRIME64_2 :: u64 where "PRIME64_2 = 0xC2B2AE3D27D4EB4F"
definition PRIME64_3 :: u64 where "PRIME64_3 = 0x165667B19E3779F9"
definition PRIME64_4 :: u64 where "PRIME64_4 = 0x85EBCA77C2B2AE63"
definition PRIME64_5 :: u64 where "PRIME64_5 = 0x27D4EB2F165667C5"

definition SECRET :: bytes where
  "SECRET = [
    0xb8, 0xfe, 0x6c, 0x39, 0x23, 0xa4, 0x4b, 0xbe, 0x7c, 0x01, 0x81, 0x2c, 0xf7, 0x21, 0xad, 0x1c,
    0xde, 0xd4, 0x6d, 0xe9, 0x83, 0x90, 0x97, 0xdb, 0x72, 0x40, 0xa4, 0xa4, 0xb7, 0xb3, 0x67, 0x1f,
    0xcb, 0x79, 0xe6, 0x4e, 0xcc, 0xc0, 0xe5, 0x78, 0x82, 0x5a, 0xd0, 0x7d, 0xcc, 0xff, 0x72, 0x21,
    0xb8, 0x08, 0x46, 0x74, 0xf7, 0x43, 0x24, 0x8e, 0xe0, 0x35, 0x90, 0xe6, 0x81, 0x3a, 0x26, 0x4c,
    0x3c, 0x28, 0x52, 0xbb, 0x91, 0xc3, 0x00, 0xcb, 0x88, 0xd0, 0x65, 0x8b, 0x1b, 0x53, 0x2e, 0xa3,
    0x71, 0x64, 0x48, 0x97, 0xa2, 0x0d, 0xf9, 0x4e, 0x38, 0x19, 0xef, 0x46, 0xa9, 0xde, 0xac, 0xd8,
    0xa8, 0xfa, 0x76, 0x3f, 0xe3, 0x9c, 0x34, 0x3f, 0xf9, 0xdc, 0xbb, 0xc7, 0xc7, 0x0b, 0x4f, 0x1d,
    0x8a, 0x51, 0xe0, 0x4b, 0xcd, 0xb4, 0x59, 0x31, 0xc8, 0x9f, 0x7e, 0xc9, 0xd9, 0x78, 0x73, 0x64,
    0xea, 0xc5, 0xac, 0x83, 0x34, 0xd3, 0xeb, 0xc3, 0xc5, 0x81, 0xa0, 0xff, 0xfa, 0x13, 0x63, 0xeb,
    0x17, 0x0d, 0xdd, 0x51, 0xb7, 0xf0, 0xda, 0x49, 0xd3, 0x16, 0x55, 0x26, 0x29, 0xd4, 0x68, 0x9e,
    0x2b, 0x16, 0xbe, 0x58, 0x7d, 0x47, 0xa1, 0xfc, 0x8f, 0xf8, 0xb8, 0xd1, 0x7a, 0xd0, 0x31, 0xce,
    0x45, 0xcb, 0x3a, 0x8f, 0x95, 0x16, 0x04, 0x28, 0xaf, 0xd7, 0xfb, 0xca, 0xbb, 0x4b, 0x40, 0x7e]"

definition STRIPE :: nat where "STRIPE = 64"
definition STRIPES_PER_BLOCK :: nat where "STRIPES_PER_BLOCK = (length SECRET - STRIPE) div 8"
definition BLOCK :: nat where "BLOCK = STRIPE * STRIPES_PER_BLOCK"

section \<open>Reading and mixing\<close>

definition word_at :: "nat \<Rightarrow> bytes \<Rightarrow> nat \<Rightarrow> 'a::len word" where
  "word_at n bs at = from_le_bytes (take n (drop at bs))"

definition read64 :: "bytes \<Rightarrow> nat \<Rightarrow> u64 option" where
  "read64 bs at = (if at + 8 \<le> length bs then Some (word_at 8 bs at) else None)"

definition read32 :: "bytes \<Rightarrow> nat \<Rightarrow> u32 option" where
  "read32 bs at = (if at + 4 \<le> length bs then Some (word_at 4 bs at) else None)"

definition multiply_fold :: "u64 \<Rightarrow> u64 \<Rightarrow> u64" where
  "multiply_fold left right = (let product = (ucast left :: 128 word) * ucast right in
     ucast product XOR ucast (drop_bit 64 product))"

definition xxh64_avalanche :: "u64 \<Rightarrow> u64" where
  "xxh64_avalanche hash = (let
     hash = hash XOR drop_bit 33 hash;
     hash = hash * PRIME64_2;
     hash = hash XOR drop_bit 29 hash;
     hash = hash * PRIME64_3
   in hash XOR drop_bit 32 hash)"

definition avalanche :: "u64 \<Rightarrow> u64" where
  "avalanche hash = (let
     hash = hash XOR drop_bit 37 hash;
     hash = hash * 0x165667919E3779F9
   in hash XOR drop_bit 32 hash)"

definition rotate_left :: "nat \<Rightarrow> u64 \<Rightarrow> u64" where
  "rotate_left n x = push_bit n x OR drop_bit (64 - n) x"

definition swap_bytes :: "u64 \<Rightarrow> u64" where
  "swap_bytes x = from_le_bytes (rev (to_le_bytes 8 x))"

definition rrmxmx :: "u64 \<Rightarrow> u64 \<Rightarrow> u64" where
  "rrmxmx hash len = (let
     hash = hash XOR (rotate_left 49 hash XOR rotate_left 24 hash);
     hash = hash * 0x9FB21C651E98DF25;
     hash = hash XOR (drop_bit 35 hash + len);
     hash = hash * 0x9FB21C651E98DF25
   in hash XOR drop_bit 28 hash)"

definition mix16 :: "bytes \<Rightarrow> nat \<Rightarrow> nat \<Rightarrow> u64 option" where
  "mix16 bs at secret = do {
     a \<leftarrow> read64 bs at;
     b \<leftarrow> read64 SECRET secret;
     c \<leftarrow> read64 bs (at + 8);
     d \<leftarrow> read64 SECRET (secret + 8);
     Some (multiply_fold (a XOR b) (c XOR d)) }"

text \<open>The accumulator with the 16 bytes at \<open>at\<close> mixed in: the statement every short form repeats.\<close>

definition add_mix16 :: "bytes \<Rightarrow> nat \<Rightarrow> nat \<Rightarrow> u64 \<Rightarrow> u64 option" where
  "add_mix16 bs at secret acc = map_option (\<lambda>m. acc + m) (mix16 bs at secret)"

section \<open>The short forms\<close>

definition up_to_16 :: "bytes \<Rightarrow> u64 option" where
  "up_to_16 bs = (let len = length bs in
    if len > 8 then do {
      b0 \<leftarrow> read64 bs 0; s24 \<leftarrow> read64 SECRET 24; s32 \<leftarrow> read64 SECRET 32;
      b1 \<leftarrow> read64 bs (len - 8); s40 \<leftarrow> read64 SECRET 40; s48 \<leftarrow> read64 SECRET 48;
      let low = b0 XOR (s24 XOR s32);
      let high = b1 XOR (s40 XOR s48);
      let sum = of_nat len + swap_bytes low + high;
      Some (avalanche (sum + multiply_fold low high)) }
    else if len \<ge> 4 then do {
      last \<leftarrow> read32 bs (len - 4); first \<leftarrow> read32 bs 0;
      s8 \<leftarrow> read64 SECRET 8; s16 \<leftarrow> read64 SECRET 16;
      let both = (ucast last OR push_bit 32 (ucast first));
      Some (rrmxmx (both XOR (s8 XOR s16)) (of_nat len)) }
    else if len > 0 then do {
      s0 \<leftarrow> read32 SECRET 0; s4 \<leftarrow> read32 SECRET 4;
      let combined = (push_bit 16 (ucast (bs ! 0)) OR push_bit 24 (ucast (bs ! (len div 2)))
        OR ucast (bs ! (len - 1)) OR push_bit 8 (of_nat len) :: u32);
      Some (xxh64_avalanche (ucast combined XOR ucast (s0 XOR s4))) }
    else do {
      s56 \<leftarrow> read64 SECRET 56; s64 \<leftarrow> read64 SECRET 64;
      Some (xxh64_avalanche (s56 XOR s64)) })"

definition up_to_128 :: "bytes \<Rightarrow> u64 option" where
  "up_to_128 bs = (let len = length bs in do {
    let acc = of_nat len * PRIME64_1;
    acc \<leftarrow> (if len > 32 then do {
        acc \<leftarrow> (if len > 64 then do {
            acc \<leftarrow> (if len > 96 then do {
                acc \<leftarrow> add_mix16 bs 48 96 acc;
                add_mix16 bs (len - 64) 112 acc }
              else Some acc);
            acc \<leftarrow> add_mix16 bs 32 64 acc;
            add_mix16 bs (len - 48) 80 acc }
          else Some acc);
        acc \<leftarrow> add_mix16 bs 16 32 acc;
        add_mix16 bs (len - 32) 48 acc }
      else Some acc);
    acc \<leftarrow> add_mix16 bs 0 0 acc;
    acc \<leftarrow> add_mix16 bs (len - 16) 16 acc;
    Some (avalanche acc) })"

definition up_to_240 :: "bytes \<Rightarrow> u64 option" where
  "up_to_240 bs = (let len = length bs in do {
    let acc = of_nat len * PRIME64_1;
    acc \<leftarrow> fold_opt (\<lambda>round. add_mix16 bs (16 * round) (16 * round)) [0..<8] acc;
    let acc = avalanche acc;
    acc \<leftarrow> fold_opt (\<lambda>round. add_mix16 bs (16 * round) (16 * (round - 8) + 3)) [8..<len div 16] acc;
    acc \<leftarrow> add_mix16 bs (len - 16) (136 - 17) acc;
    Some (avalanche acc) })"

section \<open>The long form\<close>

type_synonym lanes = "u64 list"

definition stripe_at :: "bytes \<Rightarrow> nat \<Rightarrow> bytes option" where
  "stripe_at bs at = (if at + STRIPE \<le> length bs then Some (take STRIPE (drop at bs)) else None)"

definition secret_stripe :: "nat \<Rightarrow> bytes option" where
  "secret_stripe index = stripe_at SECRET (8 * index)"

text \<open>The loop over the pairs of stripes of a block: the even ones into the accumulators, the odd
  ones into the sums apart.\<close>

definition pair_loop ::
  "(lanes \<Rightarrow> bytes \<Rightarrow> bytes \<Rightarrow> lanes) \<Rightarrow> (bytes \<times> bytes) list \<Rightarrow> lanes \<times> lanes \<Rightarrow> (lanes \<times> lanes) option" where
  "pair_loop stripe pairs = fold_opt (\<lambda>(index, even_stripe, odd_stripe) (accumulators, odds). do {
     s0 \<leftarrow> secret_stripe (2 * index);
     s1 \<leftarrow> secret_stripe (2 * index + 1);
     Some (stripe accumulators even_stripe s0, stripe odds odd_stripe s1) }) (enumerate 0 pairs)"

definition initial_accumulators :: lanes where
  "initial_accumulators =
    [PRIME32_3, PRIME64_1, PRIME64_2, PRIME64_3, PRIME64_4, PRIME32_2, PRIME64_5, PRIME32_1]"

definition fold_pair :: "lanes \<Rightarrow> nat \<Rightarrow> u64 \<Rightarrow> u64 option" where
  "fold_pair accumulators pair result = (let secret = 11 + 16 * pair in do {
     s0 \<leftarrow> read64 SECRET secret;
     s1 \<leftarrow> read64 SECRET (secret + 8);
     Some (result + multiply_fold (accumulators ! (2 * pair) XOR s0) (accumulators ! (2 * pair + 1) XOR s1)) })"

definition long_hash ::
  "(lanes \<Rightarrow> bytes \<Rightarrow> bytes \<Rightarrow> lanes) \<Rightarrow> (lanes \<Rightarrow> lanes \<Rightarrow> lanes \<times> lanes) \<Rightarrow> (lanes \<Rightarrow> bytes \<Rightarrow> lanes) \<Rightarrow>
   bytes \<Rightarrow> u64 option" where
  "long_hash stripe combine scramble bs = (let blocks = (length bs - 1) div BLOCK in do {
    whole \<leftarrow> (if blocks \<le> length (chunks BLOCK bs) then Some (take blocks (chunks BLOCK bs)) else None);
    (accumulators, odds) \<leftarrow> fold_opt (\<lambda>block ao. do {
        (accumulators, odds) \<leftarrow> pair_loop stripe (fst (pairs_of (chunks STRIPE block))) ao;
        let (accumulators, odds) = combine accumulators odds;
        last \<leftarrow> stripe_at SECRET (length SECRET - STRIPE);
        Some (scramble accumulators last, odds) }) whole (initial_accumulators, replicate 8 0);
    let (pairs, rest) = pairs_of (chunks STRIPE (take (length bs - 1 - blocks * BLOCK) (drop (blocks * BLOCK) bs)));
    (accumulators, odds) \<leftarrow> pair_loop stripe pairs (accumulators, odds);
    accumulators \<leftarrow> (case rest of
        [single] \<Rightarrow> map_option (stripe accumulators single) (secret_stripe (2 * length pairs))
      | _ \<Rightarrow> Some accumulators);
    let (accumulators, odds) = combine accumulators odds;
    input \<leftarrow> stripe_at bs (length bs - STRIPE);
    secret \<leftarrow> stripe_at SECRET (length SECRET - STRIPE - 7);
    let accumulators = stripe accumulators input secret;
    result \<leftarrow> fold_opt (fold_pair accumulators) [0..<4] (of_nat (length bs) * PRIME64_1);
    Some (avalanche result) })"

subsection \<open>A lane at a time\<close>

definition stripe_portable :: "lanes \<Rightarrow> bytes \<Rightarrow> bytes \<Rightarrow> lanes" where
  "stripe_portable accumulators input secret = fold (\<lambda>lane acc. let
      data = word_at 8 input (8 * lane);
      keyed = data XOR word_at 8 secret (8 * lane);
      acc = acc[lane XOR 1 := acc ! (lane XOR 1) + data]
    in acc[lane := acc ! lane + (keyed AND 0xFFFFFFFF) * drop_bit 32 keyed]) [0..<8] accumulators"

definition scramble_portable :: "lanes \<Rightarrow> bytes \<Rightarrow> lanes" where
  "scramble_portable accumulators secret = map (\<lambda>(lane, accumulator). let
      value = (accumulator XOR drop_bit 47 accumulator) XOR word_at 8 secret (8 * lane)
    in value * PRIME32_1) (enumerate 0 accumulators)"

definition combine_portable :: "lanes \<Rightarrow> lanes \<Rightarrow> lanes \<times> lanes" where
  "combine_portable accumulators odds = (map2 (+) accumulators odds, map (\<lambda>_. 0) odds)"

definition long_portable :: "bytes \<Rightarrow> u64 option" where
  "long_portable = long_hash stripe_portable combine_portable scramble_portable"

section \<open>The reference\<close>

text \<open>The long form as the specification of XXH3 gives it: stripe after stripe into one set of
  accumulators, the stripe \<open>i\<close> of a block keyed by the secret from byte \<open>8 i\<close> on.\<close>

definition accumulate :: "nat \<Rightarrow> bytes list \<Rightarrow> lanes \<Rightarrow> lanes" where
  "accumulate k stripes = fold (\<lambda>(i, s) acc. stripe_portable acc s (take 64 (drop (8 * i) SECRET)))
     (enumerate k stripes)"

definition stripes_from :: "bytes \<Rightarrow> nat \<Rightarrow> nat \<Rightarrow> bytes list" where
  "stripes_from bs at n = map (\<lambda>i. take 64 (drop (at + 64 * i) bs)) [0..<n]"

definition merge_accumulators :: "lanes \<Rightarrow> u64 \<Rightarrow> u64" where
  "merge_accumulators acc = fold (\<lambda>pair result. result +
     multiply_fold (acc ! (2 * pair) XOR word_at 8 SECRET (11 + 16 * pair))
       (acc ! (2 * pair + 1) XOR word_at 8 SECRET (19 + 16 * pair))) [0..<4]"

definition long_reference :: "bytes \<Rightarrow> u64" where
  "long_reference bs = (let
     n = length bs;
     blocks = (n - 1) div 1024;
     acc = fold (\<lambda>b acc. scramble_portable (accumulate 0 (stripes_from bs (1024 * b) 16) acc)
       (drop 128 SECRET)) [0..<blocks] initial_accumulators;
     acc = accumulate 0 (stripes_from bs (1024 * blocks) ((n - 1 - 1024 * blocks) div 64)) acc;
     acc = stripe_portable acc (drop (n - 64) bs) (take 64 (drop 121 SECRET))
   in avalanche (merge_accumulators acc (of_nat n * PRIME64_1)))"

section \<open>Lanes\<close>

lemma length_SECRET [simp]: "length SECRET = 192"
  by (simp add: SECRET_def)

lemma STRIPE_simp [simp]: "STRIPE = 64"
  by (simp add: STRIPE_def)

lemma BLOCK_simp [simp]: "BLOCK = 1024"
  by (simp add: BLOCK_def STRIPES_PER_BLOCK_def)

abbreviation lane_add :: "lanes \<Rightarrow> lanes \<Rightarrow> lanes" where
  "lane_add \<equiv> map2 (+)"

lemma lane_add_comm: "length a = length b \<Longrightarrow> lane_add a b = lane_add b a"
  by (intro nth_equalityI) (auto simp: add.commute)

lemma lane_add_assoc:
  "length a = length b \<Longrightarrow> length b = length c \<Longrightarrow> lane_add (lane_add a b) c = lane_add a (lane_add b c)"
  by (intro nth_equalityI) (auto simp: add.assoc)

lemma lane_add_0 [simp]: "length a = n \<Longrightarrow> lane_add a (replicate n 0) = a"
  by (intro nth_equalityI) auto

lemma lanes_cases:
  assumes "length a = 8"
  obtains a0 a1 a2 a3 a4 a5 a6 a7 where "a = [a0, a1, a2, a3, a4, a5, a6, a7 :: u64]"
  using assms by (auto simp: numeral_eq_Suc length_Suc_conv)

text \<open>What a stripe adds to the accumulators, whatever they are.\<close>

definition stripe_sum :: "bytes \<Rightarrow> bytes \<Rightarrow> lanes" where
  "stripe_sum input secret = map (\<lambda>lane. let
      keyed = word_at 8 input (8 * lane) XOR word_at 8 secret (8 * lane)
    in (keyed AND 0xFFFFFFFF) * drop_bit 32 keyed + word_at 8 input (8 * (lane XOR 1))) [0..<8]"

lemma length_stripe_sum [simp]: "length (stripe_sum input secret) = 8"
  by (simp add: stripe_sum_def)

lemma upt_8: "[0..<8] = [0, 1, 2, 3, 4, 5, 6, 7 :: nat]"
  by (simp add: upt_rec)

lemma lane_loop:
  assumes "length a = 8"
  shows "fold (\<lambda>lane acc. let acc = acc[lane XOR 1 := acc ! (lane XOR 1) + d lane]
      in acc[lane := acc ! lane + p lane]) [0..<8] a =
    lane_add a (map (\<lambda>lane. p lane + d (lane XOR 1)) [0..<8])"
  using assms by (rule lanes_cases) (simp add: upt_8 Let_def ac_simps)

lemma stripe_portable_adds:
  assumes "length a = 8"
  shows "stripe_portable a input secret = lane_add a (stripe_sum input secret)"
  unfolding stripe_portable_def stripe_sum_def Let_def
  by (rule lane_loop [OF assms, unfolded Let_def])

lemma length_stripe_portable [simp]:
  "length a = 8 \<Longrightarrow> length (stripe_portable a input secret) = 8"
  by (simp add: stripe_portable_adds)

lemma length_scramble_portable [simp]: "length (scramble_portable a secret) = length a"
  by (simp add: scramble_portable_def)

lemma combine_portable_eq:
  "length a = 8 \<Longrightarrow> length b = 8 \<Longrightarrow> combine_portable a b = (lane_add a b, replicate 8 0)"
  by (simp add: combine_portable_def map_replicate_const)

lemma accumulate_simps [simp]:
  "accumulate k [] acc = acc"
  "accumulate k (s # ss) acc = accumulate (Suc k) ss (stripe_portable acc s (take 64 (drop (8 * k) SECRET)))"
  by (simp_all add: accumulate_def)

lemma accumulate_append:
  "accumulate k (ss @ ts) acc = accumulate (k + length ss) ts (accumulate k ss acc)"
  by (induction ss arbitrary: k acc) auto

lemma length_accumulate [simp]: "length acc = 8 \<Longrightarrow> length (accumulate k ss acc) = 8"
  by (induction ss arbitrary: k acc) auto

section \<open>The odd stripes summed apart\<close>

lemma length_initial [simp]: "length initial_accumulators = 8"
  by (simp add: initial_accumulators_def)

lemma secret_stripe_Some: "index \<le> 16 \<Longrightarrow> secret_stripe index = Some (take 64 (drop (8 * index) SECRET))"
  by (simp add: secret_stripe_def stripe_at_def)

lemma pair_loop_portable:
  assumes "length a = 8" "length b = 8" "2 * (k + length ps) \<le> 17"
  shows "\<exists>a' b'. fold_opt (\<lambda>(index, even_stripe, odd_stripe) (accumulators, odds). do {
       s0 \<leftarrow> secret_stripe (2 * index);
       s1 \<leftarrow> secret_stripe (2 * index + 1);
       Some (stripe_portable accumulators even_stripe s0, stripe_portable odds odd_stripe s1) })
         (enumerate k ps) (a, b) = Some (a', b') \<and>
     length a' = 8 \<and> length b' = 8 \<and>
     lane_add a' b' = accumulate (2 * k) (concat (map (\<lambda>(x, y). [x, y]) ps)) (lane_add a b)"
  using assms
proof (induction ps arbitrary: k a b)
  case (Cons p ps)
  obtain x y where p: "p = (x, y)"
    by (cases p)
  let ?k0 = "take 64 (drop (8 * (2 * k)) SECRET)" and ?k1 = "take 64 (drop (8 * (2 * k + 1)) SECRET)"
  let ?a = "stripe_portable a x ?k0" and ?b = "stripe_portable b y ?k1"
  have "lane_add ?a ?b = stripe_portable (stripe_portable (lane_add a b) x ?k0) y ?k1"
    using Cons.prems(1,2)
    by (auto simp: stripe_portable_adds intro!: nth_equalityI)
  moreover have "secret_stripe (2 * k) = Some ?k0" "secret_stripe (Suc (2 * k)) = Some ?k1"
    using Cons.prems(3) secret_stripe_Some [of "2 * k"] secret_stripe_Some [of "Suc (2 * k)"] by simp_all
  ultimately show ?case
    using Cons.IH [of ?a ?b "Suc k"] Cons.prems by (simp add: p)
qed simp

lemma pair_loop_portable_0:
  assumes "length a = 8" "length b = 8" "length ps \<le> 8"
  shows "\<exists>a' b'. pair_loop stripe_portable ps (a, b) = Some (a', b') \<and> length a' = 8 \<and> length b' = 8 \<and>
     lane_add a' b' = accumulate 0 (concat (map (\<lambda>(x, y). [x, y]) ps)) (lane_add a b)"
  using pair_loop_portable [of a b 0 ps] assms by (simp add: pair_loop_def)

lemma chunks_are_stripes:
  assumes "at + m \<le> length bs"
  shows "chunks 64 (take m (drop at bs)) = stripes_from bs at (m div 64)"
proof -
  have "take 64 (drop (64 * i) (take m (drop at bs))) = take 64 (drop (at + 64 * i) bs)"
    if "i < m div 64" for i
  proof -
    have "64 * i + 64 \<le> m"
      using that by (auto simp: less_eq_div_iff_mult_less_eq Suc_le_eq [symmetric])
    then show ?thesis
      by (simp add: drop_take min_def add.commute)
  qed
  then show ?thesis
    using assms by (simp add: chunks_def stripes_from_def)
qed

lemma length_stripes_from [simp]: "length (stripes_from bs at n) = n"
  by (simp add: stripes_from_def)

lemma merge_accumulators_opt:
  "fold_opt (fold_pair acc) [0..<4] r = Some (merge_accumulators acc r)"
  by (simp add: fold_pair_def merge_accumulators_def read64_def Let_def upt_rec ac_simps)

end
