(* ===== verification/Xxh3_Paths.thy ===== *)
theory Xxh3_Paths
  imports Xxh3
begin

text \<open>
  The vector paths of the long form of XXH3 (\<open>mod x86\<close> of \<open>xxh3.rs\<close>), with the x86 intrinsics
  they use on vectors of 64-bit lanes, and the theorem that every path computes the reference.
  The contract \<open>stripe_path\<close> is what the loop needs of a path's three functions: on arrays of the
  right lengths they do what the portable ones do.
\<close>

section \<open>Intrinsics\<close>

text \<open>A \<open>__m128i\<close>, \<open>__m256i\<close> or \<open>__m512i\<close> is its 64-bit lanes, two, four or eight, the lowest
  first; x86 is little-endian, so a load of bytes reads each lane as a little-endian number.\<close>

type_synonym m64s = "u64 list"

definition load_bytes :: "nat \<Rightarrow> bytes \<Rightarrow> nat \<Rightarrow> m64s" where
  "load_bytes n bs at = map (\<lambda>i. word_at 8 bs (at + 8 * i)) [0..<n]"

definition load_lanes :: "nat \<Rightarrow> lanes \<Rightarrow> nat \<Rightarrow> m64s" where
  "load_lanes n a at = take n (drop at a)"

definition store_lanes :: "lanes \<Rightarrow> nat \<Rightarrow> m64s \<Rightarrow> lanes" where
  "store_lanes a at v = take at a @ v @ drop (at + length v) a"

definition xor_si :: "m64s \<Rightarrow> m64s \<Rightarrow> m64s" where
  "xor_si = map2 (XOR)"

definition add_epi64 :: "m64s \<Rightarrow> m64s \<Rightarrow> m64s" where
  "add_epi64 = map2 (+)"

definition mul_epu32 :: "m64s \<Rightarrow> m64s \<Rightarrow> m64s" where
  "mul_epu32 = map2 (\<lambda>a b. (a AND 0xFFFFFFFF) * (b AND 0xFFFFFFFF))"

definition srli_epi64 :: "nat \<Rightarrow> m64s \<Rightarrow> m64s" where
  "srli_epi64 n = map (drop_bit n)"

definition slli_epi64 :: "nat \<Rightarrow> m64s \<Rightarrow> m64s" where
  "slli_epi64 n = map (push_bit n)"

definition set1_epi32 :: "nat \<Rightarrow> u32 \<Rightarrow> m64s" where
  "set1_epi32 n x = replicate n (ucast x OR push_bit 32 (ucast x))"

definition setzero :: "nat \<Rightarrow> m64s" where
  "setzero n = replicate n 0"

text \<open>\<open>shuffle_epi32\<close>: in each 128 bits, the 32-bit part \<open>j\<close> of the result is the one of the source
  that the two bits \<open>2 j\<close> of the immediate number.\<close>

definition dword :: "u64 \<times> u64 \<Rightarrow> nat \<Rightarrow> u64" where
  "dword xy k = (case xy of (x, y) \<Rightarrow>
     let v = (if k < 2 then x else y) in if even k then v AND 0xFFFFFFFF else drop_bit 32 v)"

definition select :: "nat \<Rightarrow> nat \<Rightarrow> nat" where
  "select imm j = (imm div 4 ^ j) mod 4"

fun shuffle_epi32 :: "nat \<Rightarrow> m64s \<Rightarrow> m64s" where
  "shuffle_epi32 imm (x # y # v) =
    (dword (x, y) (select imm 0) OR push_bit 32 (dword (x, y) (select imm 1))) #
    (dword (x, y) (select imm 2) OR push_bit 32 (dword (x, y) (select imm 3))) # shuffle_epi32 imm v"
| "shuffle_epi32 imm v = v"

text \<open>\<open>ternarylogic_epi64\<close>: each bit of the result is the bit of the immediate the three bits of the
  sources number.\<close>

definition ternary :: "nat \<Rightarrow> u64 \<Rightarrow> u64 \<Rightarrow> u64 \<Rightarrow> u64" where
  "ternary imm a b c = fold (OR) (map (\<lambda>i. (if bit i 2 then a else NOT a) AND
     (if bit i 1 then b else NOT b) AND (if bit i 0 then c else NOT c)) (filter (bit imm) [0..<8])) 0"

fun ternarylogic_epi64 :: "nat \<Rightarrow> m64s \<Rightarrow> m64s \<Rightarrow> m64s \<Rightarrow> m64s" where
  "ternarylogic_epi64 imm (x # xs) (y # ys) (z # zs) = ternary imm x y z # ternarylogic_epi64 imm xs ys zs"
| "ternarylogic_epi64 imm _ _ _ = []"

section \<open>SSE2\<close>

definition stripe_sse2 :: "lanes \<Rightarrow> bytes \<Rightarrow> bytes \<Rightarrow> lanes" where
  "stripe_sse2 accumulators input secret = fold (\<lambda>part acc. let
      data = load_bytes 2 input (16 * part);
      keyed = xor_si data (load_bytes 2 secret (16 * part));
      product = mul_epu32 keyed (shuffle_epi32 0x31 keyed);
      swapped = shuffle_epi32 0x4E data
    in store_lanes acc (2 * part) (add_epi64 (load_lanes 2 acc (2 * part)) (add_epi64 product swapped)))
    [0..<4] accumulators"

definition scramble_sse2 :: "lanes \<Rightarrow> bytes \<Rightarrow> lanes" where
  "scramble_sse2 accumulators secret = fold (\<lambda>part acc. let
      prime = set1_epi32 2 (ucast PRIME32_1);
      value = load_lanes 2 acc (2 * part);
      keyed = xor_si (xor_si value (srli_epi64 47 value)) (load_bytes 2 secret (16 * part));
      low = mul_epu32 keyed prime;
      high = mul_epu32 (shuffle_epi32 0x31 keyed) prime
    in store_lanes acc (2 * part) (add_epi64 low (slli_epi64 32 high))) [0..<4] accumulators"

definition combine_sse2 :: "lanes \<Rightarrow> lanes \<Rightarrow> lanes \<times> lanes" where
  "combine_sse2 accumulators odds = fold (\<lambda>part (acc, odds).
      (store_lanes acc (2 * part) (add_epi64 (load_lanes 2 acc (2 * part)) (load_lanes 2 odds (2 * part))),
       store_lanes odds (2 * part) (setzero 2))) [0..<4] (accumulators, odds)"

definition long_sse2 :: "bytes \<Rightarrow> u64 option" where
  "long_sse2 = long_hash stripe_sse2 combine_sse2 scramble_sse2"

section \<open>AVX2\<close>

definition stripe_avx2 :: "lanes \<Rightarrow> bytes \<Rightarrow> bytes \<Rightarrow> lanes" where
  "stripe_avx2 accumulators input secret = fold (\<lambda>part acc. let
      data = load_bytes 4 input (32 * part);
      keyed = xor_si data (load_bytes 4 secret (32 * part));
      product = mul_epu32 keyed (shuffle_epi32 0x31 keyed);
      swapped = shuffle_epi32 0x4E data
    in store_lanes acc (4 * part) (add_epi64 (load_lanes 4 acc (4 * part)) (add_epi64 product swapped)))
    [0..<2] accumulators"

definition scramble_avx2 :: "lanes \<Rightarrow> bytes \<Rightarrow> lanes" where
  "scramble_avx2 accumulators secret = (let prime = set1_epi32 4 (ucast PRIME32_1) in fold (\<lambda>part acc. let
      value = load_lanes 4 acc (4 * part);
      keyed = xor_si (xor_si value (srli_epi64 47 value)) (load_bytes 4 secret (32 * part));
      low = mul_epu32 keyed prime;
      high = mul_epu32 (shuffle_epi32 0x31 keyed) prime
    in store_lanes acc (4 * part) (add_epi64 low (slli_epi64 32 high))) [0..<2] accumulators)"

definition combine_avx2 :: "lanes \<Rightarrow> lanes \<Rightarrow> lanes \<times> lanes" where
  "combine_avx2 accumulators odds = fold (\<lambda>part (acc, odds).
      (store_lanes acc (4 * part) (add_epi64 (load_lanes 4 acc (4 * part)) (load_lanes 4 odds (4 * part))),
       store_lanes odds (4 * part) (setzero 4))) [0..<2] (accumulators, odds)"

definition long_avx2 :: "bytes \<Rightarrow> u64 option" where
  "long_avx2 = long_hash stripe_avx2 combine_avx2 scramble_avx2"

section \<open>AVX-512\<close>

definition stripe_avx512 :: "lanes \<Rightarrow> bytes \<Rightarrow> bytes \<Rightarrow> lanes" where
  "stripe_avx512 accumulators input secret = (let
      data = load_bytes 8 input 0;
      keyed = xor_si data (load_bytes 8 secret 0);
      product = mul_epu32 keyed (shuffle_epi32 0x31 keyed);
      swapped = shuffle_epi32 0x4E data
    in store_lanes accumulators 0 (add_epi64 (load_lanes 8 accumulators 0) (add_epi64 product swapped)))"

definition scramble_avx512 :: "lanes \<Rightarrow> bytes \<Rightarrow> lanes" where
  "scramble_avx512 accumulators secret = (let
      prime = set1_epi32 8 (ucast PRIME32_1);
      value = load_lanes 8 accumulators 0;
      keyed = ternarylogic_epi64 0x96 value (srli_epi64 47 value) (load_bytes 8 secret 0);
      low = mul_epu32 keyed prime;
      high = mul_epu32 (shuffle_epi32 0x31 keyed) prime
    in store_lanes accumulators 0 (add_epi64 low (slli_epi64 32 high)))"

definition combine_avx512 :: "lanes \<Rightarrow> lanes \<Rightarrow> lanes \<times> lanes" where
  "combine_avx512 accumulators odds =
    (store_lanes accumulators 0 (add_epi64 (load_lanes 8 accumulators 0) (load_lanes 8 odds 0)),
     store_lanes odds 0 (setzero 8))"

definition long_avx512 :: "bytes \<Rightarrow> u64 option" where
  "long_avx512 = long_hash stripe_avx512 combine_avx512 scramble_avx512"

section \<open>The dispatch\<close>

text \<open>What the build and the processor are: another architecture, or an x86-64 that says whether it
  has AVX-512F and AVX2.\<close>

datatype cpu = Other_Arch | X86_64 (avx512f: bool) (avx2: bool)

definition long :: "cpu \<Rightarrow> bytes \<Rightarrow> u64 option" where
  "long cpu bs = (case cpu of
     X86_64 has_avx512f has_avx2 \<Rightarrow>
       if has_avx512f then long_avx512 bs
       else if has_avx2 then long_avx2 bs
       else long_sse2 bs
   | Other_Arch \<Rightarrow> long_portable bs)"

definition xxh3_64 :: "cpu \<Rightarrow> bytes \<Rightarrow> u64 option" where
  "xxh3_64 cpu bs = (let n = length bs in
     if n \<le> 16 then up_to_16 bs
     else if n \<le> 128 then up_to_128 bs
     else if n \<le> 240 then up_to_240 bs
     else long cpu bs)"

section \<open>The contract of a path\<close>

locale stripe_path =
  fixes stripe :: "lanes \<Rightarrow> bytes \<Rightarrow> bytes \<Rightarrow> lanes"
    and combine :: "lanes \<Rightarrow> lanes \<Rightarrow> lanes \<times> lanes"
    and scramble :: "lanes \<Rightarrow> bytes \<Rightarrow> lanes"
  assumes stripe_is: "length a = 8 \<Longrightarrow> stripe a input secret = stripe_portable a input secret"
    and combine_is: "length a = 8 \<Longrightarrow> length b = 8 \<Longrightarrow> combine a b = combine_portable a b"
    and scramble_is: "length a = 8 \<Longrightarrow> scramble a secret = scramble_portable a secret"
begin

lemma pair_loop_is:
  assumes "length a = 8" "length b = 8"
  shows "pair_loop stripe ps (a, b) = pair_loop stripe_portable ps (a, b)"
  unfolding pair_loop_def
  by (rule fold_opt_cong_inv [where I = "\<lambda>(a, b). length a = 8 \<and> length b = 8"])
    (use assms stripe_is in \<open>auto simp: bind_eq_Some_conv intro!: Option.bind_cong\<close>)

lemma block_step:
  assumes "length acc = 8" "length block = 1024"
  shows "do {
      (accumulators, odds) \<leftarrow> pair_loop stripe (fst (pairs_of (chunks STRIPE block))) (acc, replicate 8 0);
      let (accumulators, odds) = combine accumulators odds;
      last \<leftarrow> stripe_at SECRET (length SECRET - STRIPE);
      Some (scramble accumulators last, odds) } =
    Some (scramble_portable (accumulate 0 (chunks 64 block) acc) (drop 128 SECRET), replicate 8 0)"
proof -
  obtain ps rest where ps: "pairs_of (chunks 64 block) = (ps, rest)"
      "chunks 64 block = concat (map (\<lambda>(x, y). [x, y]) ps) @ rest"
      "rest = [] \<or> (\<exists>x. rest = [x])" "length (chunks 64 block) = 2 * length ps + length rest"
    using pairs_of_cases [of "chunks 64 block"] by blast
  have "rest = []" "length ps = 8"
    using ps(3,4) assms(2) by (auto, presburger+)
  then obtain a b where "pair_loop stripe_portable ps (acc, replicate 8 0) = Some (a, b)"
      "length a = 8" "length b = 8" "lane_add a b = accumulate 0 (chunks 64 block) acc"
    using pair_loop_portable_0 [of acc "replicate 8 0" ps] assms(1) ps(2) by auto
  then show ?thesis
    using assms(1) ps(1)
    by (simp add: pair_loop_is combine_is scramble_is combine_portable_eq stripe_at_def)
qed

lemma blocks_loop:
  assumes "\<forall>block \<in> set blocks. length block = 1024" "length acc = 8"
  shows "fold_opt (\<lambda>block ao. do {
      (accumulators, odds) \<leftarrow> pair_loop stripe (fst (pairs_of (chunks STRIPE block))) ao;
      let (accumulators, odds) = combine accumulators odds;
      last \<leftarrow> stripe_at SECRET (length SECRET - STRIPE);
      Some (scramble accumulators last, odds) }) blocks (acc, replicate 8 0) =
    Some (fold (\<lambda>block acc. scramble_portable (accumulate 0 (chunks 64 block) acc) (drop 128 SECRET))
      blocks acc, replicate 8 0)"
  using assms
proof (induction blocks arbitrary: acc)
  case (Cons block blocks)
  show ?case
    unfolding fold_opt.simps block_step [OF Cons.prems(2) bspec [OF Cons.prems(1) list.set_intros(1)]]
    using Cons.IH Cons.prems by simp
qed simp

lemma last_block:
  assumes "length acc = 8" "length ss \<le> 15"
  shows "(case pairs_of ss of (pairs, rest) \<Rightarrow> do {
      (accumulators, odds) \<leftarrow> pair_loop stripe pairs (acc, replicate 8 0);
      accumulators \<leftarrow> (case rest of
          [single] \<Rightarrow> map_option (stripe accumulators single) (secret_stripe (2 * length pairs))
        | _ \<Rightarrow> Some accumulators);
      Some (combine accumulators odds) }) = Some (accumulate 0 ss acc, replicate 8 0)"
proof -
  obtain ps rest where ps: "pairs_of ss = (ps, rest)"
      "ss = concat (map (\<lambda>(x, y). [x, y]) ps) @ rest"
      "rest = [] \<or> (\<exists>x. rest = [x])" "length ss = 2 * length ps + length rest"
    using pairs_of_cases [of ss] by blast
  let ?cs = "concat (map (\<lambda>(x, y). [x, y]) ps)"
  have n: "length ps \<le> 7" "length ?cs = 2 * length ps"
    using ps assms(2) by auto
  obtain a b where ab: "pair_loop stripe_portable ps (acc, replicate 8 0) = Some (a, b)"
      "length a = 8" "length b = 8" "lane_add a b = accumulate 0 ?cs acc"
    using pair_loop_portable_0 [of acc "replicate 8 0" ps] assms(1) n by auto
  show ?thesis
  proof (cases "rest = []")
    case True
    then show ?thesis
      using ps ab assms(1) by (simp add: pair_loop_is combine_is combine_portable_eq)
  next
    case False
    then obtain x where x: "rest = [x]"
      using ps(3) by auto
    let ?k = "take 64 (drop (8 * (2 * length ps)) SECRET)"
    have "lane_add (stripe_portable a x ?k) b = stripe_portable (lane_add a b) x ?k"
      using ab(2,3) by (auto simp: stripe_portable_adds ac_simps intro!: nth_equalityI)
    then show ?thesis
      using x ps ab assms(1) n secret_stripe_Some [of "2 * length ps"]
      by (simp add: pair_loop_is stripe_is combine_is combine_portable_eq accumulate_append)
  qed
qed

theorem long_hash_is:
  assumes "240 < length bs"
  shows "long_hash stripe combine scramble bs = Some (long_reference bs)"
proof -
  define n blocks where "n = length bs" and "blocks = (n - 1) div 1024"
  have n: "1024 * blocks \<le> n - 1" "n - 1 - 1024 * blocks < 1024" "0 < n" "64 \<le> n"
    using assms by (auto simp: blocks_def n_def minus_mult_div_eq_mod)
  define ws where "ws = map (\<lambda>b. take 1024 (drop (1024 * b) bs)) [0..<blocks]"
  have ws: "take blocks (chunks 1024 bs) = ws" "blocks \<le> length (chunks 1024 bs)"
    using n by (auto simp: ws_def chunks_def take_map n_def blocks_def div_le_mono)
  have block: "1024 * b + 1024 \<le> n" if "b < blocks" for b
    using that n by auto
  then have "length (take 1024 (drop (1024 * b) bs)) = 1024" if "b < blocks" for b
    using that by (fastforce simp: n_def)
  then have "\<forall>w \<in> set ws. length w = 1024"
    by (auto simp: ws_def simp del: length_take length_drop)
  note loop = blocks_loop [OF this, of initial_accumulators, simplified]
  define acc where "acc = fold (\<lambda>b acc. scramble_portable (accumulate 0 (stripes_from bs (1024 * b) 16) acc)
       (drop 128 SECRET)) [0..<blocks] initial_accumulators"
  have acc: "fold (\<lambda>w acc. scramble_portable (accumulate 0 (chunks 64 w) acc) (drop 128 SECRET)) ws
      initial_accumulators = acc"
    unfolding acc_def ws_def fold_map comp_def
    by (rule fold_cong) (use block in \<open>auto simp: chunks_are_stripes n_def\<close>)
  have acc8: "length acc = 8"
    unfolding acc_def by (rule fold_invariant [where P = "\<lambda>acc. length acc = 8" and Q = "\<lambda>_. True"])
      auto
  define m where "m = n - 1 - 1024 * blocks"
  have ss: "chunks 64 (take m (drop (1024 * blocks) bs)) = stripes_from bs (1024 * blocks) (m div 64)"
    using n by (intro chunks_are_stripes) (simp add: m_def n_def)
  have "m div 64 \<le> 15"
    using n by (simp add: m_def)
  then have "length (stripes_from bs (1024 * blocks) (m div 64)) \<le> 15"
    by simp
  from last_block [OF acc8 this] obtain ps rest a b a' where last:
      "pairs_of (stripes_from bs (1024 * blocks) (m div 64)) = (ps, rest)"
      "pair_loop stripe ps (acc, replicate 8 0) = Some (a, b)"
      "(case rest of [single] \<Rightarrow> map_option (stripe a single) (secret_stripe (2 * length ps))
        | _ \<Rightarrow> Some a) = Some a'"
      "combine a' b = (accumulate 0 (stripes_from bs (1024 * blocks) (m div 64)) acc, replicate 8 0)"
    by (auto simp: bind_eq_Some_conv split: prod.splits)
  have "length (accumulate 0 (stripes_from bs (1024 * blocks) (m div 64)) acc) = 8"
    by (simp add: acc8)
  note stripe = stripe_is [OF this]
  have "long_hash stripe combine scramble bs = Some (avalanche (merge_accumulators (stripe_portable
      (accumulate 0 (stripes_from bs (1024 * blocks) (m div 64)) acc) (drop (n - 64) bs)
      (take 64 (drop 121 SECRET))) (of_nat n * PRIME64_1)))"
    unfolding long_hash_def Let_def BLOCK_simp STRIPE_simp n_def [symmetric] blocks_def [symmetric] ws
    using ws(2) n(4) acc loop last ss stripe
    by (simp add: m_def mult.commute stripe_at_def merge_accumulators_opt n_def)
  then show ?thesis
    by (simp add: long_reference_def Let_def acc_def m_def n_def blocks_def)
qed

end

section \<open>Every path keeps the contract\<close>

interpretation portable: stripe_path stripe_portable combine_portable scramble_portable
  by unfold_locales simp_all

lemma lanes_up_to_8: "[0..<2] = [0, 1 :: nat]" "[0..<4] = [0, 1, 2, 3 :: nat]"
  by (simp_all add: upt_rec)

lemma shuffle_31:
  "shuffle_epi32 0x31 (x # y # v) =
    (drop_bit 32 x OR push_bit 32 (x AND 0xFFFFFFFF)) # (drop_bit 32 y OR push_bit 32 (x AND 0xFFFFFFFF)) #
    shuffle_epi32 0x31 v"
  by (simp add: select_def dword_def Let_def)

lemma low_half: "(0xFFFFFFFF :: u64) = mask 32"
  by (simp add: mask_eq_exp_minus_1)

lemma halves: "(x AND 0xFFFFFFFF) OR push_bit 32 (drop_bit 32 x) = (x :: u64)"
  unfolding low_half
proof (rule bit_word_eqI)
  fix n
  assume "n < LENGTH(64)"
  then show "bit (x AND mask 32 OR push_bit 32 (drop_bit 32 x)) n = bit x n"
    by (cases "n < 32") (auto simp: bit_simps)
qed

lemma halves_sum: "(x AND 0xFFFFFFFF) + drop_bit 32 x * 2 ^ 32 = (x :: u64)"
proof -
  have "(x AND 0xFFFFFFFF) + push_bit 32 (drop_bit 32 x) = (x AND 0xFFFFFFFF) OR push_bit 32 (drop_bit 32 x)"
    unfolding low_half by (rule disjunctive_add) (auto simp: bit_simps)
  then show ?thesis
    unfolding halves by (simp add: push_bit_eq_mult)
qed

lemma low_of_swapped: "(drop_bit 32 x OR push_bit 32 y) AND 0xFFFFFFFF = drop_bit 32 (x :: u64)"
  unfolding low_half by (rule bit_word_eqI) (auto simp: bit_simps dest: bit_imp_le_length)

lemma shuffle_4E: "shuffle_epi32 0x4E (x # y # v) = y # x # shuffle_epi32 0x4E v"
  by (simp add: select_def dword_def Let_def halves)

declare shuffle_epi32.simps(1) [simp del]

lemma prime_lane: "(ucast (ucast PRIME32_1 :: u32) OR push_bit 32 (ucast (ucast PRIME32_1 :: u32))) AND 0xFFFFFFFF = PRIME32_1"
  by code_simp

lemma two_products:
  "(x AND 0xFFFFFFFF) * p + push_bit 32 (drop_bit 32 x * p) = x * (p :: u64)"
proof -
  have "x * p = ((x AND 0xFFFFFFFF) + drop_bit 32 x * 2 ^ 32) * p"
    unfolding halves_sum ..
  then show ?thesis
    by (simp add: push_bit_eq_mult algebra_simps)
qed

lemma mul_epu32_Cons [simp]:
  "mul_epu32 [] v = []"
  "mul_epu32 (x # u) (y # v) = ((x AND 0xFFFFFFFF) * (y AND 0xFFFFFFFF)) # mul_epu32 u v"
  by (simp_all add: mul_epu32_def)

lemma mul_shuffled:
  "mul_epu32 (x # y # u) (shuffle_epi32 0x31 (x' # y' # v)) =
    (x AND 0xFFFFFFFF) * drop_bit 32 x' # (y AND 0xFFFFFFFF) * drop_bit 32 y' # mul_epu32 u (shuffle_epi32 0x31 v)"
  "mul_epu32 (shuffle_epi32 0x31 (x' # y' # v)) (x # y # u) =
    drop_bit 32 x' * (x AND 0xFFFFFFFF) # drop_bit 32 y' * (y AND 0xFFFFFFFF) # mul_epu32 (shuffle_epi32 0x31 v) u"
  unfolding shuffle_31 mul_epu32_Cons low_of_swapped by simp_all

lemma ternary_xor: "ternary 0x96 a b c = (a XOR b) XOR c"
  by (rule bit_word_eqI) (auto simp: ternary_def upt_8 bit_simps)

lemma replicate_lanes:
  "replicate 2 x = [x, x]" "replicate 4 x = [x, x, x, x]" "replicate 8 x = [x, x, x, x, x, x, x, x]"
  by (simp_all add: eval_nat_numeral)

lemmas vector_defs = Let_def load_bytes_def load_lanes_def store_lanes_def xor_si_def add_epi64_def
  srli_epi64_def slli_epi64_def set1_epi32_def setzero_def
lemmas vector_lanes = lanes_up_to_8 upt_8 mul_shuffled shuffle_4E ternary_xor
  replicate_lanes

lemma stripe_sse2_is: "length a = 8 \<Longrightarrow> stripe_sse2 a input secret = stripe_portable a input secret"
  unfolding stripe_portable_adds stripe_sse2_def stripe_sum_def
  by (erule lanes_cases) (simp add: vector_defs vector_lanes del: drop_bit_xor push_bit_xor)

lemma stripe_avx2_is: "length a = 8 \<Longrightarrow> stripe_avx2 a input secret = stripe_portable a input secret"
  unfolding stripe_portable_adds stripe_avx2_def stripe_sum_def
  by (erule lanes_cases) (simp add: vector_defs vector_lanes del: drop_bit_xor push_bit_xor)

lemma stripe_avx512_is: "length a = 8 \<Longrightarrow> stripe_avx512 a input secret = stripe_portable a input secret"
  unfolding stripe_portable_adds stripe_avx512_def stripe_sum_def
  by (erule lanes_cases) (simp add: vector_defs vector_lanes del: drop_bit_xor push_bit_xor)

lemma times_prime:
  "even (length v) \<Longrightarrow> n = length v \<Longrightarrow>
    add_epi64 (mul_epu32 v (set1_epi32 n (ucast PRIME32_1)))
      (slli_epi64 32 (mul_epu32 (shuffle_epi32 0x31 v) (set1_epi32 n (ucast PRIME32_1)))) =
    map (\<lambda>x. x * PRIME32_1) v"
proof (induction "0x31 :: nat" v arbitrary: n rule: shuffle_epi32.induct)
  case (1 x y v)
  then show ?case
    by (simp add: set1_epi32_def add_epi64_def slli_epi64_def mul_shuffled prime_lane two_products)
qed (auto simp: add_epi64_def)

lemma scramble_sse2_is: "length a = 8 \<Longrightarrow> scramble_sse2 a secret = scramble_portable a secret"
  unfolding scramble_portable_def scramble_sse2_def Let_def
  by (erule lanes_cases)
    (simp add: times_prime load_lanes_def load_bytes_def srli_epi64_def xor_si_def store_lanes_def
      lanes_up_to_8 enumerate_eq_zip)

lemma scramble_avx2_is: "length a = 8 \<Longrightarrow> scramble_avx2 a secret = scramble_portable a secret"
  unfolding scramble_portable_def scramble_avx2_def Let_def
  by (erule lanes_cases)
    (simp add: times_prime load_lanes_def load_bytes_def srli_epi64_def xor_si_def store_lanes_def
      lanes_up_to_8 enumerate_eq_zip)

lemma scramble_avx512_is: "length a = 8 \<Longrightarrow> scramble_avx512 a secret = scramble_portable a secret"
  unfolding scramble_portable_def scramble_avx512_def Let_def
  by (erule lanes_cases)
    (simp add: times_prime load_lanes_def load_bytes_def srli_epi64_def ternary_xor store_lanes_def
      upt_8 enumerate_eq_zip)

lemma combine_vector_is:
  assumes "length a = 8" "length b = 8"
  shows "combine_sse2 a b = combine_portable a b" "combine_avx2 a b = combine_portable a b"
    "combine_avx512 a b = combine_portable a b"
  by (rule lanes_cases [OF assms(1)], rule lanes_cases [OF assms(2)],
      simp add: combine_portable_def combine_sse2_def combine_avx2_def combine_avx512_def
        vector_defs vector_lanes)+

interpretation sse2: stripe_path stripe_sse2 combine_sse2 scramble_sse2
  by unfold_locales (simp_all add: stripe_sse2_is scramble_sse2_is combine_vector_is)

interpretation avx2_path: stripe_path stripe_avx2 combine_avx2 scramble_avx2
  by unfold_locales (simp_all add: stripe_avx2_is scramble_avx2_is combine_vector_is)

interpretation avx512_path: stripe_path stripe_avx512 combine_avx512 scramble_avx512
  by unfold_locales (simp_all add: stripe_avx512_is scramble_avx512_is combine_vector_is)

section \<open>The hash\<close>

text \<open>The short forms read inside the body and the secret whatever the length.\<close>

lemma add_mix16_Some:
  "at + 16 \<le> length bs \<Longrightarrow> secret + 16 \<le> 192 \<Longrightarrow> \<exists>x. add_mix16 bs at secret acc = Some x"
  by (simp add: add_mix16_def mix16_def read64_def)

lemma up_to_16_Some: "length bs \<le> 16 \<Longrightarrow> \<exists>x. up_to_16 bs = Some x"
  by (simp add: up_to_16_def read64_def read32_def Let_def)

lemma up_to_128_Some: "16 < length bs \<Longrightarrow> length bs \<le> 128 \<Longrightarrow> \<exists>x. up_to_128 bs = Some x"
  unfolding up_to_128_def Let_def
  by (cases "length bs > 32"; cases "length bs > 64"; cases "length bs > 96")
    (simp_all only: if_True if_False simp_thms, (intro bind_returns add_mix16_Some; simp)+)

lemma up_to_240_Some:
  assumes "128 < length bs" "length bs \<le> 240"
  shows "\<exists>x. up_to_240 bs = Some x"
proof -
  have loop: "\<exists>y. fold_opt (\<lambda>round. add_mix16 bs (16 * round) (k round)) rs acc = Some y"
    if "\<forall>r \<in> set rs. 16 * r + 16 \<le> length bs \<and> k r + 16 \<le> 192" for rs k acc
    using that
  proof (induction rs arbitrary: acc)
    case (Cons r rs)
    then show ?case
      using add_mix16_Some [of "16 * r" bs "k r" acc] by force
  qed simp
  have "\<forall>r \<in> set [0..<8]. 16 * r + 16 \<le> length bs \<and> 16 * r + 16 \<le> 192"
    using assms by (auto simp: upt_8)
  from loop [OF this] obtain a where a: "fold_opt (\<lambda>round. add_mix16 bs (16 * round) (16 * round)) [0..<8]
      (of_nat (length bs) * PRIME64_1) = Some a"
    by blast
  have "\<forall>r \<in> set [8..<length bs div 16]. 16 * r + 16 \<le> length bs \<and> 16 * (r - 8) + 3 + 16 \<le> 192"
    using assms by auto
  from loop [OF this] obtain b where b: "fold_opt (\<lambda>round. add_mix16 bs (16 * round) (16 * (round - 8) + 3))
      [8..<length bs div 16] (avalanche a) = Some b"
    by blast
  obtain c where "add_mix16 bs (length bs - 16) 119 b = Some c"
    using add_mix16_Some [of "length bs - 16" bs 119 b] assms by auto
  then show ?thesis
    unfolding up_to_240_def Let_def a b by (simp add: a b)
qed

lemma long_any_cpu: "240 < length bs \<Longrightarrow> long cpu bs = Some (long_reference bs)"
  using portable.long_hash_is sse2.long_hash_is avx2_path.long_hash_is avx512_path.long_hash_is
  by (simp add: long_def long_portable_def long_sse2_def long_avx2_def long_avx512_def split: cpu.split)

lemma xxh3_64_cpu:
  "xxh3_64 cpu bs = (if length bs \<le> 240 then xxh3_64 cpu' bs else Some (long_reference bs))"
  by (simp add: xxh3_64_def Let_def long_any_cpu)

lemma xxh3_64_Some: "\<exists>hash. xxh3_64 cpu bs = Some hash"
  using up_to_16_Some [of bs] up_to_128_Some [of bs] up_to_240_Some [of bs] long_any_cpu [of bs]
  by (simp add: xxh3_64_def Let_def)

text \<open>C20: the hash never panics, whatever the bytes, and does not depend on the processor: over 240
  bytes it is the reference on every path, and up to 240 no path is taken.\<close>

theorem xxh3_64_any_cpu:
  "xxh3_64 cpu bs = (if length bs \<le> 240 then xxh3_64 cpu' bs else Some (long_reference bs)) \<and>
   (\<exists>hash. xxh3_64 cpu bs = Some hash)"
  using xxh3_64_cpu xxh3_64_Some by blast




end
