(* ===== verification/Frame.thy ===== *)
theory Frame
  imports Defaults Xxh3_Paths
begin

text \<open>
  Frames on the wire (\<open>frame.rs\<close>, the writing side and the header): eight bytes, the body's length
  and checksum as little-endian numbers, then the body.  A message is serialized by prost, code of
  another package: \<open>encoded_len\<close> and \<open>prost_encode\<close> are arguments, \<open>None\<close> the encode error.  The
  processor each side hashes on is an argument too, since the two ends of a connection may differ.
\<close>

section \<open>Sizes\<close>

definition HEADER_LENGTH :: nat where
  "HEADER_LENGTH = 8"

definition check_message_size :: "nat \<Rightarrow> 'i error + unit" where
  "check_message_size sz =
    (if sz > MAX_MESSAGE_SIZE then Inl (TooLarge LimitMessage sz MAX_MESSAGE_SIZE) else Inr ())"

definition check_key_size :: "string option \<Rightarrow> 'i error + unit" where
  "check_key_size key = (let sz = (case key of None \<Rightarrow> 0 | Some k \<Rightarrow> length k) in
    if sz > MAX_KEY_SIZE then Inl (TooLarge LimitKey sz MAX_KEY_SIZE) else Inr ())"

section \<open>Writing\<close>

text \<open>The hash of the code has no failure to hand on: that \<open>xxh3_64\<close> is never \<open>None\<close> is
  \<open>xxh3_64_Some\<close>.\<close>

definition checksum :: "cpu \<Rightarrow> bytes \<Rightarrow> u32" where
  "checksum cpu body = ucast (the (xxh3_64 cpu body))"

definition header_of :: "cpu \<Rightarrow> bytes \<Rightarrow> bytes" where
  "header_of cpu body = to_le_bytes 4 (of_nat (length body) :: u32) @ to_le_bytes 4 (checksum cpu body)"

definition write_header :: "cpu \<Rightarrow> bytes \<Rightarrow> bytes" where
  "write_header cpu frame = (let body = drop HEADER_LENGTH frame in header_of cpu body @ body)"

definition encode_body ::
  "('m \<Rightarrow> nat) \<Rightarrow> ('m \<Rightarrow> bytes option) \<Rightarrow> 'm \<Rightarrow> string option \<Rightarrow> 'i error + bytes" where
  "encode_body encoded_len prost_encode message key =
    and_then (check_key_size key) (\<lambda>_. let sz = encoded_len message in
    and_then (check_message_size sz) (\<lambda>_. let buffer = replicate HEADER_LENGTH 0 in
    case prost_encode message of
      None \<Rightarrow> Inl (TooLarge LimitMessage sz MAX_MESSAGE_SIZE)
    | Some body \<Rightarrow> let buffer = buffer @ body in
        Inr (to_le_bytes 4 (of_nat sz :: u32) @ drop 4 buffer)))"

definition write_checksum :: "cpu \<Rightarrow> bytes \<Rightarrow> bytes" where
  "write_checksum cpu buffer = take 4 buffer @ to_le_bytes 4 (checksum cpu (drop HEADER_LENGTH buffer))
     @ drop HEADER_LENGTH buffer"

definition encode ::
  "cpu \<Rightarrow> ('m \<Rightarrow> nat) \<Rightarrow> ('m \<Rightarrow> bytes option) \<Rightarrow> ('m \<Rightarrow> string option) \<Rightarrow> 'm \<Rightarrow> 'i error + bytes" where
  "encode cpu encoded_len prost_encode key_of message =
    and_then (encode_body encoded_len prost_encode message (key_of message)) (\<lambda>buffer.
    Inr (write_checksum cpu buffer))"

definition encode_unsealed ::
  "('m \<Rightarrow> nat) \<Rightarrow> ('m \<Rightarrow> bytes option) \<Rightarrow> ('m \<Rightarrow> string option) \<Rightarrow> 'm \<Rightarrow> 'i error + bytes" where
  "encode_unsealed encoded_len prost_encode key_of message =
    encode_body encoded_len prost_encode message (key_of message)"

definition seal :: "cpu \<Rightarrow> bytes \<Rightarrow> bytes" where
  "seal cpu bs = write_checksum cpu bs"

text \<open>\<open>encode_into\<close> empties the buffer it is given, so only what it writes is left of it.\<close>

definition encode_into ::
  "cpu \<Rightarrow> ('m \<Rightarrow> nat) \<Rightarrow> ('m \<Rightarrow> bytes option) \<Rightarrow> 'm \<Rightarrow> string option \<Rightarrow> bytes \<Rightarrow> 'i error + bytes" where
  "encode_into cpu encoded_len prost_encode message key buffer =
    and_then (check_key_size key) (\<lambda>_. let sz = encoded_len message in
    and_then (check_message_size sz) (\<lambda>_. let buffer = replicate HEADER_LENGTH 0 in
    case prost_encode message of
      None \<Rightarrow> Inl (TooLarge LimitMessage sz MAX_MESSAGE_SIZE)
    | Some body \<Rightarrow> Inr (write_header cpu (buffer @ body))))"

definition frame_of_body :: "cpu \<Rightarrow> bytes \<Rightarrow> bytes" where
  "frame_of_body cpu body = write_header cpu (replicate HEADER_LENGTH 0 @ body)"

definition head_of :: "cpu \<Rightarrow> bytes \<Rightarrow> bytes" where
  "head_of cpu body = header_of cpu body"

section \<open>Reading a header\<close>

record header =
  hlength :: nat
  hchecksum :: u32

definition unpack_header :: "bytes \<Rightarrow> header option" where
  "unpack_header h = (let
     len = unat (from_le_bytes (take 4 h) :: u32);
     sum = from_le_bytes (take 4 (drop 4 h))
   in if len = 0 \<or> len > MAX_MESSAGE_SIZE then None else Some \<lparr>hlength = len, hchecksum = sum\<rparr>)"

definition verify :: "cpu \<Rightarrow> header \<Rightarrow> bytes \<Rightarrow> bool" where
  "verify cpu h body \<longleftrightarrow> length body = hlength h \<and> checksum cpu body = hchecksum h"

section \<open>Facts\<close>

lemma HEADER_LENGTH_simp [simp]: "HEADER_LENGTH = 8"
  by (simp add: HEADER_LENGTH_def)

lemma checksum_cpu: "checksum cpu body = checksum cpu' body"
proof -
  have "xxh3_64 cpu body = xxh3_64 cpu' body"
    using xxh3_64_cpu [of cpu body cpu'] xxh3_64_cpu [of cpu' body cpu'] by simp
  then show ?thesis
    by (simp add: checksum_def)
qed

lemma length_header_of [simp]: "length (header_of cpu body) = 8"
  by (simp add: header_of_def)

lemma frame_of_body_eq: "frame_of_body cpu body = header_of cpu body @ body"
  by (simp add: frame_of_body_def write_header_def)

lemma body_size_u32:
  assumes "n \<le> MAX_MESSAGE_SIZE"
  shows "unat (of_nat n :: u32) = n"
  using assms by (simp add: unat_of_nat take_bit_nat_eq_self MAX_MESSAGE_SIZE_def)

lemma unpack_header_of:
  assumes "body \<noteq> []" "length body \<le> MAX_MESSAGE_SIZE"
  shows "unpack_header (header_of cpu body) =
    Some \<lparr>hlength = length body, hchecksum = checksum cpu body\<rparr>"
  using assms
  by (simp add: unpack_header_def header_of_def from_to_le_bytes body_size_u32 Let_def)

lemma unpack_header_length:
  "unpack_header h = Some hh \<Longrightarrow> 0 < hlength hh \<and> hlength hh \<le> MAX_MESSAGE_SIZE"
  by (auto simp: unpack_header_def Let_def split: if_splits)

lemma encode_body_eq:
  assumes "prost_encode m = Some body" "length body = encoded_len m"
  shows "encode_body encoded_len prost_encode m key =
    and_then (check_key_size key) (\<lambda>_. and_then (check_message_size (length body)) (\<lambda>_.
      Inr (to_le_bytes 4 (of_nat (length body) :: u32) @ replicate 4 0 @ body)))"
  using assms by (simp add: encode_body_def Let_def replicate_add [of 4 4, simplified])

section \<open>The ways a frame is written agree\<close>

text \<open>C34: the ways the code writes a frame agree.  A message whose encoding prost measures exactly is
  refused for its key or its size by all of them alike, with the same error, and otherwise becomes
  the frame of its body: at once (\<open>encode\<close>), into a kept buffer (\<open>encode_into\<close>), or unsealed and
  sealed later; and a head kept apart from its body is that frame's first bytes.\<close>

theorem frame_writers_agree:
  fixes prost_encode :: "'m \<Rightarrow> bytes option"
  assumes "prost_encode m = Some body" "length body = encoded_len m"
  shows "encode cpu encoded_len prost_encode key_of m =
      (and_then (check_key_size (key_of m)) (\<lambda>_. and_then (check_message_size (length body)) (\<lambda>_.
        Inr (frame_of_body cpu body))) :: 'i error + bytes) \<and>
    encode_into cpu encoded_len prost_encode m (key_of m) buffer =
      (encode cpu encoded_len prost_encode key_of m :: 'i error + bytes) \<and>
    and_then (encode_unsealed encoded_len prost_encode key_of m) (\<lambda>bs. Inr (seal cpu bs)) =
      (encode cpu encoded_len prost_encode key_of m :: 'i error + bytes) \<and>
    head_of cpu body @ body = frame_of_body cpu body"
proof -
  have "encode cpu encoded_len prost_encode key_of m =
      (and_then (check_key_size (key_of m)) (\<lambda>_. and_then (check_message_size (length body)) (\<lambda>_.
        Inr (frame_of_body cpu body))) :: 'i error + bytes)"
    unfolding encode_def encode_body_eq [where prost_encode = prost_encode and encoded_len = encoded_len, OF assms]
    by (auto simp: and_then_def write_checksum_def frame_of_body_eq header_of_def split: sum.split)
  moreover have "encode_into cpu encoded_len prost_encode m (key_of m) buffer =
      (and_then (check_key_size (key_of m)) (\<lambda>_. and_then (check_message_size (length body)) (\<lambda>_.
        Inr (frame_of_body cpu body))) :: 'i error + bytes)"
    using assms by (simp add: encode_into_def frame_of_body_def Let_def)
  ultimately show ?thesis
    by (simp add: encode_def encode_unsealed_def seal_def head_of_def frame_of_body_eq)
qed

theorem frame_writers_agree_witness:
  "encode Other_Arch length Some (\<lambda>_. None) [1, 2, 3] =
     (Inr (frame_of_body Other_Arch [1, 2, 3]) :: nat error + bytes)"
  using frame_writers_agree [where ?'i = nat and prost_encode = Some and m = "[1, 2, 3]"
      and body = "[1, 2, 3]" and encoded_len = length and cpu = Other_Arch and key_of = "\<lambda>_. None"
      and buffer = "[]"]
  by (simp add: check_key_size_def check_message_size_def MAX_KEY_SIZE_def MAX_MESSAGE_SIZE_def)

text \<open>C35: the header written for a body of one to \<open>MAX_MESSAGE_SIZE\<close> bytes, on whatever processor,
  is unpacked to that length, and the body then verifies on whatever processor reads it.\<close>

theorem header_round_trip:
  assumes "body \<noteq> []" "length body \<le> MAX_MESSAGE_SIZE"
  shows "\<exists>h. unpack_header (head_of writer body) = Some h \<and> hlength h = length body \<and> verify reader h body"
  using unpack_header_of [OF assms, of writer] checksum_cpu [of reader body writer]
  by (simp add: head_of_def verify_def)

theorem header_round_trip_witness:
  "\<exists>h. unpack_header (head_of (X86_64 True True) [7]) = Some h \<and> hlength h = 1 \<and> verify Other_Arch h [7]"
  using header_round_trip [of "[7]" "X86_64 True True" Other_Arch] by (simp add: MAX_MESSAGE_SIZE_def)

end
