(* ===== verification/Ids.thy ===== *)
theory Ids
  imports Prelude
begin

text \<open>
  Message and instance ids (\<open>ids.rs\<close>): SplitMix64 over an atomic counter.  The state is the
  counter, \<open>draw\<close> the body of the loop of \<open>Ids::next\<close> (one \<open>fetch_add\<close> and the mixing of what it
  gave), \<open>next_id\<close> the loop.  Every thread's calls are sequences of draws on the one counter, so
  the interleavings are the runs of \<open>ids_step\<close>, one draw of one thread a step.
\<close>

section \<open>The generator\<close>

definition GOLDEN_GAMMA :: u64 where
  "GOLDEN_GAMMA = 0x9E3779B97F4A7C15"

record ids =
  counter :: u64

definition seeded :: "u64 \<Rightarrow> ids" where
  "seeded seed = \<lparr>counter = seed\<rparr>"

text \<open>\<open>Ids::new\<close>: the eight bytes read from \<open>/dev/urandom\<close> (zeros where the read comes up short),
  the process id and the time since the epoch in nanoseconds, when the clock is past it, are its
  arguments.\<close>

definition new_ids :: "u64 \<Rightarrow> u32 \<Rightarrow> nat option \<Rightarrow> ids" where
  "new_ids urandom pid since = (let
     seed = urandom XOR push_bit 32 (ucast pid);
     seed = seed XOR (case since of None \<Rightarrow> 0 | Some nanos \<Rightarrow> of_nat nanos)
   in \<lparr>counter = seed\<rparr>)"

definition mix :: "u64 \<Rightarrow> u64" where
  "mix mixed = (let
     mixed = (mixed XOR drop_bit 30 mixed) * 0xBF58476D1CE4E5B9;
     mixed = (mixed XOR drop_bit 27 mixed) * 0x94D049BB133111EB
   in mixed XOR drop_bit 31 mixed)"

definition draw :: "ids \<Rightarrow> u64 \<times> ids" where
  "draw s = (let mixed = counter s + GOLDEN_GAMMA in
     (mix mixed, s\<lparr>counter := counter s + GOLDEN_GAMMA\<rparr>))"

partial_function (option) next_id :: "ids \<Rightarrow> (u64 \<times> ids) option" where
  "next_id s = (let (mixed, s') = draw s in if mixed \<noteq> 0 then Some (mixed, s') else next_id s')"

text \<open>The ids of \<open>n\<close> calls one after another.\<close>

fun next_ids :: "nat \<Rightarrow> ids \<Rightarrow> u64 list option" where
  "next_ids 0 s = Some []"
| "next_ids (Suc n) s = (case next_id s of
     None \<Rightarrow> None
   | Some (x, s') \<Rightarrow> map_option (Cons x) (next_ids n s'))"

text \<open>The generator shared by threads: the state is the counter and what the calls returned so
  far, with the thread each went to, the last first.  A step is one turn of the loop of one
  thread's call: a nonzero value ends the call, zero keeps it in the loop.\<close>

inductive ids_step :: "ids \<times> (nat \<times> u64) list \<Rightarrow> ids \<times> (nat \<times> u64) list \<Rightarrow> bool" where
  returns: "draw s = (x, s') \<Longrightarrow> x \<noteq> 0 \<Longrightarrow> ids_step (s, log) (s', (t, x) # log)"
| again: "draw s = (0, s') \<Longrightarrow> ids_step (s, log) (s', log)"

inductive ids_run :: "nat \<Rightarrow> ids \<times> (nat \<times> u64) list \<Rightarrow> ids \<times> (nat \<times> u64) list \<Rightarrow> bool" where
  none: "ids_run 0 c c"
| one: "ids_run n c c' \<Longrightarrow> ids_step c' c'' \<Longrightarrow> ids_run (Suc n) c c''"

inductive_cases ids_step_elim: "ids_step (s, log) c"
inductive_cases ids_run_SucE: "ids_run (Suc n) c c'"
inductive_cases ids_run_0E: "ids_run 0 c c'"

section \<open>The mixing is a bijection\<close>

lemma mix_inj:
  assumes "mix x = mix y"
  shows "x = y"
proof -
  define a where "a = (\<lambda>x::u64. (x XOR drop_bit 30 x) * 0xBF58476D1CE4E5B9)"
  define b where "b = (\<lambda>x::u64. (x XOR drop_bit 27 x) * 0x94D049BB133111EB)"
  have "b (a x) XOR drop_bit 31 (b (a x)) = b (a y) XOR drop_bit 31 (b (a y))"
    using assms by (simp add: mix_def a_def b_def Let_def)
  then have "b (a x) = b (a y)"
    by (rule xorshift_inj [rotated]) simp
  then have "a x XOR drop_bit 27 (a x) = a y XOR drop_bit 27 (a y)"
    unfolding b_def by (rule mult_unit_inj [rotated, where d = "0x319642B2D24D8EC3"]) simp
  then have "a x = a y"
    by (rule xorshift_inj [rotated]) simp
  then have "x XOR drop_bit 30 x = y XOR drop_bit 30 y"
    unfolding a_def by (rule mult_unit_inj [rotated, where d = "0x96DE1B173F119089"]) simp
  then show ?thesis
    by (rule xorshift_inj [rotated]) simp
qed

lemma mix_0 [simp]: "mix 0 = 0"
  by (simp add: mix_def)

lemma mix_eq_0_iff [simp]: "mix x = 0 \<longleftrightarrow> x = 0"
  using mix_inj [of x 0] by auto

lemma gamma_steps_inj:
  assumes "of_nat m * GOLDEN_GAMMA = of_nat n * GOLDEN_GAMMA" "m < 2 ^ 64" "n < 2 ^ 64"
  shows "m = n"
proof -
  have "(of_nat m :: u64) = of_nat n"
    using assms(1) by (rule mult_unit_inj [rotated, where d = "0xF1DE83E19937733D"])
      (simp add: GOLDEN_GAMMA_def)
  then show ?thesis
    using assms(2,3) by (auto intro: of_nat_word_inj)
qed

lemma GOLDEN_GAMMA_neq_0 [simp]: "GOLDEN_GAMMA \<noteq> 0"
  by (simp add: GOLDEN_GAMMA_def)

lemma draw_simps [mx_simps]:
  "fst (draw s) = mix (counter s + GOLDEN_GAMMA)"
  "counter (snd (draw s)) = counter s + GOLDEN_GAMMA"
  by (simp_all add: draw_def Let_def)

section \<open>The loop ends\<close>

lemma next_id_unfold:
  "next_id s = (if counter s + GOLDEN_GAMMA \<noteq> 0 then Some (draw s) else next_id (snd (draw s)))"
  by (subst next_id.simps) (simp add: draw_def Let_def)

lemma next_id_value:
  "next_id s = Some (if counter s + GOLDEN_GAMMA \<noteq> 0 then draw s else draw (snd (draw s)))"
proof (cases "counter s + GOLDEN_GAMMA = 0")
  case False
  then show ?thesis
    by (subst next_id_unfold) simp
next
  case True
  then have "counter (snd (draw s)) + GOLDEN_GAMMA \<noteq> 0"
    by (simp add: draw_simps)
  with True show ?thesis
    by (subst next_id_unfold) (simp add: next_id_unfold [of "snd (draw s)"])
qed

text \<open>C38: \<open>Ids::next\<close> returns on every state of the counter, after at most two turns of its loop,
  and what it returns is not zero.\<close>

theorem next_id_total:
  "\<exists>x s'. next_id s = Some (x, s') \<and> x \<noteq> 0 \<and>
     (counter s' = counter s + GOLDEN_GAMMA \<or> counter s' = counter s + GOLDEN_GAMMA + GOLDEN_GAMMA)"
proof (cases "counter s + GOLDEN_GAMMA = 0")
  case True
  then show ?thesis
    by (simp add: next_id_value draw_def Let_def)
next
  case False
  then show ?thesis
    by (simp add: next_id_value draw_def Let_def)
qed

section \<open>No id twice, from any interleaving\<close>

lemma ids_run_values:
  assumes "ids_run n (s, []) c"
  shows "counter (fst c) = counter s + of_nat n * GOLDEN_GAMMA \<and>
    map snd (snd c) = filter (\<lambda>x. x \<noteq> 0)
      (map (\<lambda>k. mix (counter s + of_nat k * GOLDEN_GAMMA)) (rev [1..<Suc n]))"
  using assms
proof (induction n arbitrary: c)
  case 0
  then show ?case
    by (auto elim: ids_run_0E)
next
  case (Suc n)
  then obtain s1 log where run: "ids_run n (s, []) (s1, log)" and step: "ids_step (s1, log) c"
    by (auto elim!: ids_run_SucE)
  have nxt: "counter s1 + GOLDEN_GAMMA = counter s + of_nat (Suc n) * GOLDEN_GAMMA"
    using Suc.IH [OF run] by (simp add: algebra_simps)
  from step show ?case
    by (rule ids_step_elim) (use Suc.IH [OF run] nxt in \<open>auto simp: draw_def Let_def\<close>)
qed

lemma gamma_multiples_inj:
  "n \<le> 2 ^ 64 \<Longrightarrow> inj_on (\<lambda>k. mix (c + of_nat k * GOLDEN_GAMMA)) {1..<Suc n}"
proof (rule inj_onI)
  fix j k
  assume n: "n \<le> 2 ^ 64" and jk: "j \<in> {1..<Suc n}" "k \<in> {1..<Suc n}"
    and eq: "mix (c + of_nat j * GOLDEN_GAMMA) = mix (c + of_nat k * GOLDEN_GAMMA)"
  obtain j' k' where "j = Suc j'" "k = Suc k'"
    using jk by (cases j; cases k) auto
  moreover have "of_nat j * GOLDEN_GAMMA = of_nat k * GOLDEN_GAMMA"
    using mix_inj [OF eq] by simp
  ultimately show "j = k"
    using gamma_steps_inj [of j' k'] jk n by (simp add: algebra_simps)
qed

text \<open>C37: whatever threads call one generator and however their calls interleave, as long as the
  counter was drawn from at most \<open>2 ^ 64\<close> times no id was returned twice and none is zero.\<close>

theorem ids_distinct:
  assumes "ids_run n (s, []) (s', log)" "n \<le> 2 ^ 64"
  shows "distinct (map snd log) \<and> 0 \<notin> snd ` set log"
proof -
  have log: "map snd log = filter (\<lambda>x. x \<noteq> 0)
      (map (\<lambda>k. mix (counter s + of_nat k * GOLDEN_GAMMA)) (rev [1..<Suc n]))"
    using ids_run_values [OF assms(1)] by simp
  have "distinct (map (\<lambda>k. mix (counter s + of_nat k * GOLDEN_GAMMA)) (rev [1..<Suc n]))"
    using gamma_multiples_inj [OF assms(2), of "counter s"] unfolding distinct_map set_rev set_upt
    by (simp del: upt_Suc)
  then have "distinct (map snd log)"
    unfolding log by (rule distinct_filter)
  moreover have "0 \<notin> set (map snd log)"
    unfolding log by simp
  ultimately show ?thesis
    by simp
qed

theorem ids_distinct_witness:
  "\<exists>s'. ids_run 2 (seeded 1234567, []) (s', [(2, 3203168211198807973), (1, 6457827717110365317)]) \<and>
     distinct [3203168211198807973 :: u64, 6457827717110365317]"
proof -
  define s1 s2 where "s1 = snd (draw (seeded 1234567))" and "s2 = snd (draw s1)"
  have "draw (seeded 1234567) = (6457827717110365317, s1)" "draw s1 = (3203168211198807973, s2)"
    unfolding s1_def s2_def by code_simp+
  then have steps: "ids_step (seeded 1234567, []) (s1, [(1, 6457827717110365317)])"
    "ids_step (s1, [(1, 6457827717110365317)])
      (s2, [(2, 3203168211198807973), (1, 6457827717110365317)])"
    by (auto intro: ids_step.returns)
  then have run: "ids_run 2 (seeded 1234567, [])
      (s2, [(2, 3203168211198807973), (1, 6457827717110365317)])"
    unfolding numeral_2_eq_2 by (blast intro: ids_run.intros)
  then show ?thesis
    using ids_distinct [OF run] by auto
qed

end
