(* ===== verification/Timers.thy ===== *)
theory Timers
  imports Prelude
begin

text \<open>
  The core's timers (\<open>core/timers.rs\<close>): a heap of deadlines and a map of what each armed timer is
  for.  Cancelled timers stay in the heap until they reach its top or a cancellation finds that
  they outnumber the armed ones.  The contract the core relies on, \<open>timer_service\<close>, is a finite
  map from keys to deadlines and purposes; the heap with its cancelled entries implements it.
  A key is a \<open>u64\<close> that counts the timers ever armed, a \<open>nat\<close> here.
\<close>

section \<open>The contract\<close>

text \<open>\<open>tabs t\<close> is what is armed: the deadline and the purpose of each key.\<close>

locale timer_service =
  fixes tinv :: "'s \<Rightarrow> bool"
    and tabs :: "'s \<Rightarrow> nat \<Rightarrow> (instant \<times> 'due) option"
    and tarm :: "instant \<Rightarrow> 'due \<Rightarrow> 's \<Rightarrow> nat \<times> 's"
    and tcancel :: "nat option \<Rightarrow> 's \<Rightarrow> nat option \<times> 's"
    and tnext :: "'s \<Rightarrow> instant option \<times> 's"
    and ttake :: "instant \<Rightarrow> 's \<Rightarrow> (nat \<times> 'due) option \<times> 's"
  assumes finite_armed: "tinv t \<Longrightarrow> finite (dom (tabs t))"
    and arm: "tinv t \<Longrightarrow> tarm d x t = (k, t') \<Longrightarrow>
      tinv t' \<and> tabs t k = None \<and> tabs t' = (tabs t)(k \<mapsto> (d, x))"
    and cancel: "tinv t \<Longrightarrow> tcancel slot t = (slot', t') \<Longrightarrow>
      tinv t' \<and> slot' = None \<and>
      tabs t' = (case slot of None \<Rightarrow> tabs t | Some k \<Rightarrow> (tabs t)(k := None))"
    and next_inv: "tinv t \<Longrightarrow> tnext t = (r, t') \<Longrightarrow> tinv t' \<and> tabs t' = tabs t"
    and next_none: "tinv t \<Longrightarrow> fst (tnext t) = None \<longleftrightarrow> tabs t = Map.empty"
    and next_least: "tinv t \<Longrightarrow> fst (tnext t) = Some d \<Longrightarrow>
      (\<exists>k x. tabs t k = Some (d, x)) \<and> (\<forall>k d' x. tabs t k = Some (d', x) \<longrightarrow> d \<le> d')"
    and take_none: "tinv t \<Longrightarrow> ttake now t = (None, t') \<Longrightarrow>
      tinv t' \<and> tabs t' = tabs t \<and> (\<forall>k d x. tabs t k = Some (d, x) \<longrightarrow> now < d)"
    and take_some: "tinv t \<Longrightarrow> ttake now t = (Some (k, x), t') \<Longrightarrow>
      tinv t' \<and> tabs t' = (tabs t)(k := None) \<and>
      (\<exists>d. tabs t k = Some (d, x) \<and> d \<le> now \<and>
        (\<forall>k' d' x'. tabs t k' = Some (d', x') \<longrightarrow> (d, k) \<le> (d', k')))"
begin

text \<open>A timer armed fires at the first look at or after its deadline that no earlier one precedes,
  with what it was armed for; before its deadline no look takes it.\<close>

lemma not_before_deadline:
  assumes "tinv t" "tabs t k = Some (d, x)" "now < d"
  shows "fst (ttake now t) \<noteq> Some (k, y)"
proof
  assume "fst (ttake now t) = Some (k, y)"
  then obtain t' where "ttake now t = (Some (k, y), t')"
    by (cases "ttake now t") auto
  from take_some [OF assms(1) this] assms(2,3) show False
    by auto
qed

lemma due_is_taken:
  assumes "tinv t" "tabs t k = Some (d, x)" "d \<le> now"
  shows "\<exists>k' x' t'. ttake now t = (Some (k', x'), t')"
proof (cases "ttake now t")
  case (Pair r t')
  then show ?thesis
    using assms(2,3) take_none [OF assms(1), of now t'] by (cases r) (auto dest: leD)
qed

lemma fires_once:
  assumes "tinv t" "ttake now t = (Some (k, x), t')"
  shows "tabs t' k = None \<and> fst (ttake now' t') \<noteq> Some (k, y)"
proof -
  have t': "tinv t'" "tabs t' k = None"
    using take_some [OF assms] by auto
  have "ttake now' t' \<noteq> (Some (k, y), t'')" for t''
    using take_some [OF t'(1)] t'(2) by (metis option.distinct(1))
  then show ?thesis
    using t'(2) by (cases "ttake now' t'") auto
qed

text \<open>Two timers taken one after the other come in the order of their deadlines, and of their keys
  where these are equal.\<close>

lemma in_deadline_order:
  assumes "tinv t" "ttake now t = (Some (k, x), t')" "ttake now' t' = (Some (k', x'), t'')"
  shows "\<exists>d d'. tabs t k = Some (d, x) \<and> tabs t k' = Some (d', x') \<and> (d, k) < (d', k')"
proof -
  from take_some [OF assms(1,2)] obtain d where d: "tinv t'" "tabs t' = (tabs t)(k := None)"
      "tabs t k = Some (d, x)" "\<And>k' d' x'. tabs t k' = Some (d', x') \<Longrightarrow> (d, k) \<le> (d', k')"
    by blast
  from take_some [OF d(1) assms(3)] obtain d' where d': "tabs t' k' = Some (d', x')"
    by blast
  with d(2) have "k' \<noteq> k" "tabs t k' = Some (d', x')"
    by (auto split: if_splits)
  with d show ?thesis
    by (metis Pair_inject order_le_imp_less_or_eq)
qed

lemma next_is_due:
  assumes "tinv t" "fst (tnext t) = Some d"
  shows "fst (ttake now t) \<noteq> None \<longleftrightarrow> d \<le> now"
proof -
  obtain k x where kx: "tabs t k = Some (d, x)" "\<And>k d' x. tabs t k = Some (d', x) \<Longrightarrow> d \<le> d'"
    using next_least [OF assms] by blast
  obtain r t' where r: "ttake now t = (r, t')"
    by (cases "ttake now t")
  show ?thesis
  proof (cases r)
    case None
    then have "now < d"
      using take_none [OF assms(1)] r kx(1) by blast
    with None r show ?thesis
      by simp
  next
    case (Some ky)
    then obtain d' where "tabs t (fst ky) = Some (d', snd ky)" "d' \<le> now"
      using take_some [OF assms(1), of now "fst ky" "snd ky" t'] r by auto
    with Some r kx(2) show ?thesis
      by (auto intro: le_trans)
  qed
qed

end

section \<open>The code\<close>

definition CANCELLED_SLACK :: nat where
  "CANCELLED_SLACK = 64"

record 'due timers =
  heap :: "(instant \<times> nat) min_heap"
  armed :: "(nat, 'due) hash_map"
  next_key :: nat

definition new_timers :: "'due timers" where
  "new_timers = \<lparr>heap = [], armed = [], next_key = 0\<rparr>"

definition arm :: "instant \<Rightarrow> 'due \<Rightarrow> 'due timers \<Rightarrow> nat \<times> 'due timers" where
  "arm deadline due t = (let key = next_key t + 1 in
    (key, t\<lparr>next_key := key, heap := heap_push (deadline, key) (heap t),
            armed := AList.update key due (armed t)\<rparr>))"

definition cancel :: "nat option \<Rightarrow> 'due timers \<Rightarrow> nat option \<times> 'due timers" where
  "cancel slot t = (case slot of
     None \<Rightarrow> (None, t)
   | Some key \<Rightarrow> let t = t\<lparr>armed := AList.delete key (armed t)\<rparr> in
       (None, if length (heap t) > 2 * length (armed t) + CANCELLED_SLACK
              then t\<lparr>heap := heap_retain (\<lambda>(_, key). hm_contains (armed t) key) (heap t)\<rparr>
              else t))"

definition rearm :: "nat option \<Rightarrow> instant \<Rightarrow> 'due \<Rightarrow> 'due timers \<Rightarrow> nat option \<times> 'due timers" where
  "rearm slot deadline due t = (let (_, t) = cancel slot t; (key, t) = arm deadline due t in (Some key, t))"

definition any_armed :: "'due timers \<Rightarrow> bool" where
  "any_armed t \<longleftrightarrow> armed t \<noteq> []"

fun next_deadline_loop :: "(nat, 'due) hash_map \<Rightarrow> (instant \<times> nat) list \<Rightarrow> instant option \<times> (instant \<times> nat) list" where
  "next_deadline_loop a [] = (None, [])"
| "next_deadline_loop a ((deadline, key) # h) =
    (if hm_contains a key then (Some deadline, (deadline, key) # h) else next_deadline_loop a h)"

definition next_deadline :: "'due timers \<Rightarrow> instant option \<times> 'due timers" where
  "next_deadline t = (let (r, h) = next_deadline_loop (armed t) (heap t) in (r, t\<lparr>heap := h\<rparr>))"

fun take_due_loop :: "instant \<Rightarrow> 'due timers \<Rightarrow> (instant \<times> nat) list \<Rightarrow> (nat \<times> 'due) option \<times> 'due timers" where
  "take_due_loop now t [] = (None, t\<lparr>heap := []\<rparr>)"
| "take_due_loop now t ((deadline, key) # h) =
    (if \<not> hm_contains (armed t) key then take_due_loop now t h
     else if deadline > now then (None, t\<lparr>heap := (deadline, key) # h\<rparr>)
     else (map_option (\<lambda>due. (key, due)) (map_of (armed t) key),
           t\<lparr>heap := h, armed := AList.delete key (armed t)\<rparr>))"

definition take_due :: "instant \<Rightarrow> 'due timers \<Rightarrow> (nat \<times> 'due) option \<times> 'due timers" where
  "take_due now t = take_due_loop now t (heap t)"

section \<open>The heap implements the contract\<close>

definition timers_ok :: "'due timers \<Rightarrow> bool" where
  "timers_ok t \<longleftrightarrow> sorted (heap t) \<and> distinct (map snd (heap t)) \<and> hm_ok (armed t)
     \<and> dom (map_of (armed t)) \<subseteq> snd ` set (heap t) \<and> (\<forall>k \<in> snd ` set (heap t). k \<le> next_key t)"

definition armed_map :: "'due timers \<Rightarrow> nat \<Rightarrow> (instant \<times> 'due) option" where
  "armed_map t k = (case map_of (armed t) k of
     None \<Rightarrow> None
   | Some due \<Rightarrow> map_option (\<lambda>d. (d, due)) (map_of (map prod.swap (heap t)) k))"

lemma heap_map_of:
  "distinct (map snd h) \<Longrightarrow> map_of (map prod.swap h) k = Some d \<longleftrightarrow> (d, k) \<in> set h"
  by (subst map_of_eq_Some_iff) (auto simp: comp_def image_iff intro: bexI [where x = "(d, k)"])

lemma armed_map_Some:
  "distinct (map snd (heap t)) \<Longrightarrow>
    armed_map t k = Some (d, due) \<longleftrightarrow> map_of (armed t) k = Some due \<and> (d, k) \<in> set (heap t)"
  by (auto simp: armed_map_def heap_map_of split: option.split)

lemma armed_map_None:
  "timers_ok t \<Longrightarrow> armed_map t k = None \<longleftrightarrow> map_of (armed t) k = None"
  by (auto simp: armed_map_def timers_ok_def map_of_eq_None_iff [of "map prod.swap _"] image_image
      split: option.split)

lemma armed_map_eqI:
  assumes "timers_ok t" "timers_ok t'"
    and "\<And>k d due. (map_of (armed t) k = Some due \<and> (d, k) \<in> set (heap t)) =
                   (map_of (armed t') k = Some due \<and> (d, k) \<in> set (heap t'))"
  shows "armed_map t = armed_map t'"
proof
  fix k
  show "armed_map t k = armed_map t' k"
    using assms by (intro option_eqI) (auto simp: timers_ok_def armed_map_Some)
qed

lemma timers_ok_new [mx_inv]: "timers_ok new_timers"
  by (simp add: timers_ok_def new_timers_def)

lemma new_unarmed [simp]: "armed_map new_timers = Map.empty"
  by (simp add: armed_map_def new_timers_def fun_eq_iff)

lemma arm_ok:
  assumes "timers_ok t" "arm d x t = (k, t')"
  shows "timers_ok t' \<and> armed_map t k = None \<and> armed_map t' = (armed_map t)(k \<mapsto> (d, x))"
proof -
  have k: "k = Suc (next_key t)" "heap t' = insort (d, k) (heap t)"
      "armed t' = AList.update k x (armed t)" "next_key t' = k"
    using assms(2) by (auto simp: arm_def Let_def)
  have fresh: "k \<notin> snd ` set (heap t)"
    using assms(1) k(1) by (auto simp: timers_ok_def)
  then have fresh': "(a, k) \<notin> set (heap t)" for a
    by force
  from fresh have "map_of (armed t) k = None"
    using assms(1) by (auto simp: timers_ok_def)
  moreover have ok: "timers_ok t'"
    using assms(1) fresh k
    by (auto simp: timers_ok_def sorted_insort distinct_map_insort set_insort_key hm_ok_update)
  moreover have "armed_map t' = (armed_map t)(k \<mapsto> (d, x))"
  proof
    fix j
    show "armed_map t' j = ((armed_map t)(k \<mapsto> (d, x))) j"
      using assms(1) ok fresh' k
      by (intro option_eqI) (auto simp: timers_ok_def armed_map_Some set_insort_key)
  qed
  ultimately show ?thesis
    using armed_map_None [OF assms(1)] by simp
qed

text \<open>What every other operation does: entries leave the heap, timers are disarmed, and no armed
  timer loses its entry.\<close>

lemma timers_shrink:
  assumes "timers_ok t" "sorted (heap t')" "distinct (map snd (heap t'))" "hm_ok (armed t')"
    and "set (heap t') \<subseteq> set (heap t)" "next_key t' = next_key t"
    and "map_of (armed t') \<subseteq>\<^sub>m map_of (armed t)"
    and "\<And>d k. (d, k) \<in> set (heap t) \<Longrightarrow> hm_contains (armed t') k \<Longrightarrow> (d, k) \<in> set (heap t')"
  shows "timers_ok t' \<and> armed_map t' = (armed_map t) |` dom (map_of (armed t'))"
proof -
  have heap: "k \<in> snd ` set (heap t')" if "hm_contains (armed t') k" for k
  proof -
    have "k \<in> dom (map_of (armed t))"
      using that map_le_implies_dom_le [OF assms(7)] by auto
    then have "k \<in> snd ` set (heap t)"
      using assms(1) by (auto simp: timers_ok_def)
    then show ?thesis
      using assms(8) that by force
  qed
  then have "dom (map_of (armed t')) \<subseteq> snd ` set (heap t')"
    by blast
  then have ok: "timers_ok t'"
    using assms(1-6) by (auto simp: timers_ok_def simp del: dom_map_of_conv_image_fst)
  moreover have "armed_map t' = (armed_map t) |` dom (map_of (armed t'))"
  proof
    fix k
    have "map_of (armed t') k = Some x \<Longrightarrow> map_of (armed t) k = Some x" for x
      using assms(7) by (auto simp: map_le_def dom_def)
    then show "armed_map t' k = ((armed_map t) |` dom (map_of (armed t'))) k"
      using assms ok
      by (intro option_eqI) (auto simp: timers_ok_def armed_map_Some restrict_map_def)
  qed
  ultimately show ?thesis ..
qed

lemma armed_map_dom: "timers_ok t \<Longrightarrow> dom (armed_map t) = dom (map_of (armed t))"
  by (simp add: dom_def armed_map_None)

lemma armed_map_restrict:
  "timers_ok t \<Longrightarrow> (armed_map t) |` dom (map_of (armed t)) = armed_map t"
  by (auto simp: restrict_map_def fun_eq_iff dom_def armed_map_None
      eq_commute [of None "armed_map t _"])

lemma disarm_map:
  "timers_ok t \<Longrightarrow> (armed_map t) |` dom ((map_of (armed t))(k := None)) = (armed_map t)(k := None)"
  by (auto simp: restrict_map_def fun_eq_iff dom_def armed_map_None
      eq_commute [of None "armed_map t _"])

lemma cancel_ok:
  assumes "timers_ok t" "cancel slot t = (slot', t')"
  shows "timers_ok t' \<and> slot' = None \<and>
    armed_map t' = (case slot of None \<Rightarrow> armed_map t | Some k \<Rightarrow> (armed_map t)(k := None))"
proof (cases slot)
  case None
  with assms show ?thesis
    by (simp add: cancel_def)
next
  case (Some k)
  with assms(2) have t': "slot' = None" "armed t' = AList.delete k (armed t)"
      "heap t' = heap t \<or> heap t' = filter (\<lambda>(_, j). hm_contains (armed t') j) (heap t)"
      "next_key t' = next_key t"
    by (auto simp: cancel_def Let_def split: if_splits)
  then have "timers_ok t' \<and> armed_map t' = (armed_map t) |` dom (map_of (armed t'))"
    using assms(1)
    by (intro timers_shrink)
      (auto simp: timers_ok_def sorted_filter_id distinct_map_filter hm_ok_delete map_le_def
        split: if_splits)
  then show ?thesis
    using t' Some disarm_map [OF assms(1), of k] by simp
qed

lemma next_deadline_loop_drops:
  "next_deadline_loop a h = (let h' = dropWhile (\<lambda>(_, k). \<not> hm_contains a k) h in
     (case h' of [] \<Rightarrow> None | (d, _) # _ \<Rightarrow> Some d, h'))"
  by (induction a h rule: next_deadline_loop.induct) (auto simp: Let_def)

lemma take_due_loop_drops:
  "take_due_loop now t h = (case dropWhile (\<lambda>(_, k). \<not> hm_contains (armed t) k) h of
     [] \<Rightarrow> (None, t\<lparr>heap := []\<rparr>)
   | (d, k) # h' \<Rightarrow> if d > now then (None, t\<lparr>heap := (d, k) # h'\<rparr>)
       else (map_option (\<lambda>x. (k, x)) (map_of (armed t) k),
             t\<lparr>heap := h', armed := AList.delete k (armed t)\<rparr>))"
  by (induction now t h rule: take_due_loop.induct) auto

lemma dropWhile_split:
  assumes "dropWhile P xs = y # ys"
  shows "\<exists>us. xs = us @ y # ys \<and> (\<forall>u \<in> set us. P u) \<and> \<not> P y"
  using assms takeWhile_dropWhile_id [of P xs] hd_dropWhile [of P xs]
  by (metis list.discI list.sel(1) set_takeWhileD)

lemma dropWhile_keeps: "x \<in> set xs \<Longrightarrow> \<not> P x \<Longrightarrow> x \<in> set (dropWhile P xs)"
  by (induction xs) auto

lemma distinct_map_dropWhile: "distinct (map f xs) \<Longrightarrow> distinct (map f (dropWhile P xs))"
  by (induction xs) auto

lemma next_deadline_ok:
  assumes "timers_ok t" "next_deadline t = (r, t')"
  shows "timers_ok t' \<and> armed_map t' = armed_map t"
proof -
  have t': "armed t' = armed t" "next_key t' = next_key t"
      "heap t' = dropWhile (\<lambda>(_, k). \<not> hm_contains (armed t) k) (heap t)"
    using assms(2) by (auto simp: next_deadline_def next_deadline_loop_drops Let_def)
  have "(d, k) \<in> set (heap t')" if "(d, k) \<in> set (heap t)" "hm_contains (armed t) k" for d k
    using that dropWhile_keeps [of "(d, k)" "heap t"] unfolding t' by auto
  then have "timers_ok t' \<and> armed_map t' = (armed_map t) |` dom (map_of (armed t'))"
    using assms(1) t'
    by (intro timers_shrink)
      (auto simp: timers_ok_def sorted_dropWhile dest: set_dropWhileD
        intro: distinct_map_dropWhile)
  then show ?thesis
    using armed_map_restrict assms(1) t' by simp
qed

lemma next_deadline_value:
  assumes "timers_ok t"
  shows "fst (next_deadline t) = None \<longleftrightarrow> armed_map t = Map.empty"
    and "fst (next_deadline t) = Some d \<Longrightarrow>
      (\<exists>k x. armed_map t k = Some (d, x)) \<and> (\<forall>k d' x. armed_map t k = Some (d', x) \<longrightarrow> d \<le> d')"
proof -
  let ?P = "\<lambda>(_, k). \<not> hm_contains (armed t) k"
  have v: "fst (next_deadline t) = (case dropWhile ?P (heap t) of [] \<Rightarrow> None | (d, _) # _ \<Rightarrow> Some d)"
    by (simp add: next_deadline_def next_deadline_loop_drops Let_def)
  have d: "distinct (map snd (heap t))" "sorted (heap t)"
    using assms by (simp_all add: timers_ok_def)
  show "fst (next_deadline t) = None \<longleftrightarrow> armed_map t = Map.empty"
  proof -
    have "dropWhile ?P (heap t) = [] \<longleftrightarrow> (\<forall>(d, k) \<in> set (heap t). \<not> hm_contains (armed t) k)"
      by auto
    also have "\<dots> \<longleftrightarrow> armed_map t = Map.empty"
      using assms by (auto simp: fun_eq_iff armed_map_None) (force simp: timers_ok_def)
    finally show ?thesis
      unfolding v by (cases "dropWhile ?P (heap t)") (auto simp del: dropWhile_eq_Nil_conv)
  qed
  assume "fst (next_deadline t) = Some d"
  then obtain k h where h: "dropWhile ?P (heap t) = (d, k) # h"
    by (auto simp: v split: list.splits)
  then obtain us x where us: "heap t = us @ (d, k) # h" "\<forall>u \<in> set us. ?P u" "map_of (armed t) k = Some x"
    using dropWhile_split [OF h] by auto
  then have "armed_map t k = Some (d, x)"
    using d by (simp add: armed_map_Some)
  moreover have "d \<le> d'" if "armed_map t k' = Some (d', x')" for k' d' x'
    using that us d by (fastforce simp: armed_map_Some sorted_append)
  ultimately show "(\<exists>k x. armed_map t k = Some (d, x)) \<and>
      (\<forall>k d' x. armed_map t k = Some (d', x) \<longrightarrow> d \<le> d')"
    by blast
qed

lemma take_due_ok:
  assumes "timers_ok t" "take_due now t = (r, t')"
  shows "case r of
      None \<Rightarrow> timers_ok t' \<and> armed_map t' = armed_map t \<and>
        (\<forall>k d x. armed_map t k = Some (d, x) \<longrightarrow> now < d)
    | Some (k, x) \<Rightarrow> timers_ok t' \<and> armed_map t' = (armed_map t)(k := None) \<and>
        (\<exists>d. armed_map t k = Some (d, x) \<and> d \<le> now \<and>
          (\<forall>k' d' x'. armed_map t k' = Some (d', x') \<longrightarrow> (d, k) \<le> (d', k')))"
proof (cases "next_deadline t")
  case (Pair nd tn)
  let ?P = "\<lambda>(_, k). \<not> hm_contains (armed t) k"
  have tn: "tn = t\<lparr>heap := dropWhile ?P (heap t)\<rparr>" "timers_ok tn" "armed_map tn = armed_map t"
    using Pair next_deadline_ok [OF assms(1) Pair]
    by (auto simp: next_deadline_def next_deadline_loop_drops Let_def)
  have take: "take_due now t = (case heap tn of
     [] \<Rightarrow> (None, tn)
   | (d, k) # h' \<Rightarrow> if d > now then (None, tn)
       else (map_option (\<lambda>x. (k, x)) (map_of (armed tn) k),
             tn\<lparr>heap := h', armed := AList.delete k (armed tn)\<rparr>))"
    unfolding take_due_def take_due_loop_drops tn(1)
    by (cases "dropWhile ?P (heap t)") (auto simp del: dropWhile_eq_Nil_conv)
  have d: "distinct (map snd (heap tn))" "sorted (heap tn)"
    using tn(2) by (simp_all add: timers_ok_def)
  show ?thesis
  proof (cases "heap tn")
    case Nil
    then show ?thesis
      using take assms(2) tn(2) by (auto simp: armed_map_Some [OF d(1)] simp flip: tn(3))
  next
    case (Cons e h)
    obtain dl k where e: "e = (dl, k)"
      by (cases e)
    obtain x where x: "map_of (armed tn) k = Some x"
      using Cons e dropWhile_split [of ?P "heap t" e h] tn(1) by auto
    have least: "(dl, k) \<le> (d', k')" if "armed_map tn k' = Some (d', x')" for d' k' x'
      using that d(2) Cons e by (auto simp: armed_map_Some [OF d(1)])
    show ?thesis
    proof (cases "dl > now")
      case True
      then show ?thesis
        using take assms(2) tn Cons e least by (force simp flip: tn(3))
    next
      case False
      then have r: "r = Some (k, x)" "t' = tn\<lparr>heap := h, armed := AList.delete k (armed tn)\<rparr>"
        using take assms(2) Cons e x by auto
      have "timers_ok t' \<and> armed_map t' = (armed_map tn) |` dom (map_of (armed t'))"
        using tn(2) Cons e r(2)
        by (intro timers_shrink [OF tn(2)])
          (auto simp: timers_ok_def hm_ok_delete map_le_def split: if_splits)
      moreover have "armed_map tn k = Some (dl, x)"
        using x Cons e by (simp add: armed_map_Some [OF d(1)])
      ultimately show ?thesis
        using False r least disarm_map [OF tn(2), of k] by (force simp flip: tn(3))
    qed
  qed
qed

interpretation core_timers: timer_service timers_ok armed_map arm cancel next_deadline take_due
proof unfold_locales
  fix t t' :: "'b timers" and now d k x slot slot' r
  assume ok: "timers_ok t"
  show "finite (dom (armed_map t))"
    by (simp add: armed_map_dom [OF ok] finite_dom_map_of)
  show "fst (next_deadline t) = None \<longleftrightarrow> armed_map t = Map.empty"
    by (rule next_deadline_value(1) [OF ok])
  show "(\<exists>k x. armed_map t k = Some (d, x)) \<and> (\<forall>k d' x. armed_map t k = Some (d', x) \<longrightarrow> d \<le> d')"
    if "fst (next_deadline t) = Some d"
    by (rule next_deadline_value(2) [OF ok that])
  show "timers_ok t' \<and> armed_map t k = None \<and> armed_map t' = (armed_map t)(k \<mapsto> (d, x))"
    if "arm d x t = (k, t')"
    by (rule arm_ok [OF ok that])
  show "timers_ok t' \<and> slot' = None \<and>
      armed_map t' = (case slot of None \<Rightarrow> armed_map t | Some k \<Rightarrow> (armed_map t)(k := None))"
    if "cancel slot t = (slot', t')"
    by (rule cancel_ok [OF ok that])
  show "timers_ok t' \<and> armed_map t' = armed_map t" if "next_deadline t = (r, t')"
    by (rule next_deadline_ok [OF ok that])
  show "timers_ok t' \<and> armed_map t' = armed_map t \<and>
      (\<forall>k d x. armed_map t k = Some (d, x) \<longrightarrow> now < d)" if "take_due now t = (None, t')"
    using take_due_ok [OF ok that] by simp
  show "timers_ok t' \<and> armed_map t' = (armed_map t)(k := None) \<and>
      (\<exists>d. armed_map t k = Some (d, x) \<and> d \<le> now \<and>
        (\<forall>k' d' x'. armed_map t k' = Some (d', x') \<longrightarrow> (d, k) \<le> (d', k')))"
    if "take_due now t = (Some (k, x), t')"
    using take_due_ok [OF ok that] by simp
qed

section \<open>What the core gets\<close>

text \<open>C7: a timer fires at most once, never before its deadline, with the purpose it was armed for,
  and no timer whose deadline came is left behind when \<open>take_due\<close> says none is due.\<close>

theorem take_due_fires_once:
  assumes "timers_ok t" "take_due now t = (r, t')"
  shows "timers_ok t' \<and>
    (case r of
       None \<Rightarrow> armed_map t' = armed_map t \<and> (\<forall>k d due. armed_map t k = Some (d, due) \<longrightarrow> now < d)
     | Some (k, due) \<Rightarrow> (\<exists>d \<le> now. armed_map t k = Some (d, due)) \<and>
         armed_map t' = (armed_map t)(k := None) \<and>
         (\<forall>later due'. fst (take_due later t') \<noteq> Some (k, due')))"
proof (cases r)
  case None
  then show ?thesis
    using assms core_timers.take_none [OF assms(1), of now t'] by auto
next
  case (Some kx)
  obtain k x where kx: "kx = (k, x)"
    by (cases kx)
  show ?thesis
    using Some kx assms core_timers.take_some [OF assms(1), of now k x t']
      core_timers.fires_once [OF assms(1), of now k x t'] by auto
qed

theorem take_due_fires_once_witness:
  "take_due 3 (snd (arm 2 ''b'' (snd (arm 5 ''a'' new_timers)))) =
     (Some (2, ''b''), \<lparr>heap = [(5, 1)], armed = [(1, ''a'')], next_key = 2\<rparr>) \<and>
   fst (take_due 9 \<lparr>heap = [(5, 1)], armed = [(1, ''a'')], next_key = 2\<rparr>) \<noteq> Some (2, ''b'')"
proof -
  let ?t = "snd (arm 2 ''b'' (snd (arm 5 ''a'' new_timers)))"
  have ok: "timers_ok ?t"
    using arm_ok [OF timers_ok_new] arm_ok by (metis prod.collapse)
  have eq: "take_due 3 ?t = (Some (2, ''b''), \<lparr>heap = [(5, 1)], armed = [(1, ''a'')], next_key = 2\<rparr>)"
    by (simp add: arm_def new_timers_def take_due_def Let_def)
  show ?thesis
    using take_due_fires_once [OF ok eq] eq by simp
qed

text \<open>C19: timers come out in the order of their deadlines, those of one deadline in the order they
  were armed in, and the deadline \<open>next_deadline\<close> tells the driver to wait for is exactly when the
  next one comes out.\<close>

theorem timers_in_order:
  assumes "timers_ok t" "take_due now t = (Some (k, x), t')" "take_due now' t' = (Some (k', x'), t'')"
  shows "(\<exists>d d'. armed_map t k = Some (d, x) \<and> armed_map t k' = Some (d', x') \<and> (d, k) < (d', k')) \<and>
    (\<exists>d. fst (next_deadline t) = Some d \<and> (\<forall>now. fst (take_due now t) \<noteq> None \<longleftrightarrow> d \<le> now))"
proof -
  have "armed_map t \<noteq> Map.empty"
    using core_timers.take_some [OF assms(1,2)] by auto
  then obtain d where "fst (next_deadline t) = Some d"
    using core_timers.next_none [OF assms(1)] by blast
  then show ?thesis
    using core_timers.in_deadline_order [OF assms] core_timers.next_is_due [OF assms(1)] by blast
qed

theorem timers_in_order_witness:
  "\<exists>t t' t''. timers_ok t \<and> take_due 9 t = (Some (2, ''b''), t') \<and> take_due 9 t' = (Some (1, ''a''), t'') \<and>
     fst (next_deadline t) = Some 2 \<and> fst (take_due 1 t) = None"
proof -
  let ?t = "snd (arm 2 ''b'' (snd (arm 5 ''a'' new_timers)))"
  have ok: "timers_ok ?t"
    using arm_ok [OF timers_ok_new] arm_ok by (metis prod.collapse)
  have eq: "take_due 9 ?t = (Some (2, ''b''), snd (take_due 9 ?t))"
      "take_due 9 (snd (take_due 9 ?t)) = (Some (1, ''a''), snd (take_due 9 (snd (take_due 9 ?t))))"
      "fst (next_deadline ?t) = Some 2"
    by (simp_all add: arm_def new_timers_def take_due_def next_deadline_def Let_def)
  have "fst (take_due 1 ?t) = None"
    using timers_in_order [OF ok eq(1,2)] eq(3) by (metis not_one_le_zero numeral_2_eq_2 One_nat_def
        Suc_le_mono option.inject)
  then show ?thesis
    using ok eq by blast
qed

text \<open>C39: after a cancellation the heap holds at most twice as many entries as timers are armed,
  and the slack, however many were armed and cancelled before.\<close>

theorem cancel_bounds_heap:
  assumes "timers_ok t" "cancel (Some k) t = (slot, t')"
  shows "length (heap t') \<le> 2 * length (armed t') + CANCELLED_SLACK"
proof -
  have ok: "timers_ok t'"
    using cancel_ok [OF assms] by simp
  show ?thesis
  proof (cases "length (heap t) \<le> 2 * length (armed t') + CANCELLED_SLACK")
    case True
    moreover have "length (heap t') \<le> length (heap t)"
      using assms(2) by (auto simp: cancel_def Let_def split: if_splits)
    ultimately show ?thesis
      by linarith
  next
    case False
    then have keys: "\<forall>e \<in> set (heap t'). hm_contains (armed t') (snd e)"
      using assms(2) by (auto simp: cancel_def Let_def split: if_splits)
    have "length (heap t') = card (snd ` set (heap t'))"
      using ok by (metis distinct_card length_map set_map timers_ok_def)
    also have "\<dots> \<le> card (dom (map_of (armed t')))"
      using keys by (intro card_mono) (auto simp: finite_dom_map_of)
    also have "\<dots> = length (armed t')"
      using ok hm_length [of "armed t'"] by (simp add: timers_ok_def)
    finally show ?thesis
      by simp
  qed
qed

theorem cancel_bounds_heap_witness:
  "length (heap (snd (cancel (Some 1) (snd (arm 5 ''a'' new_timers))))) \<le> 64"
proof -
  let ?t = "snd (arm 5 ''a'' new_timers)"
  have ok: "timers_ok ?t"
    using arm_ok [OF timers_ok_new] by (metis prod.collapse)
  have "armed (snd (cancel (Some 1) ?t)) = []"
    by (simp add: cancel_def arm_def new_timers_def Let_def)
  then show ?thesis
    using cancel_bounds_heap [OF ok, of 1 "fst (cancel (Some 1) ?t)" "snd (cancel (Some 1) ?t)"]
    by (simp add: CANCELLED_SLACK_def)
qed

end
