(* ===== verification/Log_Summary.thy ===== *)
theory Log_Summary
  imports Defaults
begin

text \<open>
  Log lines about messages that went nowhere, at most about two per kind and second
  (\<open>log_summary.rs\<close>).  The logger is code outside the crate: whether it takes a level is the
  argument \<open>enabled\<close>, and what is logged is returned, a count's line as the count and the time it
  covers rather than their decimal text.
\<close>

section \<open>Levels and kinds\<close>

text \<open>\<open>log::Level\<close>: a more severe level is the lesser.\<close>

datatype level = Level_Error | Level_Warn | Level_Info | Level_Debug | Level_Trace

fun level_rank :: "level \<Rightarrow> nat" where
  "level_rank Level_Error = 1"
| "level_rank Level_Warn = 2"
| "level_rank Level_Info = 3"
| "level_rank Level_Debug = 4"
| "level_rank Level_Trace = 5"

instantiation level :: linorder
begin

definition less_eq_level :: "level \<Rightarrow> level \<Rightarrow> bool" where
  "less_eq_level a b \<longleftrightarrow> level_rank a \<le> level_rank b"

definition less_level :: "level \<Rightarrow> level \<Rightarrow> bool" where
  "less_level a b \<longleftrightarrow> level_rank a < level_rank b"

instance
proof
  fix a b :: level
  show "a \<le> b \<Longrightarrow> b \<le> a \<Longrightarrow> a = b"
    by (cases a; cases b) (simp_all add: less_eq_level_def)
qed (auto simp: less_eq_level_def less_level_def)

end

text \<open>\<open>Kind\<close>: the reason, the level, the message type and the peer, compared in that order.\<close>

type_synonym kind = "u32 \<times> level \<times> u32 \<times> u64"

abbreviation kind_level :: "kind \<Rightarrow> level" where
  "kind_level k \<equiv> fst (snd k)"

section \<open>The counts\<close>

definition INTERVAL :: duration where
  "INTERVAL = secs 1"

definition MAX_KINDS :: nat where
  "MAX_KINDS = 256"

record count =
  ctext :: string
  cmore :: nat
  since :: instant

record log_summary =
  counts :: "(kind, count) btree_map"
  other :: nat
  other_level :: "level option"
  other_since :: "instant option"

definition new_log_summary :: log_summary where
  "new_log_summary = \<lparr>counts = [], other = 0, other_level = None, other_since = None\<rparr>"

text \<open>A line logged: its level, the kind's text, how many more, what they are called, and the time
  they came in.\<close>

datatype said = Said level string nat string duration

definition first_line ::
  "(level \<Rightarrow> bool) \<Rightarrow> kind \<Rightarrow> string \<Rightarrow> instant \<Rightarrow> log_summary \<Rightarrow> bool option \<times> log_summary" where
  "first_line enabled kind make_text now s =
    (if \<not> enabled (kind_level kind) then (None, s)
     else (case map_of (counts s) kind of
       Some c \<Rightarrow> (Some False, s\<lparr>counts := bt_insert kind (c\<lparr>cmore := cmore c + 1\<rparr>) (counts s)\<rparr>)
     | None \<Rightarrow>
       if length (counts s) \<ge> MAX_KINDS then
         (let s = (if other s = 0 then s\<lparr>other_since := Some now\<rparr> else s);
              s = s\<lparr>other := other s + 1\<rparr>
          in (Some False, s\<lparr>other_level := Some (case other_level s of
                None \<Rightarrow> kind_level kind | Some l \<Rightarrow> min l (kind_level kind))\<rparr>))
       else (Some True,
         s\<lparr>counts := bt_insert kind \<lparr>ctext = make_text, cmore = 0, since = now\<rparr> (counts s)\<rparr>)))"

text \<open>The closure \<open>retain\<close> walks the counts with: each kept as it is left, or dropped.\<close>

fun say_counts :: "bool \<Rightarrow> instant \<Rightarrow> (kind, count) btree_map \<Rightarrow> said list \<times> (kind, count) btree_map" where
  "say_counts forget now [] = ([], [])"
| "say_counts forget now ((kind, c) # m) =
    (let (lines, m') = say_counts forget now m in
     if cmore c > 0 then
       (Said (kind_level kind) (ctext c) (cmore c) ''more'' (now - since c) # lines,
        (kind, c\<lparr>cmore := 0, since := now\<rparr>) # m')
     else (lines, if forget then (kind, c) # m' else m'))"

definition say :: "bool \<Rightarrow> instant \<Rightarrow> log_summary \<Rightarrow> said list \<times> bool \<times> log_summary" where
  "say forget now s =
    (let (lines, m) = say_counts forget now (counts s);
         s = s\<lparr>counts := m\<rparr>;
         (lines, s) =
           (if other s > 0 then
              (lines @ [Said (case other_level s of None \<Rightarrow> Level_Warn | Some l \<Rightarrow> l) [] (other s)
                  ''more lines of other kinds'' (now - (case other_since s of None \<Rightarrow> now | Some t \<Rightarrow> t))],
               s\<lparr>other := 0, other_level := None\<rparr>)
            else (lines, s));
         s = (if forget then s\<lparr>counts := []\<rparr> else s)
     in (lines, counts s \<noteq> [], s))"

section \<open>Every line is logged or counted\<close>

definition log_summary_ok :: "log_summary \<Rightarrow> bool" where
  "log_summary_ok s \<longleftrightarrow> bt_ok (counts s) \<and> length (counts s) \<le> MAX_KINDS"

text \<open>The lines counted and not said yet, and those a summary says.\<close>

definition pending_lines :: "log_summary \<Rightarrow> nat" where
  "pending_lines s = (\<Sum>c \<leftarrow> map snd (counts s). cmore c) + other s"

definition said_lines :: "said list \<Rightarrow> nat" where
  "said_lines lines = (\<Sum>l \<leftarrow> lines. case l of Said _ _ n _ _ \<Rightarrow> n)"

lemma log_summary_ok_new [mx_inv]: "log_summary_ok new_log_summary"
  by (simp add: log_summary_ok_def new_log_summary_def)

lemma sum_bt_insert:
  fixes f :: "'v \<Rightarrow> nat"
  assumes "bt_ok m"
  shows "(\<Sum>c \<leftarrow> map snd (bt_insert k v m). f c) + (case map_of m k of None \<Rightarrow> 0 | Some u \<Rightarrow> f u) =
    (\<Sum>c \<leftarrow> map snd m. f c) + f v"
  using assms
proof (induction k v m rule: bt_insert.induct)
  case (2 k v k' v' m)
  moreover have "k < k' \<Longrightarrow> map_of m k = None"
    using 2 by (auto simp: map_of_eq_None_iff)
  ultimately show ?case
    by auto
qed simp

lemma first_line_ok [mx_inv]:
  "log_summary_ok s \<Longrightarrow> log_summary_ok (snd (first_line enabled kind make_text now s))"
  by (auto simp: first_line_def log_summary_ok_def bt_ok_insert length_bt_insert Let_def split: option.split)

lemma first_line_counts:
  assumes "log_summary_ok s" "first_line enabled kind make_text now s = (r, s')"
  shows "pending_lines s' = pending_lines s + (if r = Some False then 1 else 0)"
proof -
  have "bt_ok (counts s)"
    using assms(1) by (simp add: log_summary_ok_def)
  note sum = sum_bt_insert [OF this, where f = cmore]
  show ?thesis
  proof (cases "map_of (counts s) kind")
    case None
    then show ?thesis
      using assms(2) sum [of kind "\<lparr>ctext = make_text, cmore = 0, since = now\<rparr>"]
      by (auto simp: first_line_def pending_lines_def Let_def split: if_splits)
  next
    case (Some c)
    then show ?thesis
      using assms(2) sum [of kind "c\<lparr>cmore := cmore c + 1\<rparr>"]
      by (auto simp: first_line_def pending_lines_def split: if_splits)
  qed
qed

lemma say_counts_sum:
  "say_counts forget now m = (lines, m') \<Longrightarrow>
    said_lines lines = (\<Sum>c \<leftarrow> map snd m. cmore c) \<and> (\<Sum>c \<leftarrow> map snd m'. cmore c) = 0"
  by (induction forget now m arbitrary: lines m' rule: say_counts.induct)
    (auto simp: said_lines_def Let_def split: prod.splits if_splits)

lemma say_counts_keys:
  "map fst (snd (say_counts forget now m)) = map fst (filter (\<lambda>x. cmore (snd x) > 0 \<or> forget) m)"
proof (induction m)
  case (Cons x m)
  then show ?case
    by (cases x; cases forget) (simp_all add: case_prod_unfold Let_def)
qed simp

lemma say_counts_bt_ok:
  assumes "say_counts forget now m = (lines, m')" "bt_ok m"
  shows "bt_ok m'" "length m' \<le> length m"
proof -
  have keys: "map fst m' = map fst (filter (\<lambda>x. cmore (snd x) > 0 \<or> forget) m)"
    using say_counts_keys [of forget now m] assms(1) by simp
  then show "bt_ok m'"
    using bt_ok_filter [OF assms(2), of "\<lambda>x. cmore (snd x) > 0 \<or> forget"] by simp
  show "length m' \<le> length m"
    using arg_cong [OF keys, of length] by simp
qed

lemma say_ok:
  assumes "log_summary_ok s" "say forget now s = (lines, more_left, s')"
  shows "log_summary_ok s' \<and> said_lines lines = pending_lines s \<and> pending_lines s' = 0
    \<and> more_left = (counts s' \<noteq> [])"
proof -
  obtain ls m where m: "say_counts forget now (counts s) = (ls, m)"
    by (cases "say_counts forget now (counts s)")
  have c: "counts s' = (if forget then [] else m)" "other s' = 0" "more_left = (counts s' \<noteq> [])"
    using assms(2) by (auto simp: say_def m Let_def simp del: not_None_eq split: if_splits)
  have l: "said_lines lines = said_lines ls + other s"
    using assms(2) by (auto simp: say_def m Let_def said_lines_def simp del: not_None_eq split: if_splits)
  show ?thesis
    using assms(1) say_counts_sum [OF m] say_counts_bt_ok [OF m] c l
    unfolding log_summary_ok_def pending_lines_def by (cases forget) simp_all
qed

text \<open>Any sequence of lines and summaries: the lines that came with an enabled level, those logged at
  once, and what the summaries said.\<close>

datatype log_op = First kind string instant | Say bool instant

fun run_log :: "(level \<Rightarrow> bool) \<Rightarrow> log_op list \<Rightarrow> log_summary \<Rightarrow> nat \<times> nat \<times> nat \<times> log_summary" where
  "run_log enabled [] s = (0, 0, 0, s)"
| "run_log enabled (First kind make_text now # ops) s =
    (let (r, s) = first_line enabled kind make_text now s; (came, at_once, told, s) = run_log enabled ops s
     in (came + (if r = None then 0 else 1), at_once + (if r = Some True then 1 else 0), told, s))"
| "run_log enabled (Say forget now # ops) s =
    (let (lines, _, s) = say forget now s; (came, at_once, told, s) = run_log enabled ops s
     in (came, at_once, told + said_lines lines, s))"

text \<open>C22: no line is lost or counted twice.  Whatever lines come and whenever the summaries run, the
  lines of enabled levels are those logged at once, those the summaries told and those still counted;
  and at most \<open>MAX_KINDS\<close> kinds are kept.\<close>

theorem log_lines_accounted:
  assumes "run_log enabled ops new_log_summary = (came, at_once, told, s)"
  shows "came = at_once + told + pending_lines s \<and> length (counts s) \<le> MAX_KINDS"
proof -
  have "log_summary_ok s \<and> came + pending_lines s0 = at_once + told + pending_lines s"
    if "log_summary_ok s0" "run_log enabled ops s0 = (came, at_once, told, s)" for s0
    using that
  proof (induction enabled ops s0 arbitrary: came at_once told rule: run_log.induct)
    case (2 enabled kind make_text now ops s0)
    obtain r s1 where r: "first_line enabled kind make_text now s0 = (r, s1)"
      by (cases "first_line enabled kind make_text now s0")
    show ?case
      using 2 r first_line_counts [OF 2(2) r] first_line_ok [OF 2(2), of enabled kind make_text now]
      by (auto simp: Let_def split: prod.splits if_splits)
  next
    case (3 enabled forget now ops s0)
    obtain lines b s1 where r: "say forget now s0 = (lines, b, s1)"
      by (cases "say forget now s0")
    show ?case
      using 3 r say_ok [OF 3(2) r] by (auto simp: Let_def split: prod.splits)
  qed simp
  from this [OF log_summary_ok_new assms] show ?thesis
    by (simp add: log_summary_ok_def pending_lines_def new_log_summary_def)
qed

theorem log_lines_accounted_witness:
  "case run_log (\<lambda>_. True) [First (1, Level_Warn, 0, 0) ''one'' 0, First (1, Level_Warn, 0, 0) ''one'' 0,
      Say False 1, First (1, Level_Warn, 0, 0) ''one'' 0] new_log_summary of
    (came, at_once, told, s) \<Rightarrow> came = 3 \<and> at_once = 1 \<and> told = 1 \<and> pending_lines s = 1"
proof -
  let ?ops = "[First (1, Level_Warn, 0, 0) ''one'' 0, First (1, Level_Warn, 0, 0) ''one'' 0,
      Say False 1, First (1, Level_Warn, 0, 0) ''one'' 0]"
  obtain came at_once told s where run: "run_log (\<lambda>_. True) ?ops new_log_summary = (came, at_once, told, s)"
    by (metis prod_cases4)
  have "(case run_log (\<lambda>_. True) ?ops new_log_summary of (a, b, c, s) \<Rightarrow> (a, b, c)) = (3, 1, 1)"
    by code_simp
  then show ?thesis
    using log_lines_accounted [OF run] run by simp
qed

end
