(* ===== verification/Confirm_Flags.thy ===== *)
theory Confirm_Flags
  imports Prelude
begin

text \<open>
  The flags of a batch waiting for its confirmation (\<open>core/confirming/mod.rs\<close>, \<open>Flags\<close>), 64 to a
  word: a whole range of them is set a word at a time, which is shown to be setting them one by one.
  An index past the words panics, \<open>None\<close> here.
\<close>

unbundle bit_operations_syntax

section \<open>Definitions\<close>

record flags =
  words :: "u64 list"

definition new_flags :: "nat \<Rightarrow> flags" where
  "new_flags cnt = \<lparr>words = replicate ((cnt + 63) div 64) 0\<rparr>"

definition set_flag :: "nat \<Rightarrow> flags \<Rightarrow> flags option" where
  "set_flag index f =
    (if index div 64 < length (words f) then
       Some (f\<lparr>words := (words f)[index div 64 := words f ! (index div 64) OR push_bit (index mod 64) 1]\<rparr>)
     else None)"

definition flag_at :: "flags \<Rightarrow> nat \<Rightarrow> bool option" where
  "flag_at f index =
    (if index div 64 < length (words f) then
       Some (drop_bit (index mod 64) (words f ! (index div 64)) AND 1 = 1)
     else None)"

text \<open>\<open>u64::count_ones\<close>.\<close>

definition count_ones :: "u64 \<Rightarrow> nat" where
  "count_ones w = length (filter (bit w) [0..<64])"

definition range_mask :: "nat \<Rightarrow> nat \<Rightarrow> u64" where
  "range_mask b span = (if span = 64 then - 1 else push_bit b (push_bit span 1 - 1))"

function set_range :: "nat \<Rightarrow> nat \<Rightarrow> nat \<Rightarrow> flags \<Rightarrow> (nat \<times> flags) option" where
  "set_range lo hi newly f =
    (if lo < hi then
       let b = lo mod 64;
           span = min (64 - b) (hi - lo);
           mask = range_mask b span
       in if lo div 64 < length (words f) then
            let word = words f ! (lo div 64)
            in set_range (lo + span) hi (newly + count_ones (mask AND NOT word))
                 (f\<lparr>words := (words f)[lo div 64 := word OR mask]\<rparr>)
          else None
     else Some (newly, f))"
  by pat_completeness auto

termination
proof (relation "measure (\<lambda>(b, e, _). e - b)", simp, unfold in_measure prod.case)
  fix lo hi newly :: nat and f b span mask word
  assume "lo < hi" "b = lo mod 64" "span = min (64 - b) (hi - lo)"
  moreover have "lo mod 64 < 64"
    by simp
  ultimately show "hi - (lo + span) < hi - lo"
    by linarith
qed

declare set_range.simps [simp del]

section \<open>A range at once is each of its flags\<close>

definition flag_set :: "flags \<Rightarrow> nat set" where
  "flag_set f = {i. i div 64 < length (words f) \<and> bit (words f ! (i div 64)) (i mod 64)}"

lemma flag_at_iff: "i div 64 < length (words f) \<Longrightarrow> flag_at f i = Some (i \<in> flag_set f)"
  by (simp add: flag_at_def flag_set_def bit_iff_odd_drop_bit and_one_eq odd_iff_mod_2_eq_one)

lemma flag_set_new [simp]: "flag_set (new_flags cnt) = {}"
  by (auto simp: flag_set_def new_flags_def)

lemma bit_range_mask:
  assumes "b + span \<le> 64" "j < 64"
  shows "bit (range_mask b span) j \<longleftrightarrow> b \<le> j \<and> j < b + span"
proof (cases "span = 64")
  case False
  have "push_bit span 1 - 1 = (mask span :: u64)"
    by (simp add: mask_eq_exp_minus_1 push_bit_eq_mult)
  then show ?thesis
    using assms False by (auto simp: range_mask_def bit_simps)
qed (use assms in \<open>simp add: range_mask_def\<close>)

lemma word_of_index:
  fixes i k :: nat
  shows "i div 64 = k \<longleftrightarrow> 64 * k \<le> i \<and> i < 64 * k + 64"
  by (auto simp: div_nat_eqI)

lemma set_flag_set:
  assumes "i div 64 < length (words f)"
  shows "\<exists>f'. set_flag i f = Some f' \<and> length (words f') = length (words f)
    \<and> flag_set f' = insert i (flag_set f)"
proof -
  have same: "j = i" if "j div 64 = i div 64" "j mod 64 = i mod 64" for j
    using that by (metis div_mult_mod_eq)
  show ?thesis
    using assms same by (auto simp: set_flag_def flag_set_def nth_list_update bit_simps)
qed

text \<open>One turn of the loop, within one word.\<close>

lemma in_range_mask:
  assumes "b + span \<le> 64"
  shows "i \<in> {64 * k + b ..< 64 * k + b + span} \<longleftrightarrow> i div 64 = k \<and> bit (range_mask b span) (i mod 64)"
proof (cases "i div 64 = k")
  case True
  define j where "j = i mod 64"
  have "i = 64 * k + j" "j < 64"
    using mult_div_mod_eq [of 64 i] unfolding True j_def by simp_all
  then show ?thesis
    using bit_range_mask [OF assms, of j] True unfolding j_def [symmetric] by simp
next
  case False
  then show ?thesis
    using assms unfolding word_of_index by auto
qed

lemma flag_set_or_mask:
  assumes "k < length (words f)" "b + span \<le> 64"
  shows "flag_set (f\<lparr>words := (words f)[k := words f ! k OR range_mask b span]\<rparr>) =
    flag_set f \<union> {64 * k + b ..< 64 * k + b + span}"
  unfolding set_eq_iff Un_iff in_range_mask [OF assms(2)] flag_set_def
  using assms(1) by (simp add: nth_list_update bit_or_iff)

lemma count_ones_newly:
  assumes "k < length (words f)" "b + span \<le> 64"
  shows "count_ones (range_mask b span AND NOT (words f ! k)) =
    card ({64 * k + b ..< 64 * k + b + span} - flag_set f)"
proof -
  let ?S = "{j. b \<le> j \<and> j < b + span \<and> \<not> bit (words f ! k) j}"
  have "count_ones (range_mask b span AND NOT (words f ! k)) =
      card {j. j < 64 \<and> bit (range_mask b span AND NOT (words f ! k)) j}"
    unfolding count_ones_def
    by (subst distinct_card [symmetric]) (auto intro: arg_cong [where f = card])
  also have "{j. j < 64 \<and> bit (range_mask b span AND NOT (words f ! k)) j} = ?S"
    using assms(2) bit_range_mask [OF assms(2)] by (auto simp: bit_simps)
  also have "card ?S = card ((\<lambda>j. 64 * k + j) ` ?S)"
    by (simp add: card_image inj_on_def)
  also have "(\<lambda>j. 64 * k + j) ` ?S = {64 * k + b ..< 64 * k + b + span} - flag_set f"
  proof -
    have "i \<in> (\<lambda>j. 64 * k + j) ` ?S"
      if "64 * k + b \<le> i" "i < 64 * k + b + span" "i \<notin> flag_set f" for i
    proof -
      define j where "j = i - 64 * k"
      have "i = 64 * k + j" "j < 64" "b \<le> j" "j < b + span"
        using that(1,2) assms(2) by (simp_all add: j_def)
      then show ?thesis
        using that(3) assms(1) by (auto simp: flag_set_def)
    qed
    moreover have "64 * k + j \<notin> flag_set f" if "j \<in> ?S" for j
      using that assms by (auto simp: flag_set_def word_of_index)
    ultimately show ?thesis
      by auto
  qed
  finally show ?thesis .
qed

lemma set_range_turn:
  assumes "lo < hi" "hi \<le> 64 * length (words f)"
  defines "span \<equiv> min (64 - lo mod 64) (hi - lo)"
  shows "\<exists>f'. set_range lo hi newly f =
      set_range (lo + span) hi (newly + card ({lo ..< lo + span} - flag_set f)) f'
    \<and> length (words f') = length (words f) \<and> flag_set f' = flag_set f \<union> {lo ..< lo + span}"
proof -
  define k where "k = lo div 64"
  define b where "b = lo mod 64"
  have lo: "64 * k + b = lo" and b: "b < 64"
    by (simp_all add: k_def b_def)
  have k: "k < length (words f)"
    using assms(1,2) lo by linarith
  have span: "b + span \<le> 64"
    using b unfolding span_def b_def [symmetric] by linarith
  let ?f = "f\<lparr>words := (words f)[k := words f ! k OR range_mask b span]\<rparr>"
  have "set_range lo hi newly f =
      set_range (lo + span) hi (newly + count_ones (range_mask b span AND NOT (words f ! k))) ?f"
    using assms(1) k by (subst set_range.simps) (simp only: span_def k_def b_def Let_def if_True)
  moreover have "flag_set ?f = flag_set f \<union> {lo ..< lo + span}"
    using flag_set_or_mask [OF k span] unfolding lo .
  ultimately show ?thesis
    using count_ones_newly [OF k span, unfolded lo] by (intro exI [of _ ?f]) simp
qed

lemma set_range_correct:
  assumes "hi \<le> 64 * length (words f)"
  shows "\<exists>f'. set_range lo hi newly f = Some (newly + card ({lo ..< hi} - flag_set f), f')
    \<and> length (words f') = length (words f) \<and> flag_set f' = flag_set f \<union> {lo ..< hi}"
  using assms
proof (induction "hi - lo" arbitrary: lo newly f rule: less_induct)
  case less
  show ?case
  proof (cases "lo < hi")
    case True
    define span where "span = min (64 - lo mod 64) (hi - lo)"
    have span: "0 < span" "lo + span \<le> hi"
      using True by (auto simp: span_def)
    obtain f1 where f1: "set_range lo hi newly f =
        set_range (lo + span) hi (newly + card ({lo ..< lo + span} - flag_set f)) f1"
      "length (words f1) = length (words f)" "flag_set f1 = flag_set f \<union> {lo ..< lo + span}"
      using set_range_turn [OF True less(2), of newly] unfolding span_def by auto
    obtain f2 where f2: "set_range (lo + span) hi (newly + card ({lo ..< lo + span} - flag_set f)) f1 =
        Some (newly + card ({lo ..< lo + span} - flag_set f) + card ({lo + span ..< hi} - flag_set f1), f2)"
      "length (words f2) = length (words f1)" "flag_set f2 = flag_set f1 \<union> {lo + span ..< hi}"
      using less(1) [of "lo + span" f1 "newly + card ({lo ..< lo + span} - flag_set f)"] less(2) span f1(2)
      by (metis diff_less_mono2 True less_add_same_cancel1)
    have both: "{lo ..< hi} = {lo ..< lo + span} \<union> {lo + span ..< hi}"
      using span by (simp add: ivl_disj_un_two(3))
    have "{lo ..< hi} - flag_set f = ({lo ..< lo + span} - flag_set f) \<union> ({lo + span ..< hi} - flag_set f1)"
      unfolding both f1(3) by auto
    then have "card ({lo ..< hi} - flag_set f) =
        card ({lo ..< lo + span} - flag_set f) + card ({lo + span ..< hi} - flag_set f1)"
      by (simp add: card_Un_disjoint disjoint_iff)
    then show ?thesis
      using f1 f2 unfolding both by (simp add: Un_assoc)
  qed (simp add: set_range.simps)
qed

lemma fold_set_flag:
  assumes "\<forall>i \<in> set is. i div 64 < length (words f)"
  shows "\<exists>f'. fold_opt set_flag is f = Some f' \<and> length (words f') = length (words f)
    \<and> flag_set f' = flag_set f \<union> set is"
  using assms
proof (induction "is" arbitrary: f)
  case (Cons i "is")
  obtain f1 where f1: "set_flag i f = Some f1" "length (words f1) = length (words f)"
    "flag_set f1 = insert i (flag_set f)"
    using set_flag_set [of i f] Cons(2) by auto
  then show ?case
    using Cons(1) [of f1] Cons(2) by auto
qed simp

lemma flags_eqI: "length (words f) = length (words g) \<Longrightarrow> flag_set f = flag_set g \<Longrightarrow> f = (g :: flags)"
proof -
  assume len: "length (words f) = length (words g)" and eq: "flag_set f = flag_set g"
  have "words f ! k = words g ! k" if "k < length (words f)" for k
  proof (rule bit_word_eqI)
    fix j
    assume j: "j < LENGTH(64)"
    then have "(64 * k + j) div 64 = k" "(64 * k + j) mod 64 = j"
      by auto
    then show "bit (words f ! k) j = bit (words g ! k) j"
      using eq that len by (auto simp: flag_set_def set_eq_iff dest: spec [of _ "64 * k + j"])
  qed
  then show ?thesis
    using len by (simp add: list_eq_iff_nth_eq)
qed

text \<open>C21: marking a run of a confirmation a word of flags at a time is marking its messages one by one:
  the same flags, and the count returned is of those not marked before.\<close>

theorem set_range_each:
  assumes "hi \<le> 64 * length (words f)"
  shows "\<exists>f'. set_range lo hi 0 f = Some (card {i \<in> {lo ..< hi}. flag_at f i = Some False}, f')
    \<and> fold_opt set_flag [lo ..< hi] f = Some f'"
proof -
  obtain f1 where f1: "set_range lo hi 0 f = Some (card ({lo ..< hi} - flag_set f), f1)"
    "length (words f1) = length (words f)" "flag_set f1 = flag_set f \<union> {lo ..< hi}"
    using set_range_correct [OF assms, of lo 0] by auto
  have inside: "i div 64 < length (words f)" if "i \<in> {lo ..< hi}" for i
    using that assms by (auto intro!: less_mult_imp_div_less simp: mult.commute)
  obtain f2 where f2: "fold_opt set_flag [lo ..< hi] f = Some f2"
    "length (words f2) = length (words f)" "flag_set f2 = flag_set f \<union> {lo ..< hi}"
    using fold_set_flag [of "[lo ..< hi]" f] inside by auto
  have "{i \<in> {lo ..< hi}. flag_at f i = Some False} = {lo ..< hi} - flag_set f"
    using inside flag_at_iff [of _ f] by auto
  then show ?thesis
    using f1 f2 flags_eqI [of f1 f2] by simp
qed

theorem set_range_each_witness:
  "\<exists>f'. set_range 60 70 0 (new_flags 100) =
      Some (card {i \<in> {60 ..< 70}. flag_at (new_flags 100) i = Some False}, f')
    \<and> fold_opt set_flag [60 ..< 70] (new_flags 100) = Some f'"
  by (rule set_range_each) (simp add: new_flags_def)

end
