(* ===== verification/Span_Set.thy ===== *)
theory Span_Set
  imports Prelude
begin

text \<open>
  The bounded set of recently seen ids (\<open>spanset.rs\<close>) the client drops the copies of a message
  with.  The state is the span, the hash set and the deque of the order the values came in; the
  specification is the list of the last values taken as new.
\<close>

section \<open>The code\<close>

record span_set =
  span :: nat
  members :: "u64 set"
  order :: "u64 list"

definition new_span_set :: "nat \<Rightarrow> span_set" where
  "new_span_set n = \<lparr>span = n, members = {}, order = []\<rparr>"

definition insert_value :: "u64 \<Rightarrow> span_set \<Rightarrow> bool \<times> span_set" where
  "insert_value value s =
    (if value \<in> members s then (False, s)
     else let
       s = s\<lparr>members := insert value (members s)\<rparr>;
       s = (if length (order s) = span s
            then (case order s of
                    [] \<Rightarrow> s
                  | oldest # rest \<Rightarrow> s\<lparr>order := rest, members := members s - {oldest}\<rparr>)
            else s)
     in (True, s\<lparr>order := order s @ [value]\<rparr>))"

definition forget_last :: "span_set \<Rightarrow> span_set" where
  "forget_last s = (if order s = [] then s
     else s\<lparr>order := butlast (order s), members := members s - {last (order s)}\<rparr>)"

text \<open>What a sequence of inserts answers, in order, and the set it leaves.\<close>

fun inserts :: "u64 list \<Rightarrow> span_set \<Rightarrow> bool list \<times> span_set" where
  "inserts [] s = ([], s)"
| "inserts (v # vs) s = (let (b, s') = insert_value v s; (bs, s'') = inserts vs s' in (b # bs, s''))"

section \<open>The specification\<close>

text \<open>The values taken as new, the first first; a value is new when it is not one of the last
  \<open>n\<close> taken.\<close>

definition recent :: "nat \<Rightarrow> u64 list \<Rightarrow> u64 list" where
  "recent n taken = drop (length taken - n) taken"

fun taken_as_new :: "nat \<Rightarrow> u64 list \<Rightarrow> u64 list \<Rightarrow> bool list \<times> u64 list" where
  "taken_as_new n taken [] = ([], taken)"
| "taken_as_new n taken (v # vs) =
    (if v \<in> set (recent n taken)
     then (let (bs, t) = taken_as_new n taken vs in (False # bs, t))
     else (let (bs, t) = taken_as_new n (taken @ [v]) vs in (True # bs, t)))"

definition span_set_ok :: "span_set \<Rightarrow> bool" where
  "span_set_ok s \<longleftrightarrow> 0 < span s \<and> members s = set (order s) \<and> distinct (order s)
     \<and> length (order s) \<le> span s"

section \<open>Correctness\<close>

lemma span_set_ok_new [mx_inv]: "0 < n \<Longrightarrow> span_set_ok (new_span_set n)"
  by (simp add: span_set_ok_def new_span_set_def)

lemma span_set_ok_insert [mx_inv]: "span_set_ok s \<Longrightarrow> span_set_ok (snd (insert_value v s))"
  by (cases "order s") (auto simp: span_set_ok_def insert_value_def Let_def)

lemma span_set_ok_forget [mx_inv]: "span_set_ok s \<Longrightarrow> span_set_ok (forget_last s)"
  by (cases "order s" rule: rev_cases) (auto simp: span_set_ok_def forget_last_def)

lemma order_forget_last: "order (forget_last s) = butlast (order s)"
  by (simp add: forget_last_def)

lemma span_insert [mx_simps]: "span (snd (insert_value v s)) = span s"
  by (auto simp: insert_value_def Let_def split: list.split)

lemma insert_value_new:
  "span_set_ok s \<Longrightarrow> fst (insert_value v s) \<longleftrightarrow> v \<notin> set (order s)"
  by (auto simp: span_set_ok_def insert_value_def Let_def)

lemma recent_snoc:
  "0 < n \<Longrightarrow> recent n (taken @ [v]) =
     (if length (recent n taken) = n then tl (recent n taken) else recent n taken) @ [v]"
  by (auto simp: recent_def Suc_diff_le drop_Suc tl_drop)

lemma order_insert:
  assumes "span_set_ok s" "order s = recent (span s) taken"
  shows "order (snd (insert_value v s)) =
    recent (span s) (if v \<in> set (order s) then taken else taken @ [v])"
  using assms
  by (auto simp: span_set_ok_def insert_value_def Let_def recent_snoc split: list.split)

text \<open>C23: on any sequence of values, a fresh set of span \<open>n\<close> answers for each exactly whether it
  is absent from the last \<open>n\<close> values it answered true for, keeps its invariant, and remembers
  exactly those.\<close>

theorem inserts_refine:
  assumes "0 < n"
  shows "let (bs, s) = inserts vs (new_span_set n); (bs', taken) = taken_as_new n [] vs in
    bs = bs' \<and> order s = recent n taken \<and> span_set_ok s"
proof -
  have "let (bs, s') = inserts vs s; (bs', taken') = taken_as_new (span s) taken vs in
      bs = bs' \<and> order s' = recent (span s) taken' \<and> span_set_ok s'"
    if "span_set_ok s" "order s = recent (span s) taken" for s taken
    using that
  proof (induction vs arbitrary: s taken)
    case (Cons v vs)
    let ?s = "snd (insert_value v s)"
    let ?taken = "if v \<in> set (order s) then taken else taken @ [v]"
    have "let (bs, s') = inserts vs ?s; (bs', taken') = taken_as_new (span s) ?taken vs in
        bs = bs' \<and> order s' = recent (span s) taken' \<and> span_set_ok s'"
      using Cons.IH [of ?s ?taken] Cons.prems span_set_ok_insert order_insert
      by (simp add: span_insert)
    then show ?case
      using insert_value_new [OF Cons.prems(1), of v] Cons.prems(2)
      by (auto simp: Let_def split: prod.splits if_splits)
  qed simp
  from this [of "new_span_set n" "[]"] show ?thesis
    using assms span_set_ok_new by (simp add: new_span_set_def recent_def)
qed

theorem inserts_refine_witness:
  "fst (inserts [1, 2, 3, 1, 3, 4, 1] (new_span_set 3)) = [True, True, True, False, False, True, True] \<and>
   order (snd (inserts [1, 2, 3, 1, 3, 4, 1] (new_span_set 3))) = [3, 4, 1]"
  using inserts_refine [of 3 "[1, 2, 3, 1, 3, 4, 1]"]
  by (simp add: Let_def recent_def split: prod.splits)

text \<open>a value just taken as new is new again after \<open>forget_last\<close>, and when the set was not
  full the insert and the forgetting leave the set as it was.\<close>

theorem forget_last_undoes:
  assumes "span_set_ok s" "v \<notin> members s"
  shows "fst (insert_value v (forget_last (snd (insert_value v s))))
    \<and> (length (order s) < span s \<longrightarrow> forget_last (snd (insert_value v s)) = s)"
proof -
  let ?s = "snd (insert_value v s)"
  have "order ?s = butlast (order ?s) @ [v]" "distinct (order ?s)"
    using assms span_set_ok_insert [OF assms(1), of v]
    by (auto simp: insert_value_def span_set_ok_def Let_def split: list.split)
  then have "v \<notin> set (butlast (order ?s))"
    by (metis distinct_append disjoint_insert(1) list.set(2))
  then have "v \<notin> set (order (forget_last ?s))"
    by (simp add: order_forget_last)
  then have "fst (insert_value v (forget_last ?s))"
    using insert_value_new span_set_ok_forget [OF span_set_ok_insert [OF assms(1)]] by blast
  moreover have "length (order s) < span s \<longrightarrow> forget_last ?s = s"
    using assms by (auto simp: insert_value_def forget_last_def)
  ultimately show ?thesis
    by blast
qed

end
