(* ===== verification/Wire.thy ===== *)
theory Wire
  imports Prelude Defaults
begin

text \<open>
  The messages of the wire: the protocol's, as \<open>proto/multiplexer.rs\<close> declares them, and the program's own
  types for them with the conversions both ways (\<open>message.rs\<close>).  An enumeration of the protocol is its
  \<open>i32\<close>.  A confirmed send's number, a \<open>u64\<close> on the wire, is a \<open>nat\<close>.
\<close>

section \<open>The protocol's messages\<close>

record routing_rule =
  rr_peer :: "string option"
  rr_peer_type :: "u32 option"
  rr_whom :: "int option"
  rr_delivery_error_is_error :: "bool option"
  rr_report_delivery_error :: "bool option"
  rr_include_original_packet_in_report :: "bool option"

record message =
  m_id :: "u64 option"
  m_sender :: "u64 option"
  m_to :: "u64 option"
  m_report_delivery_error :: "bool option"
  m_include_original_packet_in_report :: "bool option"
  m_type :: u32
  m_message :: "bytes option"
  m_compression :: "int option"
  m_timestamp :: "u32 option"
  m_references :: "u64 option"
  m_workflow :: "string option"
  m_override_rrules :: "routing_rule list"
  m_logging_method :: "int option"
  m_key :: "string option"
  m_batch :: "bytes option"
  m_confirm :: "nat list"
  m_confirmation :: "nat option"

definition default_message :: message where
  "default_message = \<lparr>m_id = None, m_sender = None, m_to = None, m_report_delivery_error = None,
     m_include_original_packet_in_report = None, m_type = 0, m_message = None, m_compression = None,
     m_timestamp = None, m_references = None, m_workflow = None, m_override_rrules = [],
     m_logging_method = None, m_key = None, m_batch = None, m_confirm = [], m_confirmation = None\<rparr>"

text \<open>\<open>Option::unwrap_or(0)\<close>, which every field of an id goes through.\<close>

definition or_zero :: "u64 option \<Rightarrow> u64" where
  "or_zero x = (case x of None \<Rightarrow> 0 | Some x \<Rightarrow> x)"

lemma or_zero_simps [simp]: "or_zero None = 0" "or_zero (Some x) = x"
  by (simp_all add: or_zero_def)

record confirmation =
  cf_processed :: "nat list"
  cf_refused :: "nat list"
  cf_failed :: "nat list"

record key_filter =
  kf_type :: u32
  kf_pattern :: "string list"

record routing =
  ro_any :: "bool option"
  ro_all :: "bool option"
  ro_last_resort :: "bool option"

definition default_routing :: routing where
  "default_routing = \<lparr>ro_any = None, ro_all = None, ro_last_resort = None\<rparr>"

record welcome_message =
  we_type :: u32
  we_id :: u64
  we_routing :: "routing option"
  we_key_filter :: "key_filter list"

record peer_control =
  pc_routing :: routing
  pc_key_filter :: "key_filter list"

record peer_status =
  pt_multiplexer_id :: "u64 option"
  pt_routing :: "routing option"
  pt_error :: "string option"
  pt_key_filter :: "key_filter list"

record delivery_error =
  de_packet_id :: u64
  de_failed_type :: "u32 list"
  de_failed_to :: "u64 option"
  de_is_known_type :: "bool option"
  de_original_message :: "message option"
  de_original_message_omitted :: "bool option"

definition default_delivery_error :: delivery_error where
  "default_delivery_error = \<lparr>de_packet_id = 0, de_failed_type = [], de_failed_to = None,
     de_is_known_type = None, de_original_message = None, de_original_message_omitted = None\<rparr>"

section \<open>The program's messages\<close>

datatype whom = WhomAll | WhomAny

record public_rule =
  pr_peer :: "string option"
  pr_peer_type :: "u32 option"
  pr_whom :: "whom option"
  pr_delivery_error_is_error :: "bool option"
  pr_report_delivery_error :: "bool option"
  pr_include_original_packet_in_report :: "bool option"

record public_message =
  p_id :: u64
  p_sender :: u64
  p_to :: "u64 option"
  p_report_delivery_error :: "bool option"
  p_include_original_packet_in_report :: "bool option"
  p_type :: u32
  p_payload :: bytes
  p_compression :: "int option"
  p_timestamp :: "u32 option"
  p_references :: u64
  p_workflow :: "string option"
  p_override_rrules :: "public_rule list"
  p_logging_method :: "int option"
  p_key :: "string option"
  p_confirmation :: "nat option"

record public_routing =
  pu_any :: bool
  pu_all :: bool
  pu_last_resort :: bool

record public_delivery_error =
  pd_packet_id :: u64
  pd_failed_type :: "u32 list"
  pd_failed_to :: "u64 option"
  pd_is_known_type :: "bool option"
  pd_original_message :: "public_message option"
  pd_original_message_omitted :: "bool option"

section \<open>Conversions\<close>

definition nonzero :: "u64 \<Rightarrow> u64 option" where
  "nonzero value = (if value \<noteq> 0 then Some value else None)"

definition public_of_rule :: "routing_rule \<Rightarrow> public_rule" where
  "public_of_rule r = \<lparr>pr_peer = rr_peer r, pr_peer_type = rr_peer_type r,
     pr_whom = (case rr_whom r of None \<Rightarrow> None
       | Some w \<Rightarrow> if w = 1 then Some WhomAll else if w = 2 then Some WhomAny else None),
     pr_delivery_error_is_error = rr_delivery_error_is_error r,
     pr_report_delivery_error = rr_report_delivery_error r,
     pr_include_original_packet_in_report = rr_include_original_packet_in_report r\<rparr>"

definition rule_of_public :: "public_rule \<Rightarrow> routing_rule" where
  "rule_of_public r = \<lparr>rr_peer = pr_peer r, rr_peer_type = pr_peer_type r,
     rr_whom = map_option (\<lambda>w. case w of WhomAll \<Rightarrow> 1 | WhomAny \<Rightarrow> 2) (pr_whom r),
     rr_delivery_error_is_error = pr_delivery_error_is_error r,
     rr_report_delivery_error = pr_report_delivery_error r,
     rr_include_original_packet_in_report = pr_include_original_packet_in_report r\<rparr>"

definition public_of_message :: "message \<Rightarrow> public_message" where
  "public_of_message m = \<lparr>p_id = or_zero (m_id m), p_sender = or_zero (m_sender m), p_to = m_to m,
     p_report_delivery_error = m_report_delivery_error m,
     p_include_original_packet_in_report = m_include_original_packet_in_report m, p_type = m_type m,
     p_payload = (case m_message m of None \<Rightarrow> [] | Some bs \<Rightarrow> bs), p_compression = m_compression m,
     p_timestamp = m_timestamp m, p_references = or_zero (m_references m), p_workflow = m_workflow m,
     p_override_rrules = map public_of_rule (m_override_rrules m), p_logging_method = m_logging_method m,
     p_key = m_key m, p_confirmation = m_confirmation m\<rparr>"

definition message_of_public :: "public_message \<Rightarrow> message" where
  "message_of_public p = \<lparr>m_id = nonzero (p_id p), m_sender = nonzero (p_sender p), m_to = p_to p,
     m_report_delivery_error = p_report_delivery_error p,
     m_include_original_packet_in_report = p_include_original_packet_in_report p, m_type = p_type p,
     m_message = Some (p_payload p), m_compression = p_compression p, m_timestamp = p_timestamp p,
     m_references = nonzero (p_references p), m_workflow = p_workflow p,
     m_override_rrules = map rule_of_public (p_override_rrules p), m_logging_method = p_logging_method p,
     m_key = p_key p, m_batch = None, m_confirm = [], m_confirmation = p_confirmation p\<rparr>"

text \<open>The accessors \<open>any\<close>, \<open>all\<close> and \<open>last_resort\<close> give the declared defaults.\<close>

definition public_of_routing :: "routing \<Rightarrow> public_routing" where
  "public_of_routing r = \<lparr>pu_any = (case ro_any r of None \<Rightarrow> True | Some b \<Rightarrow> b),
     pu_all = (case ro_all r of None \<Rightarrow> True | Some b \<Rightarrow> b),
     pu_last_resort = (case ro_last_resort r of None \<Rightarrow> False | Some b \<Rightarrow> b)\<rparr>"

definition routing_of_public :: "public_routing \<Rightarrow> routing" where
  "routing_of_public r = \<lparr>ro_any = Some (pu_any r), ro_all = Some (pu_all r),
     ro_last_resort = Some (pu_last_resort r)\<rparr>"

definition public_of_error :: "delivery_error \<Rightarrow> public_delivery_error" where
  "public_of_error e = \<lparr>pd_packet_id = de_packet_id e, pd_failed_type = de_failed_type e,
     pd_failed_to = de_failed_to e, pd_is_known_type = de_is_known_type e,
     pd_original_message = map_option public_of_message (de_original_message e),
     pd_original_message_omitted = de_original_message_omitted e\<rparr>"

definition error_of_public :: "public_delivery_error \<Rightarrow> delivery_error" where
  "error_of_public e = \<lparr>de_packet_id = pd_packet_id e, de_failed_type = pd_failed_type e,
     de_failed_to = pd_failed_to e, de_is_known_type = pd_is_known_type e,
     de_original_message = map_option message_of_public (pd_original_message e),
     de_original_message_omitted = pd_original_message_omitted e\<rparr>"

section \<open>Every field survives both ways\<close>

lemma or_zero_nonzero [simp]: "or_zero (nonzero x) = x"
  by (simp add: nonzero_def)

lemma public_of_rule_of_public [simp]: "public_of_rule (rule_of_public r) = r"
  by (cases "pr_whom r") (simp_all add: public_of_rule_def rule_of_public_def split: whom.split)

lemma public_of_message_of_public: "public_of_message (message_of_public p) = p"
  by (simp add: public_of_message_def message_of_public_def o_def)

end
