(* ===== verification/Core_State.thy ===== *)
theory Core_State
  imports Frame Ids Timers Log_Summary Confirm_Flags Span_Set Wire "HOL-Library.List_Lexorder" "HOL-Library.Char_ord"
begin

text \<open>
  The state of the core (\<open>core/mod.rs\<close>) and of its parts: the outbox (\<open>core/outbox/state.rs\<close>), the
  connections (\<open>core/connection.rs\<close>), the batches (\<open>core/batching.rs\<close>), the confirmed sends
  (\<open>core/confirming/mod.rs\<close>), the lanes (\<open>core/lane.rs\<close>), the queries (\<open>core/query.rs\<close>) and what the
  client and the threaded client add (\<open>core/client/mod.rs\<close>, \<open>core/threaded.rs\<close>), each field as the source
  has it.

  What Rust shares through \<open>Arc\<close> is in a store of the core, by a number never given twice: trackers,
  lanes, and a connection's live flag, by its connection.  A frame carries the number of its
  allocation, for \<open>Arc::ptr_eq\<close>.  A program's callback is a number, and every call of one is noted
  in \<open>calls\<close>.  A counter the code decrements is an integer: the value that would wrap is negative.
  A panic is noted in \<open>panicked\<close>, which nothing clears.
\<close>

section \<open>Names\<close>

type_synonym conn_id = nat
type_synonym tracker = nat
type_synonym lane_id = nat
type_synonym callback = nat
type_synonym flush_id = nat
type_synonym query_id = nat
type_synonym timer_key = nat
type_synonym target = "string \<times> u16"
type_synonym socket_addr = "string \<times> u16"

section \<open>Frames, timers' purposes, actions\<close>

datatype send_state = Queued | Sent | Lost

record out_frame =
  o_alloc :: nat
  o_bytes :: bytes
  o_head :: "bytes option"
  o_id :: u64
  o_type :: u32
  o_pinned :: bool
  o_for_all :: bool
  o_own :: bool
  o_number :: nat
  o_deadline :: "instant option"
  o_batch :: "u64 list option"
  o_confirmed :: bool

definition wire_length :: "out_frame \<Rightarrow> nat" where
  "wire_length f = (case o_head f of None \<Rightarrow> 0 | Some head \<Rightarrow> length head) + length (o_bytes f)"

text \<open>An entry of a connection's queue: its tracker, held weakly, and its frame.\<close>

type_synonym queue_entry = "tracker \<times> out_frame"

definition MAX_TIMEOUT :: duration where
  "MAX_TIMEOUT = secs 1000000000"

definition deadline_after :: "instant \<Rightarrow> duration option \<Rightarrow> instant option" where
  "deadline_after now timeout = (case timeout of
     Some t \<Rightarrow> if t \<le> MAX_TIMEOUT then Some (now + t) else None
   | None \<Rightarrow> None)"

datatype due =
    SendHeartbit conn_id
  | RequireHeartbitSoon conn_id
  | RequireHeartbitNow conn_id
  | ReadToTheEnd conn_id
  | ConnectDeadline conn_id
  | Reconnect nat
  | OutboxExpiry
  | LogSummary
  | Query query_id nat
  | ConnectWait nat
  | FlushWait nat
  | SendsExpire
  | Drain
  | Batches
  | Confirmations

datatype action =
    Resolve conn_id string u16
  | Open conn_id socket_addr
  | CancelConnect conn_id
  | StartReading conn_id
  | Write conn_id "bytes option" bytes
  | ShutdownWrite conn_id
  | Shutdown conn_id
  | Close conn_id
  | CancelResolves

section \<open>Drops\<close>

datatype drop_reason = NoRoom | NoConnection | ConnectionLost | ShutDown | NotConfirmed | Failed

datatype drop_line =
    IncomingQueueFull
  | NoOnMessage
  | RequestsQueueFull
  | SentNoRoom
  | SentNoConnection
  | SentConnectionLost
  | SentShutDown
  | SentNotConfirmed
  | SentFailed
  | BatchNotSplit

fun drop_line_number :: "drop_line \<Rightarrow> u32" where
  "drop_line_number IncomingQueueFull = 0"
| "drop_line_number NoOnMessage = 1"
| "drop_line_number RequestsQueueFull = 2"
| "drop_line_number SentNoRoom = 3"
| "drop_line_number SentNoConnection = 4"
| "drop_line_number SentConnectionLost = 5"
| "drop_line_number SentShutDown = 6"
| "drop_line_number SentNotConfirmed = 7"
| "drop_line_number SentFailed = 8"
| "drop_line_number BatchNotSplit = 9"

fun drop_line_of :: "drop_reason \<Rightarrow> drop_line \<times> string" where
  "drop_line_of NoRoom =
    (SentNoRoom, ''message dropped: it waited for room on its connection past its timeout'')"
| "drop_line_of NoConnection =
    (SentNoConnection, ''message dropped: it waited for a connection past its timeout'')"
| "drop_line_of ConnectionLost =
    (SentConnectionLost, ''message dropped: its connection ended and nothing else could take it'')"
| "drop_line_of ShutDown = (SentShutDown, ''message dropped: the client shut down before it went'')"
| "drop_line_of NotConfirmed =
    (SentNotConfirmed, ''confirmed message given up on: no consumer confirmed it by its deadline'')"
| "drop_line_of Failed =
    (SentFailed, ''confirmed message given up on: its consumer's handler failed on it'')"

section \<open>Lanes and handles of connections\<close>

text \<open>\<open>wr_living\<close> is the connection whose live flag the handle shares.\<close>

record wrapper =
  wr_conn :: "conn_id option"
  wr_target :: target
  wr_endpoint :: "socket_addr option"
  wr_living :: "conn_id option"
  wr_owner :: u64
  wr_generation :: u32

definition is_same_connection :: "wrapper \<Rightarrow> wrapper \<Rightarrow> bool" where
  "is_same_connection a b \<longleftrightarrow> wr_target a = wr_target b"

record lane =
  ln_pinned :: bool
  ln_generation :: u32
  ln_owner :: u64
  ln_connection :: "wrapper option"
  ln_holds :: bool

section \<open>The outbox\<close>

datatype send_done =
    Callback callback
  | Settle nat
  | Batch "(send_done option \<times> tracker option) list"
  | Confirmed u64

datatype flush_done = WaitDone nat | DrainDone

text \<open>A \<open>WaitKey\<close>: its place in the slab and its generation.\<close>

type_synonym wait_key = "nat \<times> nat"

record waiting =
  w_frame :: "out_frame option"
  w_tracker :: tracker
  w_number :: nat
  w_deadline :: "instant option"
  w_on :: "conn_id option"
  w_copy :: bool
  w_all :: bool
  w_lane :: "lane_id option"
  w_over :: bool

record backlog =
  b_conn :: conn_id
  b_waiting :: "wait_key list"
  b_live :: int

record flush =
  fl_last_number :: nat
  fl_waiting :: int
  fl_marks :: "(conn_id \<times> tracker) list"
  fl_done :: "flush_done option"
  fl_flushed :: bool
  fl_lost :: bool
  fl_confirm_mark :: nat

record follow =
  fo_done :: "send_done option"
  fo_copies :: "tracker list"
  fo_live :: int
  fo_over :: bool

record handover =
  h_target :: target
  h_from :: "conn_id option"
  h_to :: conn_id
  h_to_target :: target

text \<open>\<open>Outbox\<close> in two records: what waits, and the ends of what was sent.  \<open>ob_free\<close> is a stack, its
  top first.\<close>

record outbox =
  ob_slab :: "waiting option list"
  ob_generations :: "nat list"
  ob_free :: "nat list"
  ob_backlogs :: "backlog list"
  ob_waiting :: int
  ob_displaced :: "wait_key list"
  ob_held :: "wait_key list"
  ob_held_live :: int
  ob_last_number :: nat
  ob_retries :: nat
  ob_expiring :: "(instant \<times> wait_key) min_heap"
  ob_compact_at :: nat
  ob_timer :: "timer_key option"
  ob_armed :: "instant option"

record outbox_ends =
  oe_flushes :: "flush_id list"
  oe_flush_states :: "(flush_id, flush) hash_map"
  oe_next_flush :: nat
  oe_moved :: "(tracker, wrapper) hash_map"
  oe_moved_compact_at :: nat
  oe_handovers :: "handover list"
  oe_follows :: "(tracker, nat) hash_map"
  oe_follow_states :: "(nat, follow) hash_map"
  oe_next_follow :: nat
  oe_follow_events :: "(tracker \<times> bool) list"
  oe_drop_events :: "(u64 \<times> drop_reason) list"
  oe_callbacks_posted :: bool

definition new_outbox :: outbox where
  "new_outbox = \<lparr>ob_slab = [], ob_generations = [], ob_free = [], ob_backlogs = [], ob_waiting = 0,
     ob_displaced = [], ob_held = [], ob_held_live = 0, ob_last_number = 0, ob_retries = 0,
     ob_expiring = [], ob_compact_at = 0, ob_timer = None, ob_armed = None\<rparr>"

definition new_outbox_ends :: outbox_ends where
  "new_outbox_ends = \<lparr>oe_flushes = [], oe_flush_states = [], oe_next_flush = 0, oe_moved = [],
     oe_moved_compact_at = 0, oe_handovers = [], oe_follows = [], oe_follow_states = [],
     oe_next_follow = 0, oe_follow_events = [], oe_drop_events = [], oe_callbacks_posted = False\<rparr>"

section \<open>Connections\<close>

datatype channel = Free | Busy | Broken

record conn =
  c_target :: target
  c_expected_endpoint :: "socket_addr option"
  c_candidates :: "socket_addr list"
  c_next_candidate :: nat
  c_connecting :: bool
  c_connect_timed_out :: bool
  c_connect_deadline :: "timer_key option"
  c_socket_open :: bool
  c_routing_in_welcome :: u32
  c_routing_acknowledged :: u32
  c_routing_request_id :: u64
  c_peer_type :: u32
  c_peer_id :: u64
  c_living :: bool
  c_shuts_down :: bool
  c_registered :: bool
  c_told_gone :: bool
  c_delivering :: bool
  c_dropped_while_closing :: nat
  c_reading :: bool
  c_send_heartbit_timer :: "timer_key option"
  c_quiet_since :: "instant option"
  c_require_heartbit_timer :: "timer_key option"
  c_heard_at :: "instant option"
  c_silence_second_wait :: bool
  c_outgoing :: "queue_entry list"
  c_outgoing_max :: nat
  c_out :: channel
  c_write_in_flight :: bool
  c_notify_when_idle :: bool
  c_notify_when_read_drained :: bool
  c_set_aside :: "queue_entry list"
  c_heartbit :: out_frame

definition new_conn :: "target \<Rightarrow> out_frame \<Rightarrow> conn" where
  "new_conn target heartbit = \<lparr>c_target = target, c_expected_endpoint = None, c_candidates = [],
     c_next_candidate = 0, c_connecting = False, c_connect_timed_out = False, c_connect_deadline = None,
     c_socket_open = False, c_routing_in_welcome = 0, c_routing_acknowledged = 0, c_routing_request_id = 0,
     c_peer_type = 0, c_peer_id = 0, c_living = False, c_shuts_down = False, c_registered = False,
     c_told_gone = False, c_delivering = True, c_dropped_while_closing = 0, c_reading = False,
     c_send_heartbit_timer = None, c_quiet_since = None, c_require_heartbit_timer = None,
     c_heard_at = None, c_silence_second_wait = False, c_outgoing = [], c_outgoing_max = 1,
     c_out = Free, c_write_in_flight = False, c_notify_when_idle = False,
     c_notify_when_read_drained = False, c_set_aside = [], c_heartbit = heartbit\<rparr>"

definition outgoing_queue_full :: "conn \<Rightarrow> bool" where
  "outgoing_queue_full c \<longleftrightarrow> c_outgoing_max c \<le> length (c_outgoing c)"

definition outgoing_queue_empty :: "conn \<Rightarrow> bool" where
  "outgoing_queue_empty c \<longleftrightarrow> c_outgoing c = []"

section \<open>Messages\<close>

text \<open>One message read, and the connection it came on.\<close>

record incoming =
  in_message :: message
  in_connection :: wrapper

record public_incoming =
  pi_message :: public_message
  pi_connection :: wrapper

text \<open>\<open>BodiesEnvelope\<close> of \<open>core/bodies.rs\<close>, with the batch inside it.\<close>

record envelope =
  en_id :: "u64 option"
  en_sender :: "u64 option"
  en_type :: u32
  en_key :: "string option"
  en_batch :: "bytes list"
  en_confirm :: "nat list"

section \<open>Batches\<close>

record delivery =
  d_batch :: bool
  d_max_records :: nat
  d_max_bytes :: nat
  d_max_delay :: duration
  d_confirm :: bool
  d_retry_after :: duration
  d_timeout :: "duration option"

definition default_delivery :: delivery where
  "default_delivery = \<lparr>d_batch = False, d_max_records = DEFAULT_BATCH_MAX_RECORDS,
     d_max_bytes = DEFAULT_BATCH_MAX_BYTES, d_max_delay = 0, d_confirm = False,
     d_retry_after = DEFAULT_RETRY_AFTER, d_timeout = Some DEFAULT_TIMEOUT\<rparr>"

datatype batch_mark = MarkNone | MarkEvent "string option" | MarkBatch "u64 list" | MarkConfirmed

record frame =
  f_bytes :: bytes
  f_head :: "bytes option"
  f_id :: u64
  f_type :: u32
  f_batch :: batch_mark

text \<open>A \<open>Vec<u8>\<close> whose capacity matters, and the bodies kept, the last given first.\<close>

record body =
  bd_bytes :: bytes
  bd_capacity :: nat

record bodies =
  bs_kept :: "body list"
  bs_bytes :: nat

record plain =
  pl_body :: body
  pl_length :: nat
  pl_keyed :: bool
  pl_id :: u64
  pl_type :: u32

datatype joining = JoinFrame frame | JoinPlain plain

record batch_record =
  r_body :: body
  r_id :: u64
  r_done :: "send_done option"
  r_tracker :: "tracker option"
  r_number :: nat

record batch =
  ba_type :: u32
  ba_key :: "string option"
  ba_delivery :: delivery
  ba_records :: "batch_record list"
  ba_bytes :: nat
  ba_deadline :: "instant option"
  ba_waits_for_idle :: bool
  ba_due :: "instant option"
  ba_backoff :: duration

record batcher =
  bt_by_type :: "(u32, delivery) hash_map"
  bt_by_key :: "(u32, (string, delivery) hash_map) hash_map"
  bt_open :: "(nat, batch) btree_map"
  bt_unkeyed :: "(u32, nat) hash_map"
  bt_keyed :: "(u32, (string, nat) hash_map) hash_map"
  bt_began :: nat
  bt_waiting_for_idle :: "nat btree_set"
  bt_by_due :: "(instant \<times> nat) btree_set"
  bt_timer :: "timer_key option"
  bt_armed :: "instant option"
  bt_bodies :: bodies

definition new_batcher :: batcher where
  "new_batcher = \<lparr>bt_by_type = [], bt_by_key = [], bt_open = [], bt_unkeyed = [], bt_keyed = [],
     bt_began = 0, bt_waiting_for_idle = [], bt_by_due = [], bt_timer = None, bt_armed = None,
     bt_bodies = \<lparr>bs_kept = [], bs_bytes = 0\<rparr>\<rparr>"

section \<open>Confirmed sends\<close>

text \<open>What became of a message, and the producer's side: \<open>Followed\<close>, \<open>Confirming\<close>, \<open>Run\<close>.\<close>

datatype confirmed_outcome = Processed | Refused | FailedOutcome

record followed =
  fd_index :: nat
  fd_done :: "send_done option"
  fd_tracker :: "tracker option"

record confirming =
  cg_type :: u32
  cg_key :: "string option"
  cg_delivery :: delivery
  cg_frame :: bytes
  cg_ids :: "u64 list"
  cg_first_number :: nat
  cg_numbers :: "nat list"
  cg_followed :: "followed list"
  cg_resolved :: flags
  cg_unresolved :: int
  cg_run_keys :: "nat list"
  cg_placed_on :: "conn_id option"
  cg_frame_state :: "tracker option"
  cg_written :: bool
  cg_retry_at :: "instant option"
  cg_backoff :: duration
  cg_deadline :: "instant option"
  cg_due :: "instant option"

record run =
  rn_batch :: u64
  rn_index :: nat
  rn_count :: nat
  rn_unresolved :: nat

record owed =
  ow_connection :: "conn_id option"
  ow_processed :: "nat list"
  ow_refused :: "nat list"
  ow_failed :: "nat list"
  ow_count :: nat

definition new_owed :: owed where
  "new_owed = \<lparr>ow_connection = None, ow_processed = [], ow_refused = [], ow_failed = [], ow_count = 0\<rparr>"

record confirmer =
  cr_last_number :: nat
  cr_runs :: "(nat, run) btree_map"
  cr_by_id :: "(u64, confirming) hash_map"
  cr_by_due :: "(instant \<times> u64) btree_set"
  cr_timer :: "timer_key option"
  cr_armed :: "instant option"
  cr_firing :: bool
  cr_unconfirmed :: int
  cr_sent_again :: nat
  cr_ends :: "(send_done \<times> nat) list"
  cr_owed :: "(u64, owed) hash_map"
  cr_owed_count :: int
  cr_posted :: bool

definition new_confirmer :: confirmer where
  "new_confirmer = \<lparr>cr_last_number = 0, cr_runs = [], cr_by_id = [], cr_by_due = [], cr_timer = None,
     cr_armed = None, cr_firing = False, cr_unconfirmed = 0, cr_sent_again = 0, cr_ends = [],
     cr_owed = [], cr_owed_count = 0, cr_posted = False\<rparr>"

section \<open>Queries\<close>

datatype outcome = Replied incoming | OutTimedOut | OutFailed | OutNotConnected | OutShutDown

datatype stage = Request | Search | Direct | Waiting | Late

record in_flight =
  iq_stage :: stage
  iq_resume :: stage
  iq_direct_to :: u64
  iq_sent_via :: "wrapper option"
  iq_sent_state :: "tracker option"
  iq_request_state :: "tracker option"
  iq_direct_state :: "tracker option"
  iq_prototype :: message
  iq_timeout :: "duration option"
  iq_deadline :: "instant option"
  iq_lane :: "lane_id option"
  iq_request_id :: u64
  iq_search_id :: u64
  iq_direct_id :: u64
  iq_taken :: bool
  iq_pending :: "u64 list"
  iq_searched :: "wrapper list"
  iq_search_ids :: "u64 list"
  iq_generation :: nat
  iq_listed :: bool
  iq_callback :: "callback option"
  iq_received :: "callback option"
  iq_timer :: "timer_key option"

record queries =
  q_in_flight :: "(query_id, in_flight) btree_map"
  q_next_query :: nat
  q_by_id :: "(u64, query_id) hash_map"
  q_waiting :: "query_id list"
  q_waiting_ended :: int
  q_finished_order :: "(u64 \<times> instant) list"
  q_finished_ids :: "u64 set"
  q_retries :: nat

definition new_queries :: queries where
  "new_queries = \<lparr>q_in_flight = [], q_next_query = 0, q_by_id = [], q_waiting = [], q_waiting_ended = 0,
     q_finished_order = [], q_finished_ids = {}, q_retries = 0\<rparr>"

section \<open>The client\<close>

datatype incoming_mode = QueueMode | DispatchMode

text \<open>The routing's version is counted as the code counts it, in 32 bits.  The descriptors of the open
  sockets, which only a forked child reads, are the driver's and are not here.\<close>

record client_state =
  cl_mode :: incoming_mode
  cl_shuts_down :: bool
  cl_routing :: routing
  cl_key_filters :: "(u32, string list) btree_map"
  cl_key_filters_message :: "key_filter list"
  cl_routing_version :: u32
  cl_acknowledged_callbacks :: "callback list"
  cl_enqueued :: nat
  cl_dequeued :: nat
  cl_confirmed :: bool
  cl_confirmed_enqueued :: nat
  cl_acknowledged_version :: u32
  cl_acknowledged_wake :: bool
  cl_incoming :: "incoming list"
  cl_incoming_max :: nat
  cl_refusing :: bool
  cl_frames_handled :: nat
  cl_read_drains_wanted :: int
  cl_drop_lines :: log_summary
  cl_drop_lines_timer :: "timer_key option"
  cl_drop_observer :: "callback option"
  cl_dropped :: nat
  cl_incoming_dropped :: nat
  cl_by_target :: "(target, conn_id) btree_map"
  cl_reconnects :: "(nat, timer_key \<times> target) btree_map"
  cl_next_reconnect :: nat
  cl_first_connection_over :: "target btree_set"
  cl_reached_by_target :: "(target, u64) btree_map"
  cl_one_multiplexer_said :: "(target \<times> target) set"
  cl_closing :: "conn_id list"
  cl_dropped_while_closing :: nat
  cl_welcome :: "out_frame option"
  cl_last_seen :: span_set
  cl_heartbit :: "out_frame option"

definition new_client_state :: "incoming_mode \<Rightarrow> client_state" where
  "new_client_state mode = \<lparr>cl_mode = mode, cl_shuts_down = False, cl_routing = default_routing,
     cl_key_filters = [], cl_key_filters_message = [], cl_routing_version = 0,
     cl_acknowledged_callbacks = [], cl_enqueued = 0, cl_dequeued = 0, cl_confirmed = False,
     cl_confirmed_enqueued = 0, cl_acknowledged_version = 0, cl_acknowledged_wake = False,
     cl_incoming = [], cl_incoming_max = DEFAULT_INCOMING_QUEUE_MAX_SIZE, cl_refusing = False,
     cl_frames_handled = 0, cl_read_drains_wanted = 0, cl_drop_lines = new_log_summary,
     cl_drop_lines_timer = None, cl_drop_observer = None, cl_dropped = 0, cl_incoming_dropped = 0,
     cl_by_target = [], cl_reconnects = [], cl_next_reconnect = 0, cl_first_connection_over = [],
     cl_reached_by_target = [], cl_one_multiplexer_said = {}, cl_closing = [],
     cl_dropped_while_closing = 0, cl_welcome = None, cl_last_seen = new_span_set 2048,
     cl_heartbit = None\<rparr>"

section \<open>The io thread's inbox and the streams\<close>

text \<open>A command of the class on top is what \<open>threaded_client.rs\<close> and \<open>servers/threaded.rs\<close> post: a closure
  over the core, here the call it makes with its arguments.\<close>

datatype command =
    CmdConnect string u16 "duration option" callback
  | CmdConnectAll "(string \<times> u16 \<times> callback) list" "duration option"
  | CmdDisconnect string u16
  | CmdQuery message "duration option" "lane_id option" callback "callback option"
  | CmdSend frame bool "lane_id option" "instant option" bool "callback option"
  | CmdFlushAll "duration option" callback
  | CmdSetRouting routing "callback option"
  | CmdSetKeyFilters "(u32, string list) btree_map" "callback option"
  | CmdSetDelivery u32 "string option" delivery
  | CmdClearDelivery u32 "string option"
  | CmdRegisterInbox nat
  | CmdRegisterSubscription u32 nat
  | CmdForgetFinishedIds
  | CmdRequestDropped u64 u32
  | CmdShutdown "duration option"

datatype posted =
    ConnectFailed conn_id string
  | ProcessCallbacks
  | Fill
  | FollowHandover query_id nat bool
  | WriteOutStep
  | Command command
  | PostedPlain plain "instant option"
  | SendConfirmations

text \<open>A confirmation handed over: the producer, the message's number and what became of it.\<close>

type_synonym handed_confirmation = "u64 \<times> nat \<times> confirmed_outcome"

record inbox =
  ib_posted :: "posted list"
  ib_confirmations :: "handed_confirmation list"
  ib_returned :: bodies
  ib_pending :: bool
  ib_asleep :: bool

text \<open>A stream of messages (\<open>pending.rs\<close>, \<open>Queue\<close>): the tasks that wait in it by their key.\<close>

record stream =
  sm_messages :: "public_incoming list"
  sm_wakers :: "(nat \<times> nat) list"
  sm_next_key :: nat
  sm_closed :: bool
  sm_dropped :: nat
  sm_dropping :: bool
  sm_blocked :: nat
  sm_capacity :: nat
  sm_name :: string

type_synonym stream_id = nat

section \<open>The threaded client\<close>

record connect_waiter =
  cw_id :: nat
  cw_connection :: wrapper
  cw_done :: "callback option"
  cw_timer :: "timer_key option"

record flush_wait =
  fw_id :: nat
  fw_flush :: "flush_id option"
  fw_done :: "callback option"
  fw_timer :: "timer_key option"

record in_hand =
  ih_sender :: u64
  ih_number :: nat
  ih_confirmed :: bool
  ih_made :: bool

record pending_send =
  ps_wait :: bool
  ps_settled :: "callback option"

text \<open>\<open>th_torn_down_shared\<close> is \<open>Shared::torn_down\<close> of \<open>threaded_client.rs\<close>, which the io thread stores for the other
  threads and reads itself.\<close>

record threaded =
  th_on_message :: "callback option"
  th_search_policy :: "callback option"
  th_confirms_itself :: bool
  th_in_hand :: in_hand
  th_io_inbox :: "inbox option"
  th_inbox :: "stream_id option"
  th_subscriptions :: "(u32 option \<times> stream_id) list"
  th_connects :: "connect_waiter list"
  th_flush_waits :: "flush_wait list"
  th_next_wait :: nat
  th_sends :: "(nat, pending_send) hash_map"
  th_next_send :: nat
  th_expiring :: "(instant \<times> nat) min_heap"
  th_expiring_compact_at :: nat
  th_expiry_timer :: "timer_key option"
  th_expiry_armed :: "instant option"
  th_shut_down :: bool
  th_drain :: "flush_id option"
  th_drain_timer :: "timer_key option"
  th_write_out_sent :: nat
  th_torn_down :: bool
  th_torn_down_shared :: bool

definition new_threaded :: threaded where
  "new_threaded = \<lparr>th_on_message = None, th_search_policy = None, th_confirms_itself = False,
     th_in_hand = \<lparr>ih_sender = 0, ih_number = 0, ih_confirmed = False, ih_made = False\<rparr>,
     th_io_inbox = None, th_inbox = None, th_subscriptions = [], th_connects = [], th_flush_waits = [],
     th_next_wait = 0, th_sends = [], th_next_send = 0, th_expiring = [], th_expiring_compact_at = 0,
     th_expiry_timer = None, th_expiry_armed = None, th_shut_down = False, th_drain = None,
     th_drain_timer = None, th_write_out_sent = 0, th_torn_down = False,
     th_torn_down_shared = False\<rparr>"

section \<open>The core\<close>

text \<open>The calls of the program's callbacks, the messages that went to a stream, the streams closed and the
  lines logged, as they come.\<close>

datatype call =
    CallSendEnd callback nat
  | CallSettled callback nat bool
  | CallFlushEnd callback bool
  | CallDrop callback u64 drop_reason
  | CallQueryEnd callback outcome
  | CallReceived callback u64
  | CallAcknowledged callback
  | CallConnectEnd callback bool
  | CallSearchPolicy callback
  | CallOnMessage callback public_incoming
  | LogLine level string
  | LogSaid said

text \<open>What the core finds around it and does not change: whether the logger takes a level, the fork
  generation, the processor, how \<open>prost\<close> measures, writes and reads the messages, how a \<open>Vec\<close> of a
  capacity grows to hold a length, and what the program's own handlers do: whether a search policy says yes
  (no, when it panics), and whether \<open>on_message\<close> returns rather than panics and which messages it
  confirms itself; each may depend on every call before.\<close>

record env =
  log_enabled :: "level \<Rightarrow> bool"
  fork_generation :: u32
  env_cpu :: cpu
  message_len :: "message \<Rightarrow> nat"
  message_encode :: "message \<Rightarrow> bytes option"
  message_decode :: "bytes \<Rightarrow> message option"
  envelope_len :: "envelope \<Rightarrow> nat"
  envelope_encode :: "envelope \<Rightarrow> bytes option"
  batch_decode :: "bytes \<Rightarrow> bytes list option"
  confirmation_encode :: "confirmation \<Rightarrow> bytes"
  confirmation_decode :: "bytes \<Rightarrow> confirmation option"
  welcome_encode :: "welcome_message \<Rightarrow> bytes"
  welcome_decode :: "bytes \<Rightarrow> welcome_message option"
  peer_control_encode :: "peer_control \<Rightarrow> bytes"
  peer_status_decode :: "bytes \<Rightarrow> peer_status option"
  delivery_error_encode :: "delivery_error \<Rightarrow> bytes"
  delivery_error_decode :: "bytes \<Rightarrow> delivery_error option"
  search_encode :: "u32 \<Rightarrow> bytes"
  vec_grow :: "nat \<Rightarrow> nat \<Rightarrow> nat"
  policy_answers :: "callback \<Rightarrow> call list \<Rightarrow> bool"
  handler_returns :: "callback \<Rightarrow> call list \<Rightarrow> bool"
  handler_confirms :: "callback \<Rightarrow> call list \<Rightarrow> handed_confirmation list"

text \<open>\<open>outside\<close> are the trackers held strongly where this model does not look, by callers; \<open>streams\<close>
  are the streams by number, and \<open>streams_held\<close> says which of them the program still holds.\<close>

record core =
  now :: instant
  timers :: "due timers"
  posted :: "posted list"
  actions :: "action list"
  ids :: ids
  instance_id :: u64
  peer_type :: u32
  conns :: "(conn_id, conn) hash_map"
  next_conn :: nat
  by_peer_id :: "(u64, conn_id) btree_map"
  round_robin :: "conn_id list"
  client :: client_state
  outbox :: outbox
  ends :: outbox_ends
  batcher :: batcher
  confirmer :: confirmer
  queries :: queries
  queries_fill_posted :: bool
  threaded :: threaded
  env :: env
  trackers :: "tracker \<Rightarrow> send_state"
  next_tracker :: nat
  lanes :: "lane_id \<Rightarrow> lane"
  next_lane :: nat
  living_flags :: "conn_id \<Rightarrow> bool"
  next_alloc :: nat
  outside :: "tracker list"
  streams :: "stream_id \<Rightarrow> stream"
  streams_held :: "stream_id \<Rightarrow> bool"
  calls :: "call list"
  panicked :: bool

end
