(* ===== verification/Core_Basics.thy ===== *)
theory Core_Basics
  imports Core_State
begin

text \<open>
  What every part of the core uses: the trackers and who holds them, the connections by their number,
  the handles of connections, the ids and the numbers given out, the core's timers, and the lanes
  (\<open>core/lane.rs\<close>).
\<close>

section \<open>Panics, logs and calls\<close>

definition panic :: "core \<Rightarrow> core" where
  "panic s = s\<lparr>panicked := True\<rparr>"

definition note_call :: "call \<Rightarrow> core \<Rightarrow> core" where
  "note_call c s = s\<lparr>calls := calls s @ [c]\<rparr>"

definition post :: "posted \<Rightarrow> core \<Rightarrow> core" where
  "post p s = s\<lparr>posted := posted s @ [p]\<rparr>"

definition act :: "action \<Rightarrow> core \<Rightarrow> core" where
  "act a s = s\<lparr>actions := actions s @ [a]\<rparr>"

section \<open>Trackers\<close>

definition new_tracker :: "send_state \<Rightarrow> core \<Rightarrow> tracker \<times> core" where
  "new_tracker state s = (next_tracker s,
    s\<lparr>trackers := (trackers s)(next_tracker s := state), next_tracker := next_tracker s + 1\<rparr>)"

abbreviation tracker_get :: "core \<Rightarrow> tracker \<Rightarrow> send_state" where
  "tracker_get s t \<equiv> trackers s t"

definition tracker_set :: "tracker \<Rightarrow> send_state \<Rightarrow> core \<Rightarrow> core" where
  "tracker_set t state s = s\<lparr>trackers := (trackers s)(t := state)\<rparr>"

text \<open>\<open>Arc::strong_count\<close>: every strong hold on a tracker the core's state has, and as many more as the
  functions running hold in variables of theirs, which each use adds.\<close>

primrec done_trackers :: "send_done \<Rightarrow> tracker list" where
  "done_trackers (Callback _) = []"
| "done_trackers (Settle _) = []"
| "done_trackers (Batch each) =
    concat (map (\<lambda>(ts, t). (case ts of None \<Rightarrow> [] | Some ts \<Rightarrow> ts) @ (case t of None \<Rightarrow> [] | Some t \<Rightarrow> [t]))
      (map (map_prod (map_option done_trackers) id) each))"
| "done_trackers (Confirmed _) = []"

definition end_trackers :: "send_done option \<Rightarrow> tracker option \<Rightarrow> tracker list" where
  "end_trackers d t = (case d of None \<Rightarrow> [] | Some d \<Rightarrow> done_trackers d) @ (case t of None \<Rightarrow> [] | Some t \<Rightarrow> [t])"

definition outbox_trackers :: "core \<Rightarrow> tracker list" where
  "outbox_trackers s =
     concat (map (\<lambda>w. case w of None \<Rightarrow> [] | Some w \<Rightarrow> [w_tracker w]) (ob_slab (outbox s)))
     @ concat (map (\<lambda>(_, fl). map snd (fl_marks fl)) (oe_flush_states (ends s)))
     @ concat (map (\<lambda>(_, fo). fo_copies fo @ end_trackers (fo_done fo) None) (oe_follow_states (ends s)))
     @ map fst (oe_follow_events (ends s))"

definition confirmer_trackers :: "core \<Rightarrow> tracker list" where
  "confirmer_trackers s =
     concat (map (\<lambda>(_, cg). concat (map (\<lambda>fd. end_trackers (fd_done fd) (fd_tracker fd)) (cg_followed cg))
       @ end_trackers None (cg_frame_state cg)) (cr_by_id (confirmer s)))
     @ concat (map (\<lambda>(d, _). done_trackers d) (cr_ends (confirmer s)))"

definition batcher_trackers :: "core \<Rightarrow> tracker list" where
  "batcher_trackers s =
     concat (map (\<lambda>(_, ba). concat (map (\<lambda>r. end_trackers (r_done r) (r_tracker r)) (ba_records ba)))
       (bt_open (batcher s)))"

definition query_trackers :: "core \<Rightarrow> tracker list" where
  "query_trackers s =
     concat (map (\<lambda>(_, q). end_trackers None (iq_sent_state q) @ end_trackers None (iq_request_state q)
       @ end_trackers None (iq_direct_state q)) (q_in_flight (queries s)))"

definition strong_count :: "core \<Rightarrow> tracker \<Rightarrow> nat" where
  "strong_count s t =
     count_list (outbox_trackers s @ confirmer_trackers s @ batcher_trackers s
       @ query_trackers s @ outside s) t"

text \<open>\<open>Weak::upgrade\<close> of a tracker no running function holds.\<close>

definition upgrades :: "core \<Rightarrow> tracker \<Rightarrow> bool" where
  "upgrades s t \<longleftrightarrow> strong_count s t > 0"

section \<open>Connections\<close>

abbreviation conn_of :: "core \<Rightarrow> conn_id \<Rightarrow> conn option" where
  "conn_of s c \<equiv> map_of (conns s) c"

definition conn_living :: "core \<Rightarrow> conn_id \<Rightarrow> bool" where
  "conn_living s c \<longleftrightarrow> (case conn_of s c of None \<Rightarrow> False | Some st \<Rightarrow> c_living st)"

definition put_conn :: "conn_id \<Rightarrow> conn \<Rightarrow> core \<Rightarrow> core" where
  "put_conn c st s = s\<lparr>conns := AList.update c st (conns s)\<rparr>"

text \<open>\<open>set_living\<close>, on a connection in the map.\<close>

definition set_living :: "conn_id \<Rightarrow> conn \<Rightarrow> bool \<Rightarrow> core \<Rightarrow> core" where
  "set_living c st b s =
    (put_conn c (st\<lparr>c_living := b\<rparr>) s)\<lparr>living_flags := (living_flags s)(c := b)\<rparr>"

definition new_conn_id :: "core \<Rightarrow> conn_id \<times> core" where
  "new_conn_id s = (next_conn s + 1, s\<lparr>next_conn := next_conn s + 1\<rparr>)"

text \<open>\<open>wrap\<close> indexes the connections: it panics on one that is gone.\<close>

definition wrap :: "conn_id \<Rightarrow> core \<Rightarrow> wrapper \<times> core" where
  "wrap c s = (case conn_of s c of
     Some st \<Rightarrow> (\<lparr>wr_conn = Some c, wr_target = c_target st, wr_endpoint = c_expected_endpoint st,
       wr_living = Some c, wr_owner = instance_id s, wr_generation = fork_generation (env s)\<rparr>, s)
   | None \<Rightarrow> (\<lparr>wr_conn = None, wr_target = ([], 0), wr_endpoint = None, wr_living = None,
       wr_owner = 0, wr_generation = 0\<rparr>, panic s))"

definition wrapper_live :: "core \<Rightarrow> wrapper \<Rightarrow> bool" where
  "wrapper_live s w \<longleftrightarrow> (case wr_living w of None \<Rightarrow> False | Some c \<Rightarrow> living_flags s c)"

text \<open>\<open>Core::live\<close>.\<close>

definition live :: "core \<Rightarrow> wrapper \<Rightarrow> bool" where
  "live s w \<longleftrightarrow> (case wr_conn w of None \<Rightarrow> False | Some c \<Rightarrow> conn_living s c)"

section \<open>Ids, numbers and time\<close>

definition random64 :: "core \<Rightarrow> u64 \<times> core" where
  "random64 s = (case next_id (ids s) of
     Some (x, i) \<Rightarrow> (x, s\<lparr>ids := i\<rparr>)
   | None \<Rightarrow> (0, panic s))"

definition next_number :: "core \<Rightarrow> nat \<times> core" where
  "next_number s = (let n = ob_last_number (outbox s) + 1
    in (n, s\<lparr>outbox := (outbox s)\<lparr>ob_last_number := n\<rparr>\<rparr>))"

definition past :: "core \<Rightarrow> instant option \<Rightarrow> bool" where
  "past s deadline \<longleftrightarrow> (case deadline of None \<Rightarrow> False | Some d \<Rightarrow> d \<le> now s)"

definition arm_timer :: "instant \<Rightarrow> due \<Rightarrow> core \<Rightarrow> timer_key \<times> core" where
  "arm_timer d x s = (let (k, t) = arm d x (timers s) in (k, s\<lparr>timers := t\<rparr>))"

definition cancel_timer :: "timer_key option \<Rightarrow> core \<Rightarrow> core" where
  "cancel_timer slot s = s\<lparr>timers := snd (cancel slot (timers s))\<rparr>"

definition rearm_timer :: "timer_key option \<Rightarrow> instant \<Rightarrow> due \<Rightarrow> core \<Rightarrow> timer_key option \<times> core" where
  "rearm_timer slot d x s = (let (k, t) = rearm slot d x (timers s) in (k, s\<lparr>timers := t\<rparr>))"

section \<open>Lanes\<close>

definition new_lane :: "bool \<Rightarrow> core \<Rightarrow> lane_id \<times> core" where
  "new_lane pinned s = (next_lane s,
    s\<lparr>lanes := (lanes s)(next_lane s := \<lparr>ln_pinned = pinned, ln_generation = fork_generation (env s),
         ln_owner = 0, ln_connection = None, ln_holds = False\<rparr>),
      next_lane := next_lane s + 1\<rparr>)"

definition seeded_lane :: "wrapper \<Rightarrow> bool \<Rightarrow> core \<Rightarrow> lane_id \<times> core" where
  "seeded_lane w pinned s = (next_lane s,
    s\<lparr>lanes := (lanes s)(next_lane s := \<lparr>ln_pinned = pinned, ln_generation = wr_generation w,
         ln_owner = wr_owner w, ln_connection = Some w, ln_holds = True\<rparr>),
      next_lane := next_lane s + 1\<rparr>)"

definition inherited :: "core \<Rightarrow> lane_id \<Rightarrow> bool" where
  "inherited s l \<longleftrightarrow> ln_generation (lanes s l) \<noteq> fork_generation (env s)"

definition check_not_inherited :: "core \<Rightarrow> lane_id \<Rightarrow> 'i error + unit" where
  "check_not_inherited s l = (if inherited s l then Inl UsedAfterFork else Inr ())"

definition lane_pinned :: "core \<Rightarrow> lane_id \<Rightarrow> bool" where
  "lane_pinned s l = ln_pinned (lanes s l)"

definition lane_owner :: "core \<Rightarrow> lane_id \<Rightarrow> u64 option" where
  "lane_owner s l = (let owner = ln_owner (lanes s l) in if owner = 0 then None else Some owner)"

definition lane_connection :: "core \<Rightarrow> lane_id \<Rightarrow> wrapper option" where
  "lane_connection s l = (if inherited s l then None else ln_connection (lanes s l))"

definition holds_connection :: "core \<Rightarrow> lane_id \<Rightarrow> bool" where
  "holds_connection s l \<longleftrightarrow> (if inherited s l then False else ln_holds (lanes s l))"

definition lane_connected :: "core \<Rightarrow> lane_id \<Rightarrow> bool" where
  "lane_connected s l \<longleftrightarrow> (if inherited s l then False
    else ln_holds (lanes s l)
      \<and> (case ln_connection (lanes s l) of None \<Rightarrow> False | Some w \<Rightarrow> wrapper_live s w))"

definition lane_closed :: "core \<Rightarrow> lane_id \<Rightarrow> bool" where
  "lane_closed s l \<longleftrightarrow> (if inherited s l then True
    else ln_pinned (lanes s l) \<and> ln_holds (lanes s l)
      \<and> \<not> (case ln_connection (lanes s l) of None \<Rightarrow> False | Some w \<Rightarrow> wrapper_live s w))"

definition adopt :: "lane_id \<Rightarrow> wrapper \<Rightarrow> core \<Rightarrow> core" where
  "adopt l w s =
    (if inherited s l then s
     else if ln_pinned (lanes s l) \<and> ln_holds (lanes s l) then s
     else s\<lparr>lanes := (lanes s)(l := (lanes s l)\<lparr>ln_connection := Some w, ln_holds := True,
            ln_owner := wr_owner w\<rparr>)\<rparr>)"

end
