(* ===== verification/Endpoint.thy ===== *)
theory Endpoint
  imports Defaults
begin

text \<open>
  A multiplexer's address as text (\<open>endpoint.rs\<close>).  A \<open>&str\<close> is the list of its UTF-8 bytes, as
  characters; what the code searches for is ASCII, so positions are byte positions as in the
  source.
\<close>

section \<open>The code\<close>

definition refuse :: "string \<Rightarrow> string \<Rightarrow> 'i error + 'a" where
  "refuse text why = Inl (InvalidArgument ([CHR 0x27] @ text @ [CHR 0x27] @ '': '' @ why))"

definition is_ascii_digit :: "char \<Rightarrow> bool" where
  "is_ascii_digit c \<longleftrightarrow> of_char CHR ''0'' \<le> (of_char c :: nat) \<and> (of_char c :: nat) \<le> of_char CHR ''9''"

definition digit_value :: "char \<Rightarrow> nat" where
  "digit_value c = of_char c - of_char CHR ''0''"

fun port_digits :: "string \<Rightarrow> u32 \<Rightarrow> string \<Rightarrow> 'i error + u16" where
  "port_digits text value [] = Inr (ucast value)"
| "port_digits text value (digit # rest) =
    (if \<not> is_ascii_digit digit then refuse text ''the port is a number from 0 to 65535''
     else let value = value * 10 + of_nat (digit_value digit) in
       if value > 65535 then refuse text ''the port is a number from 0 to 65535''
       else port_digits text value rest)"

definition port_number :: "string \<Rightarrow> string \<Rightarrow> 'i error + u16" where
  "port_number text port =
    (if port = [] then refuse text ''no port after the colon'' else port_digits text 0 port)"

definition find_char :: "char \<Rightarrow> string \<Rightarrow> nat option" where
  "find_char c xs = (if c \<in> set xs then Some (length (takeWhile (\<lambda>x. x \<noteq> c) xs)) else None)"

text \<open>What follows the host: the default port when the text ends there, else the port after the
  colon.\<close>

definition after_host :: "string \<Rightarrow> u16 option \<Rightarrow> string \<Rightarrow> nat \<Rightarrow> 'i error + (string \<times> u16)" where
  "after_host text default_port host colon =
    (if colon = length text then
       (case default_port of
          Some port \<Rightarrow> Inr (host, port)
        | None \<Rightarrow> refuse text ''no port: host:port, or [address]:port for an IPv6 address'')
     else (case port_number text (drop (colon + 1) text) of
             Inl e \<Rightarrow> Inl e
           | Inr port \<Rightarrow> Inr (host, port)))"

definition parse_endpoint :: "string \<Rightarrow> u16 option \<Rightarrow> 'i error + (string \<times> u16)" where
  "parse_endpoint text default_port =
    (case text of
       [] \<Rightarrow> refuse text ''no address''
     | c # rest \<Rightarrow>
       if c = CHR ''['' then
         (case find_char CHR '']'' rest of
            None \<Rightarrow> refuse text ''no ] after the IPv6 address''
          | Some close \<Rightarrow>
            let host = take close rest in
            if CHR '':'' \<notin> set host \<or> CHR ''['' \<in> set host
            then refuse text ''brackets hold an IPv6 address''
            else let colon = close + 2 in
              if colon < length text \<and> text ! colon \<noteq> CHR '':''
              then refuse text ''only :port may follow the ]''
              else after_host text default_port host colon)
       else if CHR ''['' \<in> set text \<or> CHR '']'' \<in> set text
       then refuse text ''brackets go around an IPv6 address, at the start''
       else (case find_char CHR '':'' text of
               Some found \<Rightarrow>
                 if CHR '':'' \<in> set (drop (found + 1) text)
                 then refuse text ''an IPv6 address goes in brackets, as in [::1]:1980''
                 else after_host text default_port (take found text) found
             | None \<Rightarrow> after_host text default_port (take (length text) text) (length text)))"

text \<open>A number in decimal, as \<open>format!\<close> writes a \<open>u16\<close>.\<close>

fun decimal :: "nat \<Rightarrow> string" where
  "decimal n = (if n < 10 then [char_of (of_char CHR ''0'' + n)]
     else decimal (n div 10) @ [char_of (of_char CHR ''0'' + n mod 10)])"

declare decimal.simps [simp del]

definition format_endpoint :: "string \<Rightarrow> u16 \<Rightarrow> string" where
  "format_endpoint host port =
    (if CHR '':'' \<in> set host then ''['' @ host @ '']:'' @ decimal (unat port)
     else host @ '':'' @ decimal (unat port))"

section \<open>The port\<close>

text \<open>The number a string of digits stands for, without a bound.\<close>

definition number_of :: "nat \<Rightarrow> string \<Rightarrow> nat" where
  "number_of = foldl (\<lambda>v d. v * 10 + digit_value d)"

lemma number_of_simps [simp]:
  "number_of v [] = v"
  "number_of v (d # ds) = number_of (v * 10 + digit_value d) ds"
  "number_of v (ds @ es) = number_of (number_of v ds) es"
  by (simp_all add: number_of_def)

lemma number_of_ge: "v \<le> number_of v ds"
proof (induction ds arbitrary: v)
  case (Cons d ds)
  then show ?case
    by (auto intro: le_trans [OF _ Cons.IH])
qed simp

lemma digit_value_le: "is_ascii_digit c \<Longrightarrow> digit_value c \<le> 9"
  unfolding is_ascii_digit_def digit_value_def by (simp, linarith)

lemma port_step_unat:
  assumes "unat (v :: u32) \<le> 65535" "d \<le> 9"
  shows "unat (v * 10 + of_nat d) = unat v * 10 + d"
  using assms by (simp add: unat_word_ariths unat_of_nat take_bit_nat_eq_self)

lemma port_digits_value:
  assumes "unat v \<le> 65535"
  shows "port_digits text v ds =
    (if (\<forall>d \<in> set ds. is_ascii_digit d) \<and> number_of (unat v) ds \<le> 65535
     then Inr (of_nat (number_of (unat v) ds))
     else refuse text ''the port is a number from 0 to 65535'')"
  using assms
proof (induction ds arbitrary: v)
  case Nil
  then show ?case
    by (simp add: of_nat_unat)
next
  case (Cons d ds)
  show ?case
  proof (cases "is_ascii_digit d")
    case True
    note step = port_step_unat [OF Cons.prems digit_value_le [OF True]]
    show ?thesis
      using Cons.IH [of "v * 10 + of_nat (digit_value d)"] True
        number_of_ge [of "unat v * 10 + digit_value d" ds]
      by (auto simp: Let_def step word_less_nat_alt)
  qed simp
qed

lemma port_number_value:
  "port_number text ds =
    (if ds = [] then refuse text ''no port after the colon''
     else if (\<forall>d \<in> set ds. is_ascii_digit d) \<and> number_of 0 ds \<le> 65535
     then Inr (of_nat (number_of 0 ds))
     else refuse text ''the port is a number from 0 to 65535'')"
  using port_digits_value [of 0 "text" ds] by (auto simp: port_number_def)

lemma digit_char [simp]:
  "n < 10 \<Longrightarrow> is_ascii_digit (char_of (48 + n :: nat))"
  "n < 10 \<Longrightarrow> digit_value (char_of (48 + n :: nat)) = n"
  by (simp_all add: is_ascii_digit_def digit_value_def)

lemma decimal_digits:
  "decimal n \<noteq> [] \<and> (\<forall>d \<in> set (decimal n). is_ascii_digit d) \<and> number_of 0 (decimal n) = n"
proof (induction n rule: decimal.induct)
  case (1 n)
  then show ?case
    by (cases "n < 10") (simp_all add: decimal.simps [of n] ball_Un)
qed

section \<open>Parsing\<close>

text \<open>The texts that name an endpoint, written as a grammar: \<open>h\<close> the host, \<open>ds\<close> the port's
  digits.\<close>

definition port_text :: "string \<Rightarrow> u16 \<Rightarrow> bool" where
  "port_text ds p \<longleftrightarrow> ds \<noteq> [] \<and> (\<forall>d \<in> set ds. is_ascii_digit d) \<and> number_of 0 ds = unat p"

inductive endpoint_text :: "string \<Rightarrow> u16 option \<Rightarrow> string \<Rightarrow> u16 \<Rightarrow> bool" where
  plain: "set h \<inter> {CHR ''['', CHR '']'', CHR '':''} = {} \<Longrightarrow> port_text ds p \<Longrightarrow>
    endpoint_text (h @ '':'' @ ds) dp h p"
| plain_default: "set h \<inter> {CHR ''['', CHR '']'', CHR '':''} = {} \<Longrightarrow> h \<noteq> [] \<Longrightarrow>
    endpoint_text h (Some p) h p"
| bracketed: "CHR '':'' \<in> set h \<Longrightarrow> set h \<inter> {CHR ''['', CHR '']''} = {} \<Longrightarrow> port_text ds p \<Longrightarrow>
    endpoint_text (''['' @ h @ '']:'' @ ds) dp h p"
| bracketed_default: "CHR '':'' \<in> set h \<Longrightarrow> set h \<inter> {CHR ''['', CHR '']''} = {} \<Longrightarrow>
    endpoint_text (''['' @ h @ '']'') (Some p) h p"

lemma port_text_number:
  "port_text ds p \<longleftrightarrow> port_number t ds = (Inr p :: 'i error + u16)"
proof -
  have "number_of 0 ds = unat p \<longleftrightarrow> number_of 0 ds \<le> 65535 \<and> of_nat (number_of 0 ds) = p"
  proof
    assume "number_of 0 ds = unat p"
    moreover have "unat p < 2 ^ LENGTH(16)"
      by (rule unsigned_less)
    ultimately show "number_of 0 ds \<le> 65535 \<and> of_nat (number_of 0 ds) = p"
      by simp
  next
    assume "number_of 0 ds \<le> 65535 \<and> of_nat (number_of 0 ds) = p"
    then show "number_of 0 ds = unat p"
      by (auto simp: unat_of_nat take_bit_nat_eq_self)
  qed
  then show ?thesis
    by (auto simp: port_text_def port_number_value refuse_def)
qed

lemma port_text_no_special:
  "port_text ds p \<Longrightarrow> set ds \<inter> {CHR ''['', CHR '']'', CHR '':''} = {}"
  by (auto simp: port_text_def is_ascii_digit_def)

lemma length_takeWhile_neq: "c \<in> set xs \<Longrightarrow> length (takeWhile (\<lambda>x. x \<noteq> c) xs) < length xs"
  by (induction xs) auto

lemma find_char_append: "c \<notin> set xs \<Longrightarrow> find_char c (xs @ c # ys) = Some (length xs)"
  by (auto simp: find_char_def intro!: arg_cong [where f = length] takeWhile_append2 [THEN trans])

lemma find_char_SomeD:
  assumes "find_char c xs = Some n"
  shows "xs = take n xs @ c # drop (Suc n) xs \<and> c \<notin> set (take n xs)"
proof -
  have c: "c \<in> set xs" "n = length (takeWhile (\<lambda>x. x \<noteq> c) xs)"
    using assms by (auto simp: find_char_def split: if_splits)
  then have "n < length xs" "xs ! n = c"
    using nth_length_takeWhile [of "\<lambda>x. x \<noteq> c" xs] length_takeWhile_neq [of c xs]
    by auto
  moreover have "take n xs = takeWhile (\<lambda>x. x \<noteq> c) xs"
    by (simp add: c takeWhile_eq_take [symmetric])
  ultimately show ?thesis
    using id_take_nth_drop [of n xs] by (auto dest: set_takeWhileD)
qed

lemma after_host_iff:
  "after_host t dp host n = (Inr (h, p) :: 'i error + _) \<longleftrightarrow>
    h = host \<and> (if n = length t then dp = Some p else port_text (drop (Suc n) t) p)"
  by (auto simp: after_host_def refuse_def port_text_number [where ?'i = 'i and t = t]
      split: option.split sum.split)

lemma parse_bracketed:
  assumes "CHR '']'' \<notin> set a"
  shows "parse_endpoint (CHR ''['' # a @ CHR '']'' # r) dp = (Inr (h, p) :: 'i error + _) \<longleftrightarrow>
    h = a \<and> CHR '':'' \<in> set a \<and> CHR ''['' \<notin> set a \<and>
    (case r of [] \<Rightarrow> dp = Some p | c # ds \<Rightarrow> c = CHR '':'' \<and> port_text ds p)"
  using assms
  by (auto simp: parse_endpoint_def find_char_append after_host_iff refuse_def Let_def nth_append
      split: list.split)

lemma parse_unbracketed:
  assumes "t \<noteq> []" "set t \<inter> {CHR ''['', CHR '']''} = {}"
  shows "parse_endpoint t dp = (Inr (h, p) :: 'i error + _) \<longleftrightarrow>
    (case find_char CHR '':'' t of
       None \<Rightarrow> h = t \<and> dp = Some p
     | Some n \<Rightarrow> h = take n t \<and> CHR '':'' \<notin> set (drop (Suc n) t) \<and> port_text (drop (Suc n) t) p)"
proof -
  have "find_char CHR '':'' t = Some n \<Longrightarrow> n \<noteq> length t" for n
    using length_takeWhile_neq by (fastforce simp: find_char_def split: if_splits)
  then show ?thesis
    using assms
    by (cases t) (auto simp: parse_endpoint_def after_host_iff refuse_def split: option.split)
qed

lemma parse_no_close:
  "CHR '']'' \<notin> set r \<Longrightarrow> parse_endpoint (CHR ''['' # r) dp \<noteq> (Inr (h, p) :: 'i error + _)"
  by (simp add: parse_endpoint_def find_char_def refuse_def)

lemma parse_endpoint_complete:
  assumes "endpoint_text t dp h p"
  shows "parse_endpoint t dp = (Inr (h, p) :: 'i error + _)"
  using assms
proof cases
  case (plain ds)
  then show ?thesis
    using port_text_no_special [OF plain(3)]
    by (subst parse_unbracketed) (auto simp: find_char_append)
next
  case plain_default
  then show ?thesis
    by (subst parse_unbracketed) (auto simp: find_char_def)
next
  case (bracketed ds)
  then show ?thesis
    by (simp add: parse_bracketed)
next
  case bracketed_default
  then show ?thesis
    by (simp add: parse_bracketed)
qed

lemma parse_endpoint_sound:
  assumes "parse_endpoint t dp = (Inr (h, p) :: 'i error + _)"
  shows "endpoint_text t dp h p"
proof -
  consider "t = []"
    | r where "t = CHR ''['' # r" "CHR '']'' \<notin> set r"
    | a r where "t = CHR ''['' # a @ CHR '']'' # r" "CHR '']'' \<notin> set a"
    | "t \<noteq> []" "set t \<inter> {CHR ''['', CHR '']''} = {}"
    | "t \<noteq> []" "hd t \<noteq> CHR ''[''" "set t \<inter> {CHR ''['', CHR '']''} \<noteq> {}"
    by (cases t; cases "CHR '']'' \<in> set (tl t)") (auto dest!: split_list_first, blast+)
  then show ?thesis
  proof cases
    case (3 a r)
    then show ?thesis
      using assms endpoint_text.bracketed [of h _ p dp] endpoint_text.bracketed_default [of h p]
      by (auto simp: parse_bracketed split: list.splits)
  next
    case 4
    show ?thesis
    proof (cases "find_char CHR '':'' t")
      case None
      then show ?thesis
        using 4 assms by (auto simp: parse_unbracketed find_char_def split: if_splits
            intro!: endpoint_text.plain_default)
    next
      case (Some n)
      then have "t = h @ '':'' @ drop (Suc n) t" "CHR '':'' \<notin> set h" "port_text (drop (Suc n) t) p"
        using 4 assms find_char_SomeD [OF Some] by (auto simp: parse_unbracketed)
      then show ?thesis
        using 4 endpoint_text.plain [of h "drop (Suc n) t" p dp] by (metis set_append Int_Un_distrib2
            Un_empty disjoint_insert(1) Int_insert_right_if0)
    qed
  qed (use assms parse_no_close in \<open>auto simp: parse_endpoint_def refuse_def split: list.splits\<close>)
qed

text \<open>C32: \<open>parse_endpoint\<close> accepts exactly the texts of the grammar, with the host and the port it
  gives them: every text out of it is refused.\<close>

theorem parse_endpoint_iff:
  "parse_endpoint t dp = (Inr (h, p) :: 'i error + _) \<longleftrightarrow> endpoint_text t dp h p"
  using parse_endpoint_complete parse_endpoint_sound by blast

text \<open>C33: what \<open>format_endpoint\<close> writes for a host without brackets, \<open>parse_endpoint\<close> reads back,
  whatever the default port.\<close>

theorem format_parse:
  assumes "set host \<inter> {CHR ''['', CHR '']''} = {}"
  shows "parse_endpoint (format_endpoint host port) dp = (Inr (host, port) :: 'i error + _)"
proof -
  have "port_text (decimal (unat port)) port"
    using decimal_digits by (simp add: port_text_def)
  then have "endpoint_text (format_endpoint host port) dp host port"
    using assms endpoint_text.plain [of host] endpoint_text.bracketed [of host]
    by (auto simp: format_endpoint_def)
  then show ?thesis
    by (rule parse_endpoint_complete)
qed

theorem format_parse_witness:
  "format_endpoint ''::1'' 1980 = ''[::1]:1980'' \<and>
   parse_endpoint (format_endpoint ''::1'' 1980) None = (Inr (''::1'', 1980) :: nat error + _)"
proof
  show "format_endpoint ''::1'' 1980 = ''[::1]:1980''"
    by code_simp
  show "parse_endpoint (format_endpoint ''::1'' 1980) None = (Inr (''::1'', 1980) :: nat error + _)"
    by (rule format_parse) simp
qed

end
