(* ===== verification/Core_Drops.thy ===== *)
theory Core_Drops
  imports Core_Basics Endpoint
begin

text \<open>
  The one place every message given up on goes through (\<open>core/client/mod.rs\<close>, \<open>report_drop\<close>), with
  what it calls: the drop lines and their timer, the flushes told of a loss
  (\<open>core/outbox/flush.rs\<close>), and, for the frame of a confirmed batch, the ends of its messages
  (\<open>core/confirming/mod.rs\<close>).
\<close>

section \<open>Drop lines\<close>

definition drop_line_first :: "kind \<Rightarrow> string \<Rightarrow> core \<Rightarrow> bool \<times> core" where
  "drop_line_first kind make_text s =
    (case first_line (log_enabled (env s)) kind make_text (now s) (cl_drop_lines (client s)) of
       (None, _) \<Rightarrow> (False, s)
     | (Some first, lines) \<Rightarrow>
       let s = s\<lparr>client := (client s)\<lparr>cl_drop_lines := lines\<rparr>\<rparr>;
           s = (if cl_drop_lines_timer (client s) = None then
                  let (key, s) = arm_timer (now s + INTERVAL) LogSummary s
                  in s\<lparr>client := (client s)\<lparr>cl_drop_lines_timer := Some key\<rparr>\<rparr>
                else s)
       in (first, s))"

definition note_said :: "said list \<Rightarrow> core \<Rightarrow> core" where
  "note_said lines s = s\<lparr>calls := calls s @ map LogSaid lines\<rparr>"

text \<open>What a caller does with it: the first of its kind is logged, with what the caller knows of it.\<close>

definition say_drop :: "drop_line \<Rightarrow> u32 \<Rightarrow> u64 \<Rightarrow> string \<Rightarrow> string \<Rightarrow> core \<Rightarrow> core" where
  "say_drop line ty peer txt now_txt s =
    (let (first, s) = drop_line_first (drop_line_number line, Level_Warn, ty, peer) txt s
     in if first then note_call (LogLine Level_Warn now_txt) s else s)"

definition log_summary_tick :: "core \<Rightarrow> core" where
  "log_summary_tick s =
    (let s = s\<lparr>client := (client s)\<lparr>cl_drop_lines_timer := None\<rparr>\<rparr>;
         (lines, more_left, summary) = say False (now s) (cl_drop_lines (client s));
         s = note_said lines (s\<lparr>client := (client s)\<lparr>cl_drop_lines := summary\<rparr>\<rparr>)
     in if more_left then
          let (key, s) = arm_timer (now s + INTERVAL) LogSummary s
          in s\<lparr>client := (client s)\<lparr>cl_drop_lines_timer := Some key\<rparr>\<rparr>
        else s)"

definition flush_drop_lines :: "core \<Rightarrow> core" where
  "flush_drop_lines s =
    (let s = cancel_timer (cl_drop_lines_timer (client s)) s;
         s = s\<lparr>client := (client s)\<lparr>cl_drop_lines_timer := None\<rparr>\<rparr>;
         (lines, _, summary) = say True (now s) (cl_drop_lines (client s))
     in note_said lines (s\<lparr>client := (client s)\<lparr>cl_drop_lines := summary\<rparr>\<rparr>))"

section \<open>Flushes told\<close>

definition post_callbacks :: "core \<Rightarrow> core" where
  "post_callbacks s =
    (if oe_callbacks_posted (ends s) then s
     else post ProcessCallbacks (s\<lparr>ends := (ends s)\<lparr>oe_callbacks_posted := True\<rparr>\<rparr>))"

definition flushing :: "core \<Rightarrow> bool" where
  "flushing s \<longleftrightarrow> oe_flushes (ends s) \<noteq> []"

text \<open>The loop over the flushes that wait, each changed where its state is.\<close>

definition each_flush :: "(flush \<Rightarrow> flush) \<Rightarrow> core \<Rightarrow> core" where
  "each_flush g s = s\<lparr>ends := (ends s)\<lparr>oe_flush_states :=
     fold (\<lambda>id. AList.map_entry id g) (oe_flushes (ends s)) (oe_flush_states (ends s))\<rparr>\<rparr>"

definition flushes_lost_confirmed :: "nat \<Rightarrow> core \<Rightarrow> core" where
  "flushes_lost_confirmed number =
    each_flush (\<lambda>fl. if number \<le> fl_confirm_mark fl then fl\<lparr>fl_lost := True\<rparr> else fl)"

definition flushes_lost :: "nat \<Rightarrow> core \<Rightarrow> core" where
  "flushes_lost number =
    each_flush (\<lambda>fl. if number \<noteq> 0 \<and> number \<le> fl_last_number fl then fl\<lparr>fl_lost := True\<rparr> else fl)"

definition wait_flushes :: "nat \<Rightarrow> int \<Rightarrow> core \<Rightarrow> core" where
  "wait_flushes number copies =
    each_flush (\<lambda>fl. if number \<le> fl_last_number fl then fl\<lparr>fl_waiting := fl_waiting fl + copies\<rparr> else fl)"

section \<open>A message of a confirmed batch given up on\<close>

definition report_record_drop :: "u64 \<Rightarrow> u32 \<Rightarrow> drop_reason \<Rightarrow> core \<Rightarrow> core" where
  "report_record_drop mid ty reason s =
    (let s = s\<lparr>client := (client s)\<lparr>cl_dropped := cl_dropped (client s) + 1\<rparr>\<rparr>;
         (line, txt) = drop_line_of reason;
         s = say_drop line ty 0 txt (txt @ ''; id '' @ decimal (unat mid) @ '', type '' @ decimal (unat ty)) s
     in if cl_drop_observer (client s) \<noteq> None then
          post_callbacks (s\<lparr>ends := (ends s)\<lparr>oe_drop_events := oe_drop_events (ends s) @ [(mid, reason)]\<rparr>\<rparr>)
        else s)"

definition cg_count :: "confirming \<Rightarrow> nat" where
  "cg_count cg = length (cg_ids cg)"

definition cg_number :: "confirming \<Rightarrow> nat \<Rightarrow> nat option" where
  "cg_number cg index =
    (if cg_numbers cg = [] then Some (cg_first_number cg + index)
     else if index < length (cg_numbers cg) then Some (cg_numbers cg ! index) else None)"

definition id_of :: "confirming \<Rightarrow> nat \<Rightarrow> u64 option" where
  "id_of cg index = (if index < length (cg_ids cg) then Some (cg_ids cg ! index) else None)"

text \<open>\<open>binary_search_by_key\<close> on the followed messages, which are in the order of their places: the one
  of that place, if any.\<close>

definition take_end :: "nat \<Rightarrow> confirming \<Rightarrow> (send_done option \<times> tracker option) \<times> confirming" where
  "take_end index cg =
    (case find (\<lambda>fd. fd_index fd = index) (cg_followed cg) of
       None \<Rightarrow> ((None, None), cg)
     | Some fd \<Rightarrow> ((fd_done fd, fd_tracker fd),
         cg\<lparr>cg_followed := update_first (\<lambda>fd. fd_index fd = index)
           (\<lambda>fd. fd\<lparr>fd_done := None, fd_tracker := None\<rparr>) (cg_followed cg)\<rparr>))"

definition confirmed_end ::
  "u64 \<Rightarrow> nat \<Rightarrow> u32 \<Rightarrow> tracker option \<Rightarrow> send_done option \<Rightarrow> bool \<Rightarrow> drop_reason \<Rightarrow> bool \<Rightarrow> core \<Rightarrow> core" where
  "confirmed_end mid number ty tracker done processed reason report s =
    (let s = (if processed then s
              else let s = flushes_lost_confirmed number s
                   in if report then report_record_drop mid ty reason s else s);
         s = (case tracker of
                None \<Rightarrow> s
              | Some t \<Rightarrow> if tracker_get s t = Queued
                          then tracker_set t (if processed then Sent else Lost) s else s);
         s = (case done of
                None \<Rightarrow> s
              | Some d \<Rightarrow> s\<lparr>confirmer := (confirmer s)\<lparr>cr_ends := cr_ends (confirmer s)
                   @ [(d, if processed then 1 else 0)]\<rparr>\<rparr>)
     in if cr_ends (confirmer s) \<noteq> [] \<or> flushing s then post_callbacks s else s)"

definition resolve_in ::
  "confirming \<Rightarrow> nat \<Rightarrow> bool \<Rightarrow> drop_reason \<Rightarrow> bool \<Rightarrow> core \<Rightarrow> bool \<times> confirming \<times> core" where
  "resolve_in cg index processed reason report s =
    (case (flag_at (cg_resolved cg) index, set_flag index (cg_resolved cg), id_of cg index, cg_number cg index) of
       (Some resolved, Some flags, Some mid, Some number) \<Rightarrow>
         if resolved then (False, cg, s)
         else let cg = cg\<lparr>cg_resolved := flags, cg_unresolved := cg_unresolved cg - 1\<rparr>;
                  s = s\<lparr>confirmer := (confirmer s)\<lparr>cr_unconfirmed := cr_unconfirmed (confirmer s) - 1\<rparr>\<rparr>;
                  ((done, tracker), cg) = take_end index cg;
                  mid = (if \<not> processed \<and> report then mid else 0)
              in (True, cg, confirmed_end mid number (cg_type cg) tracker done processed reason report s)
     | _ \<Rightarrow> (False, cg, panic s))"

text \<open>The loop over every message of a batch.\<close>

definition resolve_all :: "drop_reason \<Rightarrow> bool \<Rightarrow> confirming \<Rightarrow> core \<Rightarrow> confirming \<times> core" where
  "resolve_all reason report cg s =
    fold (\<lambda>index (cg, s). snd (resolve_in cg index False reason report s)) [0..<cg_count cg] (cg, s)"

definition put_batch :: "u64 \<Rightarrow> confirming \<Rightarrow> core \<Rightarrow> core" where
  "put_batch mid cg s = s\<lparr>confirmer := (confirmer s)\<lparr>cr_by_id := AList.update mid cg (cr_by_id (confirmer s))\<rparr>\<rparr>"

text \<open>\<open>with_batch\<close>: the batch taken out of the map while \<open>work\<close> runs.\<close>

definition with_batch ::
  "u64 \<Rightarrow> (confirming \<Rightarrow> core \<Rightarrow> 'r \<times> confirming \<times> core) \<Rightarrow> core \<Rightarrow> 'r option \<times> core" where
  "with_batch mid work s =
    (case map_of (cr_by_id (confirmer s)) mid of
       None \<Rightarrow> (None, s)
     | Some cg \<Rightarrow>
       let s = s\<lparr>confirmer := (confirmer s)\<lparr>cr_by_id := AList.delete mid (cr_by_id (confirmer s))\<rparr>\<rparr>;
           (r, cg, s) = work cg s
       in (Some r, put_batch mid cg s))"

definition stop_confirm_timer :: "core \<Rightarrow> core" where
  "stop_confirm_timer s =
    (let s = cancel_timer (cr_timer (confirmer s)) s
     in s\<lparr>confirmer := (confirmer s)\<lparr>cr_timer := None, cr_armed := None\<rparr>\<rparr>)"

text \<open>The runs of a batch taken out, those still its own.\<close>

definition drop_runs :: "u64 \<Rightarrow> nat list \<Rightarrow> (nat, run) btree_map \<Rightarrow> (nat, run) btree_map" where
  "drop_runs mid = fold (\<lambda>key runs. case map_of runs key of
     None \<Rightarrow> runs
   | Some run \<Rightarrow> if rn_batch run = mid then AList.delete key runs else runs)"

definition forget_resolved :: "u64 \<Rightarrow> core \<Rightarrow> core" where
  "forget_resolved mid s =
    (case map_of (cr_by_id (confirmer s)) mid of
       None \<Rightarrow> s
     | Some cg \<Rightarrow>
       if cg_unresolved cg \<noteq> 0 then s
       else let cr = (confirmer s)\<lparr>cr_by_id := AList.delete mid (cr_by_id (confirmer s))\<rparr>;
                cr = (case cg_due cg of
                        None \<Rightarrow> cr
                      | Some due \<Rightarrow> cr\<lparr>cr_by_due := bts_remove (due, mid) (cr_by_due cr)\<rparr>);
                cr = cr\<lparr>cr_runs := drop_runs mid (cg_run_keys cg) (cr_runs cr)\<rparr>;
                s = s\<lparr>confirmer := cr\<rparr>
            in if cr_by_due cr = [] then stop_confirm_timer s else s)"

definition confirmed_frame_dropped :: "u64 \<Rightarrow> drop_reason \<Rightarrow> core \<Rightarrow> core" where
  "confirmed_frame_dropped mid reason s =
    (let (_, s) = with_batch mid (\<lambda>cg s. let (cg, s) = resolve_all reason True cg s in ((), cg, s)) s
     in forget_resolved mid s)"

section \<open>Every drop\<close>

definition report_drop :: "out_frame \<Rightarrow> drop_reason \<Rightarrow> core \<Rightarrow> core" where
  "report_drop f reason s =
    (if o_confirmed f then confirmed_frame_dropped (o_id f) reason (flushes_lost (o_number f) s)
     else
       let s = s\<lparr>client := (client s)\<lparr>cl_dropped := cl_dropped (client s)
                 + (case o_batch f of None \<Rightarrow> 1 | Some mids \<Rightarrow> length mids)\<rparr>\<rparr>;
           (line, txt) = drop_line_of reason;
           batch_of = (case o_batch f of
             None \<Rightarrow> [] | Some mids \<Rightarrow> ''a batch of '' @ decimal (length mids) @ '', '');
           s = say_drop line (o_type f) 0 txt
             (txt @ ''; '' @ batch_of @ ''id '' @ decimal (unat (o_id f)) @ '', type '' @ decimal (unat (o_type f))) s;
           s = flushes_lost (o_number f) s
       in if cl_drop_observer (client s) \<noteq> None then
            post_callbacks (s\<lparr>ends := (ends s)\<lparr>oe_drop_events := oe_drop_events (ends s)
              @ (case o_batch f of None \<Rightarrow> [(o_id f, reason)] | Some mids \<Rightarrow> map (\<lambda>mid. (mid, reason)) mids)\<rparr>\<rparr>)
          else s)"

definition tell_drops :: "core \<Rightarrow> core" where
  "tell_drops s =
    (let told = oe_drop_events (ends s);
         s = s\<lparr>ends := (ends s)\<lparr>oe_drop_events := []\<rparr>\<rparr>
     in case cl_drop_observer (client s) of
          None \<Rightarrow> s
        | Some observer \<Rightarrow> fold (\<lambda>(mid, reason). note_call (CallDrop observer mid reason)) told s)"

end
