(* ===== verification/Outbox_Flush.thy ===== *)
theory Outbox_Flush
  imports Core_Drops
begin

text \<open>
  The ends of what was sent (\<open>core/outbox/flush.rs\<close>): a followed send's \<open>done\<close>, heard in the pass that
  runs the callbacks, and the flushes; with the ends of the confirmed sends that pass runs
  (\<open>core/confirming\<close>), the end of a batch's frame (\<open>core/bodies.rs\<close>) and the threaded client's waits
  (\<open>core/threaded.rs\<close>).
\<close>

section \<open>The confirmed batches' timer\<close>

definition earliest :: "instant option \<Rightarrow> instant option \<Rightarrow> instant option" where
  "earliest first second = (case (first, second) of
     (Some a, Some b) \<Rightarrow> Some (min a b)
   | (Some a, None) \<Rightarrow> Some a
   | (None, b) \<Rightarrow> b)"

definition arm_confirm_timer :: "core \<Rightarrow> core" where
  "arm_confirm_timer s =
    (if cr_firing (confirmer s) then s
     else case cr_by_due (confirmer s) of
       [] \<Rightarrow> stop_confirm_timer s
     | (first, _) # _ \<Rightarrow>
       if (case cr_armed (confirmer s) of None \<Rightarrow> False | Some at \<Rightarrow> at \<le> first) then s
       else let s = s\<lparr>confirmer := (confirmer s)\<lparr>cr_armed := Some first\<rparr>\<rparr>;
                (key, s) = rearm_timer (cr_timer (confirmer s)) first Confirmations s
            in s\<lparr>confirmer := (confirmer s)\<lparr>cr_timer := key\<rparr>\<rparr>)"

definition confirming_due :: "u64 \<Rightarrow> core \<Rightarrow> core" where
  "confirming_due bid s =
    (case map_of (cr_by_id (confirmer s)) bid of
       None \<Rightarrow> s
     | Some cg \<Rightarrow>
       let due = earliest (if cg_written cg then cg_retry_at cg else None) (cg_deadline cg)
       in if due = cg_due cg then s
          else let before = cg_due cg;
                   s = put_batch bid (cg\<lparr>cg_due := due\<rparr>) s;
                   s = (case before of
                          None \<Rightarrow> s
                        | Some at \<Rightarrow> s\<lparr>confirmer := (confirmer s)\<lparr>cr_by_due :=
                            bts_remove (at, bid) (cr_by_due (confirmer s))\<rparr>\<rparr>)
               in case due of
                    Some at \<Rightarrow>
                      let s = s\<lparr>confirmer := (confirmer s)\<lparr>cr_by_due :=
                                bts_insert (at, bid) (cr_by_due (confirmer s))\<rparr>\<rparr>
                      in if (case cr_armed (confirmer s) of None \<Rightarrow> True | Some before \<Rightarrow> at < before)
                         then arm_confirm_timer s else s
                  | None \<Rightarrow> if cr_by_due (confirmer s) = [] then stop_confirm_timer s else s)"

definition confirming_written :: "u64 \<Rightarrow> nat \<Rightarrow> core \<Rightarrow> core" where
  "confirming_written bid written s =
    (case map_of (cr_by_id (confirmer s)) bid of
       None \<Rightarrow> s
     | Some cg \<Rightarrow>
       if written = 0 then
         let (_, s) = with_batch bid (\<lambda>cg s. let (cg, s) = resolve_all NoConnection False cg s in ((), cg, s)) s
         in forget_resolved bid s
       else
         let retry = deadline_after (now s) (Some (d_retry_after (cg_delivery cg)));
             cg = cg\<lparr>cg_written := True, cg_retry_at := earliest (cg_retry_at cg) retry\<rparr>
         in confirming_due bid (put_batch bid cg s))"

section \<open>Who hears an end\<close>

definition settle_send :: "nat \<Rightarrow> nat \<Rightarrow> bool \<Rightarrow> core \<Rightarrow> core" where
  "settle_send n written not_connected s =
    (case map_of (th_sends (threaded s)) n of
       None \<Rightarrow> s
     | Some pending \<Rightarrow>
       let s = s\<lparr>threaded := (threaded s)\<lparr>th_sends := AList.delete n (th_sends (threaded s))\<rparr>\<rparr>
       in case ps_settled pending of
            None \<Rightarrow> s
          | Some c \<Rightarrow> note_call (CallSettled c written not_connected) s)"

text \<open>\<open>end_batch\<close>'s tracker, and \<open>end_send\<close> with \<open>end_batch\<close>, which call each other.\<close>

definition end_tracker :: "tracker option \<Rightarrow> nat \<Rightarrow> core \<Rightarrow> core" where
  "end_tracker tracker written s = (case tracker of
     None \<Rightarrow> s
   | Some t \<Rightarrow> if tracker_get s t = Queued
               then tracker_set t (if written > 0 then Sent else Lost) s else s)"

fun end_send :: "send_done \<Rightarrow> nat \<Rightarrow> core \<Rightarrow> core"
  and end_batch :: "(send_done option \<times> tracker option) list \<Rightarrow> nat \<Rightarrow> core \<Rightarrow> core" where
  "end_send (Callback c) written s = note_call (CallSendEnd c written) s"
| "end_send (Settle n) written s = settle_send n written (written = 0) s"
| "end_send (Batch each) written s = end_batch each written s"
| "end_send (Confirmed bid) written s = confirming_written bid written s"
| "end_batch [] written s = s"
| "end_batch ((None, tracker) # each) written s = end_batch each written (end_tracker tracker written s)"
| "end_batch ((Some d, tracker) # each) written s =
    end_batch each written (end_send d written (end_tracker tracker written s))"

definition end_flush :: "flush_id \<Rightarrow> core \<Rightarrow> core" where
  "end_flush fid s = s\<lparr>ends := (ends s)\<lparr>oe_flushes := filter (\<lambda>each. each \<noteq> fid) (oe_flushes (ends s)),
     oe_flush_states := AList.delete fid (oe_flush_states (ends s))\<rparr>\<rparr>"

definition end_flush_wait :: "nat \<Rightarrow> bool \<Rightarrow> core \<Rightarrow> core" where
  "end_flush_wait n flushed s =
    (case find (\<lambda>fw. fw_id fw = n) (th_flush_waits (threaded s)) of
       None \<Rightarrow> s
     | Some fw \<Rightarrow>
       let s = s\<lparr>threaded := (threaded s)\<lparr>th_flush_waits :=
                 remove_first (\<lambda>fw. fw_id fw = n) (th_flush_waits (threaded s))\<rparr>\<rparr>;
           s = (case fw_flush fw of None \<Rightarrow> s | Some fid \<Rightarrow> end_flush fid s);
           s = cancel_timer (fw_timer fw) s
       in case fw_done fw of None \<Rightarrow> s | Some c \<Rightarrow> note_call (CallFlushEnd c flushed) s)"

definition flush_wait_expired :: "nat \<Rightarrow> core \<Rightarrow> core" where
  "flush_wait_expired n s =
    end_flush_wait n False (s\<lparr>threaded := (threaded s)\<lparr>th_flush_waits :=
      update_first (\<lambda>fw. fw_id fw = n) (\<lambda>fw. fw\<lparr>fw_timer := None\<rparr>) (th_flush_waits (threaded s))\<rparr>\<rparr>)"

section \<open>Flushes\<close>

definition first_unconfirmed :: "core \<Rightarrow> nat option" where
  "first_unconfirmed s = (case cr_runs (confirmer s) of [] \<Rightarrow> None | (first, _) # _ \<Rightarrow> Some first)"

definition flushed :: "core \<Rightarrow> flush_id \<Rightarrow> bool" where
  "flushed s fid \<longleftrightarrow> (case map_of (oe_flush_states (ends s)) fid of None \<Rightarrow> False | Some fl \<Rightarrow> fl_flushed fl)"

definition all_written :: "core \<Rightarrow> flush_id \<Rightarrow> bool" where
  "all_written s fid \<longleftrightarrow>
    (case map_of (oe_flush_states (ends s)) fid of None \<Rightarrow> False | Some fl \<Rightarrow> fl_flushed fl \<and> \<not> fl_lost fl)"

text \<open>The \<open>retain\<close> over the flushes that wait: those that go on waiting, their states, and those that
  are done.\<close>

fun check_each :: "(tracker \<Rightarrow> send_state) \<Rightarrow> nat option \<Rightarrow> flush_id list \<Rightarrow> (flush_id, flush) hash_map \<Rightarrow>
    flush_id list \<times> (flush_id, flush) hash_map \<times> flush_id list" where
  "check_each get unconfirmed [] m = ([], m, [])"
| "check_each get unconfirmed (fid # fids) m =
    (case map_of m fid of
       None \<Rightarrow> check_each get unconfirmed fids m
     | Some fl \<Rightarrow>
       let fl = fl\<lparr>fl_marks := filter (\<lambda>(_, t). get t = Queued) (fl_marks fl)\<rparr>;
           confirming = (case unconfirmed of None \<Rightarrow> False | Some first \<Rightarrow> first \<le> fl_confirm_mark fl)
       in if fl_waiting fl \<noteq> 0 \<or> fl_marks fl \<noteq> [] \<or> confirming then
            let (kept, m, finished) = check_each get unconfirmed fids (AList.update fid fl m)
            in (fid # kept, m, finished)
          else
            let (kept, m, finished) =
                  check_each get unconfirmed fids (AList.update fid (fl\<lparr>fl_flushed := True\<rparr>) m)
            in (kept, m, fid # finished))"

definition finish_flush :: "flush_id \<Rightarrow> core \<Rightarrow> core" where
  "finish_flush fid s =
    (case map_of (oe_flush_states (ends s)) fid of
       None \<Rightarrow> s
     | Some fl \<Rightarrow>
       let s = s\<lparr>ends := (ends s)\<lparr>oe_flush_states :=
                 AList.update fid (fl\<lparr>fl_done := None\<rparr>) (oe_flush_states (ends s))\<rparr>\<rparr>
       in case fl_done fl of
            Some (WaitDone n) \<Rightarrow> end_flush_wait n (\<not> fl_lost fl) s
          | Some DrainDone \<Rightarrow> post WriteOutStep s
          | None \<Rightarrow> s)"

definition check_flushes :: "core \<Rightarrow> core" where
  "check_flushes s =
    (if oe_flushes (ends s) = [] \<or> oe_follow_events (ends s) \<noteq> [] \<or> oe_drop_events (ends s) \<noteq> []
        \<or> cr_ends (confirmer s) \<noteq> [] then s
     else let (kept, m, finished) =
                check_each (trackers s) (first_unconfirmed s) (oe_flushes (ends s)) (oe_flush_states (ends s));
              s = s\<lparr>ends := (ends s)\<lparr>oe_flushes := kept, oe_flush_states := m\<rparr>\<rparr>
          in fold finish_flush finished s)"

section \<open>Followed sends\<close>

definition follow_event :: "tracker \<Rightarrow> bool \<Rightarrow> core \<Rightarrow> core" where
  "follow_event t written s =
    (if \<not> hm_contains (oe_follows (ends s)) t then s
     else post_callbacks (s\<lparr>ends := (ends s)\<lparr>oe_follow_events := oe_follow_events (ends s) @ [(t, written)]\<rparr>\<rparr>))"

definition tracked_message_done :: "tracker \<Rightarrow> bool \<Rightarrow> core \<Rightarrow> core" where
  "tracked_message_done t written s = check_flushes (follow_event t written s)"

definition follow_copies :: "tracker list \<Rightarrow> send_done \<Rightarrow> core \<Rightarrow> core" where
  "follow_copies copies done s =
    (let n = oe_next_follow (ends s) + 1;
         lost = filter (\<lambda>t. tracker_get s t = Lost) copies;
         s = s\<lparr>ends := (ends s)\<lparr>oe_next_follow := n,
               oe_follows := fold (\<lambda>t. AList.update t n) copies (oe_follows (ends s)),
               oe_follow_states := AList.update n \<lparr>fo_done = Some done, fo_copies = copies,
                 fo_live = int (length copies), fo_over = False\<rparr> (oe_follow_states (ends s))\<rparr>\<rparr>
     in fold (\<lambda>t. follow_event t False) lost s)"

definition end_follow :: "nat \<Rightarrow> nat \<Rightarrow> core \<Rightarrow> core" where
  "end_follow n written s =
    (case map_of (oe_follow_states (ends s)) n of
       None \<Rightarrow> s
     | Some fo \<Rightarrow>
       let s = s\<lparr>ends := (ends s)\<lparr>oe_follow_states := AList.delete n (oe_follow_states (ends s))\<rparr>\<rparr>
       in if fo_over fo then s
          else let s = s\<lparr>ends := (ends s)\<lparr>oe_follows :=
                     fold (\<lambda>t m. if map_of m t = Some n then AList.delete t m else m)
                       (fo_copies fo) (oe_follows (ends s))\<rparr>\<rparr>
               in case fo_done fo of None \<Rightarrow> s | Some d \<Rightarrow> end_send d written s)"

definition process_event :: "tracker \<times> bool \<Rightarrow> core \<Rightarrow> core" where
  "process_event e s = (let (t, written) = e in
    case map_of (oe_follows (ends s)) t of
      None \<Rightarrow> s
    | Some n \<Rightarrow>
      let s = s\<lparr>ends := (ends s)\<lparr>oe_follows := AList.delete t (oe_follows (ends s))\<rparr>\<rparr>
      in case map_of (oe_follow_states (ends s)) n of
           None \<Rightarrow> s
         | Some fo \<Rightarrow>
           let fo = fo\<lparr>fo_live := fo_live fo - 1\<rparr>;
               s = s\<lparr>ends := (ends s)\<lparr>oe_follow_states := AList.update n fo (oe_follow_states (ends s))\<rparr>\<rparr>
           in if written then end_follow n 1 s
              else if fo_live fo = 0 then end_follow n 0 s
              else s)"

definition process_follows :: "core \<Rightarrow> core" where
  "process_follows s =
    (let events = oe_follow_events (ends s);
         s = s\<lparr>ends := (ends s)\<lparr>oe_follow_events := []\<rparr>\<rparr>
     in check_flushes (fold process_event events s))"

definition run_confirmed_ends :: "core \<Rightarrow> core" where
  "run_confirmed_ends s =
    (let each = cr_ends (confirmer s)
     in if each = [] then s
        else fold (\<lambda>(d, written). end_send d written) each (s\<lparr>confirmer := (confirmer s)\<lparr>cr_ends := []\<rparr>\<rparr>))"

definition process_callbacks :: "core \<Rightarrow> core" where
  "process_callbacks s = process_follows (run_confirmed_ends (tell_drops s))"

definition end_follows :: "core \<Rightarrow> core" where
  "end_follows s =
    (let s = run_confirmed_ends (tell_drops s);
         s = s\<lparr>ends := (ends s)\<lparr>oe_follow_events := []\<rparr>\<rparr>;
         left = map fst (oe_follow_states (ends s))
     in check_flushes (fold (\<lambda>n. end_follow n 0) left s))"

end
