(* ===== verification/Conn_Queue.thy ===== *)
theory Conn_Queue
  imports Outbox_Flush
begin

text \<open>
  A connection's outgoing queue and its heartbeats (\<open>core/connection.rs\<close>): what is queued, the one write
  in flight, the frame that goes after a write silence and the two waits of a read silence.
\<close>

section \<open>Frames of the client's own\<close>

definition encode_message :: "core \<Rightarrow> message \<Rightarrow> unit error + bytes" where
  "encode_message s m = encode (env_cpu (env s)) (message_len (env s)) (message_encode (env s)) m_key m"

text \<open>\<open>Arc::new\<close> of a frame.\<close>

definition new_frame :: "out_frame \<Rightarrow> core \<Rightarrow> out_frame \<times> core" where
  "new_frame f s = (f\<lparr>o_alloc := next_alloc s\<rparr>, s\<lparr>next_alloc := next_alloc s + 1\<rparr>)"

definition heartbit_frame :: "core \<Rightarrow> out_frame \<times> core" where
  "heartbit_frame s =
    (let message = default_message\<lparr>m_id := Some 0, m_type := HEARTBIT, m_sender := Some (instance_id s)\<rparr>;
         bs = (case encode_message s message of Inl _ \<Rightarrow> [] | Inr bs \<Rightarrow> bs)
     in new_frame \<lparr>o_alloc = 0, o_bytes = bs, o_head = None, o_id = 0, o_type = HEARTBIT, o_pinned = False,
          o_for_all = False, o_own = True, o_number = 0, o_deadline = None, o_batch = None,
          o_confirmed = False\<rparr> s)"

section \<open>The queue\<close>

definition process_send_queue :: "conn_id \<Rightarrow> core \<Rightarrow> core" where
  "process_send_queue c s =
    (case conn_of s c of
       None \<Rightarrow> s
     | Some st \<Rightarrow>
       if c_out st \<noteq> Free \<or> c_shuts_down st then s
       else case c_outgoing st of
         [] \<Rightarrow> s
       | (_, f) # _ \<Rightarrow>
         act (Write c (o_head f) (o_bytes f)) (put_conn c (st\<lparr>c_out := Busy, c_write_in_flight := True\<rparr>) s))"

definition take_over :: "conn_id \<Rightarrow> queue_entry \<Rightarrow> core \<Rightarrow> bool \<times> core" where
  "take_over c entry s =
    (case conn_of s c of
       None \<Rightarrow> (False, s)
     | Some st \<Rightarrow>
       if \<not> c_living st \<or> outgoing_queue_full st then (False, s)
       else (True, process_send_queue c (put_conn c (st\<lparr>c_outgoing := c_outgoing st @ [entry]\<rparr>) s)))"

text \<open>\<open>VecDeque::insert(1, ..)\<close> panics on an empty queue.\<close>

definition schedule :: "conn_id \<Rightarrow> out_frame \<Rightarrow> bool \<Rightarrow> bool \<Rightarrow> core \<Rightarrow> tracker option \<times> core" where
  "schedule c f force asap s =
    (case conn_of s c of
       None \<Rightarrow> (None, s)
     | Some st \<Rightarrow>
       if \<not> c_living st then (None, s)
       else if outgoing_queue_full st
         \<and> (\<not> force \<or> length (c_outgoing st) \<ge> c_outgoing_max st + FORCED_FRAMES_PAST_FULL_QUEUE) then (None, s)
       else
         let (t, s) = new_tracker Queued s;
             entry = (t, f);
             s = (if asap \<and> c_out st = Busy then
                    (case c_outgoing st of
                       front # rest \<Rightarrow> put_conn c (st\<lparr>c_outgoing := front # entry # rest\<rparr>) s
                     | [] \<Rightarrow> panic s)
                  else if asap then put_conn c (st\<lparr>c_outgoing := entry # c_outgoing st\<rparr>) s
                  else put_conn c (st\<lparr>c_outgoing := c_outgoing st @ [entry]\<rparr>) s)
         in (Some t, process_send_queue c s))"

definition notify_when_idle :: "conn_id \<Rightarrow> core \<Rightarrow> core" where
  "notify_when_idle c s = (case conn_of s c of
     None \<Rightarrow> s
   | Some st \<Rightarrow> put_conn c (st\<lparr>c_notify_when_idle := True\<rparr>) s)"

text \<open>\<open>last_queued\<close>: the last entry of a queue that is not the connection's own, changed.\<close>

definition last_queued :: "conn \<Rightarrow> queue_entry option" where
  "last_queued st = find (\<lambda>(_, f). \<not> o_own f) (rev (c_outgoing st))"

definition set_last_queued :: "tracker \<Rightarrow> conn \<Rightarrow> conn" where
  "set_last_queued t st = st\<lparr>c_outgoing :=
     rev (update_first (\<lambda>(_, f). \<not> o_own f) (\<lambda>(_, f). (t, f)) (rev (c_outgoing st)))\<rparr>"

definition track_last_queued :: "conn_id \<Rightarrow> core \<Rightarrow> tracker option \<times> core" where
  "track_last_queued c s =
    (case conn_of s c of
       None \<Rightarrow> (None, s)
     | Some st \<Rightarrow> (case last_queued st of
         None \<Rightarrow> (None, s)
       | Some (t, _) \<Rightarrow>
         if upgrades s t then (Some t, s)
         else let (t, s) = new_tracker Queued s in (Some t, put_conn c (set_last_queued t st) s)))"

section \<open>Heartbeats\<close>

definition send_heartbit_later :: "conn_id \<Rightarrow> core \<Rightarrow> core" where
  "send_heartbit_later c s =
    (case conn_of s c of
       None \<Rightarrow> s
     | Some st \<Rightarrow>
       if \<not> c_living st \<or> c_outgoing st \<noteq> [] then s
       else let st = st\<lparr>c_quiet_since := Some (now s)\<rparr>
            in if c_send_heartbit_timer st = None then
                 let (key, s) = arm_timer (now s + HEARTBIT_INTERVAL) (SendHeartbit c) s
                 in put_conn c (st\<lparr>c_send_heartbit_timer := Some key\<rparr>) s
               else put_conn c st s)"

definition send_heartbit_now :: "conn_id \<Rightarrow> core \<Rightarrow> core" where
  "send_heartbit_now c s =
    (case conn_of s c of
       None \<Rightarrow> s
     | Some st \<Rightarrow>
       let st = st\<lparr>c_send_heartbit_timer := None\<rparr>; s = put_conn c st s
       in if c_shuts_down st \<or> \<not> c_living st then s
          else case c_quiet_since st of
            Some quiet \<Rightarrow>
              if quiet + HEARTBIT_INTERVAL > now s then
                let (key, s) = arm_timer (quiet + HEARTBIT_INTERVAL) (SendHeartbit c) s
                in put_conn c (st\<lparr>c_send_heartbit_timer := Some key\<rparr>) s
              else snd (schedule c (c_heartbit st) True True s)
          | None \<Rightarrow> snd (schedule c (c_heartbit st) True True s))"

definition require_heartbit_later :: "conn_id \<Rightarrow> core \<Rightarrow> core" where
  "require_heartbit_later c s =
    (case conn_of s c of
       None \<Rightarrow> s
     | Some st \<Rightarrow>
       let st = st\<lparr>c_heard_at := Some (now s)\<rparr>
       in if c_require_heartbit_timer st \<noteq> None \<and> \<not> c_silence_second_wait st then put_conn c st s
          else let st = st\<lparr>c_silence_second_wait := False\<rparr>;
                   (key, s) = rearm_timer (c_require_heartbit_timer st)
                     (now s + NO_HEARTBIT_SO_PREPARE_DROP_INTERVAL) (RequireHeartbitSoon c) s
               in put_conn c (st\<lparr>c_require_heartbit_timer := key\<rparr>) s)"

definition require_heartbit_soon :: "conn_id \<Rightarrow> core \<Rightarrow> core" where
  "require_heartbit_soon c s =
    (case conn_of s c of
       None \<Rightarrow> s
     | Some st \<Rightarrow>
       let st = st\<lparr>c_require_heartbit_timer := None\<rparr>
       in if c_shuts_down st then put_conn c st s
          else case c_heard_at st of
            Some heard \<Rightarrow>
              if heard + NO_HEARTBIT_SO_PREPARE_DROP_INTERVAL > now s then
                let (key, s) = arm_timer (heard + NO_HEARTBIT_SO_PREPARE_DROP_INTERVAL) (RequireHeartbitSoon c) s
                in put_conn c (st\<lparr>c_require_heartbit_timer := Some key\<rparr>) s
              else
                let (key, s) = rearm_timer None (now s + NO_HEARTBIT_SO_REALLY_DROP_INTERVAL) (RequireHeartbitNow c) s
                in put_conn c (st\<lparr>c_silence_second_wait := True, c_require_heartbit_timer := key\<rparr>) s
          | None \<Rightarrow>
              let (key, s) = rearm_timer None (now s + NO_HEARTBIT_SO_REALLY_DROP_INTERVAL) (RequireHeartbitNow c) s
              in put_conn c (st\<lparr>c_silence_second_wait := True, c_require_heartbit_timer := key\<rparr>) s)"

definition on_frame_started :: "conn_id \<Rightarrow> core \<Rightarrow> core" where
  "on_frame_started c s =
    (case conn_of s c of
       None \<Rightarrow> s
     | Some st \<Rightarrow> if c_reading st \<and> \<not> c_shuts_down st then require_heartbit_later c s else s)"

end
