(* ===== verification/Outbox_Slab.thy ===== *)
theory Outbox_Slab
  imports Core_Basics
begin

text \<open>
  The slab the waiting messages live in (\<open>core/outbox/state.rs\<close>): entries by place and generation, a
  place free again with its generation raised.  The contract the outbox relies on,
  \<open>entry_store\<close>, is a map from keys to entries in which a key given up never stands for another entry.
\<close>

section \<open>The contract\<close>

text \<open>\<open>eabs\<close> is what is stored, \<open>espent\<close> the keys that were and are not any more.\<close>

locale entry_store =
  fixes einv :: "'s \<Rightarrow> bool"
    and eabs :: "'s \<Rightarrow> 'k \<Rightarrow> 'v option"
    and espent :: "'s \<Rightarrow> 'k set"
    and estore :: "'v \<Rightarrow> 's \<Rightarrow> 'k \<times> 's"
    and eput :: "'k \<Rightarrow> 'v \<Rightarrow> 's \<Rightarrow> 's"
    and efree :: "'k \<Rightarrow> 's \<Rightarrow> 's"
  assumes spent_gone: "einv s \<Longrightarrow> k \<in> espent s \<Longrightarrow> eabs s k = None"
    and store: "einv s \<Longrightarrow> estore v s = (k, s') \<Longrightarrow>
      einv s' \<and> k \<notin> espent s \<and> eabs s k = None \<and> eabs s' = (eabs s)(k \<mapsto> v) \<and> espent s' = espent s"
    and put: "einv s \<Longrightarrow> eabs s k \<noteq> None \<Longrightarrow>
      einv (eput k v s) \<and> eabs (eput k v s) = (eabs s)(k \<mapsto> v) \<and> espent (eput k v s) = espent s"
    and free: "einv s \<Longrightarrow> eabs s k \<noteq> None \<Longrightarrow>
      einv (efree k s) \<and> eabs (efree k s) = (eabs s)(k := None) \<and> espent (efree k s) = insert k (espent s)"
begin

text \<open>The states reached by using the store as it may be used: an entry changed or freed by a key that
  stands for it.\<close>

inductive reaches :: "'s \<Rightarrow> 's \<Rightarrow> bool" where
  stays: "reaches s s"
| stores: "reaches s s' \<Longrightarrow> estore v s' = (k, s'') \<Longrightarrow> reaches s s''"
| puts: "reaches s s' \<Longrightarrow> eabs s' k \<noteq> None \<Longrightarrow> reaches s (eput k v s')"
| frees: "reaches s s' \<Longrightarrow> eabs s' k \<noteq> None \<Longrightarrow> reaches s (efree k s')"

lemma reaches_inv: "reaches s s' \<Longrightarrow> einv s \<Longrightarrow> einv s' \<and> espent s \<subseteq> espent s'"
proof (induction rule: reaches.induct)
  case (stores s s' v k s'')
  then show ?case
    using store [of s' v k s''] by simp
next
  case (puts s s' k v)
  then show ?case
    using put [of s' k v] by simp
next
  case (frees s s' k)
  then show ?case
    using free [of s' k] by auto
qed simp

lemma spent_for_good:
  assumes "reaches s s'" "einv s" "k \<in> espent s"
  shows "eabs s' k = None"
  using reaches_inv [OF assms(1,2)] assms(3) by (auto intro: spent_gone)

lemma freed_for_good:
  assumes "einv s" "eabs s k \<noteq> None" "reaches (efree k s) s'"
  shows "eabs s' k = None"
  using free [OF assms(1,2)] spent_for_good [OF assms(3)] by simp

end

section \<open>The code\<close>

definition slab_store :: "waiting \<Rightarrow> outbox \<Rightarrow> wait_key \<times> outbox" where
  "slab_store w ob =
    (case ob_free ob of
       index # free \<Rightarrow> ((index, ob_generations ob ! index),
         ob\<lparr>ob_free := free, ob_slab := (ob_slab ob)[index := Some w]\<rparr>)
     | [] \<Rightarrow> ((length (ob_slab ob), 0),
         ob\<lparr>ob_slab := ob_slab ob @ [Some w], ob_generations := ob_generations ob @ [0]\<rparr>))"

definition slab_get :: "outbox \<Rightarrow> wait_key \<Rightarrow> waiting option" where
  "slab_get ob key =
    (if fst key < length (ob_generations ob) \<and> ob_generations ob ! fst key = snd key
     then ob_slab ob ! fst key else None)"

text \<open>A change through \<open>get_mut\<close>, of an entry that is stored.\<close>

definition slab_put :: "wait_key \<Rightarrow> waiting \<Rightarrow> outbox \<Rightarrow> outbox" where
  "slab_put key w ob = ob\<lparr>ob_slab := (ob_slab ob)[fst key := Some w]\<rparr>"

definition slab_free :: "wait_key \<Rightarrow> outbox \<Rightarrow> outbox" where
  "slab_free key ob = ob\<lparr>ob_slab := (ob_slab ob)[fst key := None],
     ob_generations := (ob_generations ob)[fst key := ob_generations ob ! fst key + 1],
     ob_free := fst key # ob_free ob\<rparr>"

definition slab_release :: "wait_key \<Rightarrow> outbox \<Rightarrow> outbox" where
  "slab_release key ob =
    (if (case slab_get ob key of None \<Rightarrow> False | Some w \<Rightarrow> w_over w) then slab_free key ob else ob)"

definition backlog_of :: "outbox \<Rightarrow> conn_id \<Rightarrow> backlog option" where
  "backlog_of ob c = find (\<lambda>b. b_conn b = c) (ob_backlogs ob)"

definition backlog_put :: "conn_id \<Rightarrow> (backlog \<Rightarrow> backlog) \<Rightarrow> outbox \<Rightarrow> outbox" where
  "backlog_put c f ob = ob\<lparr>ob_backlogs := update_first (\<lambda>b. b_conn b = c) f (ob_backlogs ob)\<rparr>"

definition entries :: "outbox \<Rightarrow> nat" where
  "entries ob = length (ob_held ob) + length (ob_displaced ob)
     + (\<Sum>b \<leftarrow> ob_backlogs ob. length (b_waiting b))"

definition waits_for :: "outbox \<Rightarrow> conn_id \<Rightarrow> bool" where
  "waits_for ob c \<longleftrightarrow> (\<exists>b \<in> set (ob_backlogs ob). b_conn b = c \<and> b_live b > 0)"

section \<open>The slab keeps the contract\<close>

definition slab_ok :: "outbox \<Rightarrow> bool" where
  "slab_ok ob \<longleftrightarrow> length (ob_generations ob) = length (ob_slab ob) \<and> distinct (ob_free ob)
     \<and> set (ob_free ob) = {i. i < length (ob_slab ob) \<and> ob_slab ob ! i = None}"

definition slab_spent :: "outbox \<Rightarrow> wait_key set" where
  "slab_spent ob = {key. fst key < length (ob_generations ob) \<and> snd key < ob_generations ob ! fst key}"

lemma slab_get_Some:
  "slab_ok ob \<Longrightarrow> slab_get ob key = Some w \<longleftrightarrow>
    fst key < length (ob_slab ob) \<and> ob_generations ob ! fst key = snd key \<and> ob_slab ob ! fst key = Some w"
  by (auto simp: slab_get_def slab_ok_def)

lemma slab_store_new:
  fixes w :: waiting
  assumes "slab_ok ob" "ob_free ob = []"
  defines "ob' \<equiv> ob\<lparr>ob_slab := ob_slab ob @ [Some w], ob_generations := ob_generations ob @ [0]\<rparr>"
  shows "slab_ok ob'" "slab_get ob' = (slab_get ob)((length (ob_slab ob), 0) \<mapsto> w)" "slab_spent ob' = slab_spent ob"
proof -
  have len: "length (ob_generations ob) = length (ob_slab ob)"
    and full: "\<And>i. i < length (ob_slab ob) \<Longrightarrow> ob_slab ob ! i \<noteq> None"
    using assms(1,2) unfolding slab_ok_def by auto
  show "slab_ok ob'"
    using len full assms(2) by (auto simp: slab_ok_def ob'_def nth_append)
  show "slab_get ob' = (slab_get ob)((length (ob_slab ob), 0) \<mapsto> w)"
    using len by (auto simp: fun_eq_iff slab_get_def ob'_def nth_append)
  show "slab_spent ob' = slab_spent ob"
    by (auto simp: slab_spent_def ob'_def nth_append split: if_splits)
qed

lemma slab_okD:
  assumes "slab_ok ob"
  shows "length (ob_generations ob) = length (ob_slab ob)" "distinct (ob_free ob)"
    "i \<in> set (ob_free ob) \<longleftrightarrow> i < length (ob_slab ob) \<and> ob_slab ob ! i = None"
  using assms unfolding slab_ok_def by simp_all

lemma slab_ok_at:
  assumes "slab_ok ob" "i < length (ob_slab ob)" "ob_slab ob' = (ob_slab ob)[i := x]"
    and "set (ob_free ob') = (if x = None then insert i (set (ob_free ob)) else set (ob_free ob) - {i})"
    and "distinct (ob_free ob')" "length (ob_generations ob') = length (ob_slab ob)"
  shows "slab_ok ob'"
proof -
  have "j \<in> set (ob_free ob') \<longleftrightarrow> j < length (ob_slab ob) \<and> ob_slab ob' ! j = None" for j
    unfolding assms(3,4) using slab_okD(3) [OF assms(1), of j] assms(2)
    by (cases "j = i") (simp_all add: nth_list_update)
  then show ?thesis
    using assms(3,5,6) unfolding slab_ok_def by auto
qed

text \<open>The entry of a place, its generation kept or raised.\<close>

lemma slab_get_at:
  assumes "slab_ok ob" "fst key < length (ob_slab ob)" "ob_generations ob ! fst key = snd key"
    and "ob_slab ob' = (ob_slab ob)[fst key := x]"
    and "ob_generations ob' = ob_generations ob
      \<or> x = None \<and> ob_generations ob' = (ob_generations ob)[fst key := Suc (snd key)]"
  shows "slab_get ob' = (slab_get ob)(key := x)"
proof
  fix k :: wait_key
  have len: "length (ob_generations ob) = length (ob_slab ob)"
    by (rule slab_okD(1) [OF assms(1)])
  show "slab_get ob' k = ((slab_get ob)(key := x)) k"
  proof (cases "fst k = fst key")
    case True
    then have "k = key \<longleftrightarrow> snd k = snd key"
      by (simp add: prod_eq_iff)
    then show ?thesis
      using True assms(2-5) len by (auto simp: slab_get_def)
  next
    case False
    then have "k \<noteq> key"
      by auto
    then show ?thesis
      using False assms(2-5) len by (auto simp: slab_get_def)
  qed
qed

lemma slab_store_ok:
  assumes "slab_ok ob" "slab_store w ob = (key, ob')"
  shows "slab_ok ob' \<and> key \<notin> slab_spent ob \<and> slab_get ob key = None
    \<and> slab_get ob' = (slab_get ob)(key \<mapsto> w) \<and> slab_spent ob' = slab_spent ob"
proof (cases "ob_free ob")
  case Nil
  then have key: "key = (length (ob_slab ob), 0)"
    and ob': "ob' = ob\<lparr>ob_slab := ob_slab ob @ [Some w], ob_generations := ob_generations ob @ [0]\<rparr>"
    using assms(2) by (simp_all add: slab_store_def)
  show ?thesis
    using slab_store_new [OF assms(1) Nil, of w] slab_okD(1) [OF assms(1)] unfolding key ob'
    by (simp add: slab_get_def slab_spent_def)
next
  case (Cons i free)
  then have key: "key = (i, ob_generations ob ! i)"
    and ob': "ob' = ob\<lparr>ob_free := free, ob_slab := (ob_slab ob)[i := Some w]\<rparr>"
    using assms(2) by (simp_all add: slab_store_def)
  have i: "i < length (ob_slab ob)" "ob_slab ob ! i = None" "i \<notin> set free" "distinct free"
    using slab_okD(2) [OF assms(1)] slab_okD(3) [OF assms(1), of i] Cons by simp_all
  have "slab_ok ob'"
    by (rule slab_ok_at [OF assms(1) i(1), of _ "Some w"])
      (use i Cons slab_okD(1) [OF assms(1)] in \<open>simp_all add: ob'\<close>)
  moreover have "slab_get ob' = (slab_get ob)(key \<mapsto> w)"
    by (rule slab_get_at [OF assms(1)]) (simp_all add: ob' key i)
  ultimately show ?thesis
    using i by (simp add: slab_get_def slab_spent_def key ob')
qed

lemma slab_put_ok:
  assumes "slab_ok ob" "slab_get ob key \<noteq> None"
  shows "slab_ok (slab_put key w ob) \<and> slab_get (slab_put key w ob) = (slab_get ob)(key \<mapsto> w)
    \<and> slab_spent (slab_put key w ob) = slab_spent ob"
proof -
  obtain v where v: "fst key < length (ob_slab ob)" "ob_generations ob ! fst key = snd key"
      "ob_slab ob ! fst key = Some v"
    using assms slab_get_Some [OF assms(1)] by auto
  have "slab_ok (slab_put key w ob)"
    by (rule slab_ok_at [OF assms(1) v(1), of _ "Some w"])
      (use v slab_okD [OF assms(1)] in \<open>simp_all add: slab_put_def\<close>)
  moreover have "slab_get (slab_put key w ob) = (slab_get ob)(key \<mapsto> w)"
    by (rule slab_get_at [OF assms(1) v(1,2)]) (simp_all add: slab_put_def)
  ultimately show ?thesis
    by (simp add: slab_spent_def slab_put_def)
qed

lemma slab_free_ok:
  assumes "slab_ok ob" "slab_get ob key \<noteq> None"
  shows "slab_ok (slab_free key ob) \<and> slab_get (slab_free key ob) = (slab_get ob)(key := None)
    \<and> slab_spent (slab_free key ob) = insert key (slab_spent ob)"
proof -
  obtain v where v: "fst key < length (ob_slab ob)" "ob_generations ob ! fst key = snd key"
      "ob_slab ob ! fst key = Some v"
    using assms slab_get_Some [OF assms(1)] by auto
  have "slab_ok (slab_free key ob)"
    by (rule slab_ok_at [OF assms(1) v(1), of _ None])
      (use v slab_okD [OF assms(1)] in \<open>simp_all add: slab_free_def\<close>)
  moreover have "slab_get (slab_free key ob) = (slab_get ob)(key := None)"
    by (rule slab_get_at [OF assms(1) v(1,2)]) (simp_all add: slab_free_def v(2))
  moreover have "k \<in> slab_spent (slab_free key ob) \<longleftrightarrow> k = key \<or> k \<in> slab_spent ob" for k
    using v(1,2) slab_okD(1) [OF assms(1)] by (cases "fst k = fst key")
      (simp_all add: slab_spent_def slab_free_def less_Suc_eq prod_eq_iff, auto)
  ultimately show ?thesis
    by (auto simp: set_eq_iff)
qed

interpretation slab: entry_store slab_ok slab_get slab_spent slab_store slab_put slab_free
proof unfold_locales
  show "slab_ok s \<Longrightarrow> k \<in> slab_spent s \<Longrightarrow> slab_get s k = None" for s k
    by (auto simp: slab_spent_def slab_get_def)
qed (use slab_store_ok slab_put_ok slab_free_ok in blast)+

text \<open>C12: a key freed stands for no entry ever again, however the slab is used after, although its
  place is: the heap of deadlines and the queues may keep keys of entries that are gone.\<close>

theorem freed_key_never_resolves:
  assumes "slab_ok ob" "slab_get ob key = Some w" "w_over w" "slab.reaches (slab_release key ob) ob'"
  shows "slab_get ob' key = None"
  using assms slab.freed_for_good [of ob key ob'] by (simp add: slab_release_def)

lemma slab_release_get:
  assumes "slab_ok ob"
  shows "slab_ok (slab_release key ob) \<and>
    slab_get (slab_release key ob) =
      (if \<exists>w. slab_get ob key = Some w \<and> w_over w then (slab_get ob)(key := None) else slab_get ob)"
  using assms slab_free_ok [OF assms, of key] by (auto simp: slab_release_def split: option.split)

definition sample_waiting :: waiting where
  "sample_waiting = \<lparr>w_frame = None, w_tracker = 0, w_number = 1, w_deadline = None, w_on = None,
     w_copy = False, w_all = False, w_lane = None, w_over = True\<rparr>"

theorem freed_key_never_resolves_witness:
  "let ob = snd (slab_store sample_waiting new_outbox);
       ob' = snd (slab_store sample_waiting (slab_release (0, 0) ob))
   in slab_get ob (0, 0) = Some sample_waiting \<and> slab_get ob' (0, 1) = Some sample_waiting
      \<and> slab_get ob' (0, 0) = None"
proof -
  define ob where "ob = snd (slab_store sample_waiting new_outbox)"
  define ob' where "ob' = snd (slab_store sample_waiting (slab_release (0, 0) ob))"
  have ob: "slab_ok ob" "slab_get ob (0, 0) = Some sample_waiting"
    by (auto simp: ob_def slab_ok_def slab_store_def new_outbox_def slab_get_def)
  have "slab.reaches (slab_release (0, 0) ob) ob'"
    unfolding ob'_def by (rule slab.reaches.stores [OF slab.reaches.stays]) (rule surjective_pairing)
  then have "slab_get ob' (0, 0) = None"
    by (rule freed_key_never_resolves [OF ob, rotated]) (simp add: sample_waiting_def)
  moreover have "slab_get ob' (0, 1) = Some sample_waiting"
    by (simp add: ob'_def ob_def slab_store_def new_outbox_def slab_get_def slab_release_def slab_free_def
        sample_waiting_def)
  ultimately show ?thesis
    using ob(2) by (simp add: ob_def [symmetric] ob'_def [symmetric] Let_def)
qed

end
