(* ===== verification/Outbox_Place.thy ===== *)
theory Outbox_Place
  imports Conn_Queue Outbox_Slab
begin

text \<open>
  The outbox (\<open>core/outbox/mod.rs\<close>, \<open>core/outbox/expiry.rs\<close>): where a message goes, what waits for room
  on a connection or for a connection to come up, and the deadlines of what waits.

  A parameter \<open>kept\<close> counts the holds on a tracker that the callers keep in variables of theirs.  The
  loops that empty a queue are bounded by its length.
\<close>

section \<open>Entries\<close>

definition store_waiting :: "waiting \<Rightarrow> core \<Rightarrow> wait_key \<times> core" where
  "store_waiting w s = (let (key, ob) = slab_store w (outbox s) in (key, s\<lparr>outbox := ob\<rparr>))"

abbreviation get_waiting :: "core \<Rightarrow> wait_key \<Rightarrow> waiting option" where
  "get_waiting s key \<equiv> slab_get (outbox s) key"

definition put_waiting :: "wait_key \<Rightarrow> waiting \<Rightarrow> core \<Rightarrow> core" where
  "put_waiting key w s = s\<lparr>outbox := slab_put key w (outbox s)\<rparr>"

definition set_over :: "wait_key \<Rightarrow> core \<Rightarrow> core" where
  "set_over key s = (case get_waiting s key of
     None \<Rightarrow> s
   | Some w \<Rightarrow> put_waiting key (w\<lparr>w_over := True\<rparr>) s)"

definition release :: "wait_key \<Rightarrow> core \<Rightarrow> core" where
  "release key s = s\<lparr>outbox := slab_release key (outbox s)\<rparr>"

definition entry_live :: "outbox \<Rightarrow> wait_key \<Rightarrow> bool" where
  "entry_live ob key \<longleftrightarrow> (case slab_get ob key of None \<Rightarrow> False | Some w \<Rightarrow> \<not> w_over w)"

definition add_waiting :: "int \<Rightarrow> core \<Rightarrow> core" where
  "add_waiting n s = s\<lparr>outbox := (outbox s)\<lparr>ob_waiting := ob_waiting (outbox s) + n\<rparr>\<rparr>"

definition add_retry :: "core \<Rightarrow> core" where
  "add_retry s = s\<lparr>outbox := (outbox s)\<lparr>ob_retries := ob_retries (outbox s) + 1\<rparr>\<rparr>"

definition held_left :: "core \<Rightarrow> core" where
  "held_left s =
    (let s = s\<lparr>outbox := (outbox s)\<lparr>ob_held_live := ob_held_live (outbox s) - 1\<rparr>\<rparr>
     in if ob_held_live (outbox s) = 0 then s\<lparr>client := (client s)\<lparr>cl_acknowledged_wake := True\<rparr>\<rparr> else s)"

text \<open>A message's tracker that reads QUEUED reads LOST, and whoever follows it hears of it: more than
  \<open>least\<close> holds, \<open>kept\<close> of them in variables.\<close>

definition lose_tracker :: "tracker \<Rightarrow> nat \<Rightarrow> nat \<Rightarrow> core \<Rightarrow> core" where
  "lose_tracker t kept least s =
    (if tracker_get s t = Queued then
       let s = tracker_set t Lost s
       in if strong_count s t + kept > least then tracked_message_done t False s else s
     else s)"

section \<open>Deadlines\<close>

definition arm_expiry :: "core \<Rightarrow> core" where
  "arm_expiry s =
    (let s = s\<lparr>outbox := (outbox s)\<lparr>ob_expiring :=
           dropWhile (\<lambda>(_, key). \<not> entry_live (outbox s) key) (ob_expiring (outbox s))\<rparr>\<rparr>
     in case ob_expiring (outbox s) of
          [] \<Rightarrow>
            let s = cancel_timer (ob_timer (outbox s)) s
            in s\<lparr>outbox := (outbox s)\<lparr>ob_timer := None, ob_armed := None\<rparr>\<rparr>
        | (nxt, _) # _ \<Rightarrow>
            if ob_armed (outbox s) = Some nxt then s
            else let s = s\<lparr>outbox := (outbox s)\<lparr>ob_armed := Some nxt\<rparr>\<rparr>;
                     (key, s) = rearm_timer (ob_timer (outbox s)) nxt OutboxExpiry s
                 in s\<lparr>outbox := (outbox s)\<lparr>ob_timer := key\<rparr>\<rparr>)"

definition compact_expiring :: "outbox \<Rightarrow> outbox" where
  "compact_expiring ob =
    (if length (ob_expiring ob) \<ge> max (ob_compact_at ob) 64 then
       let left = filter (\<lambda>(_, key). entry_live ob key) (ob_expiring ob)
       in ob\<lparr>ob_expiring := left, ob_compact_at := max (2 * length left) 64\<rparr>
     else ob)"

definition expire_at :: "wait_key \<Rightarrow> core \<Rightarrow> core" where
  "expire_at key s =
    (case get_waiting s key of
       None \<Rightarrow> s
     | Some w \<Rightarrow> (case w_deadline w of
         None \<Rightarrow> s
       | Some deadline \<Rightarrow>
         let ob = compact_expiring (outbox s);
             ob = ob\<lparr>ob_expiring := heap_push (deadline, key) (ob_expiring ob)\<rparr>;
             s = s\<lparr>outbox := ob\<rparr>
         in if (case ob_armed ob of None \<Rightarrow> True | Some at \<Rightarrow> deadline < at) then arm_expiry s else s))"

definition give_up_message :: "out_frame \<Rightarrow> tracker option \<Rightarrow> nat \<Rightarrow> drop_reason \<Rightarrow> core \<Rightarrow> tracker \<times> core" where
  "give_up_message f tracker kept reason s =
    (let s = report_drop f reason s
     in case tracker of
          None \<Rightarrow> new_tracker Lost s
        | Some t \<Rightarrow> (t, lose_tracker t (kept + 1) 1 s))"

text \<open>The \<open>retain\<close> of \<open>clear_out\<close>: the entries that ended freed.\<close>

fun retain_live :: "wait_key list \<Rightarrow> outbox \<Rightarrow> wait_key list \<times> outbox" where
  "retain_live [] ob = ([], ob)"
| "retain_live (key # keys) ob =
    (if entry_live ob key then let (kept, ob) = retain_live keys ob in (key # kept, ob)
     else retain_live keys (slab_release key ob))"

definition clear_out :: "wait_key list \<Rightarrow> int \<Rightarrow> outbox \<Rightarrow> wait_key list \<times> outbox" where
  "clear_out queue n ob =
    (if n \<noteq> 0 \<and> int (length queue) < 2 * n + 64 then (queue, ob) else retain_live queue ob)"

definition clear_out_held :: "outbox \<Rightarrow> outbox" where
  "clear_out_held ob =
    (let (queue, ob) = clear_out (ob_held ob) (ob_held_live ob) ob in ob\<lparr>ob_held := queue\<rparr>)"

definition clear_out_backlog :: "conn_id \<Rightarrow> outbox \<Rightarrow> outbox" where
  "clear_out_backlog c ob =
    (case backlog_of ob c of
       None \<Rightarrow> ob
     | Some b \<Rightarrow> let (queue, ob) = clear_out (b_waiting b) (b_live b) ob
         in backlog_put c (\<lambda>b. b\<lparr>b_waiting := queue\<rparr>) ob)"

definition drop_expired :: "wait_key \<Rightarrow> core \<Rightarrow> core" where
  "drop_expired key s =
    (case get_waiting s key of
       None \<Rightarrow> s
     | Some w \<Rightarrow>
       let s = put_waiting key (w\<lparr>w_over := True, w_frame := None\<rparr>) s;
           s = (case w_on w of
                  None \<Rightarrow> held_left s
                | Some c \<Rightarrow> s\<lparr>outbox := backlog_put c (\<lambda>b. b\<lparr>b_live := b_live b - 1\<rparr>) (outbox s)\<rparr>);
           s = wait_flushes (w_number w) (- 1) (add_waiting (- 1) s);
           unregistered = (case w_on w of
               None \<Rightarrow> False
             | Some c \<Rightarrow> (case conn_of s c of None \<Rightarrow> False | Some st \<Rightarrow> \<not> c_registered st));
           reason = (if w_on w = None \<or> unregistered then NoConnection else NoRoom);
           s = (case w_frame w of None \<Rightarrow> s | Some f \<Rightarrow> report_drop f reason s);
           s = lose_tracker (w_tracker w) 1 2 s
       in s\<lparr>outbox := (case w_on w of
             None \<Rightarrow> clear_out_held (outbox s)
           | Some c \<Rightarrow> clear_out_backlog c (outbox s))\<rparr>)"

definition drop_held :: "tracker \<Rightarrow> core \<Rightarrow> core" where
  "drop_held t s =
    (case find (\<lambda>key. case get_waiting s key of None \<Rightarrow> False | Some w \<Rightarrow> \<not> w_over w \<and> w_tracker w = t)
        (ob_held (outbox s)) of
       None \<Rightarrow> s
     | Some key \<Rightarrow> drop_expired key s)"

definition remove_backlog :: "conn_id \<Rightarrow> outbox \<Rightarrow> outbox" where
  "remove_backlog c ob =
    (case backlog_of ob c of
       None \<Rightarrow> ob
     | Some b \<Rightarrow> fold slab_release (b_waiting b)
         (ob\<lparr>ob_backlogs := remove_first (\<lambda>b. b_conn b = c) (ob_backlogs ob)\<rparr>))"

fun expire_loop :: "nat \<Rightarrow> core \<Rightarrow> core" where
  "expire_loop 0 s = s"
| "expire_loop (Suc n) s =
    (case ob_expiring (outbox s) of
       [] \<Rightarrow> s
     | (deadline, key) # rest \<Rightarrow>
       if deadline > now s then s
       else let s = s\<lparr>outbox := (outbox s)\<lparr>ob_expiring := rest\<rparr>\<rparr>
            in if \<not> entry_live (outbox s) key then expire_loop n s
               else expire_loop n (drop_expired key s))"

definition expire :: "core \<Rightarrow> core" where
  "expire s =
    (let s = s\<lparr>outbox := (outbox s)\<lparr>ob_timer := None, ob_armed := None\<rparr>\<rparr>;
         s = expire_loop (length (ob_expiring (outbox s))) s;
         empty = map b_conn (filter (\<lambda>b. b_live b = 0) (ob_backlogs (outbox s)));
         s = s\<lparr>outbox := fold remove_backlog empty (outbox s)\<rparr>
     in check_flushes (arm_expiry s))"

section \<open>Placing\<close>

definition out_frame_of :: "frame \<Rightarrow> bool \<Rightarrow> bool \<Rightarrow> nat \<Rightarrow> instant option \<Rightarrow> core \<Rightarrow> out_frame \<times> core" where
  "out_frame_of f pinned for_all number deadline s =
    (let (bs, inside, confirmed) = (case f_batch f of
           MarkEvent _ \<Rightarrow> (seal (env_cpu (env s)) (f_bytes f), None, False)
         | MarkBatch mids \<Rightarrow> (f_bytes f, Some mids, False)
         | MarkConfirmed \<Rightarrow> (f_bytes f, None, True)
         | MarkNone \<Rightarrow> (f_bytes f, None, False))
     in new_frame \<lparr>o_alloc = 0, o_bytes = bs, o_head = f_head f, o_id = f_id f, o_type = f_type f,
          o_pinned = pinned, o_for_all = for_all, o_own = False, o_number = number, o_deadline = deadline,
          o_batch = inside, o_confirmed = confirmed\<rparr> s)"

definition mark_queued :: "nat \<Rightarrow> tracker \<Rightarrow> conn_id \<Rightarrow> flush \<Rightarrow> flush" where
  "mark_queued number t c fl =
    (if number > fl_last_number fl then fl
     else if \<exists>(c', _) \<in> set (fl_marks fl). c' = c
       then fl\<lparr>fl_marks := update_first (\<lambda>(c', _). c' = c) (\<lambda>(c', _). (c', t)) (fl_marks fl)\<rparr>
     else fl\<lparr>fl_marks := fl_marks fl @ [(c, t)]\<rparr>)"

definition queued :: "nat \<Rightarrow> tracker \<Rightarrow> conn_id \<Rightarrow> core \<Rightarrow> core" where
  "queued number t c = each_flush (mark_queued number t c)"

text \<open>Whether a connection has room and nothing waiting, and how much waits for one.\<close>

definition has_free_room :: "core \<Rightarrow> conn_id \<Rightarrow> bool" where
  "has_free_room s c \<longleftrightarrow>
    (case conn_of s c of None \<Rightarrow> False | Some st \<Rightarrow> c_living st \<and> \<not> outgoing_queue_full st)
    \<and> \<not> waits_for (outbox s) c"

definition waiting_on :: "core \<Rightarrow> conn_id \<Rightarrow> int" where
  "waiting_on s c = (case backlog_of (outbox s) c of None \<Rightarrow> 0 | Some b \<Rightarrow> b_live b)"

definition fewer_waiting :: "core \<Rightarrow> conn_id \<Rightarrow> (conn_id \<times> int) option \<Rightarrow> (conn_id \<times> int) option" where
  "fewer_waiting s c least =
    (if \<not> conn_living s c then least
     else case least of
       None \<Rightarrow> Some (c, waiting_on s c)
     | Some (_, fewest) \<Rightarrow> if waiting_on s c < fewest then Some (c, waiting_on s c) else least)"

definition choose_connection :: "core \<Rightarrow> conn_id option \<times> core" where
  "choose_connection s =
    (if cl_shuts_down (client s) then (None, s)
     else case find (has_free_room s) (round_robin s) of
       Some c \<Rightarrow> (Some c, s\<lparr>round_robin := remove_first (\<lambda>each. each = c) (round_robin s) @ [c]\<rparr>)
     | None \<Rightarrow> (map_option fst (fold (fewer_waiting s) (round_robin s) None), s))"

definition hold ::
  "out_frame \<Rightarrow> tracker option \<Rightarrow> nat \<Rightarrow> instant option \<Rightarrow> bool \<Rightarrow> lane_id option \<Rightarrow> core \<Rightarrow> tracker \<times> core" where
  "hold f tracker number deadline all lane s =
    (let (t, s) = (case tracker of Some t \<Rightarrow> (t, s) | None \<Rightarrow> new_tracker Queued s);
         (key, s) = store_waiting \<lparr>w_frame = Some f, w_tracker = t, w_number = number, w_deadline = deadline,
             w_on = None, w_copy = False, w_all = all, w_lane = lane, w_over = False\<rparr> s;
         s = s\<lparr>outbox := (outbox s)\<lparr>ob_held := ob_held (outbox s) @ [key],
               ob_held_live := ob_held_live (outbox s) + 1\<rparr>\<rparr>;
         s = wait_flushes number 1 (add_waiting 1 s)
     in (t, expire_at key s))"

definition push_backlog :: "conn_id \<Rightarrow> wait_key \<Rightarrow> outbox \<Rightarrow> outbox" where
  "push_backlog c key ob =
    (case backlog_of ob c of
       Some _ \<Rightarrow> backlog_put c (\<lambda>b. b\<lparr>b_waiting := b_waiting b @ [key], b_live := b_live b + 1\<rparr>) ob
     | None \<Rightarrow> ob\<lparr>ob_backlogs := ob_backlogs ob @ [\<lparr>b_conn = c, b_waiting = [key], b_live = 1\<rparr>]\<rparr>)"

definition place_on ::
  "conn_id \<Rightarrow> out_frame \<Rightarrow> tracker option \<Rightarrow> nat \<Rightarrow> nat \<Rightarrow> instant option \<Rightarrow> bool \<Rightarrow> lane_id option \<Rightarrow> core
    \<Rightarrow> tracker option \<times> core" where
  "place_on c f tracker kept number deadline copy lane s =
    (if \<not> conn_living s c then (None, s)
     else
       let (t, s) = (case tracker of Some t \<Rightarrow> (t, s) | None \<Rightarrow> new_tracker Queued s);
           waits = (case backlog_of (outbox s) c of None \<Rightarrow> False | Some b \<Rightarrow> b_live b > 0);
           (taken, s) = (if waits then (False, s) else take_over c (t, f) s)
       in if taken then (Some t, queued number t c s)
          else if past s deadline then
            let (t, s) = give_up_message f (Some t) kept NoRoom s in (Some t, s)
          else
            let (key, s) = store_waiting \<lparr>w_frame = Some f, w_tracker = t, w_number = number,
                    w_deadline = deadline, w_on = Some c, w_copy = copy, w_all = False, w_lane = lane,
                    w_over = False\<rparr> s;
                s = s\<lparr>outbox := push_backlog c key (outbox s)\<rparr>;
                s = wait_flushes number 1 (add_waiting 1 s)
            in (Some t, expire_at key s))"

end
