(* ===== verification/Outbox_Send.thy ===== *)
theory Outbox_Send
  imports Outbox_Place
begin

text \<open>
  Sending through the outbox (\<open>core/outbox/mod.rs\<close>): a message placed now or held, what is held placed
  when a connection comes up, a backlog moved into a queue with room; and what a dead connection leaves
  (\<open>core/outbox/handover.rs\<close>).
\<close>

section \<open>Where a lane's messages went\<close>

text \<open>The loop of \<open>handed_to\<close>, as many turns as there are handovers.\<close>

fun handed_loop :: "nat \<Rightarrow> core \<Rightarrow> target \<Rightarrow> conn_id option" where
  "handed_loop 0 s target = None"
| "handed_loop (Suc n) s target =
    (case find (\<lambda>h. h_target h = target) (oe_handovers (ends s)) of
       None \<Rightarrow> None
     | Some h \<Rightarrow> if conn_living s (h_to h) then Some (h_to h) else handed_loop n s (h_to_target h))"

definition handed_to :: "core \<Rightarrow> wrapper \<Rightarrow> conn_id option" where
  "handed_to s gone =
    (if (case wr_conn gone of None \<Rightarrow> False | Some c \<Rightarrow> conn_living s c) then None
     else handed_loop (length (oe_handovers (ends s))) s (wr_target gone))"

definition record_moved :: "tracker \<Rightarrow> wrapper \<Rightarrow> core \<Rightarrow> core" where
  "record_moved t w s =
    (let oe = ends s;
         oe = (if length (oe_moved oe) \<ge> max (oe_moved_compact_at oe) 64 then
                 let left = filter (\<lambda>(t', _). strong_count s t' + (if t' = t then 1 else 0) > 0) (oe_moved oe)
                 in oe\<lparr>oe_moved := left, oe_moved_compact_at := max (2 * length left) 64\<rparr>
               else oe)
     in s\<lparr>ends := oe\<lparr>oe_moved := AList.update t w (oe_moved oe)\<rparr>\<rparr>)"

text \<open>The code keys the map by a tracker's address and the model by the tracker itself, so an entry the
  code would overwrite because an address is used again stays here until the next clearing out.  The
  caller holds the tracker, so an entry found is its own.\<close>

definition followed_connection :: "tracker \<Rightarrow> wrapper option \<Rightarrow> core \<Rightarrow> wrapper option \<times> core" where
  "followed_connection t first s =
    (case map_of (oe_moved (ends s)) t of
       Some w \<Rightarrow> (Some w, s\<lparr>ends := (ends s)\<lparr>oe_moved := AList.delete t (oe_moved (ends s))\<rparr>\<rparr>)
     | None \<Rightarrow> (first, s))"

section \<open>Placing now\<close>

text \<open>\<open>place_now\<close> returns whether it placed the message and whether it refused it, the trackers it
  pushes, and the connection used, where \<open>want_used\<close> says its caller asks for it.\<close>

type_synonym placing = "bool \<times> bool \<times> tracker list \<times> wrapper option"

definition place_copy ::
  "out_frame \<Rightarrow> nat \<Rightarrow> nat \<Rightarrow> instant option \<Rightarrow> bool \<Rightarrow> conn_id
    \<Rightarrow> bool \<times> tracker option \<times> tracker list \<times> wrapper option \<times> core
    \<Rightarrow> bool \<times> tracker option \<times> tracker list \<times> wrapper option \<times> core" where
  "place_copy f kept number deadline want_used c = (\<lambda>(placed, first, pushed, used, s).
    if \<not> conn_living s c then (placed, first, pushed, used, s)
    else
      let (copy, s) = place_on c f first (if first = None then 0 else kept) number deadline True None s;
          (used, s) = (if \<not> placed \<and> want_used then let (w, s) = wrap c s in (Some w, s) else (used, s));
          pushed = pushed @ (case copy of None \<Rightarrow> [] | Some t \<Rightarrow> [t])
      in (True, None, pushed, used, s))"

text \<open>The connections on their way to a multiplexer for the first time.\<close>

definition first_connections :: "core \<Rightarrow> conn_id list" where
  "first_connections s =
    map snd (filter (\<lambda>(target, c).
      (case conn_of s c of None \<Rightarrow> False | Some st \<Rightarrow> c_living st \<and> \<not> c_registered st)
      \<and> target \<notin> set (cl_first_connection_over (client s))) (cl_by_target (client s)))"

definition place_first ::
  "out_frame \<Rightarrow> nat \<Rightarrow> instant option \<Rightarrow> conn_id \<Rightarrow> tracker list \<times> core \<Rightarrow> tracker list \<times> core" where
  "place_first f number deadline c = (\<lambda>(pushed, s).
    let (copy, s) = place_on c f None 0 number deadline True None s
    in (pushed @ (case copy of None \<Rightarrow> [] | Some t \<Rightarrow> [t]), s))"

definition place_all ::
  "out_frame \<Rightarrow> nat \<Rightarrow> instant option \<Rightarrow> tracker option \<Rightarrow> nat \<Rightarrow> bool \<Rightarrow> core \<Rightarrow> placing \<times> core" where
  "place_all f number deadline tracker kept want_used s =
    (let (placed, _, pushed, used, s) =
           fold (place_copy f kept number deadline want_used) (map snd (by_peer_id s)) (False, tracker, [], None, s);
         (pushed, s) =
           (if placed \<and> \<not> past s deadline
            then fold (place_first f number deadline) (first_connections s) (pushed, s)
            else (pushed, s))
     in ((placed, False, pushed, used), s))"

definition tracker_list :: "tracker option \<Rightarrow> tracker list" where
  "tracker_list t = (case t of None \<Rightarrow> [] | Some t \<Rightarrow> [t])"

text \<open>The connection a lane has, when it lives: the message goes there and nowhere else.\<close>

definition lane_own :: "core \<Rightarrow> lane_id option \<Rightarrow> conn_id option" where
  "lane_own s lane =
    (case lane of
       None \<Rightarrow> None
     | Some l \<Rightarrow>
       if \<not> holds_connection s l then None
       else case lane_connection s l of
         None \<Rightarrow> None
       | Some w \<Rightarrow> (case wr_conn w of None \<Rightarrow> None | Some c \<Rightarrow> if conn_living s c then Some c else None))"

definition lane_handed :: "core \<Rightarrow> lane_id option \<Rightarrow> conn_id option" where
  "lane_handed s lane =
    (case lane of
       None \<Rightarrow> None
     | Some l \<Rightarrow> if holds_connection s l
         then (case lane_connection s l of None \<Rightarrow> None | Some w \<Rightarrow> handed_to s w) else None)"

definition place_one ::
  "out_frame \<Rightarrow> lane_id option \<Rightarrow> nat \<Rightarrow> instant option \<Rightarrow> tracker option \<Rightarrow> nat \<Rightarrow> bool \<Rightarrow> core \<Rightarrow> placing \<times> core" where
  "place_one f lane number deadline tracker kept want_used s =
    (case lane_own s lane of
       Some own \<Rightarrow>
         let used = (if want_used then lane_connection s (the lane) else None);
             (placed, s) = place_on own f tracker kept number deadline False lane s
         in ((True, False, tracker_list placed, used), s)
     | None \<Rightarrow>
       if (case lane of None \<Rightarrow> False | Some l \<Rightarrow> holds_connection s l \<and> lane_pinned s l)
       then ((False, True, [], None), s)
       else
         let (chosen, s) = (case lane_handed s lane of Some c \<Rightarrow> (Some c, s) | None \<Rightarrow> choose_connection s)
         in case chosen of
              None \<Rightarrow> ((False, False, [], None), s)
            | Some c \<Rightarrow>
              let (placed, s) = place_on c f tracker kept number deadline False lane s
              in if lane \<noteq> None \<or> want_used then
                   let (w, s) = wrap c s;
                       s = (case lane of None \<Rightarrow> s | Some l \<Rightarrow> adopt l w s)
                   in ((True, False, tracker_list placed, if want_used then Some w else None), s)
                 else ((True, False, tracker_list placed, None), s))"

definition place_now ::
  "out_frame \<Rightarrow> bool \<Rightarrow> lane_id option \<Rightarrow> nat \<Rightarrow> instant option \<Rightarrow> tracker option \<Rightarrow> nat \<Rightarrow> bool \<Rightarrow> core
    \<Rightarrow> placing \<times> core" where
  "place_now f all lane number deadline tracker kept want_used s =
    (if cl_shuts_down (client s) then ((False, False, [], None), s)
     else if all then place_all f number deadline tracker kept want_used s
     else place_one f lane number deadline tracker kept want_used s)"

definition send_at ::
  "frame \<Rightarrow> bool \<Rightarrow> lane_id option \<Rightarrow> instant option \<Rightarrow> nat \<Rightarrow> bool \<Rightarrow> send_done option \<Rightarrow> core
    \<Rightarrow> bool \<times> tracker list \<times> wrapper option \<times> core" where
  "send_at f all lane deadline number want_used done s =
    (if cl_shuts_down (client s) then (False, [], None, s)
     else
       let pinned = (\<not> all \<and> (case lane of None \<Rightarrow> False | Some l \<Rightarrow> lane_pinned s l));
           (number, s) = (if number \<noteq> 0 then (number, s) else next_number s);
           (frame, s) = out_frame_of f pinned all number deadline s;
           ((placed, refused, pushed, used), s) =
             (if ob_held_live (outbox s) = 0 then place_now frame all lane number deadline None 0 want_used s
              else ((False, False, [], None), s))
       in if \<not> placed \<and> (refused \<or> \<not> all \<and> (case lane of
              None \<Rightarrow> False | Some l \<Rightarrow> lane_pinned s l \<and> holds_connection s l))
          then (False, [], used, s)
          else
            let (pushed, s) =
                  (if placed then (pushed, s)
                   else let (t, s) = (if past s deadline then give_up_message frame None 0 NoConnection s
                                      else hold frame None number deadline all lane s)
                        in (pushed @ [t], s));
                s = (case done of None \<Rightarrow> s | Some d \<Rightarrow> follow_copies pushed d s)
            in (True, pushed, used, s))"

section \<open>What waited for room\<close>

fun room_loop :: "nat \<Rightarrow> conn_id \<Rightarrow> core \<Rightarrow> core" where
  "room_loop 0 c s = s"
| "room_loop (Suc n) c s =
    (case backlog_of (outbox s) c of
       None \<Rightarrow> s
     | Some b \<Rightarrow>
       if b_live b = 0 then s
       else if (case conn_of s c of None \<Rightarrow> True | Some st \<Rightarrow> outgoing_queue_full st) then s
       else case b_waiting b of
         [] \<Rightarrow> s
       | key # rest \<Rightarrow>
         let s = s\<lparr>outbox := backlog_put c (\<lambda>b. b\<lparr>b_waiting := rest\<rparr>) (outbox s)\<rparr>
         in case get_waiting s key of
              None \<Rightarrow> room_loop n c s
            | Some w \<Rightarrow>
              if w_over w then room_loop n c (release key s)
              else if past s (w_deadline w) then room_loop n c (release key (drop_expired key s))
              else case w_frame w of
                None \<Rightarrow> panic s
              | Some f \<Rightarrow>
                let s = release key (set_over key s);
                    s = s\<lparr>outbox := backlog_put c (\<lambda>b. b\<lparr>b_live := b_live b - 1\<rparr>) (outbox s)\<rparr>;
                    s = add_retry (add_waiting (- 1) s);
                    s = snd (take_over c (w_tracker w, f) s);
                    s = wait_flushes (w_number w) (- 1) s
                in room_loop n c (queued (w_number w) (w_tracker w) c s))"

definition outgoing_queue_has_room :: "conn_id \<Rightarrow> core \<Rightarrow> core" where
  "outgoing_queue_has_room c s =
    (let s = room_loop (case backlog_of (outbox s) c of None \<Rightarrow> 0 | Some b \<Rightarrow> length (b_waiting b)) c s;
         s = (case backlog_of (outbox s) c of
                None \<Rightarrow> s
              | Some b \<Rightarrow> if b_live b = 0 then s\<lparr>outbox := remove_backlog c (outbox s)\<rparr> else s)
     in check_flushes s)"

section \<open>What a connection leaves\<close>

definition held_whole :: "core \<Rightarrow> out_frame \<Rightarrow> bool" where
  "held_whole s f \<longleftrightarrow> (\<exists>key \<in> set (ob_held (outbox s)).
    (case get_waiting s key of
       None \<Rightarrow> False
     | Some w \<Rightarrow> \<not> w_over w \<and> (case w_frame w of None \<Rightarrow> False | Some held \<Rightarrow> o_alloc held = o_alloc f)))"

definition supersede :: "tracker option \<Rightarrow> core \<Rightarrow> core" where
  "supersede tracker s = (case tracker of None \<Rightarrow> s | Some t \<Rightarrow> lose_tracker t 1 1 s)"

text \<open>The handover recorded for a target, and the entry made or replaced.\<close>

definition handover_of :: "core \<Rightarrow> target \<Rightarrow> handover option" where
  "handover_of s target = find (\<lambda>h. h_target h = target) (oe_handovers (ends s))"

definition put_handover :: "handover \<Rightarrow> core \<Rightarrow> core" where
  "put_handover h s =
    (let hs = oe_handovers (ends s);
         hs = (if handover_of s (h_target h) \<noteq> None
               then update_first (\<lambda>each. h_target each = h_target h) (\<lambda>_. h) hs else hs @ [h])
     in s\<lparr>ends := (ends s)\<lparr>oe_handovers := hs\<rparr>\<rparr>)"

definition successor :: "conn_id \<Rightarrow> core \<Rightarrow> conn_id option \<times> core" where
  "successor dead s =
    (case conn_of s dead of
       None \<Rightarrow> (None, s)
     | Some st \<Rightarrow>
       let kept = (case handover_of s (c_target st) of
             None \<Rightarrow> None
           | Some h \<Rightarrow> if h_from h = Some dead \<and> conn_living s (h_to h) then Some (h_to h) else None)
       in if kept \<noteq> None then (kept, s)
          else let (chosen, s) = choose_connection s
            in case chosen of
                 None \<Rightarrow> (None, s)
               | Some c \<Rightarrow> (case conn_of s c of
                   None \<Rightarrow> (None, panic s)
                 | Some to \<Rightarrow> (Some c, put_handover \<lparr>h_target = c_target st, h_from = Some dead, h_to = c,
                     h_to_target = c_target to\<rparr> s)))"

definition lose :: "wait_key \<Rightarrow> core \<Rightarrow> core" where
  "lose key s =
    (case get_waiting s key of
       None \<Rightarrow> s
     | Some w \<Rightarrow>
       let s = put_waiting key (w\<lparr>w_over := True\<rparr>) s;
           s = (if w_on w = None then held_left s else s);
           s = wait_flushes (w_number w) (- 1) (add_waiting (- 1) s);
           s = (case w_frame w of
                  None \<Rightarrow> s
                | Some f \<Rightarrow> report_drop f (if cl_shuts_down (client s) then ShutDown else ConnectionLost) s)
       in lose_tracker (w_tracker w) 1 2 s)"

fun displace_keys :: "wait_key list \<Rightarrow> outbox \<Rightarrow> outbox" where
  "displace_keys [] ob = ob"
| "displace_keys (key # keys) ob =
    displace_keys keys (if entry_live ob key then ob\<lparr>ob_displaced := ob_displaced ob @ [key]\<rparr>
                        else slab_release key ob)"

definition displace :: "conn_id \<Rightarrow> core \<Rightarrow> core" where
  "displace c s =
    (case backlog_of (outbox s) c of
       None \<Rightarrow> s
     | Some b \<Rightarrow> s\<lparr>outbox := displace_keys (b_waiting b)
         ((outbox s)\<lparr>ob_backlogs := remove_first (\<lambda>b. b_conn b = c) (ob_backlogs (outbox s))\<rparr>)\<rparr>)"

definition rehold :: "wait_key \<Rightarrow> bool \<Rightarrow> core \<Rightarrow> core" where
  "rehold key all s =
    (let s = (case get_waiting s key of
                None \<Rightarrow> s
              | Some w \<Rightarrow> put_waiting key (w\<lparr>w_on := None, w_copy := False, w_all := all\<rparr>) s)
     in s\<lparr>outbox := (outbox s)\<lparr>ob_held := ob_held (outbox s) @ [key],
            ob_held_live := ob_held_live (outbox s) + 1\<rparr>\<rparr>)"

text \<open>One key of \<open>replace_displaced\<close>.  The entry that took the message before is released before the
  message is placed anew, and the function's own hold on the tracker is counted.\<close>

definition replace_one :: "conn_id option \<Rightarrow> wait_key \<Rightarrow> core \<Rightarrow> core" where
  "replace_one to key s =
    (case get_waiting s key of
       None \<Rightarrow> s
     | Some w \<Rightarrow>
       if w_over w then release key s
       else case w_frame w of
         None \<Rightarrow> panic s
       | Some f \<Rightarrow>
         if o_pinned f \<or> cl_shuts_down (client s) then release key (lose key s)
         else if w_copy w then
           (if to \<noteq> None then release key (lose key s)
            else if held_whole s f then
              release key (supersede (Some (w_tracker w))
                (wait_flushes (w_number w) (- 1) (add_waiting (- 1) (set_over key s))))
            else rehold key True s)
         else case to of
           None \<Rightarrow> rehold key False s
         | Some c \<Rightarrow>
           let t = w_tracker w;
               s = release key (set_over key s);
               s = add_retry (wait_flushes (w_number w) (- 1) (add_waiting (- 1) s));
               followed_before = strong_count s t + 1 > 1;
               s = snd (place_on c f (Some t) 1 (w_number w) (w_deadline w) False (w_lane w) s)
           in if followed_before \<or> w_lane w \<noteq> None then
                let (wr, s) = wrap c s;
                    s = (if followed_before then record_moved t wr s else s)
                in (case w_lane w of None \<Rightarrow> s | Some l \<Rightarrow> adopt l wr s)
              else s)"

definition replace_displaced :: "conn_id option \<Rightarrow> core \<Rightarrow> core" where
  "replace_displaced to s =
    (let keys = ob_displaced (outbox s);
         s = s\<lparr>outbox := (outbox s)\<lparr>ob_displaced := []\<rparr>\<rparr>
     in check_flushes (fold (replace_one to) keys s))"

text \<open>One entry of a dead connection's queue: what is left of it, and the state.\<close>

definition orphan_one ::
  "conn_id option \<Rightarrow> queue_entry \<Rightarrow> queue_entry list \<times> core \<Rightarrow> queue_entry list \<times> core" where
  "orphan_one to entry = (\<lambda>(left, s).
    let (weak, f) = entry;
        stays = (left @ [entry], s);
        tracker = (if upgrades s weak then Some weak else None);
        deadline = o_deadline f
    in if o_pinned f \<or> cl_shuts_down (client s) then stays
       else if o_for_all f then
         (if to \<noteq> None then stays
          else if held_whole s f then (left, supersede tracker s)
          else if past s deadline then stays
          else (left, snd (hold f tracker (o_number f) deadline True None s)))
       else case to of
         None \<Rightarrow> if past s deadline then stays
                 else (left, snd (hold f tracker (o_number f) deadline False None s))
       | Some c \<Rightarrow>
         let s = add_retry s;
             (t, s) = (case tracker of Some t \<Rightarrow> (t, s) | None \<Rightarrow> new_tracker Queued s);
             followed_before = strong_count s t + 1 > 1;
             (placed, s) = place_on c f (Some t) 1 (o_number f) deadline False None s
         in case placed of
              None \<Rightarrow> (left @ [entry], s)
            | Some p \<Rightarrow>
              if tracker_get s p \<noteq> Lost \<and> followed_before
              then let (wr, s) = wrap c s in (left, record_moved t wr s)
              else (left, s))"

text \<open>\<open>handle_orphaned_outgoing_messages\<close> up to its last call, which closes the batches that wait for an
  idle connection.\<close>

definition hand_over_outgoing :: "conn_id \<Rightarrow> queue_entry list \<Rightarrow> core \<Rightarrow> queue_entry list \<times> core" where
  "hand_over_outgoing dead outgoing s =
    (let (to, s) = (if outgoing = [] \<and> ob_displaced (outbox s) = [] then (None, s) else successor dead s);
         shuts_down = cl_shuts_down (client s);
         (left, s) = fold (orphan_one to) outgoing ([], s);
         s = fold (\<lambda>(_, f). report_drop f (if shuts_down then ShutDown else ConnectionLost)) left s
     in (left, replace_displaced to s))"

section \<open>What was held, placed or dropped\<close>

fun place_held_loop :: "nat \<Rightarrow> core \<Rightarrow> core" where
  "place_held_loop 0 s = s"
| "place_held_loop (Suc n) s =
    (case ob_held (outbox s) of
       [] \<Rightarrow> s
     | key # rest \<Rightarrow>
       let popped = (\<lambda>s. s\<lparr>outbox := (outbox s)\<lparr>ob_held := tl (ob_held (outbox s))\<rparr>\<rparr>)
       in case get_waiting s key of
            None \<Rightarrow> place_held_loop n (popped s)
          | Some w \<Rightarrow>
            if w_over w then place_held_loop n (release key (popped s))
            else case w_frame w of
              None \<Rightarrow> panic s
            | Some f \<Rightarrow>
              let t = w_tracker w;
                  ((placed, refused, _, used), s) =
                    place_now f (w_all w) (w_lane w) (w_number w) (w_deadline w) (Some t) 1 True s
              in if \<not> placed then
                   (if \<not> refused then s else place_held_loop n (release key (lose key (popped s))))
                 else
                   let s = popped s;
                       s = (if \<not> w_all w \<and> strong_count s t + 1 > 2
                            then case used of None \<Rightarrow> s | Some wr \<Rightarrow> record_moved t wr s else s);
                       s = held_left (release key (set_over key s));
                       s = wait_flushes (w_number w) (- 1) (add_waiting (- 1) s)
                   in place_held_loop n (add_retry s))"

definition place_held :: "core \<Rightarrow> core" where
  "place_held s = check_flushes (place_held_loop (length (ob_held (outbox s))) s)"

definition drop_one :: "wait_key \<Rightarrow> core \<Rightarrow> core" where
  "drop_one key s =
    (case get_waiting s key of
       None \<Rightarrow> s
     | Some w \<Rightarrow>
       if w_over w then release key s
       else
         let s = set_over key s;
             s = (case w_frame w of None \<Rightarrow> s | Some f \<Rightarrow> report_drop f ShutDown s)
         in release key (lose_tracker (w_tracker w) 1 2 s))"

definition drop_outbox :: "core \<Rightarrow> core" where
  "drop_outbox s =
    (let ob = outbox s;
         every = concat (map b_waiting (ob_backlogs ob)) @ ob_displaced ob @ ob_held ob;
         s = s\<lparr>outbox := ob\<lparr>ob_backlogs := [], ob_displaced := [], ob_held := []\<rparr>\<rparr>;
         s = fold drop_one every s;
         s = s\<lparr>outbox := (outbox s)\<lparr>ob_held_live := 0, ob_waiting := 0, ob_expiring := []\<rparr>\<rparr>;
         s = cancel_timer (ob_timer (outbox s)) s
     in s\<lparr>outbox := (outbox s)\<lparr>ob_timer := None, ob_armed := None\<rparr>\<rparr>)"

end
