(* ===== verification/Bodies.thy ===== *)
theory Bodies
  imports Outbox_Send
begin

text \<open>
  What batching keeps from one batch to the next (\<open>core/bodies.rs\<close>): the bodies handed back for the next
  plain sends, within their caps, and the buffers of the batch frames; and a plain send as bytes
  (\<open>core/plain.rs\<close>) with the frame a message goes alone as.
\<close>

section \<open>The bodies kept\<close>

definition BODY_KEPT_MAX :: nat where
  "BODY_KEPT_MAX = 64 * 1024"

definition BODIES_KEPT_BYTES :: nat where
  "BODIES_KEPT_BYTES = 16 * 1024 * 1024"

definition FRAME_BUFFERS_KEPT :: nat where
  "FRAME_BUFFERS_KEPT = 4"

definition FRAME_BUFFER_KEPT_MAX :: nat where
  "FRAME_BUFFER_KEPT_MAX = 4 * 1024 * 1024"

definition empty_body :: body where
  "empty_body = \<lparr>bd_bytes = [], bd_capacity = 0\<rparr>"

definition give :: "body \<Rightarrow> bodies \<Rightarrow> bodies" where
  "give b bs =
    (let capacity = bd_capacity b
     in if capacity = 0 \<or> capacity > BODY_KEPT_MAX \<or> bs_bytes bs + capacity > BODIES_KEPT_BYTES then bs
        else \<lparr>bs_kept = b\<lparr>bd_bytes := []\<rparr> # bs_kept bs, bs_bytes = bs_bytes bs + capacity\<rparr>)"

definition take_body :: "bodies \<Rightarrow> body \<times> bodies" where
  "take_body bs = (case bs_kept bs of
     b # rest \<Rightarrow> (b, \<lparr>bs_kept = rest, bs_bytes = bs_bytes bs - bd_capacity b\<rparr>)
   | [] \<Rightarrow> (empty_body, bs))"

definition take_all :: "bodies \<Rightarrow> bodies \<Rightarrow> bodies \<times> bodies" where
  "take_all bs given = (fold give (rev (bs_kept given)) bs, \<lparr>bs_kept = [], bs_bytes = 0\<rparr>)"

text \<open>\<open>extend_from_slice\<close>.\<close>

definition extend_body :: "core \<Rightarrow> bytes \<Rightarrow> body \<Rightarrow> body" where
  "extend_body s bs b =
    (let bs = bd_bytes b @ bs
     in \<lparr>bd_bytes = bs, bd_capacity = (if length bs \<le> bd_capacity b then bd_capacity b
           else vec_grow (env s) (bd_capacity b) (length bs))\<rparr>)"

definition give_back :: "body \<Rightarrow> core \<Rightarrow> core" where
  "give_back b s = s\<lparr>batcher := (batcher s)\<lparr>bt_bodies := give b (bt_bodies (batcher s))\<rparr>\<rparr>"

definition take_kept :: "core \<Rightarrow> body \<times> core" where
  "take_kept s = (let (b, bs) = take_body (bt_bodies (batcher s))
     in (b, s\<lparr>batcher := (batcher s)\<lparr>bt_bodies := bs\<rparr>\<rparr>))"

section \<open>The frame buffers kept\<close>

text \<open>\<open>FramePool\<close>, the last given first.  A buffer comes back when the last holder of its frame lets go,
  outside the core.\<close>

definition pool_take :: "body list \<Rightarrow> body \<times> body list" where
  "pool_take pool = (case pool of [] \<Rightarrow> (empty_body, []) | b # rest \<Rightarrow> (b, rest))"

definition pool_give :: "body \<Rightarrow> body list \<Rightarrow> body list" where
  "pool_give b pool =
    (if bd_capacity b = 0 \<or> bd_capacity b > FRAME_BUFFER_KEPT_MAX then pool
     else if length pool < FRAME_BUFFERS_KEPT then b\<lparr>bd_bytes := []\<rparr> # pool else pool)"

section \<open>Plain sends\<close>

text \<open>\<open>str::from_utf8\<close>: the sequences of the Unicode standard's table of well-formed bytes.\<close>

definition cont_byte :: "8 word \<Rightarrow> bool" where
  "cont_byte b \<longleftrightarrow> 0x80 \<le> b \<and> b \<le> 0xBF"

fun utf8_ok :: "bytes \<Rightarrow> bool" where
  "utf8_ok [] = True"
| "utf8_ok (a # bs) =
    (if a \<le> 0x7F then utf8_ok bs
     else if 0xC2 \<le> a \<and> a \<le> 0xDF then
       (case bs of b # rest \<Rightarrow> cont_byte b \<and> utf8_ok rest | _ \<Rightarrow> False)
     else if 0xE0 \<le> a \<and> a \<le> 0xEF then
       (case bs of b # c # rest \<Rightarrow>
          cont_byte b \<and> cont_byte c \<and> (a = 0xE0 \<longrightarrow> 0xA0 \<le> b) \<and> (a = 0xED \<longrightarrow> b \<le> 0x9F) \<and> utf8_ok rest
        | _ \<Rightarrow> False)
     else if 0xF0 \<le> a \<and> a \<le> 0xF4 then
       (case bs of b # c # d # rest \<Rightarrow>
          cont_byte b \<and> cont_byte c \<and> cont_byte d \<and> (a = 0xF0 \<longrightarrow> 0x90 \<le> b) \<and> (a = 0xF4 \<longrightarrow> b \<le> 0x8F)
          \<and> utf8_ok rest
        | _ \<Rightarrow> False)
     else False)"

definition from_utf8 :: "bytes \<Rightarrow> string option" where
  "from_utf8 bs = (if utf8_ok bs then Some (map (\<lambda>b. char_of (unat b)) bs) else None)"

definition plain_key :: "plain \<Rightarrow> string option" where
  "plain_key p = (if \<not> pl_keyed p then None else from_utf8 (drop (pl_length p) (bd_bytes (pl_body p))))"

definition into_body :: "plain \<Rightarrow> body" where
  "into_body p = (pl_body p)\<lparr>bd_bytes := take (pl_length p) (bd_bytes (pl_body p))\<rparr>"

definition alone_frame :: "body \<Rightarrow> core \<Rightarrow> (bytes option \<times> bytes) \<times> core" where
  "alone_frame b s =
    (if bd_capacity b > BODY_KEPT_MAX then ((Some (head_of (env_cpu (env s)) (bd_bytes b)), bd_bytes b), s)
     else ((None, frame_of_body (env_cpu (env s)) (bd_bytes b)), give_back b s))"

definition frame_of_plain :: "plain \<Rightarrow> core \<Rightarrow> frame \<times> core" where
  "frame_of_plain p s =
    (let ((head, bs), s) = alone_frame (into_body p) s
     in (\<lparr>f_bytes = bs, f_head = head, f_id = pl_id p, f_type = pl_type p, f_batch = MarkNone\<rparr>, s))"

section \<open>The caps hold\<close>

text \<open>The bytes counted are the capacities of what is kept, every body is empty, of a size worth keeping,
  and all of them together are within the cap.\<close>

definition bodies_ok :: "bodies \<Rightarrow> bool" where
  "bodies_ok bs \<longleftrightarrow> bs_bytes bs = sum_list (map bd_capacity (bs_kept bs)) \<and> bs_bytes bs \<le> BODIES_KEPT_BYTES
    \<and> (\<forall>b \<in> set (bs_kept bs). bd_bytes b = [] \<and> 0 < bd_capacity b \<and> bd_capacity b \<le> BODY_KEPT_MAX)"

lemma give_ok: "bodies_ok bs \<Longrightarrow> bodies_ok (give b bs)"
  by (auto simp: bodies_ok_def give_def Let_def)

lemma take_body_ok: "bodies_ok bs \<Longrightarrow> bodies_ok (snd (take_body bs))"
  by (auto simp: bodies_ok_def take_body_def split: list.splits)

lemma take_body_empty: "bodies_ok bs \<Longrightarrow> bd_bytes (fst (take_body bs)) = []"
  by (auto simp: bodies_ok_def take_body_def empty_body_def split: list.splits)

lemma fold_give_ok: "bodies_ok bs \<Longrightarrow> bodies_ok (fold give xs bs)"
  by (induction xs arbitrary: bs) (auto intro: give_ok)

lemma no_bodies_ok: "bodies_ok \<lparr>bs_kept = [], bs_bytes = 0\<rparr>"
  by (simp add: bodies_ok_def)

lemma take_all_ok: "bodies_ok bs \<Longrightarrow> bodies_ok (fst (take_all bs given)) \<and> bodies_ok (snd (take_all bs given))"
  by (simp add: take_all_def fold_give_ok no_bodies_ok)

end
