(* ===== verification/Confirm_Runs.thy ===== *)
theory Confirm_Runs
  imports Bodies
begin

text \<open>
  The numbers of confirmed sends (\<open>core/confirming/mod.rs\<close>): the (first, count) pairs an envelope and a
  CONFIRMATION carry, the runs of consecutive numbers a batch waits for, and what a list of pairs names
  among them.
\<close>

section \<open>Pairs\<close>

text \<open>Numbers are \<open>u64\<close>s, and the sum that continues a pair wraps.\<close>

definition add_number :: "nat list \<Rightarrow> nat \<Rightarrow> nat list" where
  "add_number pairs number =
    (let n = length pairs
     in if n \<ge> 2 \<and> (pairs ! (n - 2) + pairs ! (n - 1)) mod 2 ^ 64 = number
        then pairs[n - 1 := pairs ! (n - 1) + 1]
        else pairs @ [number, 1])"

fun number_records :: "batch_record list \<Rightarrow> nat list \<Rightarrow> core \<Rightarrow> (batch_record list \<times> nat list) \<times> core" where
  "number_records [] pairs s = (([], pairs), s)"
| "number_records (r # rs) pairs s =
    (let (r, s) = (if r_number r = 0
           then let n = cr_last_number (confirmer s) + 1
                in (r\<lparr>r_number := n\<rparr>, s\<lparr>confirmer := (confirmer s)\<lparr>cr_last_number := n\<rparr>\<rparr>)
           else (r, s));
         ((rs, pairs), s) = number_records rs (add_number pairs (r_number r)) s
     in ((r # rs, pairs), s))"

definition numbered :: "batch_record list \<Rightarrow> core \<Rightarrow> (batch_record list \<times> nat list) \<times> core" where
  "numbered rs s = number_records rs [] s"

section \<open>Runs\<close>

text \<open>How far a run that begins at a place goes, and the runs from a place on; an index out of range
  panics.\<close>

definition open_at :: "confirming \<Rightarrow> nat \<Rightarrow> bool" where
  "open_at cg index \<longleftrightarrow> flag_at (cg_resolved cg) index = Some False"

function run_length :: "confirming \<Rightarrow> nat \<Rightarrow> nat \<Rightarrow> nat" where
  "run_length cg index n =
    (if index + n < cg_count cg \<and> open_at cg (index + n)
        \<and> cg_number cg (index + n) = map_option (\<lambda>first. first + n) (cg_number cg index)
     then run_length cg index (n + 1) else n)"
  by pat_completeness auto
termination
  by (relation "measure (\<lambda>(cg, index, n). cg_count cg - (index + n))") auto

lemma run_length_ge: "n \<le> run_length cg index n"
  by (induction cg index n rule: run_length.induct) (metis Suc_eq_plus1 Suc_leD order_refl run_length.simps)

declare run_length.simps [simp del]

function runs_from :: "u64 \<Rightarrow> confirming \<Rightarrow> nat \<Rightarrow> (nat \<times> run) list" where
  "runs_from bid cg index =
    (if index \<ge> cg_count cg then []
     else if \<not> open_at cg index then runs_from bid cg (index + 1)
     else let n = run_length cg index 1
          in (the (cg_number cg index), \<lparr>rn_batch = bid, rn_index = index, rn_count = n, rn_unresolved = n\<rparr>)
             # runs_from bid cg (index + n))"
  by pat_completeness auto
termination
  by (relation "measure (\<lambda>(bid, cg, index). cg_count cg - index)")
    (use run_length_ge [of 1] in \<open>auto simp: Suc_le_eq intro!: diff_less_mono2\<close>)

declare runs_from.simps [simp del]

text \<open>Every place of a batch has its flag and its number.\<close>

definition in_range :: "confirming \<Rightarrow> bool" where
  "in_range cg \<longleftrightarrow> (\<forall>index < cg_count cg. flag_at (cg_resolved cg) index \<noteq> None \<and> cg_number cg index \<noteq> None)"

definition rebuild_runs :: "u64 \<Rightarrow> core \<Rightarrow> core" where
  "rebuild_runs bid s =
    (case map_of (cr_by_id (confirmer s)) bid of
       None \<Rightarrow> s
     | Some cg \<Rightarrow>
       let runs = drop_runs bid (cg_run_keys cg) (cr_runs (confirmer s));
           cg = cg\<lparr>cg_run_keys := []\<rparr>;
           n = cg_count cg;
           whole = (cg_unresolved cg = int n \<and> cg_numbers cg = []);
           made = (if cg_unresolved cg = 0 then []
                   else if whole
                   then [(cg_first_number cg, \<lparr>rn_batch = bid, rn_index = 0, rn_count = n, rn_unresolved = n\<rparr>)]
                   else runs_from bid cg 0);
           s = (if cg_unresolved cg = 0 \<or> whole \<or> in_range cg then s else panic s);
           s = s\<lparr>confirmer := (confirmer s)\<lparr>cr_runs := fold (\<lambda>(key, run). bt_insert key run) made runs\<rparr>\<rparr>
       in put_batch bid (cg\<lparr>cg_run_keys := map fst made\<rparr>) s)"

text \<open>\<open>range(..=number).next_back()\<close>.\<close>

definition run_before :: "(nat, run) btree_map \<Rightarrow> nat \<Rightarrow> (nat \<times> run) option" where
  "run_before runs number =
    (case takeWhile (\<lambda>(key, _). key \<le> number) runs of [] \<Rightarrow> None | found \<Rightarrow> Some (last found))"

definition resolved_in_run :: "u64 \<Rightarrow> nat \<Rightarrow> nat \<Rightarrow> core \<Rightarrow> core" where
  "resolved_in_run bid number n s =
    (case run_before (cr_runs (confirmer s)) number of
       None \<Rightarrow> s
     | Some (key, run) \<Rightarrow>
       if rn_batch run \<noteq> bid \<or> number \<ge> key + rn_count run then s
       else let run = run\<lparr>rn_unresolved := rn_unresolved run - min n (rn_unresolved run)\<rparr>;
                runs = cr_runs (confirmer s)
            in s\<lparr>confirmer := (confirmer s)\<lparr>cr_runs :=
                 (if rn_unresolved run = 0 then AList.delete key runs else bt_insert key run runs)\<rparr>\<rparr>)"

section \<open>Segments\<close>

record segment =
  sg_batch :: u64
  sg_key :: nat
  sg_begin :: nat
  sg_end :: nat

definition pair_segments :: "(nat, run) btree_map \<Rightarrow> nat \<times> nat \<Rightarrow> segment list" where
  "pair_segments runs = (\<lambda>(first, n).
    if first + n \<ge> 2 ^ 64 \<or> n = 0 then []
    else
      let upto = first + n;
          start = (case run_before runs first of None \<Rightarrow> first | Some (key, _) \<Rightarrow> key);
          met = filter (\<lambda>(key, _). start \<le> key \<and> key < upto) runs
      in concat (map (\<lambda>(key, run).
           let from = max first key; to = min upto (key + rn_count run)
           in if from < to then [\<lparr>sg_batch = rn_batch run, sg_key = key, sg_begin = rn_index run + (from - key),
                sg_end = rn_index run + (to - key)\<rparr>] else []) met))"

definition segments :: "core \<Rightarrow> nat list \<Rightarrow> segment list" where
  "segments s pairs = concat (map (pair_segments (cr_runs (confirmer s))) (fst (pairs_of pairs)))"

end
