(* ===== verification/Batch_Send.thy ===== *)
theory Batch_Send
  imports Confirm_Runs
begin

text \<open>
  A batch as it goes (\<open>core/bodies.rs\<close>): as many of its messages as fit in one envelope, then the next, a
  message alone as itself; a confirmed batch's envelopes kept until their messages are confirmed
  (\<open>core/confirming/mod.rs\<close>).

  \<open>batch_frame\<close> moves the records' bodies into the one envelope kept and those cut back out; here the
  envelope is made of the bodies of the records before the cut, and the kept envelope itself, empty
  between two batches, is not a part of the state.
\<close>

section \<open>How many fit\<close>

definition envelope_of ::
  "u64 \<Rightarrow> u64 \<Rightarrow> u32 \<Rightarrow> string option \<Rightarrow> bool \<Rightarrow> batch_record list \<Rightarrow> envelope" where
  "envelope_of mid sender ty key confirm rs =
    \<lparr>en_id = Some mid, en_sender = Some sender, en_type = ty, en_key = key,
     en_batch = map (bd_bytes \<circ> r_body) rs,
     en_confirm = (if confirm then foldl add_number [] (map r_number rs) else [])\<rparr>"

text \<open>The inner loop of the cut: the last bodies taken out until they cover the excess.\<close>

fun cut_bodies :: "batch_record list \<Rightarrow> nat \<Rightarrow> nat \<Rightarrow> nat \<Rightarrow> nat" where
  "cut_bodies rs excess gone 0 = 0"
| "cut_bodies rs excess gone (Suc n) =
    (if n > 0 \<and> gone < excess then cut_bodies rs excess (gone + length (bd_bytes (r_body (rs ! n)))) n
     else Suc n)"

lemma cut_bodies_le: "cut_bodies rs excess gone n \<le> n"
  by (induction n arbitrary: gone) (auto intro: le_SucI)

lemma cut_bodies_pos: "0 < n \<Longrightarrow> 0 < cut_bodies rs excess gone n"
  by (induction n arbitrary: gone) auto

lemma cut_bodies_less: "1 < n \<Longrightarrow> 0 < excess \<Longrightarrow> cut_bodies rs excess 0 n < n"
  by (cases n) (auto intro: le_imp_less_Suc cut_bodies_le)

function fit :: "(nat \<Rightarrow> nat) \<Rightarrow> batch_record list \<Rightarrow> nat \<Rightarrow> nat \<Rightarrow> nat" where
  "fit measured rs max_bytes n =
    (if n > 1 \<and> measured n > max_bytes
     then fit measured rs max_bytes (cut_bodies rs (measured n - max_bytes) 0 n) else n)"
  by pat_completeness auto
termination
  by (relation "measure (\<lambda>(_, _, _, n). n)") (auto intro: cut_bodies_less)

declare fit.simps [simp del]

section \<open>A batch's frame\<close>

definition batch_frame ::
  "u64 \<Rightarrow> u32 \<Rightarrow> string option \<Rightarrow> batch_record list \<Rightarrow> nat \<Rightarrow> bool \<Rightarrow> core
    \<Rightarrow> (nat \<times> bytes option \<times> batch_record list) \<times> core" where
  "batch_frame mid ty key rs max_bytes confirm s =
    (let (rs, s) = (if confirm then let ((rs, _), s) = numbered rs s in (rs, s) else (rs, s));
         made = (\<lambda>n. envelope_of mid (instance_id s) ty key confirm (take n rs));
         n = fit (\<lambda>n. envelope_len (env s) (made n)) rs max_bytes (length rs);
         bs = (if n > 1 \<or> confirm then
                 (case encode_into (env_cpu (env s)) (envelope_len (env s)) (envelope_encode (env s)) (made n) key [] of
                    Inl (_ :: unit error) \<Rightarrow> None
                  | Inr bs \<Rightarrow> Some bs)
               else None)
     in case bs of
          None \<Rightarrow> ((n, None, rs), s)
        | Some bs \<Rightarrow>
          let s = fold (\<lambda>r. give_back (r_body r)) (take n rs) s
          in ((n, Some bs, map (\<lambda>r. r\<lparr>r_body := empty_body\<rparr>) (take n rs) @ drop n rs), s))"

definition record_end :: "batch_record \<Rightarrow> (send_done option \<times> tracker option) list" where
  "record_end r = (if r_done r \<noteq> None \<or> r_tracker r \<noteq> None then [(r_done r, r_tracker r)] else [])"

definition followed_of :: "nat \<times> batch_record \<Rightarrow> followed list" where
  "followed_of = (\<lambda>(index, r).
    map (\<lambda>(done, tracker). \<lparr>fd_index = index, fd_done = done, fd_tracker = tracker\<rparr>) (record_end r))"

section \<open>Confirmed envelopes\<close>

definition wait_for_confirmation ::
  "frame \<Rightarrow> batch \<Rightarrow> batch_record list \<Rightarrow> lane_id option \<Rightarrow> core \<Rightarrow> core" where
  "wait_for_confirmation f b rs lane s =
    (if rs = [] then panic s
     else
       let mid = f_id f;
           first = r_number (hd rs);
           consecutive = (\<forall>(index, r) \<in> set (enumerate 0 rs). r_number r = first + index);
           cg = \<lparr>cg_type = f_type f, cg_key = ba_key b, cg_delivery = ba_delivery b, cg_frame = f_bytes f,
                 cg_ids = map r_id rs, cg_first_number = first,
                 cg_numbers = (if consecutive then [] else map r_number rs),
                 cg_followed = concat (map followed_of (enumerate 0 rs)),
                 cg_resolved = new_flags (length rs), cg_unresolved = int (length rs), cg_run_keys = [],
                 cg_placed_on = None, cg_frame_state = None, cg_written = False, cg_retry_at = None,
                 cg_backoff = ba_backoff b, cg_deadline = ba_deadline b, cg_due = None\<rparr>;
           s = s\<lparr>confirmer := (confirmer s)\<lparr>cr_unconfirmed := cr_unconfirmed (confirmer s) + int (length rs)\<rparr>\<rparr>;
           s = rebuild_runs mid (put_batch mid cg s);
           (_, pushed, used, s) = send_at f False lane (ba_deadline b) 0 True (Some (Confirmed mid)) s;
           s = (case map_of (cr_by_id (confirmer s)) mid of
                  None \<Rightarrow> s
                | Some cg \<Rightarrow> put_batch mid (cg\<lparr>
                    cg_frame_state := (case pushed of [] \<Rightarrow> None | t # _ \<Rightarrow> Some t),
                    cg_placed_on := (case used of None \<Rightarrow> None | Some w \<Rightarrow> wr_conn w)\<rparr>) s)
       in confirming_due mid s)"

definition cannot_confirm :: "u32 \<Rightarrow> batch_record list \<Rightarrow> core \<Rightarrow> core" where
  "cannot_confirm ty rs s =
    (let s = note_call (LogLine Level_Error
           ''a confirmed batch's message could not be made, its messages are given up on'') s
     in fold (\<lambda>r. confirmed_end (r_id r) (r_number r) ty (r_tracker r) (r_done r) False NotConfirmed True) rs s)"

section \<open>The batch\<close>

text \<open>A message that goes alone as itself.\<close>

definition send_alone :: "batch_record \<Rightarrow> u32 \<Rightarrow> lane_id option \<Rightarrow> instant option \<Rightarrow> core \<Rightarrow> core" where
  "send_alone r ty lane deadline s =
    (let done = (case r_tracker r of
           None \<Rightarrow> r_done r
         | Some t \<Rightarrow> Some (Batch [(r_done r, Some t)]));
         ((head, bs), s) = alone_frame (r_body r) s;
         (_, _, _, s) = send_at \<lparr>f_bytes = bs, f_head = head, f_id = r_id r, f_type = ty, f_batch = MarkNone\<rparr>
           False lane deadline 0 False done s
     in s)"

text \<open>One turn of the loop of \<open>send_batch\<close>: what is left of the records.\<close>

definition send_some ::
  "batch \<Rightarrow> lane_id option \<Rightarrow> batch_record list \<Rightarrow> core \<Rightarrow> batch_record list \<times> core" where
  "send_some b lane rs s =
    (let ty = ba_type b; confirm = d_confirm (ba_delivery b);
         (envelope, n, rs, s) =
           (if length rs > 1 \<or> confirm then
              let (mid, s) = random64 s;
                  ((n, bs, rs), s) = batch_frame mid ty (ba_key b) rs (d_max_bytes (ba_delivery b)) confirm s
              in (map_option (\<lambda>bs. \<lparr>f_bytes = bs, f_head = None, f_id = mid, f_type = ty,
                    f_batch = (if confirm then MarkConfirmed else MarkBatch (map r_id (take n rs)))\<rparr>) bs, n, rs, s)
            else (None, length rs, rs, s))
     in if confirm then
          (drop n rs, case envelope of
             Some f \<Rightarrow> wait_for_confirmation f b (take n rs) lane s
           | None \<Rightarrow> cannot_confirm ty (take n rs) s)
        else case envelope of
          Some f \<Rightarrow>
            let each = concat (map record_end (take n rs));
                (_, _, _, s) = send_at f False lane (ba_deadline b) 0 False
                  (if each = [] then None else Some (Batch each)) s
            in (drop n rs, s)
        | None \<Rightarrow> (drop 1 rs, case rs of [] \<Rightarrow> s | r # _ \<Rightarrow> send_alone r ty lane (ba_deadline b) s))"

fun send_loop :: "nat \<Rightarrow> batch \<Rightarrow> lane_id option \<Rightarrow> batch_record list \<Rightarrow> core \<Rightarrow> batch_record list \<times> core" where
  "send_loop 0 b lane rs s = (rs, s)"
| "send_loop (Suc n) b lane rs s =
    (if rs = [] then (rs, s) else let (rs, s) = send_some b lane rs s in send_loop n b lane rs s)"

definition send_batch :: "batch \<Rightarrow> conn_id option \<Rightarrow> core \<Rightarrow> core" where
  "send_batch b idle s =
    (let (lane, s) = (case idle of
           Some c \<Rightarrow> if conn_living s c
             then let (w, s) = wrap c s; (l, s) = seeded_lane w False s in (Some l, s) else (None, s)
         | None \<Rightarrow> (None, s))
     in snd (send_loop (length (ba_records b)) b lane (ba_records b) s))"

section \<open>Every message goes\<close>

lemma fit_le: "fit measured rs max_bytes n \<le> n"
proof (induction measured rs max_bytes n rule: fit.induct)
  case (1 measured rs max_bytes n)
  then show ?case
    using cut_bodies_le [of rs "measured n - max_bytes" 0 n] by (subst fit.simps) (simp, linarith)
qed

lemma fit_pos: "0 < n \<Longrightarrow> 0 < fit measured rs max_bytes n"
proof (induction measured rs max_bytes n rule: fit.induct)
  case (1 measured rs max_bytes n)
  then show ?case
    using cut_bodies_pos [of n rs "measured n - max_bytes" 0] by (subst fit.simps) simp
qed

text \<open>What fits is within the limit, or is one message.\<close>

lemma fit_within: "measured (fit measured rs max_bytes n) \<le> max_bytes \<or> fit measured rs max_bytes n \<le> 1"
proof (induction measured rs max_bytes n rule: fit.induct)
  case (1 measured rs max_bytes n)
  then show ?case
    by (subst (1 2) fit.simps) auto
qed

text \<open>The pairs \<open>numbered\<close> writes are those of the records' numbers, and every record has one.\<close>

lemma number_records_pairs:
  "number_records rs pairs s = ((rs', pairs'), s') \<Longrightarrow>
     pairs' = foldl add_number pairs (map r_number rs') \<and> length rs' = length rs
     \<and> (\<forall>r \<in> set rs'. r_number r \<noteq> 0)"
proof (induction rs pairs s arbitrary: rs' pairs' s' rule: number_records.induct)
  case (2 r rs pairs s)
  then show ?case
    by (auto simp: Let_def split: if_splits prod.splits)
qed simp

lemma numbered_length: "numbered rs s = ((rs', pairs), s') \<Longrightarrow> length rs' = length rs"
  by (auto simp: numbered_def dest: number_records_pairs)

lemma batch_frame_bounds:
  assumes "batch_frame mid ty key rs max_bytes confirm s = ((n, bs, rs'), s')" "rs \<noteq> []"
  shows "0 < n \<and> n \<le> length rs \<and> length rs' = length rs"
  using assms
  by (auto simp: batch_frame_def Let_def fit_le dest!: numbered_length split: if_splits prod.splits option.splits
      sum.splits intro!: fit_pos)

lemma send_some_shrinks: "rs \<noteq> [] \<Longrightarrow> length (fst (send_some b lane rs s)) < length rs"
  by (auto simp: send_some_def Let_def split: prod.splits option.splits if_splits dest!: batch_frame_bounds)

lemma send_loop_done: "length rs \<le> n \<Longrightarrow> fst (send_loop n b lane rs s) = []"
proof (induction n arbitrary: rs s)
  case (Suc n)
  show ?case
  proof (cases "rs = []")
    case False
    then have "length (fst (send_some b lane rs s)) \<le> n"
      using send_some_shrinks [OF False, of b lane s] Suc.prems by linarith
    then show ?thesis
      using False by (auto simp: Let_def intro: Suc.IH split: prod.splits)
  qed simp
qed simp

end
