(* ===== verification/Batching.thy ===== *)
theory Batching
  imports Batch_Send
begin

text \<open>
  A client's delivery (\<open>core/batching.rs\<close>): what is set for a type or a key, the batches open, by the order
  they began and by when they are due, and when each goes; with the sends that go by it
  (\<open>core/outbox/mod.rs\<close>, \<open>core/plain.rs\<close>).
\<close>

section \<open>What may be batched\<close>

text \<open>An enum's value the protocol does not name is its field's default: \<open>LoggingMethod\<close> has 1, 2 and 3,
  BOTH the default, and \<open>Compression\<close> 0 and 1, NO_COMPRESSION the default.\<close>

definition named_or :: "int list \<Rightarrow> int \<Rightarrow> int option \<Rightarrow> int" where
  "named_or known usual value = (case value of None \<Rightarrow> usual | Some v \<Rightarrow> if v \<in> set known then v else usual)"

definition plain_event :: "message \<Rightarrow> bool" where
  "plain_event m \<longleftrightarrow>
    (case m_to m of None \<Rightarrow> True | Some to \<Rightarrow> to = 0)
    \<and> (case m_references m of None \<Rightarrow> True | Some r \<Rightarrow> r = 0)
    \<and> m_report_delivery_error m \<noteq> Some True
    \<and> m_include_original_packet_in_report m \<noteq> Some True
    \<and> m_override_rrules m = []
    \<and> named_or [1, 2, 3] 3 (m_logging_method m) = 3
    \<and> named_or [0, 1] 0 (m_compression m) = 0
    \<and> m_batch m = None"

datatype delivery_fault =
    ProtocolType | KeyTooLong | BadMaxRecords | BadMaxBytes | BadMaxDelay | BadRetryAfter | BadTimeout

text \<open>The \<open>InvalidArgument\<close> of each check, by which one it is.\<close>

definition check_delivery :: "u32 \<Rightarrow> string option \<Rightarrow> delivery \<Rightarrow> delivery_fault + unit" where
  "check_delivery ty key d =
    (if ty \<le> MAX_MULTIPLEXER_META_PACKET then Inl ProtocolType
     else if (case key of None \<Rightarrow> False | Some k \<Rightarrow> length k > MAX_KEY_SIZE) then Inl KeyTooLong
     else if d_max_records d < 1 \<or> d_max_records d > MAX_BATCH_RECORDS then Inl BadMaxRecords
     else if d_max_bytes d < 1 \<or> d_max_bytes d > MAX_MESSAGE_SIZE then Inl BadMaxBytes
     else if d_max_delay d > MAX_TIMEOUT then Inl BadMaxDelay
     else if d_confirm d \<and> (d_retry_after d = 0 \<or> d_retry_after d > MAX_TIMEOUT) then Inl BadRetryAfter
     else case d_timeout d of
       None \<Rightarrow> Inr ()
     | Some timeout \<Rightarrow> if timeout \<le> (if d_batch d then d_max_delay d else 0) then Inl BadTimeout else Inr ())"

definition joining_type :: "joining \<Rightarrow> u32" where
  "joining_type j = (case j of JoinFrame f \<Rightarrow> f_type f | JoinPlain p \<Rightarrow> pl_type p)"

definition joining_key :: "joining \<Rightarrow> string option" where
  "joining_key j = (case j of
     JoinFrame f \<Rightarrow> (case f_batch f of MarkEvent key \<Rightarrow> key | _ \<Rightarrow> None)
   | JoinPlain p \<Rightarrow> plain_key p)"

definition joining_bytes :: "joining \<Rightarrow> nat" where
  "joining_bytes j = (case j of JoinFrame f \<Rightarrow> length (f_bytes f) - HEADER_LENGTH | JoinPlain p \<Rightarrow> pl_length p)"

section \<open>The batches open\<close>

definition at_once ::
  "u32 \<Rightarrow> string option \<Rightarrow> delivery \<Rightarrow> batch_record list \<Rightarrow> nat \<Rightarrow> duration \<Rightarrow> instant option \<Rightarrow> batch" where
  "at_once ty key d rs n backoff deadline =
    \<lparr>ba_type = ty, ba_key = key, ba_delivery = d, ba_records = rs, ba_bytes = n, ba_deadline = deadline,
     ba_waits_for_idle = False, ba_due = None, ba_backoff = backoff\<rparr>"

definition find_batch :: "batcher \<Rightarrow> u32 \<Rightarrow> string option \<Rightarrow> nat option" where
  "find_batch b ty key = (case key of
     None \<Rightarrow> map_of (bt_unkeyed b) ty
   | Some k \<Rightarrow> (case map_of (bt_keyed b) ty of None \<Rightarrow> None | Some keys \<Rightarrow> map_of keys k))"

definition configured :: "batcher \<Rightarrow> bool" where
  "configured b \<longleftrightarrow> bt_by_type b \<noteq> [] \<or> bt_by_key b \<noteq> []"

text \<open>\<open>entry(..).or_default().insert(..)\<close> into a map of maps, and a key taken out of it, with its map once
  that is empty.\<close>

definition put_inner :: "u32 \<Rightarrow> string \<Rightarrow> 'v \<Rightarrow> (u32, (string, 'v) hash_map) hash_map
    \<Rightarrow> (u32, (string, 'v) hash_map) hash_map" where
  "put_inner ty k v m =
    AList.update ty (AList.update k v (case map_of m ty of None \<Rightarrow> [] | Some keys \<Rightarrow> keys)) m"

definition drop_inner :: "u32 \<Rightarrow> string \<Rightarrow> (u32, (string, 'v) hash_map) hash_map
    \<Rightarrow> (u32, (string, 'v) hash_map) hash_map" where
  "drop_inner ty k m = (case map_of m ty of
     None \<Rightarrow> m
   | Some keys \<Rightarrow> let keys = AList.delete k keys
       in if keys = [] then AList.delete ty m else AList.update ty keys m)"

definition delivery_of :: "core \<Rightarrow> u32 \<Rightarrow> string option \<Rightarrow> delivery option" where
  "delivery_of s ty key =
    (let b = batcher s
     in if bt_by_type b = [] \<and> bt_by_key b = [] then None
        else case (case key of
            None \<Rightarrow> None
          | Some k \<Rightarrow> (case map_of (bt_by_key b) ty of None \<Rightarrow> None | Some keys \<Rightarrow> map_of keys k)) of
          Some d \<Rightarrow> Some d
        | None \<Rightarrow> map_of (bt_by_type b) ty)"

definition delivery_for :: "core \<Rightarrow> frame \<Rightarrow> delivery option" where
  "delivery_for s f = (case f_batch f of MarkEvent key \<Rightarrow> delivery_of s (f_type f) key | _ \<Rightarrow> None)"

definition batches_open :: "core \<Rightarrow> bool" where
  "batches_open s \<longleftrightarrow> bt_open (batcher s) \<noteq> []"

text \<open>\<open>open[..]\<close> of a batch the indexes name; the code panics on one that is not there.\<close>

definition needs_loop_for ::
  "core \<Rightarrow> u32 \<Rightarrow> string option \<Rightarrow> nat \<Rightarrow> bool \<Rightarrow> bool \<Rightarrow> instant \<Rightarrow> bool option" where
  "needs_loop_for s ty key n all lane at =
    (if all \<or> lane then Some True
     else case delivery_of s ty key of
       None \<Rightarrow> Some True
     | Some d \<Rightarrow>
       if \<not> d_batch d \<or> d_max_delay d = 0
          \<or> (case bt_by_due (batcher s) of [] \<Rightarrow> False | (due, _) # _ \<Rightarrow> due \<le> at)
       then Some True
       else case find_batch (batcher s) ty key of
         None \<Rightarrow> Some (1 \<ge> d_max_records d \<or> n \<ge> d_max_bytes d)
       | Some began \<Rightarrow> map_option (\<lambda>b. length (ba_records b) + 1 \<ge> d_max_records d \<or> ba_bytes b + n \<ge> d_max_bytes d)
           (map_of (bt_open (batcher s)) began))"

definition send_needs_loop :: "core \<Rightarrow> frame \<Rightarrow> bool \<Rightarrow> bool \<Rightarrow> instant \<Rightarrow> bool option" where
  "send_needs_loop s f all lane at = (case f_batch f of
     MarkEvent key \<Rightarrow> needs_loop_for s (f_type f) key (length (f_bytes f) - HEADER_LENGTH) all lane at
   | _ \<Rightarrow> Some True)"

definition plain_needs_loop :: "core \<Rightarrow> plain \<Rightarrow> instant \<Rightarrow> bool option" where
  "plain_needs_loop s p at = needs_loop_for s (pl_type p) (plain_key p) (pl_length p) False False at"

section \<open>When a batch goes\<close>

definition arm_batch_timer :: "core \<Rightarrow> core" where
  "arm_batch_timer s =
    (case bt_by_due (batcher s) of
       [] \<Rightarrow> s
     | (first, _) # _ \<Rightarrow>
       if (case bt_armed (batcher s) of None \<Rightarrow> False | Some at \<Rightarrow> at \<le> first) then s
       else let s = s\<lparr>batcher := (batcher s)\<lparr>bt_armed := Some first\<rparr>\<rparr>;
                (key, s) = rearm_timer (bt_timer (batcher s)) first Batches s
            in s\<lparr>batcher := (batcher s)\<lparr>bt_timer := key\<rparr>\<rparr>)"

definition due_at :: "nat \<Rightarrow> instant \<Rightarrow> core \<Rightarrow> core" where
  "due_at began due s =
    (case map_of (bt_open (batcher s)) began of
       None \<Rightarrow> s
     | Some b \<Rightarrow>
       let bt = (batcher s)\<lparr>bt_open := bt_insert began (b\<lparr>ba_due := Some due\<rparr>) (bt_open (batcher s))\<rparr>;
           bt = (case ba_due b of
                   None \<Rightarrow> bt
                 | Some before \<Rightarrow> bt\<lparr>bt_by_due := bts_remove (before, began) (bt_by_due bt)\<rparr>);
           bt = bt\<lparr>bt_by_due := bts_insert (due, began) (bt_by_due bt)\<rparr>;
           s = s\<lparr>batcher := bt\<rparr>
       in if (case bt_armed bt of None \<Rightarrow> True | Some at \<Rightarrow> due < at) then arm_batch_timer s else s)"

definition stop_batch_timer :: "core \<Rightarrow> core" where
  "stop_batch_timer s =
    (let s = cancel_timer (bt_timer (batcher s)) s
     in s\<lparr>batcher := (batcher s)\<lparr>bt_timer := None, bt_armed := None\<rparr>\<rparr>)"

definition close_batch :: "nat \<Rightarrow> conn_id option \<Rightarrow> core \<Rightarrow> core" where
  "close_batch began idle s =
    (case map_of (bt_open (batcher s)) began of
       None \<Rightarrow> s
     | Some b \<Rightarrow>
       let bt = (batcher s)\<lparr>bt_open := AList.delete began (bt_open (batcher s))\<rparr>;
           bt = (case ba_key b of
                   None \<Rightarrow> bt\<lparr>bt_unkeyed := AList.delete (ba_type b) (bt_unkeyed bt)\<rparr>
                 | Some k \<Rightarrow> bt\<lparr>bt_keyed := drop_inner (ba_type b) k (bt_keyed bt)\<rparr>);
           bt = (if ba_waits_for_idle b
                 then bt\<lparr>bt_waiting_for_idle := bts_remove began (bt_waiting_for_idle bt)\<rparr> else bt);
           s = s\<lparr>batcher := bt\<rparr>;
           s = (case ba_due b of
                  None \<Rightarrow> s
                | Some due \<Rightarrow>
                  let s = s\<lparr>batcher := (batcher s)\<lparr>bt_by_due := bts_remove (due, began) (bt_by_due (batcher s))\<rparr>\<rparr>
                  in if bt_by_due (batcher s) = [] then stop_batch_timer s else s)
       in send_batch b idle s)"

text \<open>Sending a batch opens none, so the loop ends after as many turns as there are batches open.\<close>

fun close_loop :: "nat \<Rightarrow> core \<Rightarrow> core" where
  "close_loop 0 s = s"
| "close_loop (Suc n) s = (case bt_open (batcher s) of
     [] \<Rightarrow> s
   | (began, _) # _ \<Rightarrow> close_loop n (close_batch began None s))"

definition close_batches :: "core \<Rightarrow> core" where
  "close_batches s = close_loop (length (bt_open (batcher s))) s"

definition close_on_its_own :: "nat \<Rightarrow> core \<Rightarrow> core" where
  "close_on_its_own began s =
    (let going = bt_waiting_for_idle (batcher s);
         going = (if began \<in> set going then going else sort (going @ [began]))
     in fold (\<lambda>each. close_batch each None) going s)"

definition idle_or_none :: "core \<Rightarrow> bool" where
  "idle_or_none s \<longleftrightarrow>
    (let living = filter (conn_living s) (map snd (by_peer_id s))
     in living = [] \<or> (\<exists>c \<in> set living.
          (case conn_of s c of None \<Rightarrow> False | Some st \<Rightarrow> outgoing_queue_empty st) \<and> \<not> waits_for (outbox s) c))"

definition wait_for_idle :: "core \<Rightarrow> core" where
  "wait_for_idle s =
    fold (\<lambda>c s. if conn_living s c then notify_when_idle c s else s) (map snd (by_peer_id s)) s"

definition open_batch :: "u32 \<Rightarrow> string option \<Rightarrow> delivery \<Rightarrow> core \<Rightarrow> nat \<times> core" where
  "open_batch ty key d s =
    (let deadline = deadline_after (now s) (d_timeout d);
         began = bt_began (batcher s) + 1;
         bt = (batcher s)\<lparr>bt_began := began\<rparr>;
         bt = (case key of
                 None \<Rightarrow> bt\<lparr>bt_unkeyed := AList.update ty began (bt_unkeyed bt)\<rparr>
               | Some k \<Rightarrow> bt\<lparr>bt_keyed := put_inner ty k began (bt_keyed bt)\<rparr>);
         waits = (d_max_delay d = 0);
         bt = bt\<lparr>bt_open := bt_insert began \<lparr>ba_type = ty, ba_key = key, ba_delivery = d, ba_records = [],
                ba_bytes = 0, ba_deadline = deadline, ba_waits_for_idle = waits, ba_due = None,
                ba_backoff = 0\<rparr> (bt_open bt)\<rparr>;
         s = s\<lparr>batcher := bt\<rparr>
     in if waits then
          let s = s\<lparr>batcher := (batcher s)\<lparr>bt_waiting_for_idle :=
                    bts_insert began (bt_waiting_for_idle (batcher s))\<rparr>\<rparr>;
              s = (case deadline of None \<Rightarrow> s | Some at \<Rightarrow> due_at began at s)
          in (began, wait_for_idle s)
        else (began, due_at began (now s + d_max_delay d) s))"

definition close_idle_batches :: "conn_id option \<Rightarrow> core \<Rightarrow> core" where
  "close_idle_batches idle s = fold (\<lambda>began. close_batch began idle) (bt_waiting_for_idle (batcher s)) s"

definition outgoing_queue_idle :: "conn_id \<Rightarrow> core \<Rightarrow> core" where
  "outgoing_queue_idle c = close_idle_batches (Some c)"

definition close_idle_batches_if_idle :: "core \<Rightarrow> core" where
  "close_idle_batches_if_idle s =
    (if bt_waiting_for_idle (batcher s) \<noteq> [] \<and> idle_or_none s then close_idle_batches None s else s)"

definition handle_orphaned_outgoing_messages ::
  "conn_id \<Rightarrow> queue_entry list \<Rightarrow> core \<Rightarrow> queue_entry list \<times> core" where
  "handle_orphaned_outgoing_messages dead outgoing s =
    (let (left, s) = hand_over_outgoing dead outgoing s in (left, close_idle_batches_if_idle s))"

definition batch_timer_fired :: "core \<Rightarrow> core" where
  "batch_timer_fired s =
    (let s = s\<lparr>batcher := (batcher s)\<lparr>bt_timer := None, bt_armed := None\<rparr>\<rparr>;
         due = map snd (takeWhile (\<lambda>(at, _). at \<le> now s) (bt_by_due (batcher s)))
     in arm_batch_timer (fold close_on_its_own due s))"

definition stop_batching :: "core \<Rightarrow> core" where
  "stop_batching s = stop_batch_timer (close_batches s)"

definition set_delivery :: "u32 \<Rightarrow> string option \<Rightarrow> delivery \<Rightarrow> core \<Rightarrow> (delivery_fault + unit) \<times> core" where
  "set_delivery ty key d s =
    (case check_delivery ty key d of
       Inl e \<Rightarrow> (Inl e, s)
     | Inr _ \<Rightarrow>
       let s = close_batches s; bt = batcher s
       in (Inr (), s\<lparr>batcher := (case key of
            None \<Rightarrow> bt\<lparr>bt_by_type := AList.update ty d (bt_by_type bt)\<rparr>
          | Some k \<Rightarrow> bt\<lparr>bt_by_key := put_inner ty k d (bt_by_key bt)\<rparr>)\<rparr>))"

definition clear_delivery :: "u32 \<Rightarrow> string option \<Rightarrow> core \<Rightarrow> core" where
  "clear_delivery ty key s =
    (let s = close_batches s; bt = batcher s
     in s\<lparr>batcher := (case key of
          None \<Rightarrow> bt\<lparr>bt_by_type := AList.delete ty (bt_by_type bt), bt_by_key := AList.delete ty (bt_by_key bt)\<rparr>
        | Some k \<Rightarrow> bt\<lparr>bt_by_key := drop_inner ty k (bt_by_key bt)\<rparr>)\<rparr>)"

section \<open>Joining a batch\<close>

text \<open>A tracker made for the caller is held by the caller and the record; \<open>keeps\<close> says whether the caller
  keeps trackers.  The list returned is what is pushed.\<close>

definition record_of ::
  "joining \<Rightarrow> bool \<Rightarrow> send_done option \<Rightarrow> core \<Rightarrow> (batch_record \<times> tracker list) \<times> core" where
  "record_of j keeps done s =
    (let ((b, mid), s) = (case j of
           JoinPlain p \<Rightarrow> ((into_body p, pl_id p), s)
         | JoinFrame f \<Rightarrow> let (b, s) = take_kept s
             in ((extend_body s (drop HEADER_LENGTH (f_bytes f)) b, f_id f), s));
         (tracker, s) = (if keeps then let (t, s) = new_tracker Queued s in (Some t, s) else (None, s))
     in ((\<lparr>r_body = b, r_id = mid, r_done = done, r_tracker = tracker, r_number = 0\<rparr>, tracker_list tracker), s))"

definition join_batch ::
  "nat \<Rightarrow> joining \<Rightarrow> delivery \<Rightarrow> bool \<Rightarrow> send_done option \<Rightarrow> core \<Rightarrow> bool \<times> tracker list \<times> core" where
  "join_batch began j d keeps done s =
    (let ((r, pushed), s) = record_of j keeps done s
     in case map_of (bt_open (batcher s)) began of
          None \<Rightarrow> (True, pushed, panic s)
        | Some b \<Rightarrow>
          let b = b\<lparr>ba_bytes := ba_bytes b + joining_bytes j, ba_records := ba_records b @ [r]\<rparr>;
              s = s\<lparr>batcher := (batcher s)\<lparr>bt_open := bt_insert began b (bt_open (batcher s))\<rparr>\<rparr>
          in (True, pushed,
              if length (ba_records b) \<ge> d_max_records d \<or> ba_bytes b \<ge> d_max_bytes d
              then close_on_its_own began s else s))"

definition send_unbatched ::
  "joining \<Rightarrow> delivery \<Rightarrow> bool \<Rightarrow> send_done option \<Rightarrow> core \<Rightarrow> bool \<times> tracker list \<times> core" where
  "send_unbatched j d keeps done s =
    (let s = close_batches s;
         deadline = deadline_after (now s) (d_timeout d)
     in if d_confirm d then
          let ((r, pushed), s) = record_of j keeps done s
          in (True, pushed, send_batch (at_once (joining_type j) (joining_key j) d [r] (joining_bytes j) 0 deadline) None s)
        else
          let (f, s) = (case j of JoinFrame f \<Rightarrow> (f, s) | JoinPlain p \<Rightarrow> frame_of_plain p s);
              (sent, pushed, _, s) = send_at f False None deadline 0 False done s
          in (sent, pushed, s))"

definition batch :: "joining \<Rightarrow> delivery \<Rightarrow> bool \<Rightarrow> send_done option \<Rightarrow> core \<Rightarrow> bool \<times> tracker list \<times> core" where
  "batch j d keeps done s =
    (let n = joining_bytes j;
         found = (if d_batch d then find_batch (batcher s) (joining_type j) (joining_key j) else None);
         (found, s) = (case found of
             None \<Rightarrow> (None, s)
           | Some began \<Rightarrow> (case map_of (bt_open (batcher s)) began of
               None \<Rightarrow> (Some began, panic s)
             | Some b \<Rightarrow> if length (ba_records b) \<ge> d_max_records d \<or> ba_bytes b + n > d_max_bytes d
                 then (None, close_on_its_own began s) else (Some began, s)))
     in case found of
          Some began \<Rightarrow> join_batch began j d keeps done s
        | None \<Rightarrow>
          if \<not> d_batch d \<or> n \<ge> d_max_bytes d \<or> d_max_delay d = 0 \<and> idle_or_none s
          then send_unbatched j d keeps done s
          else let (began, s) = open_batch (joining_type j) (joining_key j) d s
               in join_batch began j d keeps done s)"

section \<open>Every send\<close>

definition send ::
  "frame \<Rightarrow> bool \<Rightarrow> lane_id option \<Rightarrow> duration option \<Rightarrow> nat \<Rightarrow> bool \<Rightarrow> bool \<Rightarrow> send_done option \<Rightarrow> bool \<Rightarrow> core
    \<Rightarrow> bool \<times> tracker list \<times> wrapper option \<times> core" where
  "send f all lane timeout number keeps want_used done may_batch s =
    (if cl_shuts_down (client s) then (False, [], None, s)
     else
       let d = (if may_batch \<and> \<not> all \<and> lane = None then delivery_for s f else None)
       in if (case d of None \<Rightarrow> False | Some d \<Rightarrow> d_batch d \<or> d_confirm d)
          then let (sent, pushed, s) = batch (JoinFrame f) (the d) keeps done s in (sent, pushed, None, s)
          else let s = close_batches s
               in send_at f all lane (deadline_after (now s) (case d of None \<Rightarrow> timeout | Some d \<Rightarrow> d_timeout d))
                    number want_used done s)"

definition send_plain :: "plain \<Rightarrow> duration option \<Rightarrow> nat \<Rightarrow> core \<Rightarrow> bool \<times> core" where
  "send_plain p timeout number s =
    (if cl_shuts_down (client s) then (False, give_back (pl_body p) s)
     else
       let d = delivery_of s (pl_type p) (plain_key p)
       in if (case d of None \<Rightarrow> False | Some d \<Rightarrow> d_batch d \<or> d_confirm d)
          then let (sent, _, s) = batch (JoinPlain p) (the d) False None s in (sent, s)
          else
            let s = close_batches s;
                deadline = deadline_after (now s) (case d of None \<Rightarrow> timeout | Some d \<Rightarrow> d_timeout d);
                (f, s) = frame_of_plain p s;
                (sent, _, _, s) = send_at f False None deadline number False None s
            in (sent, s))"

definition place_plain :: "plain \<Rightarrow> instant option \<Rightarrow> core \<Rightarrow> core" where
  "place_plain p deadline s =
    (let (number, s) = next_number s;
         report = \<lparr>o_alloc = 0, o_bytes = [], o_head = None, o_id = pl_id p, o_type = pl_type p, o_pinned = False,
           o_for_all = False, o_own = False, o_number = number, o_deadline = None, o_batch = None,
           o_confirmed = False\<rparr>
     in if th_torn_down (threaded s) then give_back (pl_body p) (report_drop report ShutDown s)
        else
          let timeout = map_option (\<lambda>at. at - now s) deadline;
              (sent, s) = send_plain p timeout number s
          in if sent then s else report_drop report ConnectionLost s)"

section \<open>On a given connection, and on every one\<close>

definition schedule_one ::
  "frame \<Rightarrow> bool \<Rightarrow> bool \<Rightarrow> duration option \<Rightarrow> nat \<Rightarrow> lane_id option \<Rightarrow> core
    \<Rightarrow> tracker option \<times> wrapper option \<times> core" where
  "schedule_one f pinned want_used timeout number lane s =
    (let s = close_batches s;
         handed = (if oe_handovers (ends s) = [] then None else lane_handed s lane);
         (chosen, s) = (case handed of Some c \<Rightarrow> (Some c, s) | None \<Rightarrow> choose_connection s)
     in case chosen of
          None \<Rightarrow> (None, None, s)
        | Some c \<Rightarrow>
          let (used, s) = (if want_used then let (w, s) = wrap c s in (Some w, s) else (None, s));
              (number, s) = (if number \<noteq> 0 then (number, s) else next_number s);
              deadline = deadline_after (now s) timeout;
              (frame, s) = out_frame_of f pinned False number deadline s;
              (placed, s) = place_on c frame None 0 number deadline False lane s
          in (placed, used, s))"

definition schedule_on ::
  "frame \<Rightarrow> bool \<Rightarrow> wrapper \<Rightarrow> duration option \<Rightarrow> nat \<Rightarrow> lane_id option \<Rightarrow> core \<Rightarrow> tracker option \<times> core" where
  "schedule_on f pinned w timeout number lane s =
    (case wr_conn w of
       None \<Rightarrow> (None, s)
     | Some c \<Rightarrow>
       if cl_shuts_down (client s) \<or> \<not> conn_living s c then (None, s)
       else
         let s = close_batches s;
             (number, s) = (if number \<noteq> 0 then (number, s) else next_number s);
             deadline = deadline_after (now s) timeout;
             (frame, s) = out_frame_of f pinned False number deadline s
         in place_on c frame None 0 number deadline False lane s)"

definition schedule_copy ::
  "out_frame \<Rightarrow> nat \<Rightarrow> instant option \<Rightarrow> bool \<Rightarrow> conn_id \<Rightarrow> tracker list \<times> wrapper list \<times> core
    \<Rightarrow> tracker list \<times> wrapper list \<times> core" where
  "schedule_copy f number deadline want_used c = (\<lambda>(copies, used, s).
    if \<not> conn_living s c then (copies, used, s)
    else let (placed, s) = place_on c f None 0 number deadline True None s
      in case placed of
           None \<Rightarrow> (copies, used, s)
         | Some t \<Rightarrow> let (ws, s) = (if want_used then let (w, s) = wrap c s in ([w], s) else ([], s))
             in (copies @ [t], used @ ws, s))"

definition schedule_all ::
  "frame \<Rightarrow> bool \<Rightarrow> duration option \<Rightarrow> nat \<Rightarrow> core \<Rightarrow> tracker list \<times> wrapper list \<times> core" where
  "schedule_all f want_used timeout number s =
    (if cl_shuts_down (client s) then ([], [], s)
     else
       let s = close_batches s;
           (number, s) = (if number \<noteq> 0 then (number, s) else next_number s);
           deadline = deadline_after (now s) timeout;
           (frame, s) = out_frame_of f False True number deadline s
       in fold (schedule_copy frame number deadline want_used) (map snd (by_peer_id s)) ([], [], s))"

end
