(* ===== verification/Confirming.thy ===== *)
theory Confirming
  imports Batching
begin

text \<open>
  Confirmed sends: a CONFIRMATION (\<open>core/confirming/mod.rs\<close>), what goes again and when
  (\<open>core/confirming/again.rs\<close>), what a consumer owes its producers (\<open>core/confirming/owed.rs\<close>), and the
  flush that waits for them (\<open>core/outbox/flush.rs\<close>).
\<close>

section \<open>What goes again\<close>

definition BACKOFF_FIRST :: duration where
  "BACKOFF_FIRST = millis 100"

definition BACKOFF_MOST :: duration where
  "BACKOFF_MOST = secs 1"

text \<open>The messages' bytes read back out of the kept frame.\<close>

definition read_back :: "core \<Rightarrow> confirming \<Rightarrow> bytes list option" where
  "read_back s cg =
    (case message_decode (env s) (drop HEADER_LENGTH (cg_frame cg)) of
       None \<Rightarrow> None
     | Some m \<Rightarrow> (case m_batch m of
         None \<Rightarrow> None
       | Some inside \<Rightarrow> (case batch_decode (env s) inside of
           None \<Rightarrow> None
         | Some each \<Rightarrow> if length each = cg_count cg then Some each else None)))"

text \<open>One message given up on because its frame does not read back, and one that goes again or is late.\<close>

definition cannot_read :: "u64 \<Rightarrow> nat \<Rightarrow> confirming \<times> core \<Rightarrow> confirming \<times> core" where
  "cannot_read bid index = (\<lambda>(cg, s).
    let (resolved, cg', s) = resolve_in cg index False NotConfirmed True s
    in (cg', if resolved then resolved_in_run bid (the (cg_number cg index)) 1 s else s))"

definition again_one ::
  "bool \<Rightarrow> bytes list \<Rightarrow> nat \<Rightarrow> batch_record list \<times> nat \<times> confirming \<times> core
    \<Rightarrow> batch_record list \<times> nat \<times> confirming \<times> core" where
  "again_one late each index = (\<lambda>(rs, n, cg, s).
    case (flag_at (cg_resolved cg) index, set_flag index (cg_resolved cg), id_of cg index, cg_number cg index) of
      (Some resolved, Some flags, Some mid, Some number) \<Rightarrow>
        if resolved then (rs, n, cg, s)
        else if late then let (_, cg, s) = resolve_in cg index False NotConfirmed True s in (rs, n, cg, s)
        else if index \<ge> length each then (rs, n, cg, panic s)
        else
          let cg = cg\<lparr>cg_resolved := flags, cg_unresolved := cg_unresolved cg - 1\<rparr>;
              s = s\<lparr>confirmer := (confirmer s)\<lparr>cr_unconfirmed := cr_unconfirmed (confirmer s) - 1\<rparr>\<rparr>;
              (b, s) = take_kept s;
              b = extend_body s (each ! index) b;
              ((done, tracker), cg) = take_end index cg
          in (rs @ [\<lparr>r_body = b, r_id = mid, r_done = done, r_tracker = tracker, r_number = number\<rparr>],
              n + length (bd_bytes b), cg, s)
    | _ \<Rightarrow> (rs, n, cg, panic s))"

definition send_again :: "u64 \<Rightarrow> nat list \<Rightarrow> core \<Rightarrow> core" where
  "send_again bid indexes s =
    (case map_of (cr_by_id (confirmer s)) bid of
       None \<Rightarrow> s
     | Some cg \<Rightarrow>
       let s = s\<lparr>confirmer := (confirmer s)\<lparr>cr_by_id := AList.delete bid (cr_by_id (confirmer s))\<rparr>\<rparr>;
           late = past s (cg_deadline cg)
       in case (if late then Some [] else read_back s cg) of
            None \<Rightarrow>
              let s = note_call (LogLine Level_Error
                    ''a confirmed batch's frame does not read back; its messages are given up on'') s;
                  (cg, s) = fold (cannot_read bid) indexes (cg, s)
              in forget_resolved bid (put_batch bid cg s)
          | Some each \<Rightarrow>
              let (rs, n, cg, s) = fold (again_one late each) indexes ([], 0, cg, s);
                  s = forget_resolved bid (rebuild_runs bid (put_batch bid cg s))
              in if rs = [] then s
                 else
                   let s = s\<lparr>confirmer := (confirmer s)\<lparr>cr_sent_again := cr_sent_again (confirmer s) + length rs\<rparr>\<rparr>
                   in send_batch (at_once (cg_type cg) (cg_key cg) (cg_delivery cg) rs n (cg_backoff cg)
                        (cg_deadline cg)) None s)"

definition send_unresolved_again :: "u64 \<Rightarrow> core \<Rightarrow> core" where
  "send_unresolved_again bid s =
    (case map_of (cr_by_id (confirmer s)) bid of
       None \<Rightarrow> s
     | Some cg \<Rightarrow> send_again bid (filter (open_at cg) [0..<cg_count cg]) s)"

definition due_one :: "u64 \<Rightarrow> core \<Rightarrow> core" where
  "due_one bid s =
    (let passed = (case map_of (cr_by_id (confirmer s)) bid of
           None \<Rightarrow> False | Some cg \<Rightarrow> past s (cg_deadline cg));
         s = (if passed then
                snd (with_batch bid (\<lambda>cg s. let (cg, s) = resolve_all NotConfirmed True cg s in ((), cg, s)) s)
              else s)
     in case map_of (cr_by_id (confirmer s)) bid of
          None \<Rightarrow> s
        | Some cg \<Rightarrow>
          if cg_unresolved cg = 0 then forget_resolved bid s
          else if cg_written cg \<and> past s (cg_retry_at cg) then send_unresolved_again bid s
          else confirming_due bid s)"

definition confirm_timer_fired :: "core \<Rightarrow> core" where
  "confirm_timer_fired s =
    (let s = s\<lparr>confirmer := (confirmer s)\<lparr>cr_timer := None, cr_armed := None, cr_firing := True\<rparr>\<rparr>;
         due = map snd (takeWhile (\<lambda>(at, _). at \<le> now s) (cr_by_due (confirmer s)));
         s = fold due_one due s
     in arm_confirm_timer (s\<lparr>confirmer := (confirmer s)\<lparr>cr_firing := False\<rparr>\<rparr>))"

definition confirmed_batch_not_taken :: "u64 \<Rightarrow> core \<Rightarrow> bool \<times> core" where
  "confirmed_batch_not_taken bid s =
    (case map_of (cr_by_id (confirmer s)) bid of
       None \<Rightarrow> (False, s)
     | Some cg \<Rightarrow>
       let backoff = (if cg_backoff cg = 0 then BACKOFF_FIRST else min (cg_backoff cg * 2) BACKOFF_MOST)
       in (True, confirming_due bid (put_batch bid
            (cg\<lparr>cg_backoff := backoff, cg_written := True, cg_retry_at := Some (now s + backoff)\<rparr>) s)))"

section \<open>A CONFIRMATION\<close>

definition resolved_at_once :: "segment \<Rightarrow> bool \<Rightarrow> core \<Rightarrow> nat option \<times> core" where
  "resolved_at_once sg processed s =
    (if \<not> processed then (None, s)
     else case map_of (cr_by_id (confirmer s)) (sg_batch sg) of
       None \<Rightarrow> (None, s)
     | Some cg \<Rightarrow>
       if cg_followed cg \<noteq> [] then (None, s)
       else case set_range (sg_begin sg) (sg_end sg) 0 (cg_resolved cg) of
         None \<Rightarrow> (None, panic s)
       | Some (n, flags) \<Rightarrow>
         let s = put_batch (sg_batch sg)
               (cg\<lparr>cg_resolved := flags, cg_unresolved := cg_unresolved cg - int n\<rparr>) s;
             s = s\<lparr>confirmer := (confirmer s)\<lparr>cr_unconfirmed := cr_unconfirmed (confirmer s) - int n\<rparr>\<rparr>
         in (Some n, if n > 0 \<and> flushing s then post_callbacks s else s))"

definition resolve_range ::
  "segment \<Rightarrow> bool \<Rightarrow> drop_reason \<Rightarrow> confirming \<Rightarrow> core \<Rightarrow> nat \<times> confirming \<times> core" where
  "resolve_range sg processed reason cg s =
    fold (\<lambda>index (n, cg, s).
        let (resolved, cg, s) = resolve_in cg index processed reason True s
        in (if resolved then n + 1 else n, cg, s))
      [sg_begin sg..<sg_end sg] (0, cg, s)"

definition confirm_segment ::
  "bool \<Rightarrow> drop_reason \<Rightarrow> segment \<Rightarrow> u64 list \<times> core \<Rightarrow> u64 list \<times> core" where
  "confirm_segment processed reason sg = (\<lambda>(heard, s).
    let (at_once, s) = resolved_at_once sg processed s;
        (n, s) = (case at_once of
            Some n \<Rightarrow> (n, s)
          | None \<Rightarrow> let (r, s) = with_batch (sg_batch sg) (resolve_range sg processed reason) s
              in (case r of None \<Rightarrow> 0 | Some n \<Rightarrow> n, s))
    in if n > 0 then
         (if heard \<noteq> [] \<and> last heard = sg_batch sg then heard else heard @ [sg_batch sg],
          resolved_in_run (sg_batch sg) (sg_key sg) n s)
       else (heard, s))"

definition confirm_list ::
  "nat list \<Rightarrow> bool \<Rightarrow> drop_reason \<Rightarrow> u64 list \<times> core \<Rightarrow> u64 list \<times> core" where
  "confirm_list pairs processed reason = (\<lambda>(heard, s).
    fold (confirm_segment processed reason) (segments s pairs) (heard, s))"

definition group_refused :: "segment \<Rightarrow> (u64 \<times> nat list) list \<Rightarrow> (u64 \<times> nat list) list" where
  "group_refused sg refused =
    (let places = [sg_begin sg..<sg_end sg]
     in if refused \<noteq> [] \<and> fst (last refused) = sg_batch sg
        then butlast refused @ [(sg_batch sg, snd (last refused) @ places)]
        else refused @ [(sg_batch sg, places)])"

definition heard_of :: "u64 \<Rightarrow> core \<Rightarrow> core" where
  "heard_of bid s =
    (case map_of (cr_by_id (confirmer s)) bid of
       None \<Rightarrow> s
     | Some cg \<Rightarrow>
       if cg_unresolved cg = 0 then forget_resolved bid s
       else confirming_due bid (put_batch bid (cg\<lparr>cg_backoff := 0,
              cg_retry_at := (if cg_written cg
                then deadline_after (now s) (Some (d_retry_after (cg_delivery cg))) else cg_retry_at cg)\<rparr>) s))"

definition on_confirmation :: "message \<Rightarrow> core \<Rightarrow> core" where
  "on_confirmation m s =
    (case m_message m of
       None \<Rightarrow> s
     | Some payload \<Rightarrow> (case confirmation_decode (env s) payload of
         None \<Rightarrow> s
       | Some c \<Rightarrow>
         let (heard, s) = confirm_list (cf_processed c) True NotConfirmed ([], s);
             (heard, s) = confirm_list (cf_failed c) False Failed (heard, s);
             refused = fold group_refused (segments s (cf_refused c)) [];
             s = fold (\<lambda>(bid, indexes). send_again bid indexes) refused s
         in fold heard_of (sort (remdups heard)) s))"

definition first_number_of :: "confirming \<Rightarrow> nat" where
  "first_number_of cg = (case cg_number cg 0 of None \<Rightarrow> 0 | Some n \<Rightarrow> n)"

definition give_up_confirmations :: "drop_reason \<Rightarrow> core \<Rightarrow> core" where
  "give_up_confirmations reason s =
    (let waiting = sort_key first_number_of (map snd (cr_by_id (confirmer s)));
         s = s\<lparr>confirmer := (confirmer s)\<lparr>cr_by_id := []\<rparr>\<rparr>;
         s = fold (\<lambda>cg s. snd (resolve_all reason True cg s)) waiting s;
         s = s\<lparr>confirmer := (confirmer s)\<lparr>cr_runs := [], cr_by_due := []\<rparr>\<rparr>
     in stop_confirm_timer s)"

section \<open>What a consumer owes\<close>

definition OWED_KEPT :: nat where
  "OWED_KEPT = 4096"

definition put_owed :: "u64 \<Rightarrow> owed \<Rightarrow> core \<Rightarrow> core" where
  "put_owed producer ow s =
    s\<lparr>confirmer := (confirmer s)\<lparr>cr_owed := AList.update producer ow (cr_owed (confirmer s))\<rparr>\<rparr>"

text \<open>\<open>entry(..).or_default()\<close>.\<close>

definition owed_to :: "core \<Rightarrow> u64 \<Rightarrow> owed" where
  "owed_to s producer = (case map_of (cr_owed (confirmer s)) producer of None \<Rightarrow> new_owed | Some ow \<Rightarrow> ow)"

definition send_owed :: "u64 \<Rightarrow> core \<Rightarrow> core" where
  "send_owed producer s =
    (case map_of (cr_owed (confirmer s)) producer of
       None \<Rightarrow> s
     | Some ow \<Rightarrow>
       let payload = confirmation_encode (env s)
             \<lparr>cf_processed = ow_processed ow, cf_refused = ow_refused ow, cf_failed = ow_failed ow\<rparr>;
           s = s\<lparr>confirmer := (confirmer s)\<lparr>cr_owed_count := cr_owed_count (confirmer s) - int (ow_count ow)\<rparr>\<rparr>;
           s = put_owed producer (ow\<lparr>ow_processed := [], ow_refused := [], ow_failed := [], ow_count := 0\<rparr>) s;
           (mid, s) = random64 s;
           message = default_message\<lparr>m_id := Some mid, m_sender := Some (instance_id s), m_to := Some producer,
             m_type := CONFIRMATION, m_report_delivery_error := Some False, m_message := Some payload\<rparr>
       in case encode_message s message of
            Inl _ \<Rightarrow> s
          | Inr bs \<Rightarrow>
            let (lane, s) = (case ow_connection ow of
                  Some c \<Rightarrow> if conn_living s c
                    then let (w, s) = wrap c s; (l, s) = seeded_lane w False s in (Some l, s) else (None, s)
                | None \<Rightarrow> (None, s));
                (_, _, _, s) = send_at \<lparr>f_bytes = bs, f_head = None, f_id = mid, f_type = CONFIRMATION,
                    f_batch = MarkNone\<rparr> False lane (deadline_after (now s) (Some DEFAULT_TIMEOUT)) 0 False None s
            in s)"

definition add_owed :: "confirmed_outcome \<Rightarrow> nat \<Rightarrow> owed \<Rightarrow> owed" where
  "add_owed outcome number ow = (case outcome of
     Processed \<Rightarrow> ow\<lparr>ow_processed := add_number (ow_processed ow) number, ow_count := ow_count ow + 1\<rparr>
   | Refused \<Rightarrow> ow\<lparr>ow_refused := add_number (ow_refused ow) number, ow_count := ow_count ow + 1\<rparr>
   | FailedOutcome \<Rightarrow> ow\<lparr>ow_failed := add_number (ow_failed ow) number, ow_count := ow_count ow + 1\<rparr>)"

definition confirm :: "u64 \<Rightarrow> nat \<Rightarrow> confirmed_outcome \<Rightarrow> core \<Rightarrow> core" where
  "confirm sender number outcome s =
    (if number = 0 then s
     else
       let ow = add_owed outcome number (owed_to s sender);
           s = put_owed sender ow s;
           s = s\<lparr>confirmer := (confirmer s)\<lparr>cr_owed_count := cr_owed_count (confirmer s) + 1\<rparr>\<rparr>
       in if ow_count ow \<ge> CONFIRMATIONS_GATHERED_MAX then send_owed sender s else s)"

definition send_confirmations :: "core \<Rightarrow> core" where
  "send_confirmations s =
    (if cr_owed_count (confirmer s) = 0 then s
     else
       let producers = map fst (filter (\<lambda>(_, ow). ow_count ow > 0) (cr_owed (confirmer s)));
           s = fold send_owed producers s
       in if length (cr_owed (confirmer s)) > OWED_KEPT
          then s\<lparr>confirmer := (confirmer s)\<lparr>cr_owed := filter (\<lambda>(_, ow). ow_count ow > 0) (cr_owed (confirmer s))\<rparr>\<rparr>
          else s)"

definition confirmed_batch_from :: "conn_id \<Rightarrow> u64 \<Rightarrow> core \<Rightarrow> core" where
  "confirmed_batch_from c producer s = put_owed producer ((owed_to s producer)\<lparr>ow_connection := Some c\<rparr>) s"

definition confirm_handed :: "(u64 \<times> nat \<times> confirmed_outcome) list \<Rightarrow> core \<Rightarrow> core" where
  "confirm_handed handed s =
    (if handed = [] \<or> th_torn_down (threaded s) then s
     else
       let s = fold (\<lambda>(sender, number, outcome). confirm sender number outcome) handed s
       in if cr_posted (confirmer s) then s
          else post SendConfirmations (s\<lparr>confirmer := (confirmer s)\<lparr>cr_posted := True\<rparr>\<rparr>))"

definition send_confirmations_posted :: "core \<Rightarrow> core" where
  "send_confirmations_posted s =
    (let s = s\<lparr>confirmer := (confirmer s)\<lparr>cr_posted := False\<rparr>\<rparr>
     in if th_torn_down (threaded s) then s else send_confirmations s)"

definition hands_out_as_it_comes :: "core \<Rightarrow> bool" where
  "hands_out_as_it_comes s \<longleftrightarrow> cl_mode (client s) = DispatchMode \<or> cl_refusing (client s)"

text \<open>The batches placed on a connection that closed: their places forgotten, those written and not all
  resolved to go again.\<close>

definition written_on :: "core \<Rightarrow> conn_id \<Rightarrow> (u64 \<times> confirming) \<Rightarrow> bool" where
  "written_on s c = (\<lambda>(_, cg). cg_placed_on cg = Some c
    \<and> (cg_written cg \<or> (case cg_frame_state cg of None \<Rightarrow> False | Some t \<Rightarrow> tracker_get s t = Sent))
    \<and> cg_unresolved cg > 0)"

definition confirmations_on_closed :: "conn_id \<Rightarrow> core \<Rightarrow> core" where
  "confirmations_on_closed c s =
    (let again = sort (map (\<lambda>(bid, cg). (first_number_of cg, bid)) (filter (written_on s c) (cr_by_id (confirmer s))));
         s = s\<lparr>confirmer := (confirmer s)\<lparr>cr_by_id :=
               map (\<lambda>(bid, cg). (bid, if cg_placed_on cg = Some c then cg\<lparr>cg_placed_on := None\<rparr> else cg))
                 (cr_by_id (confirmer s))\<rparr>\<rparr>;
         s = fold (\<lambda>(_, bid). send_unresolved_again bid) again s
     in if cr_owed_count (confirmer s) \<noteq> 0 \<and> hands_out_as_it_comes s \<and> \<not> cl_shuts_down (client s)
        then send_confirmations s else s)"

section \<open>A flush\<close>

definition flush_mark :: "conn_id \<Rightarrow> (conn_id \<times> tracker) list \<times> core \<Rightarrow> (conn_id \<times> tracker) list \<times> core" where
  "flush_mark c = (\<lambda>(marks, s).
    if \<not> conn_living s c then (marks, s)
    else let (tracker, s) = track_last_queued c s
      in (case tracker of None \<Rightarrow> marks | Some t \<Rightarrow> marks @ [(c, t)], s))"

definition begin_flush :: "flush_done option \<Rightarrow> core \<Rightarrow> flush_id \<times> core" where
  "begin_flush done s =
    (let dropped = cl_dropped (client s);
         s = send_confirmations (close_batches s);
         lost = (cl_dropped (client s) \<noteq> dropped);
         s = (if oe_follow_events (ends s) \<noteq> [] \<or> oe_drop_events (ends s) \<noteq> [] \<or> cr_ends (confirmer s) \<noteq> []
              then process_callbacks s else s);
         fid = oe_next_flush (ends s) + 1;
         s = s\<lparr>ends := (ends s)\<lparr>oe_next_flush := fid\<rparr>\<rparr>;
         (marks, s) = fold flush_mark (map snd (by_peer_id s)) ([], s);
         fl = \<lparr>fl_last_number = ob_last_number (outbox s), fl_waiting = ob_waiting (outbox s), fl_marks = marks,
               fl_done = done, fl_flushed = False, fl_lost = lost,
               fl_confirm_mark = cr_last_number (confirmer s)\<rparr>;
         s = s\<lparr>ends := (ends s)\<lparr>oe_flush_states := AList.update fid fl (oe_flush_states (ends s)),
               oe_flushes := oe_flushes (ends s) @ [fid]\<rparr>\<rparr>
     in (fid, check_flushes s))"

end
