(* ===== verification/Query.thy ===== *)
theory Query
  imports Confirming
begin

text \<open>
  The query state machine (\<open>core/query.rs\<close>): a request, a search for a backend where the request got
  nowhere, the request again to the instance found, and a wait for a late reply.
\<close>

section \<open>Queries in flight\<close>

definition FINISHED_IDS_KEPT :: nat where
  "FINISHED_IDS_KEPT = 2 ^ 17"

definition into_result :: "outcome \<Rightarrow> incoming error + incoming" where
  "into_result outcome = (case outcome of
     Replied reply \<Rightarrow> Inr reply
   | OutTimedOut \<Rightarrow> Inl OperationTimedOut
   | OutFailed \<Rightarrow> Inl OperationFailed
   | OutNotConnected \<Rightarrow> Inl NotConnected
   | OutShutDown \<Rightarrow> Inl NotConnected)"

definition addressed :: "in_flight \<Rightarrow> bool" where
  "addressed q \<longleftrightarrow> or_zero (m_to (iq_prototype q)) \<noteq> 0"

definition query_pinned :: "core \<Rightarrow> in_flight \<Rightarrow> bool" where
  "query_pinned s q \<longleftrightarrow> (case iq_lane q of None \<Rightarrow> False | Some l \<Rightarrow> lane_pinned s l)"

abbreviation query_of :: "core \<Rightarrow> query_id \<Rightarrow> in_flight option" where
  "query_of s k \<equiv> map_of (q_in_flight (queries s)) k"

definition put_query :: "query_id \<Rightarrow> in_flight \<Rightarrow> core \<Rightarrow> core" where
  "put_query k q s = s\<lparr>queries := (queries s)\<lparr>q_in_flight := bt_insert k q (q_in_flight (queries s))\<rparr>\<rparr>"

text \<open>\<open>get_mut(&query).expect("in flight")\<close>, changed.\<close>

definition change_query :: "query_id \<Rightarrow> (in_flight \<Rightarrow> in_flight) \<Rightarrow> core \<Rightarrow> core" where
  "change_query k f s = (case query_of s k of None \<Rightarrow> panic s | Some q \<Rightarrow> put_query k (f q) s)"

definition watch_id :: "u64 \<Rightarrow> query_id \<Rightarrow> core \<Rightarrow> core" where
  "watch_id mid k s = s\<lparr>queries := (queries s)\<lparr>q_by_id := AList.update mid k (q_by_id (queries s))\<rparr>\<rparr>"

definition waiting_for_connection :: "core \<Rightarrow> query_id \<Rightarrow> bool" where
  "waiting_for_connection s k \<longleftrightarrow> (case query_of s k of None \<Rightarrow> False | Some q \<Rightarrow> iq_stage q = Waiting)"

definition attempt_ids :: "core \<Rightarrow> query_id \<Rightarrow> u64 list" where
  "attempt_ids s k = (case query_of s k of
     None \<Rightarrow> []
   | Some q \<Rightarrow> filter (\<lambda>mid. mid \<noteq> 0) [iq_request_id q, iq_direct_id q])"

definition forget_finished_ids :: "core \<Rightarrow> core" where
  "forget_finished_ids s = s\<lparr>queries := (queries s)\<lparr>q_finished_ids := {}, q_finished_order := []\<rparr>\<rparr>"

definition check_size_sent_again :: "core \<Rightarrow> message \<Rightarrow> u64 \<Rightarrow> (unit error + unit) \<times> message" where
  "check_size_sent_again s request sender =
    (let request = (if or_zero (m_sender request) = 0 then request\<lparr>m_sender := Some sender\<rparr> else request);
         largest = request\<lparr>m_id := Some (- 1),
           m_to := (if or_zero (m_to request) = 0 then Some (- 1) else m_to request),
           m_report_delivery_error := Some True\<rparr>
     in (and_then (check_key_size (m_key request)) (\<lambda>_. check_message_size (message_len (env s) largest)), request))"

section \<open>The end of a query\<close>

fun forget_old :: "instant \<Rightarrow> (u64 \<times> instant) list \<Rightarrow> u64 set \<Rightarrow> (u64 \<times> instant) list \<times> u64 set" where
  "forget_old at [] finished = ([], finished)"
| "forget_old at ((oldest, until) # rest) finished =
    (if until > at \<and> Suc (length rest) < FINISHED_IDS_KEPT then ((oldest, until) # rest, finished)
     else forget_old at rest (finished - {oldest}))"

definition remember_finished :: "u64 \<Rightarrow> instant \<Rightarrow> core \<Rightarrow> core" where
  "remember_finished mid until s =
    (let (order, finished) = forget_old (now s) (q_finished_order (queries s)) (q_finished_ids (queries s))
     in if mid = 0 \<or> mid \<in> finished
        then s\<lparr>queries := (queries s)\<lparr>q_finished_order := order, q_finished_ids := finished\<rparr>\<rparr>
        else s\<lparr>queries := (queries s)\<lparr>q_finished_order := order @ [(mid, until)],
               q_finished_ids := insert mid finished\<rparr>\<rparr>)"

text \<open>The code subtracts two \<open>usize\<close>.\<close>

definition clear_out_waiting :: "core \<Rightarrow> core" where
  "clear_out_waiting s =
    (let left = int (length (q_waiting (queries s))) - q_waiting_ended (queries s)
     in if left < 0 then panic s
        else if left \<noteq> 0 \<and> q_waiting_ended (queries s) < left + 64 then s
        else s\<lparr>queries := (queries s)\<lparr>
               q_waiting := filter (hm_contains (q_in_flight (queries s))) (q_waiting (queries s)),
               q_waiting_ended := 0\<rparr>\<rparr>)"

definition finish :: "query_id \<Rightarrow> outcome \<Rightarrow> core \<Rightarrow> core" where
  "finish k outcome s =
    (case query_of s k of
       None \<Rightarrow> s
     | Some q \<Rightarrow>
       let s = s\<lparr>queries := (queries s)\<lparr>q_in_flight := AList.delete k (q_in_flight (queries s))\<rparr>\<rparr>;
           s = cancel_timer (iq_timer q) s;
           keeping = (case iq_timeout q of
               Some timeout \<Rightarrow> if DEFAULT_TIMEOUT < timeout \<and> timeout \<le> MAX_TIMEOUT then 2 * timeout else 2 * DEFAULT_TIMEOUT
             | None \<Rightarrow> 2 * DEFAULT_TIMEOUT);
           until = now s + keeping;
           mids = iq_request_id q # (if iq_direct_id q \<noteq> 0 then [iq_direct_id q] else []) @ iq_search_ids q;
           s = fold (\<lambda>mid s.
               let s = s\<lparr>queries := (queries s)\<lparr>q_by_id := AList.delete mid (q_by_id (queries s))\<rparr>\<rparr>
               in if cl_mode (client s) = DispatchMode then remember_finished mid until s else s) mids s;
           s = (case outcome of
                 Replied reply \<Rightarrow> (case iq_lane q of None \<Rightarrow> s | Some l \<Rightarrow> adopt l (in_connection reply) s)
               | _ \<Rightarrow> s);
           s = (case iq_callback q of None \<Rightarrow> s | Some cb \<Rightarrow> note_call (CallQueryEnd cb outcome) s)
       in if iq_listed q
          then clear_out_waiting (s\<lparr>queries := (queries s)\<lparr>q_waiting_ended := q_waiting_ended (queries s) + 1\<rparr>\<rparr>)
          else s)"

definition finish_every_query :: "core \<Rightarrow> core" where
  "finish_every_query s =
    (let s = fold (\<lambda>k. finish k OutShutDown) (map fst (q_in_flight (queries s))) s
     in s\<lparr>queries := (queries s)\<lparr>q_waiting := [], q_waiting_ended := 0\<rparr>\<rparr>)"

section \<open>Stages\<close>

definition arm_query :: "query_id \<Rightarrow> duration option \<Rightarrow> core \<Rightarrow> core" where
  "arm_query k timeout s =
    (case query_of s k of
       None \<Rightarrow> s
     | Some q \<Rightarrow>
       let generation = iq_generation q + 1;
           (timer, s) = (case deadline_after (now s) timeout of
               Some deadline \<Rightarrow> rearm_timer (iq_timer q) deadline (Query k generation) s
             | None \<Rightarrow> (None, cancel_timer (iq_timer q) s))
       in put_query k (q\<lparr>iq_generation := generation, iq_timer := timer\<rparr>) s)"

definition wait_for_connection :: "query_id \<Rightarrow> stage \<Rightarrow> core \<Rightarrow> core" where
  "wait_for_connection k resume s =
    (case query_of s k of
       None \<Rightarrow> panic s
     | Some q \<Rightarrow>
       let s = put_query k (q\<lparr>iq_stage := Waiting, iq_resume := resume, iq_listed := True\<rparr>) s
       in if iq_listed q then s
          else s\<lparr>queries := (queries s)\<lparr>q_waiting := q_waiting (queries s) @ [k]\<rparr>\<rparr>)"

definition stage_timeout :: "core \<Rightarrow> in_flight \<Rightarrow> duration option" where
  "stage_timeout s q = (if \<not> addressed q then iq_timeout q else map_option (\<lambda>at. at - now s) (iq_deadline q))"

definition query_frame :: "core \<Rightarrow> message \<Rightarrow> u64 \<Rightarrow> frame option" where
  "query_frame s m mid = (case encode_message s m of
     Inl _ \<Rightarrow> None
   | Inr bs \<Rightarrow> Some \<lparr>f_bytes = bs, f_head = None, f_id = mid, f_type = m_type m, f_batch = MarkNone\<rparr>)"

definition attempt_frame :: "core \<Rightarrow> message \<Rightarrow> u64 \<Rightarrow> frame option" where
  "attempt_frame s prototype mid = query_frame s (prototype\<lparr>m_id := Some mid\<rparr>) mid"

text \<open>The tracker, the connection used and whether a pinned lane's connection is gone.\<close>

definition schedule_through ::
  "frame \<Rightarrow> lane_id option \<Rightarrow> duration option \<Rightarrow> core \<Rightarrow> tracker option \<times> wrapper option \<times> bool \<times> core" where
  "schedule_through f lane timeout s =
    (let pinned = (case lane of None \<Rightarrow> False | Some l \<Rightarrow> lane_pinned s l);
         holding = (case lane of None \<Rightarrow> False | Some l \<Rightarrow> holds_connection s l);
         held = (case lane of None \<Rightarrow> None | Some l \<Rightarrow> if holding then lane_connection s l else None);
         (placed, s) = (case held of None \<Rightarrow> (None, s) | Some w \<Rightarrow> schedule_on f pinned w timeout 0 lane s)
     in if placed \<noteq> None then (placed, held, False, s)
        else if holding \<and> pinned then (None, None, True, s)
        else
          let (placed, used, s) = schedule_one f pinned True timeout 0 lane s
          in case placed of
               None \<Rightarrow> (None, used, False, s)
             | Some t \<Rightarrow>
               (Some t, used, False, case (lane, used) of (Some l, Some w) \<Rightarrow> adopt l w s | _ \<Rightarrow> s))"

definition start_request :: "query_id \<Rightarrow> bool \<Rightarrow> core \<Rightarrow> core" where
  "start_request k keep_deadline s =
    (if cl_shuts_down (client s) \<or> th_shut_down (threaded s) then finish k OutShutDown s
     else case query_of s k of
       None \<Rightarrow> panic s
     | Some q \<Rightarrow>
       let (rid, s) = (if iq_request_id q = 0 then random64 s else (iq_request_id q, s));
           timeout = stage_timeout s q;
           s = put_query k (q\<lparr>iq_request_id := rid\<rparr>) s
       in case attempt_frame s (iq_prototype q) rid of
            None \<Rightarrow> finish k OutFailed s
          | Some f \<Rightarrow>
            let (placed, used, gone, s) = schedule_through f (iq_lane q) timeout s
            in case placed of
                 None \<Rightarrow>
                   if gone then finish k OutNotConnected s
                   else
                     let s = wait_for_connection k Request s
                     in if keep_deadline then s else arm_query k (iq_timeout q) s
               | Some t \<Rightarrow>
                   let s = change_query k (\<lambda>q. q\<lparr>iq_sent_via := used, iq_sent_state := Some t,
                             iq_request_state := Some t, iq_stage := Request\<rparr>) s;
                       s = watch_id rid k s
                   in if keep_deadline then s else arm_query k (iq_timeout q) s)"

definition start_query ::
  "message \<Rightarrow> duration option \<Rightarrow> lane_id option \<Rightarrow> callback \<Rightarrow> callback option \<Rightarrow> core \<Rightarrow> query_id \<times> core" where
  "start_query prototype timeout lane done received s =
    (let prototype = (if or_zero (m_sender prototype) = 0 then prototype\<lparr>m_sender := Some (instance_id s)\<rparr> else prototype);
         prototype = (if or_zero (m_to prototype) \<noteq> 0 then prototype\<lparr>m_report_delivery_error := Some True\<rparr> else prototype);
         k = q_next_query (queries s) + 1;
         s = s\<lparr>queries := (queries s)\<lparr>q_next_query := k\<rparr>\<rparr>;
         s = put_query k \<lparr>iq_stage = Request, iq_resume = Request, iq_direct_to = 0, iq_sent_via = None,
               iq_sent_state = None, iq_request_state = None, iq_direct_state = None, iq_prototype = prototype,
               iq_timeout = timeout, iq_deadline = deadline_after (now s) timeout, iq_lane = lane,
               iq_request_id = 0, iq_search_id = 0, iq_direct_id = 0, iq_taken = False, iq_pending = [],
               iq_searched = [], iq_search_ids = [], iq_generation = 0, iq_listed = False,
               iq_callback = Some done, iq_received = received, iq_timer = None\<rparr> s
     in (k, start_request k False s))"

text \<open>The search's message is out on the connections \<open>sent\<close>, or waits for one.\<close>

definition searched_on :: "query_id \<Rightarrow> u64 \<Rightarrow> wrapper list \<Rightarrow> core \<Rightarrow> core" where
  "searched_on k mid sent s =
    (if sent = [] then wait_for_connection k Search s
     else watch_id mid k (change_query k (\<lambda>q. q\<lparr>iq_search_id := mid, iq_search_ids := iq_search_ids q @ [mid],
            iq_searched := sent, iq_stage := Search\<rparr>) s))"

definition search :: "query_id \<Rightarrow> bool \<Rightarrow> core \<Rightarrow> core" where
  "search k keep_deadline s =
    (case query_of s k of
       None \<Rightarrow> panic s
     | Some q \<Rightarrow>
       let left = stage_timeout s q
       in if addressed q \<and> left = Some 0 then finish k OutTimedOut s
          else
            let s = (if keep_deadline then s else arm_query k left s);
                (mid, s) = random64 s;
                message = default_message\<lparr>m_id := Some mid, m_sender := Some (instance_id s), m_message := Some []\<rparr>;
                message = (if addressed q
                  then message\<lparr>m_type := PING, m_to := m_to (iq_prototype q), m_report_delivery_error := Some True\<rparr>
                  else message\<lparr>m_type := BACKEND_FOR_PACKET_SEARCH,
                    m_message := Some (search_encode (env s) (m_type (iq_prototype q))), m_key := m_key (iq_prototype q)\<rparr>)
            in case query_frame s message mid of
                 None \<Rightarrow> finish k OutFailed s
               | Some f \<Rightarrow>
                 let wait = (case left of Some l \<Rightarrow> if l \<noteq> 0 then left else iq_timeout q | None \<Rightarrow> iq_timeout q)
                 in if query_pinned s q then
                      let (placed, used, gone, s) = schedule_through f (iq_lane q) wait s
                      in if placed \<noteq> None then searched_on k mid (case used of None \<Rightarrow> [] | Some w \<Rightarrow> [w]) s
                         else if gone then finish k OutNotConnected s
                         else searched_on k mid [] s
                    else
                      let (_, sent, s) = schedule_all f True wait 0 s in searched_on k mid sent s)"

definition wait_late :: "query_id \<Rightarrow> bool \<Rightarrow> core \<Rightarrow> core" where
  "wait_late k direct s =
    (case query_of s k of
       None \<Rightarrow> s
     | Some q \<Rightarrow>
       let given_up = (\<lambda>t. case t of None \<Rightarrow> False | Some t \<Rightarrow> tracker_get s t = Lost);
           pending = (if iq_taken q \<and> \<not> given_up (iq_request_state q) then [iq_request_id q] else [])
             @ (if direct \<and> \<not> given_up (iq_direct_state q) then [iq_direct_id q] else [])
       in if pending = [] then finish k OutFailed (put_query k (q\<lparr>iq_pending := []\<rparr>) s)
          else put_query k (q\<lparr>iq_pending := pending, iq_stage := Late\<rparr>) s)"

definition send_direct :: "query_id \<Rightarrow> wrapper option \<Rightarrow> bool \<Rightarrow> core \<Rightarrow> core" where
  "send_direct k preferred keep_deadline s =
    (case query_of s k of
       None \<Rightarrow> panic s
     | Some q \<Rightarrow>
       let left = stage_timeout s q;
           request = (iq_prototype q)\<lparr>m_id := Some (iq_direct_id q), m_to := Some (iq_direct_to q),
             m_report_delivery_error := Some True\<rparr>
       in case query_frame s request (iq_direct_id q) of
            None \<Rightarrow> finish k OutFailed s
          | Some f \<Rightarrow>
            let pinned = query_pinned s q;
                s = (if keep_deadline then s else arm_query k left s);
                (placed, s) = (case preferred of
                    None \<Rightarrow> (None, s)
                  | Some w \<Rightarrow> schedule_on f pinned w left 0 None s);
                s = (case (placed, iq_lane q, preferred) of
                    (Some _, Some l, Some w) \<Rightarrow> adopt l w s
                  | _ \<Rightarrow> s);
                (placed, used, gone, s) = (if placed \<noteq> None then (placed, preferred, False, s)
                  else schedule_through f (iq_lane q) left s)
            in if gone then finish k OutNotConnected s
               else case placed of
                 None \<Rightarrow> wait_for_connection k Direct s
               | Some t \<Rightarrow>
                 watch_id (iq_direct_id q) k (change_query k (\<lambda>q. q\<lparr>iq_sent_via := used, iq_sent_state := Some t,
                   iq_direct_state := Some t, iq_stage := Direct\<rparr>) s))"

definition direct :: "query_id \<Rightarrow> incoming \<Rightarrow> core \<Rightarrow> core" where
  "direct k ping s =
    (let (mid, s) = random64 s
     in case query_of s k of
          None \<Rightarrow> s
        | Some q \<Rightarrow>
          send_direct k (Some (in_connection ping)) False
            (put_query k (q\<lparr>iq_direct_to := or_zero (m_sender (in_message ping)), iq_direct_id := mid\<rparr>) s))"

section \<open>What a query hears\<close>

definition query_deadline :: "query_id \<Rightarrow> nat \<Rightarrow> core \<Rightarrow> core" where
  "query_deadline k generation s =
    (case query_of s k of
       None \<Rightarrow> s
     | Some q \<Rightarrow>
       if iq_generation q \<noteq> generation then s
       else case iq_stage q of
         Request \<Rightarrow> search k False (put_query k (q\<lparr>iq_timer := None, iq_taken := True\<rparr>) s)
       | Waiting \<Rightarrow> finish k OutNotConnected (put_query k (q\<lparr>iq_timer := None\<rparr>) s)
       | _ \<Rightarrow> finish k OutTimedOut (put_query k (q\<lparr>iq_timer := None\<rparr>) s))"

text \<open>\<open>answered\<close>: whether the search went through the connection, which counts no more.\<close>

definition answered :: "query_id \<Rightarrow> wrapper \<Rightarrow> core \<Rightarrow> bool \<times> core" where
  "answered k w s =
    (case query_of s k of
       None \<Rightarrow> (False, s)
     | Some q \<Rightarrow>
       if list_ex (\<lambda>each. is_same_connection each w) (iq_searched q)
       then (True, put_query k (q\<lparr>iq_searched := remove_first (\<lambda>each. is_same_connection each w) (iq_searched q)\<rparr>) s)
       else (False, s))"

definition refused :: "query_id \<Rightarrow> u64 \<Rightarrow> core \<Rightarrow> core" where
  "refused k mid s =
    (case query_of s k of
       None \<Rightarrow> s
     | Some q \<Rightarrow>
       let q = (if mid = iq_request_id q then q\<lparr>iq_taken := False\<rparr> else q);
           s = put_query k q s
       in if iq_stage q = Request \<and> mid = iq_request_id q then search k False s
          else if iq_stage q = Direct \<and> mid = iq_direct_id q then wait_late k False s
          else if iq_stage q = Late then
            let pending = filter (\<lambda>each. each \<noteq> mid) (iq_pending q);
                s = put_query k (q\<lparr>iq_pending := pending\<rparr>) s
            in if pending = [] then finish k OutFailed s else s
          else s)"

definition advance :: "query_id \<Rightarrow> incoming \<Rightarrow> core \<Rightarrow> core" where
  "advance k incoming s =
    (case query_of s k of
       None \<Rightarrow> s
     | Some q \<Rightarrow>
       let references = or_zero (m_references (in_message incoming));
           error = (m_type (in_message incoming) = DELIVERY_ERROR)
       in if references \<notin> set (iq_search_ids q) then
            if error then refused k references s else finish k (Replied incoming) s
          else if iq_stage q \<noteq> Search \<or> references \<noteq> iq_search_id q then s
          else if error then
            let s = snd (answered k (in_connection incoming) s)
            in case query_of s k of
                 None \<Rightarrow> panic s
               | Some q \<Rightarrow> if iq_searched q = [] then wait_late k False s else s
          else if m_type (in_message incoming) = PING then direct k incoming s
          else s)"

definition acknowledged :: "query_id \<Rightarrow> message \<Rightarrow> core \<Rightarrow> core" where
  "acknowledged k m s =
    (case query_of s k of
       None \<Rightarrow> s
     | Some q \<Rightarrow>
       if or_zero (m_references m) \<in> set (iq_search_ids q) then s
       else case iq_received q of
         None \<Rightarrow> s
       | Some cb \<Rightarrow> note_call (CallReceived cb (or_zero (m_sender m))) s)"

definition query_takes :: "incoming \<Rightarrow> core \<Rightarrow> incoming option \<times> core" where
  "query_takes incoming s =
    (let references = or_zero (m_references (in_message incoming))
     in if references = 0 then (Some incoming, s)
        else case map_of (q_by_id (queries s)) references of
          Some k \<Rightarrow>
            (None, if m_type (in_message incoming) = REQUEST_RECEIVED then acknowledged k (in_message incoming) s
                   else advance k incoming s)
        | None \<Rightarrow>
            if cl_mode (client s) = DispatchMode \<and> references \<in> q_finished_ids (queries s) then (None, s)
            else (Some incoming, s))"

section \<open>Connections up and down\<close>

text \<open>A log line of \<open>lost\<close>, at the level of a warning, is left out.\<close>

definition lost :: "query_id \<Rightarrow> core \<Rightarrow> core" where
  "lost k s =
    (case query_of s k of
       None \<Rightarrow> s
     | Some q \<Rightarrow>
       if query_pinned s q then finish k OutNotConnected s
       else if iq_stage q = Request then search k False (put_query k (q\<lparr>iq_taken := True\<rparr>) s)
       else wait_late k True s)"

definition follow_handover :: "query_id \<Rightarrow> core \<Rightarrow> core" where
  "follow_handover k s =
    (case query_of s k of
       None \<Rightarrow> s
     | Some q \<Rightarrow> post (FollowHandover k (iq_generation q) (iq_stage q = Request)) s)"

definition followed_handover :: "query_id \<Rightarrow> nat \<Rightarrow> bool \<Rightarrow> core \<Rightarrow> core" where
  "followed_handover k generation request s =
    (case query_of s k of
       None \<Rightarrow> s
     | Some q \<Rightarrow>
       if iq_generation q \<noteq> generation \<or> iq_stage q \<noteq> (if request then Request else Direct) then s
       else case iq_sent_state q of
         None \<Rightarrow> s
       | Some t \<Rightarrow>
         if tracker_get s t = Lost then (if request then search k False s else wait_late k False s)
         else
           let (where_to, s) = followed_connection t (iq_sent_via q) s
           in if \<not> (case where_to of None \<Rightarrow> False | Some w \<Rightarrow> live s w) then lost k s
              else put_query k (q\<lparr>iq_sent_via := where_to\<rparr>) s)"

definition post_fill :: "core \<Rightarrow> core" where
  "post_fill s = (if queries_fill_posted s then s else post Fill (s\<lparr>queries_fill_posted := True\<rparr>))"

definition query_on_down :: "wrapper \<Rightarrow> query_id \<Rightarrow> core \<Rightarrow> core" where
  "query_on_down w k s =
    (case query_of s k of
       None \<Rightarrow> s
     | Some q \<Rightarrow>
       if iq_stage q = Request \<or> iq_stage q = Direct then
         if (case iq_sent_via q of None \<Rightarrow> False | Some via \<Rightarrow> is_same_connection via w) then
           if \<not> query_pinned s q \<and> (case iq_sent_state q of None \<Rightarrow> False | Some t \<Rightarrow> tracker_get s t = Queued)
           then follow_handover k s else lost k s
         else s
       else if iq_stage q = Search then
         if query_pinned s q then
           let (went, s) = answered k w s in if went then finish k OutNotConnected s else s
         else s
       else if iq_stage q = Late then
         if query_pinned s q \<and> (case iq_lane q of None \<Rightarrow> False | Some l \<Rightarrow>
              (case lane_connection s l of None \<Rightarrow> False | Some held \<Rightarrow> is_same_connection held w))
         then finish k OutNotConnected s else s
       else s)"

definition queries_on_connection :: "wrapper \<Rightarrow> bool \<Rightarrow> core \<Rightarrow> core" where
  "queries_on_connection w up s =
    (if up then post_fill s else fold (query_on_down w) (map fst (q_in_flight (queries s))) s)"

text \<open>One query of the pass over those that waited.\<close>

definition restart_query :: "query_id \<Rightarrow> core \<Rightarrow> core" where
  "restart_query k s =
    (case query_of s k of
       None \<Rightarrow> s
     | Some q \<Rightarrow>
       let s = put_query k (q\<lparr>iq_listed := False\<rparr>) s
       in if iq_stage q \<noteq> Waiting then s
          else
            let s = s\<lparr>queries := (queries s)\<lparr>q_retries := q_retries (queries s) + 1\<rparr>\<rparr>
            in case iq_resume q of
                 Search \<Rightarrow> search k True s
               | Direct \<Rightarrow> send_direct k None True s
               | _ \<Rightarrow> start_request k True s)"

definition restart_waiting_queries :: "core \<Rightarrow> core" where
  "restart_waiting_queries s =
    fold restart_query (q_waiting (queries s))
      (s\<lparr>queries := (queries s)\<lparr>q_waiting := [], q_waiting_ended := 0\<rparr>\<rparr>)"

definition fill :: "core \<Rightarrow> core" where
  "fill s =
    (let s = s\<lparr>queries_fill_posted := False\<rparr>
     in if \<not> cl_shuts_down (client s) \<and> \<not> th_shut_down (threaded s) \<and> q_waiting (queries s) \<noteq> []
        then restart_waiting_queries s else s)"

end
