(* ===== verification/Routing.thy ===== *)
theory Routing
  imports Query Endpoint
begin

text \<open>
  A client's routing and key filters (\<open>core/client/routing.rs\<close>): told to every connection and carried in
  every welcome, and acknowledged once every connection confirmed them and what was read before is handed
  out.  The texts of its log lines are left out.
\<close>

definition same_routing :: "routing \<Rightarrow> routing \<Rightarrow> bool" where
  "same_routing a b \<longleftrightarrow> public_of_routing a = public_of_routing b"

fun check_key_filters :: "(u32, string list) btree_map \<Rightarrow> unit error + unit" where
  "check_key_filters [] = Inr ()"
| "check_key_filters ((ty, patterns) # rest) =
    (if ty \<le> MAX_MULTIPLEXER_META_PACKET
     then Inl (InvalidArgument (''a key filter for message type '' @ decimal (unat ty) @ '', a protocol type''))
     else case find (\<lambda>p. length p > MAX_KEY_PATTERN_SIZE) patterns of
       Some p \<Rightarrow> Inl (InvalidArgument (''a key pattern of '' @ decimal (length p) @ '' bytes, over the limit of ''
         @ decimal MAX_KEY_PATTERN_SIZE @ '' (MAX_KEY_PATTERN_SIZE)''))
     | None \<Rightarrow> check_key_filters rest)"

section \<open>Acknowledgement\<close>

definition all_confirmed :: "core \<Rightarrow> bool" where
  "all_confirmed s = list_all (\<lambda>(_, c). case conn_of s c of
     Some st \<Rightarrow> c_living st \<longrightarrow> c_registered st \<and> c_routing_acknowledged st = cl_routing_version (client s)
   | None \<Rightarrow> True) (cl_by_target (client s))"

definition routing_acknowledged :: "core \<Rightarrow> bool" where
  "routing_acknowledged s \<longleftrightarrow> cl_confirmed (client s)
     \<and> cl_dequeued (client s) \<ge> cl_confirmed_enqueued (client s) \<and> all_confirmed s"

definition run_acknowledged_callbacks :: "core \<Rightarrow> core" where
  "run_acknowledged_callbacks s =
    (if cl_acknowledged_callbacks (client s) = [] \<or> cl_shuts_down (client s) \<or> \<not> routing_acknowledged s then s
     else fold (\<lambda>cb. note_call (CallAcknowledged cb)) (cl_acknowledged_callbacks (client s))
            (s\<lparr>client := (client s)\<lparr>cl_acknowledged_callbacks := []\<rparr>\<rparr>))"

definition change_acknowledged :: "core \<Rightarrow> core" where
  "change_acknowledged s =
    (let s = s\<lparr>client := (client s)\<lparr>cl_acknowledged_wake := True\<rparr>\<rparr>
     in if cl_mode (client s) = DispatchMode then run_acknowledged_callbacks s else s)"

definition acknowledged_by_receive :: "core \<Rightarrow> core" where
  "acknowledged_by_receive s =
    (if cl_acknowledged_version (client s) \<noteq> cl_routing_version (client s) \<and> routing_acknowledged s
     then change_acknowledged (s\<lparr>client := (client s)\<lparr>cl_acknowledged_version := cl_routing_version (client s)\<rparr>\<rparr>)
     else s)"

definition update_confirmation :: "core \<Rightarrow> core" where
  "update_confirmation s =
    (if \<not> all_confirmed s then s\<lparr>client := (client s)\<lparr>cl_confirmed := False\<rparr>\<rparr>
     else
       let s = (if cl_confirmed (client s) then s
                else s\<lparr>client := (client s)\<lparr>cl_confirmed := True, cl_confirmed_enqueued := cl_enqueued (client s)\<rparr>\<rparr>)
       in if routing_acknowledged s
            \<and> (cl_acknowledged_version (client s) \<noteq> cl_routing_version (client s)
               \<or> cl_acknowledged_callbacks (client s) \<noteq> [])
          then change_acknowledged
                 (s\<lparr>client := (client s)\<lparr>cl_acknowledged_version := cl_routing_version (client s)\<rparr>\<rparr>)
          else s)"

definition take_acknowledged_wake :: "core \<Rightarrow> bool \<times> core" where
  "take_acknowledged_wake s =
    (cl_acknowledged_wake (client s), s\<lparr>client := (client s)\<lparr>cl_acknowledged_wake := False\<rparr>\<rparr>)"

section \<open>Changes\<close>

definition own_frame :: "bytes \<Rightarrow> u64 \<Rightarrow> u32 \<Rightarrow> bool \<Rightarrow> out_frame" where
  "own_frame bs mid ty pinned = \<lparr>o_alloc = 0, o_bytes = bs, o_head = None, o_id = mid, o_type = ty,
     o_pinned = pinned, o_for_all = False, o_own = True, o_number = 0, o_deadline = None, o_batch = None,
     o_confirmed = False\<rparr>"

definition send_routing :: "conn_id \<Rightarrow> core \<Rightarrow> core" where
  "send_routing c s =
    (let control = \<lparr>pc_routing = cl_routing (client s), pc_key_filter = cl_key_filters_message (client s)\<rparr>;
         (mid, s) = random64 s;
         message = default_message\<lparr>m_id := Some mid, m_sender := Some (instance_id s), m_type := PEER_CONTROL,
           m_message := Some (peer_control_encode (env s) control)\<rparr>
     in case encode_message s message of
          Inl _ \<Rightarrow> s
        | Inr bs \<Rightarrow>
          let (f, s) = new_frame (own_frame bs mid PEER_CONTROL True) s
          in case conn_of s c of
               None \<Rightarrow> s
             | Some st \<Rightarrow> snd (schedule c f True False (put_conn c (st\<lparr>c_routing_request_id := mid\<rparr>) s)))"

definition routing_changed :: "core \<Rightarrow> core" where
  "routing_changed s =
    (let s = s\<lparr>client := (client s)\<lparr>cl_routing_version := cl_routing_version (client s) + 1,
               cl_confirmed := False, cl_welcome := None\<rparr>\<rparr>;
         s = fold (\<lambda>c s. if conn_living s c then send_routing c s else s) (map snd (by_peer_id s)) s
     in update_confirmation s)"

definition set_routing :: "routing \<Rightarrow> callback option \<Rightarrow> core \<Rightarrow> core" where
  "set_routing routing cb s =
    (let s = s\<lparr>client := (client s)\<lparr>cl_routing := routing\<rparr>\<rparr>;
         s = (case cb of None \<Rightarrow> s | Some cb \<Rightarrow> s\<lparr>client := (client s)\<lparr>
               cl_acknowledged_callbacks := cl_acknowledged_callbacks (client s) @ [cb]\<rparr>\<rparr>)
     in routing_changed s)"

definition set_key_filters :: "(u32, string list) btree_map \<Rightarrow> callback option \<Rightarrow> core \<Rightarrow> (unit error + unit) \<times> core" where
  "set_key_filters filters cb s =
    (case check_key_filters filters of
       Inl e \<Rightarrow> (Inl e, s)
     | Inr _ \<Rightarrow>
       let s = (case cb of None \<Rightarrow> s | Some cb \<Rightarrow> s\<lparr>client := (client s)\<lparr>
                 cl_acknowledged_callbacks := cl_acknowledged_callbacks (client s) @ [cb]\<rparr>\<rparr>);
           s = s\<lparr>client := (client s)\<lparr>
                 cl_key_filters_message := map (\<lambda>(ty, patterns). \<lparr>kf_type = ty, kf_pattern = patterns\<rparr>) filters,
                 cl_key_filters := filters\<rparr>\<rparr>
       in (Inr (), routing_changed s))"

definition on_peer_status :: "conn_id \<Rightarrow> message \<Rightarrow> core \<Rightarrow> core" where
  "on_peer_status c m s =
    (case Option.bind (m_message m) (peer_status_decode (env s)) of
       None \<Rightarrow> s
     | Some status \<Rightarrow>
       if pt_error status \<noteq> None then s
       else case conn_of s c of
         None \<Rightarrow> s
       | Some st \<Rightarrow>
         if or_zero (m_references m) = c_routing_request_id st
           \<and> same_routing (case pt_routing status of None \<Rightarrow> default_routing | Some r \<Rightarrow> r) (cl_routing (client s))
           \<and> pt_key_filter status = cl_key_filters_message (client s)
         then update_confirmation (put_conn c (st\<lparr>c_routing_acknowledged := cl_routing_version (client s)\<rparr>) s)
         else s)"

end
