(* ===== verification/Ip_Addr.thy ===== *)
theory Ip_Addr
  imports Endpoint
begin

text \<open>
  An address in text as the standard library reads and writes it (\<open>IpAddr\<close>'s \<open>FromStr\<close> and \<open>Display\<close>): what
  \<open>target_of\<close> and \<open>async_connect\<close> (\<open>core/client/connect.rs\<close>) tell an address from a name by.  An IPv4
  address is its four octets, an IPv6 one its eight groups.
\<close>

datatype ip_addr = V4 "nat list" | V6 "nat list"

section \<open>Reading\<close>

definition to_digit :: "nat \<Rightarrow> char \<Rightarrow> nat option" where
  "to_digit radix ch =
    (let c = of_char ch :: nat;
         v = (if 48 \<le> c \<and> c \<le> 57 then c - 48 else if 97 \<le> c \<and> c \<le> 122 then c - 87
              else if 65 \<le> c \<and> c \<le> 90 then c - 55 else radix)
     in if v < radix then Some v else None)"

fun read_digits :: "nat \<Rightarrow> nat \<Rightarrow> nat \<Rightarrow> string \<Rightarrow> nat \<times> nat \<times> string" where
  "read_digits radix v n [] = (v, n, [])"
| "read_digits radix v n (c # cs) =
    (case to_digit radix c of None \<Rightarrow> (v, n, c # cs) | Some d \<Rightarrow> read_digits radix (v * radix + d) (Suc n) cs)"

text \<open>A number of at most \<open>digits\<close> digits below \<open>bound\<close>; \<open>zeros\<close> says whether it may begin with a zero.\<close>

definition read_number :: "nat \<Rightarrow> nat \<Rightarrow> bool \<Rightarrow> nat \<Rightarrow> string \<Rightarrow> (nat \<times> string) option" where
  "read_number radix digits zeros bound text =
    (let (v, n, rest) = read_digits radix 0 0 text
     in if n = 0 \<or> n > digits \<or> \<not> zeros \<and> n > 1 \<and> take 1 text = ''0'' \<or> v \<ge> bound then None else Some (v, rest))"

definition read_separated :: "char \<Rightarrow> nat \<Rightarrow> (string \<Rightarrow> ('a \<times> string) option) \<Rightarrow> string \<Rightarrow> ('a \<times> string) option" where
  "read_separated sep i inner text =
    (if i = 0 then inner text
     else case text of [] \<Rightarrow> None | c # cs \<Rightarrow> if c = sep then inner cs else None)"

fun read_octets :: "nat \<Rightarrow> nat \<Rightarrow> string \<Rightarrow> (nat list \<times> string) option" where
  "read_octets 0 i text = Some ([], text)"
| "read_octets (Suc n) i text =
    (case read_separated CHR ''.'' i (read_number 10 3 False 256) text of
       None \<Rightarrow> None
     | Some (v, rest) \<Rightarrow> (case read_octets n (Suc i) rest of None \<Rightarrow> None | Some (vs, rest) \<Rightarrow> Some (v # vs, rest)))"

definition read_ipv4 :: "string \<Rightarrow> (nat list \<times> string) option" where
  "read_ipv4 = read_octets 4 0"

text \<open>The groups read, at most \<open>n\<close> of them after \<open>i\<close>, and whether the last two were an IPv4 address.\<close>

fun read_groups :: "nat \<Rightarrow> nat \<Rightarrow> string \<Rightarrow> nat list \<times> bool \<times> string" where
  "read_groups 0 i text = ([], False, text)"
| "read_groups (Suc n) i text =
    (case (if n > 0 then read_separated CHR '':'' i read_ipv4 text else None) of
       Some (v, rest) \<Rightarrow> ([v ! 0 * 256 + v ! 1, v ! 2 * 256 + v ! 3], True, rest)
     | None \<Rightarrow>
       (case read_separated CHR '':'' i (read_number 16 4 True 65536) text of
          None \<Rightarrow> ([], False, text)
        | Some (g, rest) \<Rightarrow> let (gs, v4, rest) = read_groups n (Suc i) rest in (g # gs, v4, rest)))"

definition read_ipv6 :: "string \<Rightarrow> (nat list \<times> string) option" where
  "read_ipv6 text =
    (let (front, v4, rest) = read_groups 8 0 text
     in if length front = 8 then Some (front, rest)
        else if v4 then None
        else case rest of
          a # b # rest \<Rightarrow>
            if a = CHR '':'' \<and> b = CHR '':'' then
              let (back, _, rest) = read_groups (8 - (length front + 1)) 0 rest
              in Some (front @ replicate (8 - length front - length back) 0 @ back, rest)
            else None
        | _ \<Rightarrow> None)"

definition parse_ip :: "string \<Rightarrow> ip_addr option" where
  "parse_ip text =
    (case read_ipv4 text of
       Some (v, rest) \<Rightarrow> if rest = [] then Some (V4 v) else None
     | None \<Rightarrow> (case read_ipv6 text of
         Some (v, rest) \<Rightarrow> if rest = [] then Some (V6 v) else None
       | None \<Rightarrow> None))"

section \<open>Writing\<close>

fun hex :: "nat \<Rightarrow> string" where
  "hex n = (let d = n mod 16; c = char_of (if d < 10 then 48 + d else 87 + d)
            in if n < 16 then [c] else hex (n div 16) @ [c])"

declare hex.simps [simp del]

fun joined :: "string \<Rightarrow> string list \<Rightarrow> string" where
  "joined sep [] = []"
| "joined sep [x] = x"
| "joined sep (x # y # xs) = x @ sep @ joined sep (y # xs)"

text \<open>The longest run of zeros and the run going on, each its start and its length.\<close>

fun zero_run :: "nat \<Rightarrow> nat \<times> nat \<Rightarrow> nat \<times> nat \<Rightarrow> nat list \<Rightarrow> nat \<times> nat" where
  "zero_run i longest current [] = longest"
| "zero_run i longest current (g # gs) =
    (if g = 0 then
       let current = (if snd current = 0 then (i, 1) else (fst current, snd current + 1))
       in zero_run (Suc i) (if snd current > snd longest then current else longest) current gs
     else zero_run (Suc i) longest (0, 0) gs)"

definition ipv4_text :: "nat list \<Rightarrow> string" where
  "ipv4_text v = joined ''.'' (map decimal v)"

definition ip_text :: "ip_addr \<Rightarrow> string" where
  "ip_text a =
    (case a of
       V4 v \<Rightarrow> ipv4_text v
     | V6 v \<Rightarrow>
       if take 6 v = [0, 0, 0, 0, 0, 0xffff]
       then ''::ffff:'' @ ipv4_text [v ! 6 div 256, v ! 6 mod 256, v ! 7 div 256, v ! 7 mod 256]
       else
         let (start, n) = zero_run 0 (0, 0) (0, 0) v
         in if n > 1
            then joined '':'' (map hex (take start v)) @ ''::'' @ joined '':'' (map hex (drop (start + n) v))
            else joined '':'' (map hex v))"

end
