(* ===== verification/Connection.thy ===== *)
theory Connection
  imports Routing Ip_Addr
begin

text \<open>
  The life of a connection (\<open>core/connection.rs\<close>, \<open>core/client/connect.rs\<close>): resolving and connecting, the
  welcome and the registration, the end of a write, the ways a connection ends and what the client hears
  of it, the reconnect, and a client's shutdown (\<open>core/client/mod.rs\<close>).  Only the lines of drops are logged
  here; the other log lines change nothing and are left out.
\<close>

section \<open>The connect calls that wait\<close>

definition end_connect :: "nat \<Rightarrow> bool \<Rightarrow> core \<Rightarrow> core" where
  "end_connect n up s =
    (case find (\<lambda>cw. cw_id cw = n) (th_connects (threaded s)) of
       None \<Rightarrow> s
     | Some cw \<Rightarrow>
       let s = s\<lparr>threaded := (threaded s)\<lparr>th_connects := remove_first (\<lambda>cw. cw_id cw = n) (th_connects (threaded s))\<rparr>\<rparr>;
           s = cancel_timer (cw_timer cw) s
       in case cw_done cw of None \<Rightarrow> s | Some cb \<Rightarrow> note_call (CallConnectEnd cb up) s)"

definition connect_wait_expired :: "nat \<Rightarrow> core \<Rightarrow> core" where
  "connect_wait_expired n s =
    end_connect n False (s\<lparr>threaded := (threaded s)\<lparr>th_connects :=
      update_first (\<lambda>cw. cw_id cw = n) (\<lambda>cw. cw\<lparr>cw_timer := None\<rparr>) (th_connects (threaded s))\<rparr>\<rparr>)"

definition on_connection :: "wrapper \<Rightarrow> bool \<Rightarrow> core \<Rightarrow> core" where
  "on_connection w up s =
    (let ended = map cw_id (filter (\<lambda>cw. is_same_connection (cw_connection cw) w) (th_connects (threaded s)))
     in queries_on_connection w up (fold (\<lambda>n. end_connect n up) ended s))"

section \<open>The end of a connection\<close>

definition finished :: "conn \<Rightarrow> bool" where
  "finished st \<longleftrightarrow> c_shuts_down st \<and> \<not> c_write_in_flight st"

definition forget_if_finished :: "conn_id \<Rightarrow> core \<Rightarrow> core" where
  "forget_if_finished c s =
    (case conn_of s c of
       None \<Rightarrow> s
     | Some st \<Rightarrow> if finished st then s\<lparr>conns := AList.delete c (conns s)\<rparr> else s)"

definition unregister_connection :: "conn_id \<Rightarrow> core \<Rightarrow> core" where
  "unregister_connection c s =
    (case conn_of s c of
       None \<Rightarrow> s
     | Some st \<Rightarrow>
       if map_of (by_peer_id s) (c_peer_id st) \<noteq> Some c then s
       else s\<lparr>by_peer_id := AList.delete (c_peer_id st) (by_peer_id s),
              round_robin := filter (\<lambda>each. each \<noteq> c) (round_robin s)\<rparr>)"

definition connection_destroyed :: "conn_id \<Rightarrow> core \<Rightarrow> core" where
  "connection_destroyed c s =
    (case conn_of s c of
       None \<Rightarrow> s
     | Some st \<Rightarrow>
       let s = (if c_shuts_down st then s
                else s\<lparr>client := (client s)\<lparr>cl_closing := cl_closing (client s) @ [c]\<rparr>\<rparr>);
           target = c_target st;
           s = displace c s;
           wanted = (map_of (cl_by_target (client s)) target = Some c);
           s = (if wanted then s\<lparr>client := (client s)\<lparr>cl_by_target := AList.delete target (cl_by_target (client s)),
                  cl_first_connection_over := bts_insert target (cl_first_connection_over (client s))\<rparr>\<rparr> else s);
           s = (if \<not> cl_shuts_down (client s) \<and> wanted then
                  let n = cl_next_reconnect (client s) + 1;
                      (key, s) = arm_timer (now s + AUTO_RECONNECT_TIME) (Reconnect n) s
                  in s\<lparr>client := (client s)\<lparr>cl_next_reconnect := n,
                       cl_reconnects := bt_insert n (key, target) (cl_reconnects (client s))\<rparr>\<rparr>
                else s);
           w = \<lparr>wr_conn = None, wr_target = target,
             wr_endpoint = (case conn_of s c of None \<Rightarrow> None | Some st \<Rightarrow> c_expected_endpoint st),
             wr_living = None, wr_owner = instance_id s, wr_generation = fork_generation (env s)\<rparr>;
           s = on_connection w False s
       in if cl_shuts_down (client s) then s else update_confirmation s)"

definition tell_client_gone :: "conn_id \<Rightarrow> core \<Rightarrow> core" where
  "tell_client_gone c s =
    (case conn_of s c of
       None \<Rightarrow> s
     | Some st \<Rightarrow>
       if c_told_gone st then s
       else
         let s = put_conn c (st\<lparr>c_told_gone := True\<rparr>) s;
             s = (if c_registered st then unregister_connection c s else s)
         in connection_destroyed c s)"

definition give_up :: "conn_id \<Rightarrow> queue_entry list \<Rightarrow> core \<Rightarrow> core" where
  "give_up c given s =
    (let (left, s) = handle_orphaned_outgoing_messages c (filter (\<lambda>(_, f). \<not> o_own f) given) s
     in fold (\<lambda>(t, _) s. if upgrades s t then tracked_message_done t False (tracker_set t Lost s) else s) left s)"

definition orphan_outgoing_messages :: "conn_id \<Rightarrow> core \<Rightarrow> core" where
  "orphan_outgoing_messages c s =
    (case conn_of s c of
       None \<Rightarrow> s
     | Some st \<Rightarrow>
       let st = (case c_outgoing st of
             front # rest \<Rightarrow> if c_write_in_flight st
               then st\<lparr>c_outgoing := rest, c_set_aside := c_set_aside st @ [front]\<rparr> else st
           | [] \<Rightarrow> st)
       in give_up c (c_outgoing st) (put_conn c (st\<lparr>c_outgoing := []\<rparr>) s))"

definition close_socket :: "conn_id \<Rightarrow> core \<Rightarrow> core" where
  "close_socket c s =
    (case conn_of s c of
       None \<Rightarrow> s
     | Some st \<Rightarrow> if c_socket_open st then act (Close c) (put_conn c (st\<lparr>c_socket_open := False\<rparr>) s) else s)"

definition connection_closed :: "conn_id \<Rightarrow> core \<Rightarrow> core" where
  "connection_closed c s =
    (let s = confirmations_on_closed c (close_socket c s)
     in case conn_of s c of
          None \<Rightarrow> s
        | Some st \<Rightarrow> s\<lparr>client := (client s)\<lparr>cl_dropped_while_closing :=
            cl_dropped_while_closing (client s) + c_dropped_while_closing st\<rparr>\<rparr>)"

definition shutdown_connection :: "conn_id \<Rightarrow> core \<Rightarrow> core" where
  "shutdown_connection c s =
    (case conn_of s c of
       None \<Rightarrow> s
     | Some st \<Rightarrow>
       if c_shuts_down st then s
       else
         let s = set_living c (st\<lparr>c_shuts_down := True, c_notify_when_read_drained := False\<rparr>) False s;
             s = (if c_notify_when_read_drained st then s\<lparr>client := (client s)\<lparr>
                    cl_read_drains_wanted := cl_read_drains_wanted (client s) - 1\<rparr>\<rparr> else s);
             s = tell_client_gone c s
         in case conn_of s c of
              None \<Rightarrow> s
            | Some st \<Rightarrow>
              let s = put_conn c (st\<lparr>c_registered := False, c_outgoing_max := 0, c_reading := False, c_out := Broken,
                        c_send_heartbit_timer := None, c_require_heartbit_timer := None, c_connect_deadline := None\<rparr>) s;
                  s = cancel_timer (c_send_heartbit_timer st) s;
                  s = cancel_timer (c_require_heartbit_timer st) s;
                  s = cancel_timer (c_connect_deadline st) s;
                  s = (if c_socket_open st then act (Shutdown c) s else s)
              in forget_if_finished c (connection_closed c (orphan_outgoing_messages c s)))"

definition read_to_the_end :: "conn_id \<Rightarrow> duration \<Rightarrow> bool \<Rightarrow> core \<Rightarrow> core" where
  "read_to_the_end c bound deliver s =
    (let deadline = now s + bound
     in case conn_of s c of
          None \<Rightarrow> s
        | Some st \<Rightarrow>
          let s = set_living c (st\<lparr>c_out := Broken, c_delivering := deliver\<rparr>) False s;
              s = orphan_outgoing_messages c (tell_client_gone c s)
          in case conn_of s c of
               None \<Rightarrow> s
             | Some st \<Rightarrow>
               let s = act (ShutdownWrite c) s;
                   s = cancel_timer (c_require_heartbit_timer st) s;
                   (key, s) = rearm_timer (c_send_heartbit_timer st) deadline (ReadToTheEnd c) s
               in put_conn c (st\<lparr>c_require_heartbit_timer := None, c_send_heartbit_timer := key\<rparr>) s)"

definition read_to_the_end_bound :: "conn_id \<Rightarrow> core \<Rightarrow> core" where
  "read_to_the_end_bound c s =
    (case conn_of s c of
       None \<Rightarrow> s
     | Some st \<Rightarrow>
       let s = put_conn c (st\<lparr>c_send_heartbit_timer := None\<rparr>) s
       in if c_shuts_down st then s else shutdown_connection c s)"

definition write_failed :: "conn_id \<Rightarrow> core \<Rightarrow> core" where
  "write_failed c s =
    (case conn_of s c of
       None \<Rightarrow> s
     | Some st \<Rightarrow>
       if c_shuts_down st \<or> c_told_gone st then s
       else if \<not> c_registered st then shutdown_connection c s
       else read_to_the_end c HEARTBIT_INTERVAL True s)"

definition close_gracefully :: "conn_id \<Rightarrow> duration \<Rightarrow> core \<Rightarrow> bool \<times> core" where
  "close_gracefully c bound s =
    (case conn_of s c of
       None \<Rightarrow> (False, s)
     | Some st \<Rightarrow>
       if c_shuts_down st \<or> c_told_gone st then (False, s)
       else if \<not> c_registered st then (False, shutdown_connection c s)
       else (True, read_to_the_end c bound False s))"

section \<open>Writes, silence and the end of reading\<close>

definition settle_set_aside :: "conn_id \<Rightarrow> nat \<Rightarrow> bool \<Rightarrow> core \<Rightarrow> core" where
  "settle_set_aside c written failed s =
    (case conn_of s c of
       None \<Rightarrow> s
     | Some st \<Rightarrow> (case c_set_aside st of
         [] \<Rightarrow> s
       | (t, f) # rest \<Rightarrow>
         let s = put_conn c (st\<lparr>c_set_aside := rest\<rparr>) s
         in if \<not> failed \<and> written = wire_length f then
              (if upgrades s t then tracked_message_done t True (tracker_set t Sent s) else s)
            else give_up c [(t, f)] s))"

definition on_write_done :: "conn_id \<Rightarrow> nat \<Rightarrow> bool \<Rightarrow> core \<Rightarrow> core" where
  "on_write_done c written failed s =
    (case conn_of s c of
       None \<Rightarrow> s
     | Some st \<Rightarrow>
       let st = st\<lparr>c_write_in_flight := False\<rparr>; s = put_conn c st s
       in if c_out st = Broken then forget_if_finished c (settle_set_aside c written failed s)
          else case c_outgoing st of
            [] \<Rightarrow> write_failed c s
          | (t, f) # rest \<Rightarrow>
            if failed \<or> written = 0 \<or> wire_length f \<noteq> written then write_failed c s
            else
              let was_full = outgoing_queue_full st;
                  s = put_conn c (st\<lparr>c_out := Free, c_outgoing := rest\<rparr>) s;
                  s = (if upgrades s t then tracked_message_done t True (tracker_set t Sent s) else s);
                  s = process_send_queue c (send_heartbit_later c s);
                  has_room = (case conn_of s c of None \<Rightarrow> False | Some st \<Rightarrow> \<not> outgoing_queue_full st);
                  s = (if was_full \<and> has_room then outgoing_queue_has_room c s else s)
              in case conn_of s c of
                   None \<Rightarrow> s
                 | Some st \<Rightarrow>
                   if c_notify_when_idle st \<and> c_outgoing st = []
                   then outgoing_queue_idle c (put_conn c (st\<lparr>c_notify_when_idle := False\<rparr>) s) else s)"

definition require_heartbit_now :: "conn_id \<Rightarrow> core \<Rightarrow> core" where
  "require_heartbit_now c s =
    (case conn_of s c of
       None \<Rightarrow> s
     | Some st \<Rightarrow>
       let s = put_conn c (st\<lparr>c_require_heartbit_timer := None\<rparr>) s
       in if c_shuts_down st then s else shutdown_connection c s)"

datatype read_end = Eof | ReadError string | BadHeaderEnd | BadChecksumEnd

text \<open>How the reading ended is only logged.\<close>

definition on_read_end :: "conn_id \<Rightarrow> read_end \<Rightarrow> core \<Rightarrow> core" where
  "on_read_end c how s =
    (case conn_of s c of
       None \<Rightarrow> s
     | Some st \<Rightarrow> if \<not> c_reading st \<or> c_shuts_down st then s else shutdown_connection c s)"

section \<open>Connecting\<close>

definition heartbit :: "core \<Rightarrow> out_frame \<times> core" where
  "heartbit s = (case cl_heartbit (client s) of
     Some f \<Rightarrow> (f, s)
   | None \<Rightarrow> let (f, s) = heartbit_frame s in (f, s\<lparr>client := (client s)\<lparr>cl_heartbit := Some f\<rparr>\<rparr>))"

definition welcome_frame :: "core \<Rightarrow> out_frame \<times> core" where
  "welcome_frame s = (case cl_welcome (client s) of
     Some f \<Rightarrow> (f, s)
   | None \<Rightarrow>
     let welcome = \<lparr>we_type = peer_type s, we_id = instance_id s, we_routing = Some (cl_routing (client s)),
           we_key_filter = cl_key_filters_message (client s)\<rparr>;
         message = default_message\<lparr>m_id := Some 0, m_sender := Some (instance_id s),
           m_type := CONNECTION_WELCOME, m_message := Some (welcome_encode (env s) welcome)\<rparr>;
         bs = (case encode_message s message of Inl _ \<Rightarrow> [] | Inr bs \<Rightarrow> bs);
         (f, s) = new_frame (own_frame bs 0 CONNECTION_WELCOME False) s
     in (f, s\<lparr>client := (client s)\<lparr>cl_welcome := Some f\<rparr>\<rparr>))"

definition start_connection :: "conn_id \<Rightarrow> core \<Rightarrow> core" where
  "start_connection c s =
    (let (welcome, s) = welcome_frame s
     in case conn_of s c of
          None \<Rightarrow> s
        | Some st \<Rightarrow>
          let s = act (StartReading c) (set_living c (st\<lparr>c_reading := True\<rparr>) True s);
              (placed, s) = schedule c welcome True True s
          in if placed \<noteq> None then require_heartbit_later c (send_heartbit_later c s)
             else shutdown_connection c s)"

definition target_of :: "string \<Rightarrow> u16 \<Rightarrow> target" where
  "target_of host port = (case parse_ip host of Some a \<Rightarrow> (ip_text a, port) | None \<Rightarrow> (host, port))"

definition try_next_candidate :: "conn_id \<Rightarrow> core \<Rightarrow> core" where
  "try_next_candidate c s =
    (case conn_of s c of
       None \<Rightarrow> s
     | Some st \<Rightarrow>
       if c_next_candidate st \<ge> length (c_candidates st) then shutdown_connection c s
       else
         let address = c_candidates st ! c_next_candidate st;
             (key, s) = rearm_timer (c_connect_deadline st) (now s + CONNECT_ATTEMPT_SECONDS) (ConnectDeadline c) s
         in act (Open c address) (put_conn c (st\<lparr>c_next_candidate := c_next_candidate st + 1,
              c_expected_endpoint := Some address, c_socket_open := True, c_connecting := True,
              c_connect_deadline := key\<rparr>) s))"

definition live_connection :: "core \<Rightarrow> target \<Rightarrow> conn_id option" where
  "live_connection s target = (case map_of (cl_by_target (client s)) target of
     None \<Rightarrow> None
   | Some c \<Rightarrow> (case conn_of s c of
       None \<Rightarrow> None | Some st \<Rightarrow> if c_shuts_down st then None else Some c))"

definition async_connect :: "string \<Rightarrow> u16 \<Rightarrow> core \<Rightarrow> (unit error + conn_id) \<times> core" where
  "async_connect host port s =
    (if cl_shuts_down (client s) then (Inl NotConnected, s)
     else
       let target = target_of host port
       in case live_connection s target of
            Some c \<Rightarrow> (Inr c, s)
          | None \<Rightarrow>
            let s = (case map_of (cl_by_target (client s)) target of None \<Rightarrow> s | Some old \<Rightarrow> shutdown_connection old s);
                (c, s) = new_conn_id s;
                (beat, s) = heartbit s;
                s = put_conn c (new_conn target beat) s;
                s = s\<lparr>client := (client s)\<lparr>cl_by_target := bt_insert target c (cl_by_target (client s))\<rparr>\<rparr>
            in (Inr c, case parse_ip (fst target) of
                 Some a \<Rightarrow> try_next_candidate c
                   (put_conn c ((new_conn target beat)\<lparr>c_candidates := [(ip_text a, port)]\<rparr>) s)
               | None \<Rightarrow> act (Resolve c (fst target) (snd target)) s))"

definition reconnect_after_timeout :: "nat \<Rightarrow> core \<Rightarrow> core" where
  "reconnect_after_timeout n s =
    (case map_of (cl_reconnects (client s)) n of
       None \<Rightarrow> s
     | Some (_, target) \<Rightarrow>
       let s = s\<lparr>client := (client s)\<lparr>cl_reconnects := AList.delete n (cl_reconnects (client s))\<rparr>\<rparr>
       in if cl_shuts_down (client s) then s
          else if hm_contains (cl_by_target (client s)) target then s
          else snd (async_connect (fst target) (snd target) s))"

definition on_resolved :: "conn_id \<Rightarrow> string + socket_addr list \<Rightarrow> core \<Rightarrow> core" where
  "on_resolved c resolved s =
    (case conn_of s c of
       None \<Rightarrow> s
     | Some st \<Rightarrow>
       if c_shuts_down st then s
       else case resolved of
         Inr (a # as) \<Rightarrow> try_next_candidate c (put_conn c (st\<lparr>c_candidates := a # as, c_next_candidate := 0\<rparr>) s)
       | _ \<Rightarrow> shutdown_connection c s)"

definition connect_deadline :: "conn_id \<Rightarrow> core \<Rightarrow> core" where
  "connect_deadline c s =
    (case conn_of s c of
       None \<Rightarrow> s
     | Some st \<Rightarrow>
       if c_connecting st
       then act (CancelConnect c) (put_conn c (st\<lparr>c_connect_deadline := None, c_connect_timed_out := True\<rparr>) s)
       else put_conn c (st\<lparr>c_connect_deadline := None\<rparr>) s)"

definition connected :: "conn_id \<Rightarrow> string + unit \<Rightarrow> core \<Rightarrow> core" where
  "connected c result s =
    (case conn_of s c of
       None \<Rightarrow> s
     | Some st \<Rightarrow>
       let s = cancel_timer (c_connect_deadline st) s;
           st = st\<lparr>c_connecting := False, c_connect_timed_out := False, c_connect_deadline := None\<rparr>
       in case result of
            Inr _ \<Rightarrow> start_connection c (put_conn c (st\<lparr>c_routing_in_welcome := cl_routing_version (client s)\<rparr>) s)
          | Inl _ \<Rightarrow> (let s = put_conn c st s in if c_shuts_down st then s else try_next_candidate c s))"

definition open_failed :: "conn_id \<Rightarrow> string \<Rightarrow> core \<Rightarrow> core" where
  "open_failed c why s = post (ConnectFailed c why) s"

definition disconnect :: "string \<Rightarrow> u16 \<Rightarrow> core \<Rightarrow> (unit error + bool) \<times> core" where
  "disconnect host port s =
    (if cl_shuts_down (client s) then (Inl NotConnected, s)
     else
       let target = target_of host port;
           dropped = filter (\<lambda>(_, _, each). each = target) (cl_reconnects (client s));
           s = fold (\<lambda>(n, key, _) s. cancel_timer (Some key)
                 (s\<lparr>client := (client s)\<lparr>cl_reconnects := AList.delete n (cl_reconnects (client s))\<rparr>\<rparr>)) dropped s;
           found = map_of (cl_by_target (client s)) target;
           s = s\<lparr>client := (client s)\<lparr>cl_by_target := AList.delete target (cl_by_target (client s)),
                 cl_first_connection_over := bts_remove target (cl_first_connection_over (client s)),
                 cl_reached_by_target := AList.delete target (cl_reached_by_target (client s))\<rparr>\<rparr>;
           s = (case found of None \<Rightarrow> s | Some c \<Rightarrow> snd (close_gracefully c CLOSE_READ_SECONDS s))
       in (Inr (dropped \<noteq> [] \<or> found \<noteq> None), s))"

definition connections_count :: "core \<Rightarrow> nat" where
  "connections_count s = length (filter (\<lambda>(_, c). hm_contains (conns s) c) (by_peer_id s))"

section \<open>Registration\<close>

definition DEFAULT_OUT_QUEUE_SIZE :: nat where
  "DEFAULT_OUT_QUEUE_SIZE = 1024"

definition MULTIPLEXER :: u32 where
  "MULTIPLEXER = 1"

text \<open>Whether a connection that claims the id of another still known is refused.\<close>

definition refuses_claim :: "conn \<Rightarrow> conn \<Rightarrow> bool" where
  "refuses_claim newcomer old \<longleftrightarrow> (case (c_expected_endpoint newcomer, c_expected_endpoint old) of
     (None, _) \<Rightarrow> True
   | (Some new_at, Some old_at) \<Rightarrow> fst new_at \<noteq> fst old_at \<and> c_living old
   | _ \<Rightarrow> False)"

definition register_connection :: "conn_id \<Rightarrow> welcome_message \<Rightarrow> core \<Rightarrow> core" where
  "register_connection c welcome s =
    (case conn_of s c of
       None \<Rightarrow> s
     | Some st \<Rightarrow>
       let target = c_target st;
           twice = map fst (filter (\<lambda>(reached, mid). mid = we_id welcome \<and> reached \<noteq> target)
             (cl_reached_by_target (client s)));
           s = s\<lparr>client := (client s)\<lparr>
                 cl_one_multiplexer_said := cl_one_multiplexer_said (client s)
                   \<union> set (map (\<lambda>reached. if reached < target then (reached, target) else (target, reached)) twice),
                 cl_reached_by_target := bt_insert target (we_id welcome) (cl_reached_by_target (client s))\<rparr>\<rparr>
       in if we_type welcome \<noteq> MULTIPLEXER \<or> we_id welcome = instance_id s then shutdown_connection c s
          else
            let previous = (case map_of (by_peer_id s) (we_id welcome) of
                  None \<Rightarrow> None | Some p \<Rightarrow> if p = c then None else map_option (Pair p) (conn_of s p))
            in if (case previous of None \<Rightarrow> False | Some (_, old) \<Rightarrow> refuses_claim st old) then shutdown_connection c s
               else
                 let s = (case previous of None \<Rightarrow> s | Some (p, _) \<Rightarrow> shutdown_connection p s);
                     s = s\<lparr>by_peer_id := bt_insert (we_id welcome) c (by_peer_id s), round_robin := c # round_robin s\<rparr>
                 in case conn_of s c of
                      None \<Rightarrow> s
                    | Some st \<Rightarrow> put_conn c (st\<lparr>c_outgoing_max := DEFAULT_OUT_QUEUE_SIZE\<rparr>) s)"

definition after_connection_registration :: "conn_id \<Rightarrow> core \<Rightarrow> core" where
  "after_connection_registration c s =
    (case conn_of s c of
       None \<Rightarrow> s
     | Some st \<Rightarrow>
       let s = put_conn c (st\<lparr>c_routing_acknowledged := c_routing_in_welcome st\<rparr>) s;
           s = (if c_routing_in_welcome st \<noteq> cl_routing_version (client s) then send_routing c s else s);
           s = update_confirmation s;
           s = s\<lparr>client := (client s)\<lparr>cl_first_connection_over :=
                 bts_insert (c_target st) (cl_first_connection_over (client s))\<rparr>\<rparr>;
           s = close_idle_batches (Some c) (place_held (outgoing_queue_has_room c s));
           (w, s) = wrap c s
       in on_connection w True s)"

definition receive_internal_message :: "conn_id \<Rightarrow> message \<Rightarrow> core \<Rightarrow> bool \<times> core" where
  "receive_internal_message c m s =
    (let registered = (case conn_of s c of None \<Rightarrow> False | Some st \<Rightarrow> c_registered st)
     in if m_type m = CONNECTION_WELCOME then
          if registered then (True, shutdown_connection c s)
          else case Option.bind (m_message m) (welcome_decode (env s)) of
            None \<Rightarrow> (True, shutdown_connection c s)
          | Some welcome \<Rightarrow>
            let s = (case conn_of s c of None \<Rightarrow> s
                  | Some st \<Rightarrow> put_conn c (st\<lparr>c_peer_id := we_id welcome, c_peer_type := we_type welcome\<rparr>) s);
                s = register_connection c welcome s
            in (True, case conn_of s c of
                 None \<Rightarrow> s
               | Some st \<Rightarrow> if c_shuts_down st then s
                   else after_connection_registration c (put_conn c (st\<lparr>c_registered := True\<rparr>) s))
        else if m_type m = HEARTBIT then (True, if registered then s else shutdown_connection c s)
        else (False, s))"

section \<open>The client's shutdown\<close>

definition shutdown_client :: "core \<Rightarrow> core" where
  "shutdown_client s =
    (if cl_shuts_down (client s) then s
     else
       let s = send_confirmations (stop_batching s);
           s = act CancelResolves (s\<lparr>client := (client s)\<lparr>cl_shuts_down := True\<rparr>\<rparr>);
           reconnects = cl_reconnects (client s);
           s = fold (\<lambda>(_, key, _). cancel_timer (Some key)) reconnects (s\<lparr>client := (client s)\<lparr>cl_reconnects := []\<rparr>\<rparr>);
           s = fold (\<lambda>c s. snd (close_gracefully c CLOSE_READ_SECONDS s)) (map snd (cl_by_target (client s))) s;
           s = give_up_confirmations ShutDown (drop_outbox s)
       in flush_drop_lines (s\<lparr>client := (client s)\<lparr>cl_acknowledged_callbacks := []\<rparr>\<rparr>))"

definition connection_live_or_coming :: "core \<Rightarrow> bool" where
  "connection_live_or_coming s \<longleftrightarrow> \<not> cl_shuts_down (client s)
     \<and> (cl_reconnects (client s) \<noteq> []
        \<or> list_ex (\<lambda>(_, c). case conn_of s c of None \<Rightarrow> False | Some st \<Rightarrow> \<not> c_shuts_down st) (cl_by_target (client s)))"

definition closing :: "core \<Rightarrow> bool \<times> core" where
  "closing s =
    (let left = filter (hm_contains (conns s)) (cl_closing (client s))
     in (left \<noteq> [], s\<lparr>client := (client s)\<lparr>cl_closing := left\<rparr>\<rparr>))"

end
