(* ===== verification/Streams.thy ===== *)
theory Streams
  imports Core_Basics
begin

text \<open>
  The streams of messages a threaded client's reader waits on (\<open>pending.rs\<close>, \<open>Queue\<close> and \<open>Messages\<close>): what
  each operation does under the stream's lock.  A waker is a number; which wakers a push or a close wakes,
  and whether it notifies a blocked reader, is part of its result.
\<close>

definition new_stream :: "nat \<Rightarrow> string \<Rightarrow> stream" where
  "new_stream capacity name = \<lparr>sm_messages = [], sm_wakers = [], sm_next_key = 0, sm_closed = False,
     sm_dropped = 0, sm_dropping = False, sm_blocked = 0, sm_capacity = max capacity 1, sm_name = name\<rparr>"

text \<open>The wakers woken, the message whose drop begins a run of drops, and whether a reader is notified.\<close>

definition stream_push ::
  "public_incoming \<Rightarrow> stream \<Rightarrow> ((nat \<times> nat) list \<times> public_incoming option \<times> bool) \<times> stream" where
  "stream_push m q =
    (if sm_closed q then (([], None, False), q)
     else
       let (warning, q) =
             (if length (sm_messages q) < sm_capacity q then (None, q\<lparr>sm_dropping := False\<rparr>)
              else case sm_messages q of
                [] \<Rightarrow> (None, q)
              | oldest # rest \<Rightarrow>
                (if sm_dropping q then None else Some oldest,
                 q\<lparr>sm_messages := rest, sm_dropped := sm_dropped q + 1, sm_dropping := True\<rparr>))
       in ((sm_wakers q, warning, sm_blocked q > 0),
           q\<lparr>sm_messages := sm_messages q @ [m], sm_wakers := []\<rparr>))"

definition stream_close :: "stream \<Rightarrow> (nat \<times> nat) list \<times> stream" where
  "stream_close q = (sm_wakers q, q\<lparr>sm_closed := True, sm_wakers := []\<rparr>)"

definition try_recv :: "stream \<Rightarrow> public_incoming option \<times> stream" where
  "try_recv q = (case sm_messages q of [] \<Rightarrow> (None, q) | m # rest \<Rightarrow> (Some m, q\<lparr>sm_messages := rest\<rparr>))"

text \<open>One look of \<open>recv\<close>, with what is left of its time: the message, the end, or a wait, for which the
  reader counts itself as blocked.\<close>

datatype 'a look = Got 'a | Ended | Blocks

definition recv_look :: "duration option \<Rightarrow> stream \<Rightarrow> public_incoming look \<times> stream" where
  "recv_look left q =
    (case sm_messages q of
       m # rest \<Rightarrow> (Got m, q\<lparr>sm_messages := rest\<rparr>)
     | [] \<Rightarrow> if sm_closed q \<or> left = Some 0 then (Ended, q) else (Blocks, q\<lparr>sm_blocked := sm_blocked q + 1\<rparr>))"

text \<open>\<open>Next::poll\<close> by the key a \<open>Next\<close> holds, and \<open>Next::drop\<close>.\<close>

definition next_poll :: "nat \<Rightarrow> nat option \<Rightarrow> stream \<Rightarrow> public_incoming look \<times> nat option \<times> stream" where
  "next_poll waker key q =
    (case sm_messages q of
       m # rest \<Rightarrow> (Got m, key, q\<lparr>sm_messages := rest\<rparr>)
     | [] \<Rightarrow>
       if sm_closed q then (Ended, key, q)
       else if (case key of None \<Rightarrow> False | Some k \<Rightarrow> k \<in> fst ` set (sm_wakers q))
       then (Blocks, key, q\<lparr>sm_wakers := update_first (\<lambda>(k, _). Some k = key) (\<lambda>(k, _). (k, waker)) (sm_wakers q)\<rparr>)
       else
         let k = sm_next_key q + 1
         in (Blocks, Some k, q\<lparr>sm_next_key := k, sm_wakers := sm_wakers q @ [(k, waker)]\<rparr>))"

definition next_drop :: "nat option \<Rightarrow> stream \<Rightarrow> stream" where
  "next_drop key q = (case key of
     None \<Rightarrow> q
   | Some k \<Rightarrow> q\<lparr>sm_wakers := filter (\<lambda>(each, _). each \<noteq> k) (sm_wakers q)\<rparr>)"

text \<open>A stream of the core, by its number.\<close>

definition push_stream :: "stream_id \<Rightarrow> public_incoming \<Rightarrow> core \<Rightarrow> core" where
  "push_stream sid m s = s\<lparr>streams := (streams s)(sid := snd (stream_push m (streams s sid)))\<rparr>"

definition close_stream :: "stream_id \<Rightarrow> core \<Rightarrow> core" where
  "close_stream sid s = s\<lparr>streams := (streams s)(sid := snd (stream_close (streams s sid)))\<rparr>"

end
