(* ===== verification/Inbox.thy ===== *)
theory Inbox
  imports Bodies
begin

text \<open>
  The inbox of a threaded class's io thread (\<open>inbox.rs\<close>): what other threads hand it, taken whole, and the
  two flags by which a sender wakes the io thread only when it sleeps.  Each function that touches a flag
  is built from its accesses, each of them atomic, in the order of the source; the queue, the confirmations
  and the bodies change only under the lock.
\<close>

section \<open>Accesses\<close>

definition new_inbox :: inbox where
  "new_inbox = \<lparr>ib_posted = [], ib_confirmations = [], ib_returned = \<lparr>bs_kept = [], bs_bytes = 0\<rparr>,
     ib_pending = False, ib_asleep = False\<rparr>"

definition set_pending :: "bool \<Rightarrow> inbox \<Rightarrow> inbox" where
  "set_pending b ib = ib\<lparr>ib_pending := b\<rparr>"

definition set_asleep :: "bool \<Rightarrow> inbox \<Rightarrow> inbox" where
  "set_asleep b ib = ib\<lparr>ib_asleep := b\<rparr>"

definition add_posted :: "posted \<Rightarrow> inbox \<Rightarrow> inbox" where
  "add_posted p ib = ib\<lparr>ib_posted := ib_posted ib @ [p]\<rparr>"

definition add_confirmation :: "handed_confirmation \<Rightarrow> inbox \<Rightarrow> inbox" where
  "add_confirmation c ib = ib\<lparr>ib_confirmations := ib_confirmations ib @ [c]\<rparr>"

text \<open>Under the lock: what was queued is swapped out, and the bodies spent are handed back.\<close>

definition swap_out :: "bodies \<Rightarrow> inbox \<Rightarrow> (posted list \<times> handed_confirmation list \<times> bodies) \<times> inbox" where
  "swap_out spent ib =
    (let (returned, spent) = take_all (ib_returned ib) spent
     in ((ib_posted ib, ib_confirmations ib, spent),
         ib\<lparr>ib_posted := [], ib_confirmations := [], ib_returned := returned\<rparr>))"

section \<open>Functions\<close>

definition wake_needed :: "inbox \<Rightarrow> bool \<times> inbox" where
  "wake_needed ib = (if ib_asleep ib then (ib_asleep ib, set_asleep False ib) else (False, ib))"

definition push :: "posted \<Rightarrow> inbox \<Rightarrow> bool \<times> inbox" where
  "push p ib = wake_needed (set_pending True (add_posted p ib))"

definition push_plain :: "plain \<Rightarrow> instant option \<Rightarrow> inbox \<Rightarrow> (body \<times> bool) \<times> inbox" where
  "push_plain p deadline ib =
    (let ib = set_pending True (add_posted (PostedPlain p deadline) ib);
         (spare, returned) = take_body (ib_returned ib);
         (wake, ib) = wake_needed (ib\<lparr>ib_returned := returned\<rparr>)
     in ((spare, wake), ib))"

definition push_confirmation :: "handed_confirmation \<Rightarrow> inbox \<Rightarrow> bool \<times> inbox" where
  "push_confirmation c ib = wake_needed (set_pending True (add_confirmation c ib))"

definition take_inbox :: "bodies \<Rightarrow> inbox \<Rightarrow> (posted list \<times> handed_confirmation list \<times> bodies) \<times> inbox" where
  "take_inbox spent ib =
    (if \<not> ib_pending ib \<and> bs_kept spent = [] then (([], [], spent), ib)
     else swap_out spent (set_pending False ib))"

definition take_confirmations :: "inbox \<Rightarrow> handed_confirmation list \<times> inbox" where
  "take_confirmations ib =
    (if \<not> ib_pending ib then ([], ib) else (ib_confirmations ib, ib\<lparr>ib_confirmations := []\<rparr>))"

definition fall_asleep :: "inbox \<Rightarrow> bool \<times> inbox" where
  "fall_asleep ib =
    (let ib = set_asleep True ib in if ib_pending ib then (False, set_asleep False ib) else (True, ib))"

definition wake_up :: "inbox \<Rightarrow> inbox" where
  "wake_up ib = set_asleep False ib"

end
