(* ===== verification/Dispatch.thy ===== *)
theory Dispatch
  imports Connection Streams Inbox
begin

text \<open>
  What a threaded client adds to the core on its io thread (\<open>core/threaded.rs\<close>): the messages that answer
  no query, the calls that wait, the sends followed with their deadlines, and the shutdown's write-out.
\<close>

section \<open>The message in hand\<close>

definition in_hand_note :: "u64 \<Rightarrow> nat \<Rightarrow> in_hand \<Rightarrow> in_hand" where
  "in_hand_note sender number ih = ih\<lparr>ih_made := True,
     ih_confirmed := ih_confirmed ih \<or> number = ih_number ih \<and> sender = ih_sender ih\<rparr>"

definition in_hand_hold :: "u64 \<Rightarrow> nat \<Rightarrow> in_hand \<Rightarrow> in_hand" where
  "in_hand_hold sender number ih = ih\<lparr>ih_sender := sender, ih_number := number, ih_confirmed := False\<rparr>"

definition in_hand_release :: "in_hand \<Rightarrow> bool \<times> in_hand" where
  "in_hand_release ih = (ih_confirmed ih, ih\<lparr>ih_number := 0, ih_confirmed := False\<rparr>)"

definition in_hand_take_made :: "in_hand \<Rightarrow> bool \<times> in_hand" where
  "in_hand_take_made ih = (ih_made ih, if ih_made ih then ih\<lparr>ih_made := False\<rparr> else ih)"

text \<open>A callback's \<open>confirm\<close> on the io thread (\<open>threaded_client.rs\<close>).\<close>

definition io_confirm :: "handed_confirmation \<Rightarrow> core \<Rightarrow> core" where
  "io_confirm = (\<lambda>(sender, number, outcome) s.
    if number = 0 then s
    else
      let s = s\<lparr>threaded := (threaded s)\<lparr>th_in_hand := in_hand_note sender number (th_in_hand (threaded s))\<rparr>\<rparr>
      in if th_torn_down_shared (threaded s) then s
         else s\<lparr>threaded := (threaded s)\<lparr>th_io_inbox :=
                map_option (\<lambda>ib. snd (push_confirmation (sender, number, outcome) ib)) (th_io_inbox (threaded s))\<rparr>\<rparr>)"

text \<open>\<open>on_message\<close> runs: it is noted, and what it confirms goes to the inbox.\<close>

definition run_on_message :: "callback \<Rightarrow> public_incoming \<Rightarrow> core \<Rightarrow> bool \<times> core" where
  "run_on_message cb m s =
    (let s = note_call (CallOnMessage cb m) s
     in (handler_returns (env s) cb (calls s), fold io_confirm (handler_confirms (env s) cb (calls s)) s))"

definition take_io_confirmations :: "core \<Rightarrow> core" where
  "take_io_confirmations s =
    (let (made, ih) = in_hand_take_made (th_in_hand (threaded s));
         s = s\<lparr>threaded := (threaded s)\<lparr>th_in_hand := ih\<rparr>\<rparr>
     in if \<not> made then s
        else case th_io_inbox (threaded s) of
          None \<Rightarrow> confirm_handed [] s
        | Some ib \<Rightarrow>
          let (handed, ib) = take_confirmations ib
          in confirm_handed handed (s\<lparr>threaded := (threaded s)\<lparr>th_io_inbox := Some ib\<rparr>\<rparr>))"

section \<open>Messages that answer no query\<close>

definition bytes_of :: "string \<Rightarrow> bytes" where
  "bytes_of text = map (\<lambda>c. of_nat (of_char c)) text"

definition answer_ping :: "incoming \<Rightarrow> core \<Rightarrow> core" where
  "answer_ping incoming s =
    (let m = in_message incoming;
         payload = (case m_message m of None \<Rightarrow> [] | Some bs \<Rightarrow> bs);
         (mid, s) = random64 s;
         pong = default_message\<lparr>m_id := Some mid, m_sender := Some (instance_id s), m_to := m_sender m,
           m_references := m_id m, m_type := PING, m_message := Some payload\<rparr>;
         pong = (if message_len (env s) pong > MAX_MESSAGE_SIZE
           then pong\<lparr>m_type := BACKEND_ERROR, m_message := Some (bytes_of (''the echo of a ''
             @ (if m_type m = PING then ''PING'' else ''search'') @ '' of '' @ decimal (length payload)
             @ '' bytes would be over MAX_MESSAGE_SIZE''))\<rparr> else pong)
     in case query_frame s pong mid of
          None \<Rightarrow> s
        | Some f \<Rightarrow>
          let (placed, s) = schedule_on f False (in_connection incoming) (Some DEFAULT_TIMEOUT) 0 None s
          in if placed \<noteq> None then s
             else let (_, _, s) = schedule_one f False False (Some DEFAULT_TIMEOUT) 0 None s in s)"

definition on_unmatched :: "incoming \<Rightarrow> core \<Rightarrow> core" where
  "on_unmatched incoming s =
    (let m = in_message incoming;
         ty = m_type m;
         sender = or_zero (m_sender m);
         number = (case m_confirmation m of None \<Rightarrow> 0 | Some n \<Rightarrow> n)
     in if ty = REQUEST_RECEIVED then s
        else if ty = PING \<or> ty = BACKEND_FOR_PACKET_SEARCH then
          if or_zero (m_references m) \<noteq> 0 then s
          else if ty = BACKEND_FOR_PACKET_SEARCH then
            (case th_search_policy (threaded s) of
               None \<Rightarrow> s
             | Some cb \<Rightarrow>
               let s = note_call (CallSearchPolicy cb) s
               in if policy_answers (env s) cb (calls s) then answer_ping incoming s else s)
          else answer_ping incoming s
        else
          let public = \<lparr>pi_message = public_of_message m, pi_connection = in_connection incoming\<rparr>;
              held = filter (\<lambda>(_, sid). streams_held s sid) (th_subscriptions (threaded s));
              wanted = filter (\<lambda>(w, _). w = None \<or> w = Some ty) held;
              s = s\<lparr>threaded := (threaded s)\<lparr>th_subscriptions := held\<rparr>\<rparr>;
              s = fold (\<lambda>(_, sid). push_stream sid public) wanted s;
              s = (case th_inbox (threaded s) of None \<Rightarrow> s | Some sid \<Rightarrow> push_stream sid public s)
          in case th_on_message (threaded s) of
               Some cb \<Rightarrow>
                 if number = 0 then snd (run_on_message cb public s)
                 else
                   let s = s\<lparr>threaded := (threaded s)\<lparr>th_in_hand := in_hand_hold sender number (th_in_hand (threaded s))\<rparr>\<rparr>;
                       (returned, s) = run_on_message cb public s;
                       (said, ih) = in_hand_release (th_in_hand (threaded s));
                       s = take_io_confirmations (s\<lparr>threaded := (threaded s)\<lparr>th_in_hand := ih\<rparr>\<rparr>)
                   in if th_confirms_itself (threaded s) \<or> said then s
                      else confirm sender number (if returned then Processed else FailedOutcome) s
             | None \<Rightarrow>
               if wanted \<noteq> [] \<or> th_inbox (threaded s) \<noteq> None then s
               else
                 let s = (if th_confirms_itself (threaded s) then s else confirm sender number FailedOutcome s)
                 in say_drop NoOnMessage ty 0
                      (''messages of type '' @ decimal (unat ty) @ '' dropped: this client has no on_message callback'')
                      (''message #'' @ decimal (unat (or_zero (m_id m))) @ '' of type '' @ decimal (unat ty)
                        @ '' dropped: this client has no on_message callback'') s)"

definition dispatch_incoming :: "incoming \<Rightarrow> core \<Rightarrow> core" where
  "dispatch_incoming incoming s =
    (case query_takes incoming s of (None, s) \<Rightarrow> s | (Some incoming, s) \<Rightarrow> on_unmatched incoming s)"

section \<open>Calls that wait\<close>

definition start_connect :: "string \<Rightarrow> u16 \<Rightarrow> duration option \<Rightarrow> callback \<Rightarrow> core \<Rightarrow> core" where
  "start_connect host port timeout done s =
    (if th_shut_down (threaded s) then note_call (CallConnectEnd done False) s
     else case async_connect host port s of
       (Inl _, s) \<Rightarrow> note_call (CallConnectEnd done False) s
     | (Inr c, s) \<Rightarrow> (case conn_of s c of
         None \<Rightarrow> note_call (CallConnectEnd done False) s
       | Some st \<Rightarrow>
         if c_shuts_down st \<or> c_registered st
         then note_call (CallConnectEnd done (c_registered st \<and> \<not> c_shuts_down st)) s
         else
           let n = th_next_wait (threaded s) + 1;
               s = s\<lparr>threaded := (threaded s)\<lparr>th_next_wait := n\<rparr>\<rparr>;
               (timer, s) = (case deadline_after (now s) timeout of
                   None \<Rightarrow> (None, s)
                 | Some deadline \<Rightarrow> let (key, s) = arm_timer deadline (ConnectWait n) s in (Some key, s));
               (w, s) = wrap c s
           in s\<lparr>threaded := (threaded s)\<lparr>th_connects := th_connects (threaded s)
                @ [\<lparr>cw_id = n, cw_connection = w, cw_done = Some done, cw_timer = timer\<rparr>]\<rparr>\<rparr>))"

definition begin_flush_all :: "duration option \<Rightarrow> callback \<Rightarrow> core \<Rightarrow> core" where
  "begin_flush_all timeout done s =
    (if th_torn_down (threaded s) then note_call (CallFlushEnd done True) s
     else
       let n = th_next_wait (threaded s) + 1;
           s = s\<lparr>threaded := (threaded s)\<lparr>th_next_wait := n, th_flush_waits := th_flush_waits (threaded s)
                 @ [\<lparr>fw_id = n, fw_flush = None, fw_done = Some done, fw_timer = None\<rparr>]\<rparr>\<rparr>;
           (fid, s) = begin_flush (Some (WaitDone n)) s
       in if find (\<lambda>fw. fw_id fw = n) (th_flush_waits (threaded s)) = None then end_flush fid s
          else
            let (timer, s) = (case deadline_after (now s) timeout of
                  None \<Rightarrow> (None, s)
                | Some deadline \<Rightarrow> let (key, s) = arm_timer deadline (FlushWait n) s in (Some key, s))
            in s\<lparr>threaded := (threaded s)\<lparr>th_flush_waits := update_first (\<lambda>fw. fw_id fw = n)
                 (\<lambda>fw. fw\<lparr>fw_flush := Some fid, fw_timer := (if timer = None then fw_timer fw else timer)\<rparr>)
                 (th_flush_waits (threaded s))\<rparr>\<rparr>)"

section \<open>Sends followed\<close>

definition arm_send_expiry :: "core \<Rightarrow> core" where
  "arm_send_expiry s =
    (let expiring = dropWhile (\<lambda>(_, n). \<not> (case map_of (th_sends (threaded s)) n of
             None \<Rightarrow> False | Some p \<Rightarrow> ps_wait p)) (th_expiring (threaded s));
         s = s\<lparr>threaded := (threaded s)\<lparr>th_expiring := expiring\<rparr>\<rparr>
     in case expiring of
          [] \<Rightarrow> cancel_timer (th_expiry_timer (threaded s))
                  (s\<lparr>threaded := (threaded s)\<lparr>th_expiry_timer := None, th_expiry_armed := None\<rparr>\<rparr>)
        | (at, _) # _ \<Rightarrow>
          if th_expiry_armed (threaded s) = Some at then s
          else
            let (key, s) = rearm_timer (th_expiry_timer (threaded s)) at SendsExpire s
            in s\<lparr>threaded := (threaded s)\<lparr>th_expiry_timer := key, th_expiry_armed := Some at\<rparr>\<rparr>)"

definition expire_send_at :: "nat \<Rightarrow> instant option \<Rightarrow> core \<Rightarrow> core" where
  "expire_send_at n deadline s =
    (case deadline of
       None \<Rightarrow> s
     | Some at \<Rightarrow>
       let th = threaded s;
           th = (if length (th_expiring th) \<ge> max (th_expiring_compact_at th) 64 then
                   let left = heap_retain (\<lambda>(_, each). hm_contains (th_sends th) each) (th_expiring th)
                   in th\<lparr>th_expiring := left, th_expiring_compact_at := max (2 * length left) 64\<rparr>
                 else th);
           s = s\<lparr>threaded := th\<lparr>th_expiring := heap_push (at, n) (th_expiring th)\<rparr>\<rparr>
       in if (case th_expiry_armed th of None \<Rightarrow> True | Some till \<Rightarrow> at < till) then arm_send_expiry s else s)"

definition any_live_connection :: "core \<Rightarrow> bool" where
  "any_live_connection s = list_ex (\<lambda>(_, c). conn_living s c) (by_peer_id s)"

text \<open>Settling a send changes neither the heap nor the connections, so that what is due is known at the
  start and whether a connection is live is the same for each.\<close>

definition sends_expire :: "core \<Rightarrow> core" where
  "sends_expire s =
    (let s = s\<lparr>threaded := (threaded s)\<lparr>th_expiry_timer := None, th_expiry_armed := None\<rparr>\<rparr>;
         due = takeWhile (\<lambda>(at, _). at \<le> now s) (th_expiring (threaded s));
         s = s\<lparr>threaded := (threaded s)\<lparr>th_expiring := drop (length due) (th_expiring (threaded s))\<rparr>\<rparr>;
         none_live = (\<not> any_live_connection s);
         s = fold (\<lambda>(_, n) s. if hm_contains (th_sends (threaded s)) n then settle_send n 0 none_live s else s) due s
     in arm_send_expiry s)"

definition place_send ::
  "frame \<Rightarrow> bool \<Rightarrow> lane_id option \<Rightarrow> instant option \<Rightarrow> bool \<Rightarrow> callback option \<Rightarrow> core \<Rightarrow> core" where
  "place_send f all lane deadline wait settled s =
    (let (number, s) = next_number s;
         report = \<lparr>o_alloc = 0, o_bytes = [], o_head = None, o_id = f_id f, o_type = f_type f, o_pinned = False,
           o_for_all = all, o_own = False, o_number = number, o_deadline = None, o_batch = None,
           o_confirmed = False\<rparr>
     in if th_torn_down (threaded s) then
          let s = report_drop report ShutDown s
          in case settled of None \<Rightarrow> s | Some cb \<Rightarrow> note_call (CallSettled cb 0 True) s
        else
          let n = th_next_send (threaded s) + 1;
              s = (case settled of
                    None \<Rightarrow> s
                  | Some cb \<Rightarrow>
                    let s = s\<lparr>threaded := (threaded s)\<lparr>th_next_send := n, th_sends := AList.update n
                              \<lparr>ps_wait = wait, ps_settled = Some cb\<rparr> (th_sends (threaded s))\<rparr>\<rparr>
                    in if wait then expire_send_at n deadline s else s);
              left = map_option (\<lambda>at. at - now s) deadline;
              timeout = (if wait then map_option (\<lambda>left. left + ROOM_GRACE_SECONDS) left else left);
              (sent, _, _, s) = send f all lane timeout number False False
                (case settled of None \<Rightarrow> None | Some _ \<Rightarrow> Some (Settle n)) (\<not> wait) s
          in if sent then s
             else
               let s = report_drop report ConnectionLost s
               in case settled of None \<Rightarrow> s | Some _ \<Rightarrow> settle_send n 0 True s)"

section \<open>The shutdown\<close>

definition write_out :: "core \<Rightarrow> core" where
  "write_out s =
    (let s = s\<lparr>threaded := (threaded s)\<lparr>th_write_out_sent := ob_last_number (outbox s)\<rparr>\<rparr>;
         s = (case th_drain (threaded s) of
               None \<Rightarrow> s
             | Some previous \<Rightarrow> end_flush previous (s\<lparr>threaded := (threaded s)\<lparr>th_drain := None\<rparr>\<rparr>));
         (drain, s) = begin_flush (Some DrainDone) s
     in s\<lparr>threaded := (threaded s)\<lparr>th_drain := Some drain\<rparr>\<rparr>)"

definition teardown :: "core \<Rightarrow> core" where
  "teardown s =
    (if th_torn_down (threaded s) then s
     else
       let s = s\<lparr>threaded := (threaded s)\<lparr>th_torn_down := True\<rparr>\<rparr>;
           s = cancel_timer (th_drain_timer (threaded s)) s;
           s = s\<lparr>threaded := (threaded s)\<lparr>th_drain_timer := None\<rparr>\<rparr>;
           s = (case th_drain (threaded s) of
                 None \<Rightarrow> s
               | Some drain \<Rightarrow> end_flush drain (s\<lparr>threaded := (threaded s)\<lparr>th_drain := None\<rparr>\<rparr>));
           s = cancel_timer (th_expiry_timer (threaded s)) s;
           s = s\<lparr>threaded := (threaded s)\<lparr>th_expiring := [], th_expiry_timer := None, th_expiry_armed := None\<rparr>\<rparr>;
           s = fold (\<lambda>n. end_flush_wait n False) (map fw_id (th_flush_waits (threaded s))) s;
           s = shutdown_client s;
           s = (case th_inbox (threaded s) of None \<Rightarrow> s | Some sid \<Rightarrow> close_stream sid s);
           subscriptions = th_subscriptions (threaded s)
       in fold (\<lambda>(_, sid) s. if streams_held s sid then close_stream sid s else s) subscriptions
            (s\<lparr>threaded := (threaded s)\<lparr>th_subscriptions := []\<rparr>\<rparr>))"

definition write_out_step :: "core \<Rightarrow> core" where
  "write_out_step s =
    (if th_torn_down (threaded s) then s
     else if ob_last_number (outbox s) \<noteq> th_write_out_sent (threaded s) then write_out s
     else teardown s)"

definition drain_expired :: "core \<Rightarrow> core" where
  "drain_expired s = teardown (s\<lparr>threaded := (threaded s)\<lparr>th_drain_timer := None\<rparr>\<rparr>)"

definition begin_shutdown :: "duration option \<Rightarrow> core \<Rightarrow> core" where
  "begin_shutdown timeout s =
    (let s = finish_every_query (s\<lparr>threaded := (threaded s)\<lparr>th_shut_down := True\<rparr>\<rparr>);
         s = fold (\<lambda>n. end_connect n False) (map cw_id (th_connects (threaded s))) s
     in if timeout = Some 0 then teardown s
        else
          let s = write_out s
          in case deadline_after (now s) timeout of
               None \<Rightarrow> s
             | Some deadline \<Rightarrow>
               let (key, s) = rearm_timer (th_drain_timer (threaded s)) deadline Drain s
               in s\<lparr>threaded := (threaded s)\<lparr>th_drain_timer := key\<rparr>\<rparr>)"

definition register_inbox :: "stream_id \<Rightarrow> core \<Rightarrow> core" where
  "register_inbox sid s =
    (if th_torn_down (threaded s) then close_stream sid s
     else s\<lparr>threaded := (threaded s)\<lparr>th_inbox := Some sid\<rparr>\<rparr>)"

definition register_subscription :: "u32 \<Rightarrow> stream_id \<Rightarrow> core \<Rightarrow> core" where
  "register_subscription ty sid s =
    (if th_torn_down (threaded s) then (if streams_held s sid then close_stream sid s else s)
     else s\<lparr>threaded := (threaded s)\<lparr>th_subscriptions := th_subscriptions (threaded s) @ [(Some ty, sid)]\<rparr>\<rparr>)"

end
