(* ===== verification/Receive.thy ===== *)
theory Receive
  imports Dispatch
begin

text \<open>
  What a client does with the frames its connections read (\<open>core/client/mod.rs\<close>, \<open>core/connection.rs\<close>): the
  handshake's messages, the duplicate filter, batches split into their messages, delivery errors split,
  a leaving server's refusals, and the queue for a receive.
\<close>

section \<open>Refusing\<close>

definition refuse_arrivals :: "core \<Rightarrow> core" where
  "refuse_arrivals s = s\<lparr>client := (client s)\<lparr>cl_refusing := True\<rparr>\<rparr>"

definition refuse_incoming :: "incoming \<Rightarrow> core \<Rightarrow> core" where
  "refuse_incoming incoming s =
    (let m = in_message incoming
     in case m_confirmation m of
          Some number \<Rightarrow> confirm (or_zero (m_sender m)) number Refused s
        | None \<Rightarrow>
          if or_zero (m_references m) \<noteq> 0 then s
          else if m_report_delivery_error m = Some False \<or> m_type m \<le> MAX_MULTIPLEXER_META_PACKET then s
          else
            let error = default_delivery_error\<lparr>de_packet_id := or_zero (m_id m), de_failed_type := [peer_type s]\<rparr>;
                (mid, s) = random64 s;
                refusal = default_message\<lparr>m_id := Some mid, m_sender := Some (instance_id s),
                  m_type := DELIVERY_ERROR, m_to := m_sender m, m_references := Some (or_zero (m_id m)),
                  m_workflow := m_workflow m, m_message := Some (delivery_error_encode (env s) error)\<rparr>
            in case query_frame s refusal mid of
                 None \<Rightarrow> s
               | Some f \<Rightarrow>
                 let (lane, s) = seeded_lane (in_connection incoming) False s;
                     (_, _, _, s) = send f False (Some lane) (Some DEFAULT_TIMEOUT) 0 False False None False s
                 in s)"

definition next_incoming_message :: "core \<Rightarrow> incoming option \<times> core" where
  "next_incoming_message s =
    (case cl_incoming (client s) of
       [] \<Rightarrow> (None, s)
     | incoming # rest \<Rightarrow> (Some incoming, s\<lparr>client := (client s)\<lparr>cl_incoming := rest,
         cl_dequeued := cl_dequeued (client s) + 1\<rparr>\<rparr>))"

text \<open>Refusing queues nothing for a receive, so that one turn for each message queued empties the queue.\<close>

definition refuse_unread :: "core \<Rightarrow> core" where
  "refuse_unread s =
    fold (\<lambda>_ s. case next_incoming_message s of (None, s) \<Rightarrow> s | (Some incoming, s) \<Rightarrow> refuse_incoming incoming s)
      (cl_incoming (client s)) s"

section \<open>Handing out\<close>

definition enqueue :: "incoming \<Rightarrow> core \<Rightarrow> core" where
  "enqueue incoming s = s\<lparr>client := (client s)\<lparr>cl_incoming := cl_incoming (client s) @ [incoming],
     cl_enqueued := cl_enqueued (client s) + 1\<rparr>\<rparr>"

definition incoming_full :: "core \<Rightarrow> bool" where
  "incoming_full s \<longleftrightarrow> length (cl_incoming (client s)) \<ge> cl_incoming_max (client s)"

text \<open>\<open>n\<close> messages that a full queue drops, told by one line; the id last seen is not seen after all.\<close>

definition drop_incoming :: "nat \<Rightarrow> string \<Rightarrow> core \<Rightarrow> core" where
  "drop_incoming n what s =
    say_drop IncomingQueueFull 0 0 ''incoming_queue_full, dropping'' (''incoming_queue_full, dropping '' @ what)
      (s\<lparr>client := (client s)\<lparr>cl_last_seen := forget_last (cl_last_seen (client s)),
          cl_incoming_dropped := cl_incoming_dropped (client s) + n\<rparr>\<rparr>)"

text \<open>A message of a batch, handed out as one that came alone.\<close>

definition hand_out :: "incoming \<Rightarrow> core \<Rightarrow> core" where
  "hand_out incoming s =
    (case cl_mode (client s) of
       DispatchMode \<Rightarrow> dispatch_incoming incoming s
     | QueueMode \<Rightarrow> (case query_takes incoming s of
         (None, s) \<Rightarrow> s
       | (Some incoming, s) \<Rightarrow> if cl_refusing (client s) then refuse_incoming incoming s else enqueue incoming s))"

section \<open>Batches\<close>

text \<open>The pairs left from the one the next number is in, and how many numbers of it went.\<close>

fun skip_pairs :: "nat list \<Rightarrow> nat \<Rightarrow> nat list \<times> nat" where
  "skip_pairs (first # n # rest) went = (if went \<ge> n then skip_pairs rest 0 else (first # n # rest, went))"
| "skip_pairs pairs went = (pairs, went)"

definition take_pair :: "nat list \<Rightarrow> nat \<Rightarrow> nat \<times> nat list \<times> nat" where
  "take_pair pairs went =
    (case skip_pairs pairs went of
       (first # n # rest, went) \<Rightarrow> ((first + went) mod 2 ^ 64, first # n # rest, went + 1)
     | (pairs, went) \<Rightarrow> (0, pairs, went))"

definition batch_named :: "message \<Rightarrow> string" where
  "batch_named envelope = ''; batch id '' @ decimal (unat (or_zero (m_id envelope))) @ '', type ''
     @ decimal (unat (m_type envelope))"

text \<open>One message of a batch of the envelope's type and key, with its number, 0 for none.\<close>

definition split_one :: "message \<Rightarrow> wrapper \<Rightarrow> nat \<Rightarrow> bytes \<Rightarrow> core \<Rightarrow> core" where
  "split_one envelope w number body s =
    (let fits = (\<lambda>m. or_zero (m_id m) \<noteq> 0 \<and> plain_event m \<and> m_type m = m_type envelope \<and> m_key m = m_key envelope);
         txt = ''a message in a batch that arrived dropped: no plain event of the batch's type and key''
     in case message_decode (env s) body of
          Some m \<Rightarrow>
            if fits m then
              let m = m\<lparr>m_confirmation := (if number \<noteq> 0 then Some number else None)\<rparr>;
                  (unseen, seen) = (if number \<noteq> 0 then (True, cl_last_seen (client s))
                    else insert_value (or_zero (m_id m)) (cl_last_seen (client s)));
                  s = s\<lparr>client := (client s)\<lparr>cl_last_seen := seen\<rparr>\<rparr>
              in if unseen then hand_out \<lparr>in_message = m, in_connection = w\<rparr> s else s
            else confirm (or_zero (m_sender envelope)) number FailedOutcome (say_drop BatchNotSplit (m_type envelope) 1
              txt (txt @ batch_named envelope) s)
        | None \<Rightarrow> confirm (or_zero (m_sender envelope)) number FailedOutcome (say_drop BatchNotSplit (m_type envelope) 1
              txt (txt @ batch_named envelope) s))"

fun split_loop :: "message \<Rightarrow> wrapper \<Rightarrow> nat list \<Rightarrow> nat \<Rightarrow> bytes list \<Rightarrow> core \<Rightarrow> core" where
  "split_loop envelope w pairs went [] s = s"
| "split_loop envelope w pairs went (body # bodies) s =
    (let (number, pairs, went) = take_pair pairs went
     in split_loop envelope w pairs went bodies (split_one envelope w number body s))"

definition notify_when_read_drained :: "conn_id \<Rightarrow> core \<Rightarrow> core" where
  "notify_when_read_drained c s =
    (case conn_of s c of
       None \<Rightarrow> s
     | Some st \<Rightarrow>
       if c_notify_when_read_drained st then s
       else (put_conn c (st\<lparr>c_notify_when_read_drained := True\<rparr>) s)\<lparr>client := (client s)\<lparr>
              cl_read_drains_wanted := cl_read_drains_wanted (client s) + 1\<rparr>\<rparr>)"

definition split_batch :: "conn_id \<Rightarrow> message \<Rightarrow> core \<Rightarrow> core" where
  "split_batch c envelope s =
    (let mid = or_zero (m_id envelope);
         ty = m_type envelope;
         txt = ''a batch that arrived dropped: of a protocol type, not decoding, or of more than MAX_BATCH_RECORDS messages'';
         decoded = Option.bind (m_batch envelope) (batch_decode (env s))
     in case (if ty > MAX_MULTIPLEXER_META_PACKET then decoded else None) of
       None \<Rightarrow> say_drop BatchNotSplit ty 0 txt (txt @ ''; id '' @ decimal (unat mid) @ '', type '' @ decimal (unat ty)) s
     | Some bodies \<Rightarrow>
       if length bodies > MAX_BATCH_RECORDS
       then say_drop BatchNotSplit ty 0 txt (txt @ ''; id '' @ decimal (unat mid) @ '', type '' @ decimal (unat ty)) s
       else if cl_mode (client s) = QueueMode \<and> \<not> cl_refusing (client s) \<and> incoming_full s
       then drop_incoming (length bodies)
         (''a batch of '' @ decimal (length bodies) @ '', #'' @ decimal (unat mid)) s
       else
         let s = s\<lparr>client := (client s)\<lparr>cl_frames_handled := cl_frames_handled (client s) + (length bodies - 1)\<rparr>\<rparr>;
             confirmed = (length (m_confirm envelope) \<ge> 2);
             s = (if confirmed then confirmed_batch_from c (or_zero (m_sender envelope)) s else s);
             (w, s) = wrap c s;
             s = split_loop envelope w (if confirmed then m_confirm envelope else []) 0 bodies s
         in if confirmed \<and> hands_out_as_it_comes s then notify_when_read_drained c s else s)"

definition read_drained :: "core \<Rightarrow> core" where
  "read_drained s = (if hands_out_as_it_comes s \<and> \<not> cl_shuts_down (client s) then send_confirmations s else s)"

section \<open>Delivery errors\<close>

text \<open>The delivery error of one message of the batch \<open>report\<close> is about.\<close>

definition tell_error :: "message \<Rightarrow> delivery_error \<Rightarrow> wrapper \<Rightarrow> bytes \<Rightarrow> core \<Rightarrow> core" where
  "tell_error error report w body s =
    (case message_decode (env s) body of
       None \<Rightarrow> s
     | Some m \<Rightarrow>
       if or_zero (m_id m) = 0 then s
       else
         let each = report\<lparr>de_packet_id := or_zero (m_id m), de_original_message := Some m\<rparr>;
             (mid, s) = random64 s
         in hand_out \<lparr>in_message = default_message\<lparr>m_id := Some mid, m_sender := m_sender error, m_to := m_to error,
              m_report_delivery_error := Some False, m_type := DELIVERY_ERROR,
              m_references := Some (or_zero (m_id m)), m_workflow := m_workflow m,
              m_message := Some (delivery_error_encode (env s) each)\<rparr>, in_connection = w\<rparr> s)"

definition split_delivery_error :: "conn_id \<Rightarrow> message \<Rightarrow> core \<Rightarrow> bool \<times> core" where
  "split_delivery_error c error s =
    (case Option.bind (m_message error) (delivery_error_decode (env s)) of
       None \<Rightarrow> (False, s)
     | Some report \<Rightarrow>
       (case Option.bind (Option.bind (de_original_message report) m_batch) (batch_decode (env s)) of
          None \<Rightarrow> (False, s)
        | Some bodies \<Rightarrow>
          if length bodies > MAX_BATCH_RECORDS then (False, s)
          else if cl_mode (client s) = QueueMode \<and> \<not> cl_refusing (client s) \<and> incoming_full s
          then (True, drop_incoming (length bodies) (''the delivery errors of a batch of '' @ decimal (length bodies)
            @ '', #'' @ decimal (unat (or_zero (m_id error)))) s)
          else
            let s = s\<lparr>client := (client s)\<lparr>cl_frames_handled := cl_frames_handled (client s) + (length bodies - 1)\<rparr>\<rparr>;
                (w, s) = wrap c s
            in (True, fold (tell_error error (report\<lparr>de_original_message := None\<rparr>) w) bodies s)))"

section \<open>Frames\<close>

definition handle_message :: "conn_id \<Rightarrow> message \<Rightarrow> core \<Rightarrow> core" where
  "handle_message c m s =
    (let s = s\<lparr>client := (client s)\<lparr>cl_frames_handled := cl_frames_handled (client s) + 1\<rparr>\<rparr>;
         mid = or_zero (m_id m)
     in if m_type m = PEER_STATUS then on_peer_status c m s
        else if mid = 0 then s
        else if m_type m = CONFIRMATION then on_confirmation m s
        else
          let (unseen, seen) = insert_value mid (cl_last_seen (client s));
              s = s\<lparr>client := (client s)\<lparr>cl_last_seen := seen\<rparr>\<rparr>
          in if \<not> unseen then s
             else if m_batch m \<noteq> None then split_batch c m s
             else
               let references = or_zero (m_references m);
                   (over, s) = (if m_type m \<noteq> DELIVERY_ERROR then (False, s)
                     else
                       let (taken, s) = (if references \<noteq> 0 then confirmed_batch_not_taken references s else (False, s))
                       in if taken then (True, s) else split_delivery_error c m s)
               in if over then s
                  else
                    let (w, s) = wrap c s;
                        incoming = \<lparr>in_message = m\<lparr>m_confirmation := None\<rparr>, in_connection = w\<rparr>
                    in case cl_mode (client s) of
                         DispatchMode \<Rightarrow> dispatch_incoming incoming s
                       | QueueMode \<Rightarrow> (case query_takes incoming s of
                           (None, s) \<Rightarrow> s
                         | (Some incoming, s) \<Rightarrow>
                           if cl_refusing (client s) then refuse_incoming incoming s
                           else if incoming_full s then drop_incoming 1 (''#'' @ decimal (unat mid)) s
                           else enqueue incoming s))"

definition answers_this_peer :: "message \<Rightarrow> bool" where
  "answers_this_peer m \<longleftrightarrow>
     m_type m \<in> {DELIVERY_ERROR, REQUEST_RECEIVED, BACKEND_ERROR, RECORDING_STATUS, RULES_STATUS, PEER_STATUS}
     \<or> m_type m = PING \<and> or_zero (m_references m) \<noteq> 0"

definition on_frame :: "conn_id \<Rightarrow> bytes \<Rightarrow> core \<Rightarrow> core" where
  "on_frame c body s =
    (case conn_of s c of
       None \<Rightarrow> s
     | Some st \<Rightarrow>
       if \<not> c_reading st \<or> c_shuts_down st then s
       else
         let s = require_heartbit_later c s
         in if \<not> c_delivering st then
              (case message_decode (env s) body of
                 None \<Rightarrow> s
               | Some m \<Rightarrow>
                 if m_type m \<noteq> HEARTBIT \<and> \<not> answers_this_peer m then
                   (case conn_of s c of
                      None \<Rightarrow> s
                    | Some st \<Rightarrow> put_conn c (st\<lparr>c_dropped_while_closing := c_dropped_while_closing st + 1\<rparr>) s)
                 else s)
            else case message_decode (env s) body of
              None \<Rightarrow> shutdown_connection c s
            | Some m \<Rightarrow>
              let (internal, s) = receive_internal_message c m s
              in if internal then s
                 else if \<not> (case conn_of s c of None \<Rightarrow> False | Some st \<Rightarrow> c_registered st) then shutdown_connection c s
                 else handle_message c m s)"

definition on_read_drained :: "conn_id \<Rightarrow> core \<Rightarrow> core" where
  "on_read_drained c s =
    (if cl_read_drains_wanted (client s) = 0 then s
     else case conn_of s c of
       None \<Rightarrow> s
     | Some st \<Rightarrow>
       if \<not> c_reading st \<or> c_shuts_down st then s
       else if \<not> c_notify_when_read_drained st then s
       else
         let s = put_conn c (st\<lparr>c_notify_when_read_drained := False\<rparr>) s
         in read_drained (s\<lparr>client := (client s)\<lparr>cl_read_drains_wanted := cl_read_drains_wanted (client s) - 1\<rparr>\<rparr>))"

section \<open>The client's settings\<close>

definition wrap_or_gone :: "conn_id \<Rightarrow> target \<Rightarrow> core \<Rightarrow> wrapper \<times> core" where
  "wrap_or_gone c t s =
    (if hm_contains (conns s) c then wrap c s
     else (\<lparr>wr_conn = Some c, wr_target = t, wr_endpoint = None, wr_living = None, wr_owner = instance_id s,
            wr_generation = fork_generation (env s)\<rparr>, s))"

definition set_drop_observer :: "callback option \<Rightarrow> core \<Rightarrow> core" where
  "set_drop_observer observer s = s\<lparr>client := (client s)\<lparr>cl_drop_observer := observer\<rparr>\<rparr>"

end
