(* ===== verification/Core_Run.thy ===== *)
theory Core_Run
  imports Receive
begin

text \<open>
  The core's dispatch (\<open>core/mod.rs\<close>): the timer due, the posted work, and the commands that the threaded
  client and its server post (\<open>threaded_client.rs\<close>, \<open>servers/threaded.rs\<close>).
\<close>

text \<open>A command that only reads the core changes nothing and is not here.\<close>

definition run_command :: "command \<Rightarrow> core \<Rightarrow> core" where
  "run_command cmd s =
    (case cmd of
       CmdConnect host port timeout done \<Rightarrow> start_connect host port timeout done s
     | CmdConnectAll targets timeout \<Rightarrow> fold (\<lambda>(host, port, done). start_connect host port timeout done) targets s
     | CmdDisconnect host port \<Rightarrow> snd (disconnect host port s)
     | CmdQuery prototype timeout lane done received \<Rightarrow> snd (start_query prototype timeout lane done received s)
     | CmdSend f all lane deadline wait settled \<Rightarrow> place_send f all lane deadline wait settled s
     | CmdFlushAll timeout done \<Rightarrow> begin_flush_all timeout done s
     | CmdSetRouting r cb \<Rightarrow> if th_shut_down (threaded s) then s else set_routing r cb s
     | CmdSetKeyFilters filters cb \<Rightarrow> if th_shut_down (threaded s) then s else snd (set_key_filters filters cb s)
     | CmdSetDelivery ty key d \<Rightarrow> if th_shut_down (threaded s) then s else snd (set_delivery ty key d s)
     | CmdClearDelivery ty key \<Rightarrow> if th_shut_down (threaded s) then s else clear_delivery ty key s
     | CmdRegisterInbox sid \<Rightarrow> register_inbox sid s
     | CmdRegisterSubscription ty sid \<Rightarrow> register_subscription ty sid s
     | CmdForgetFinishedIds \<Rightarrow> forget_finished_ids s
     | CmdRequestDropped mid ty \<Rightarrow> say_drop RequestsQueueFull 0 0 ''requests dropped: queue full''
         (''request #'' @ decimal (unat mid) @ '' of type '' @ decimal (unat ty) @ '' dropped: queue full'') s
     | CmdShutdown timeout \<Rightarrow> begin_shutdown timeout s)"

definition run_posted :: "posted \<Rightarrow> core \<Rightarrow> core" where
  "run_posted p s =
    (case p of
       ConnectFailed c why \<Rightarrow> connected c (Inl why) s
     | ProcessCallbacks \<Rightarrow> process_callbacks (s\<lparr>ends := (ends s)\<lparr>oe_callbacks_posted := False\<rparr>\<rparr>)
     | Fill \<Rightarrow> fill s
     | FollowHandover k generation request \<Rightarrow> followed_handover k generation request s
     | WriteOutStep \<Rightarrow> write_out_step s
     | Command cmd \<Rightarrow> run_command cmd s
     | PostedPlain p deadline \<Rightarrow> place_plain p deadline s
     | SendConfirmations \<Rightarrow> send_confirmations_posted s)"

definition run_due :: "due \<Rightarrow> core \<Rightarrow> core" where
  "run_due d s =
    (case d of
       SendHeartbit c \<Rightarrow> send_heartbit_now c s
     | RequireHeartbitSoon c \<Rightarrow> require_heartbit_soon c s
     | RequireHeartbitNow c \<Rightarrow> require_heartbit_now c s
     | ReadToTheEnd c \<Rightarrow> read_to_the_end_bound c s
     | ConnectDeadline c \<Rightarrow> connect_deadline c s
     | Reconnect n \<Rightarrow> reconnect_after_timeout n s
     | OutboxExpiry \<Rightarrow> expire s
     | LogSummary \<Rightarrow> log_summary_tick s
     | Query k generation \<Rightarrow> query_deadline k generation s
     | ConnectWait n \<Rightarrow> connect_wait_expired n s
     | FlushWait n \<Rightarrow> flush_wait_expired n s
     | SendsExpire \<Rightarrow> sends_expire s
     | Drain \<Rightarrow> drain_expired s
     | Batches \<Rightarrow> batch_timer_fired s
     | Confirmations \<Rightarrow> confirm_timer_fired s)"

definition run_one_timer :: "core \<Rightarrow> bool \<times> core" where
  "run_one_timer s =
    (let (taken, t) = take_due (now s) (timers s);
         s = s\<lparr>timers := t\<rparr>
     in case taken of None \<Rightarrow> (False, s) | Some (_, d) \<Rightarrow> (True, run_due d s))"

definition has_work :: "core \<Rightarrow> bool" where
  "has_work s \<longleftrightarrow> posted s \<noteq> [] \<or> any_armed (timers s)"

text \<open>The io thread's word to the other threads that the shutdown's end came, at the start of a turn.\<close>

definition io_turn :: "core \<Rightarrow> core" where
  "io_turn s = (if th_torn_down (threaded s) then s\<lparr>threaded := (threaded s)\<lparr>th_torn_down_shared := True\<rparr>\<rparr> else s)"

end
