(* ===== verification/Inbox_Threads.thy ===== *)
theory Inbox_Threads
  imports Inbox
begin

text \<open>
  The threads at the inbox (\<open>inbox.rs\<close>, \<open>Driver::sleep\<close> of \<open>driver.rs\<close>), one access to the shared state per
  step: any number of senders, each in \<open>push\<close>, \<open>push_plain\<close> or \<open>push_confirmation\<close>, and the io thread, in \<open>take\<close>,
  \<open>take_confirmations\<close>, or asleep.  The accesses to the flags are sequentially consistent in the source, so
  that an execution is an interleaving of them; what the lock guards changes only while it is held.
\<close>

section \<open>Threads\<close>

datatype sender_pc = Idle | Appended | Stored | SawAsleep | MustWake

datatype io_pc = Running | Takes bodies | TakesConfirmations | SaidAsleep | TakesBack | Sleeping | Woken

text \<open>\<open>th_token\<close> is the waker's event, waiting for the poll that takes it.  What was pushed and taken so far,
  how often the io thread said it would sleep, and how often a sender was told to wake it, are kept to
  state the properties.\<close>

record io_threads =
  box :: inbox
  holder :: "nat option"
  senders :: "nat \<Rightarrow> sender_pc"
  io :: io_pc
  token :: bool
  pushed :: "posted list"
  pushed_confirmations :: "handed_confirmation list"
  taken :: "posted list"
  taken_confirmations :: "handed_confirmation list"
  naps :: nat
  claims :: nat

definition new_io_threads :: io_threads where
  "new_io_threads = \<lparr>box = new_inbox, holder = None, senders = (\<lambda>_. Idle), io = Running, token = False,
     pushed = [], pushed_confirmations = [], taken = [], taken_confirmations = [], naps = 0, claims = 0\<rparr>"

abbreviation goes :: "io_threads \<Rightarrow> nat \<Rightarrow> sender_pc \<Rightarrow> nat \<Rightarrow> sender_pc" where
  "goes t i pc \<equiv> (senders t)(i := pc)"

section \<open>Steps\<close>

inductive thread_step :: "io_threads \<Rightarrow> io_threads \<Rightarrow> bool" where
  append_posted: "senders t i = Idle \<Longrightarrow> holder t = None \<Longrightarrow>
    thread_step t (t\<lparr>senders := goes t i Appended, holder := Some i, box := add_posted p (box t),
      pushed := pushed t @ [p]\<rparr>)"
| append_confirmation: "senders t i = Idle \<Longrightarrow> holder t = None \<Longrightarrow>
    thread_step t (t\<lparr>senders := goes t i Appended, holder := Some i, box := add_confirmation c (box t),
      pushed_confirmations := pushed_confirmations t @ [c]\<rparr>)"
| store_pending: "senders t i = Appended \<Longrightarrow>
    thread_step t (t\<lparr>senders := goes t i Stored, holder := None, box := set_pending True (box t)\<rparr>)"
| store_pending_plain: "senders t i = Appended \<Longrightarrow>
    thread_step t (t\<lparr>senders := goes t i Stored, holder := None,
      box := (set_pending True (box t))\<lparr>ib_returned := snd (take_body (ib_returned (box t)))\<rparr>\<rparr>)"
| load_asleep: "senders t i = Stored \<Longrightarrow>
    thread_step t (t\<lparr>senders := goes t i (if ib_asleep (box t) then SawAsleep else Idle)\<rparr>)"
| swap_asleep: "senders t i = SawAsleep \<Longrightarrow>
    thread_step t (t\<lparr>senders := goes t i (if ib_asleep (box t) then MustWake else Idle),
      box := set_asleep False (box t), claims := claims t + (if ib_asleep (box t) then 1 else 0)\<rparr>)"
| wake: "senders t i = MustWake \<Longrightarrow> thread_step t (t\<lparr>senders := goes t i Idle, token := True\<rparr>)"
| take_load: "io t = Running \<Longrightarrow> ib_pending (box t) \<or> bs_kept spent \<noteq> [] \<Longrightarrow> thread_step t (t\<lparr>io := Takes spent\<rparr>)"
| take_swap: "io t = Takes spent \<Longrightarrow> holder t = None \<Longrightarrow>
    swap_out spent (set_pending False (box t)) = ((ps, cs, left), ib) \<Longrightarrow>
    thread_step t (t\<lparr>io := Running, box := ib, taken := taken t @ ps,
      taken_confirmations := taken_confirmations t @ cs\<rparr>)"
| confirmations_load: "io t = Running \<Longrightarrow> ib_pending (box t) \<Longrightarrow> thread_step t (t\<lparr>io := TakesConfirmations\<rparr>)"
| confirmations_swap: "io t = TakesConfirmations \<Longrightarrow> holder t = None \<Longrightarrow>
    thread_step t (t\<lparr>io := Running, box := (box t)\<lparr>ib_confirmations := []\<rparr>,
      taken_confirmations := taken_confirmations t @ ib_confirmations (box t)\<rparr>)"
| say_asleep: "io t = Running \<Longrightarrow>
    thread_step t (t\<lparr>io := SaidAsleep, box := set_asleep True (box t), naps := naps t + 1\<rparr>)"
| load_pending: "io t = SaidAsleep \<Longrightarrow>
    thread_step t (t\<lparr>io := (if ib_pending (box t) then TakesBack else Sleeping)\<rparr>)"
| take_back: "io t = TakesBack \<Longrightarrow> thread_step t (t\<lparr>io := Running, box := set_asleep False (box t)\<rparr>)"
| poll_now: "io t = Running \<Longrightarrow> thread_step t (t\<lparr>token := False\<rparr>)"
| poll_returns: "io t = Sleeping \<Longrightarrow> thread_step t (t\<lparr>io := Woken, token := False\<rparr>)"
| wakes_up: "io t = Woken \<Longrightarrow> thread_step t (t\<lparr>io := Running, box := wake_up (box t)\<rparr>)"

inductive thread_reach :: "io_threads \<Rightarrow> bool" where
  thread_start: "thread_reach new_io_threads"
| thread_more: "thread_reach t \<Longrightarrow> thread_step t t' \<Longrightarrow> thread_reach t'"

section \<open>What holds at every moment\<close>

definition queued_in :: "inbox \<Rightarrow> bool" where
  "queued_in ib \<longleftrightarrow> ib_posted ib \<noteq> [] \<or> ib_confirmations ib \<noteq> []"

text \<open>The lock's holder is the sender between its two accesses under it, and what is queued is announced.\<close>

definition announced :: "io_threads \<Rightarrow> bool" where
  "announced t \<longleftrightarrow> (\<forall>i. senders t i = Appended \<longleftrightarrow> holder t = Some i)
     \<and> (queued_in (box t) \<longrightarrow> ib_pending (box t) \<or> holder t \<noteq> None)"

text \<open>While the io thread sleeps, a wake is there or on its way for what was announced meanwhile.\<close>

definition wake_coming :: "io_threads \<Rightarrow> bool" where
  "wake_coming t \<longleftrightarrow>
     ((io t = SaidAsleep \<or> io t = Sleeping) \<and> \<not> ib_asleep (box t) \<longrightarrow> token t \<or> (\<exists>i. senders t i = MustWake))
     \<and> (io t = Sleeping \<and> ib_asleep (box t) \<and> ib_pending (box t)
          \<longrightarrow> (\<exists>i. senders t i = Stored \<or> senders t i = SawAsleep))"

definition in_order :: "io_threads \<Rightarrow> bool" where
  "in_order t \<longleftrightarrow> pushed t = taken t @ ib_posted (box t)
     \<and> pushed_confirmations t = taken_confirmations t @ ib_confirmations (box t)"

definition one_claim :: "io_threads \<Rightarrow> bool" where
  "one_claim t \<longleftrightarrow> claims t + (if ib_asleep (box t) then 1 else 0) \<le> naps t"

lemmas inbox_defs = add_posted_def add_confirmation_def set_pending_def set_asleep_def wake_up_def
  queued_in_def

lemma swap_out_fields:
  assumes "swap_out spent ib = ((p, c, left), ib')"
  shows "p = ib_posted ib" and "c = ib_confirmations ib" and "ib_posted ib' = []" and "ib_confirmations ib' = []"
    and "ib_pending ib' = ib_pending ib" and "ib_asleep ib' = ib_asleep ib"
  using assms by (auto simp: swap_out_def Let_def split: prod.splits)

lemma not_holder:
  assumes "\<forall>i. senders t i = Appended \<longleftrightarrow> holder t = Some i" and "senders t i \<noteq> Appended"
  shows "holder t \<noteq> Some i"
  using assms by simp

lemma announced_step: "thread_step t t' \<Longrightarrow> announced t \<Longrightarrow> announced t'"
proof (induction rule: thread_step.induct)
  case (take_swap t spent ps cs left ib)
  then show ?case using swap_out_fields[OF take_swap(3)] by (simp add: announced_def inbox_defs)
next
  case (load_asleep t i)
  then show ?case using not_holder[of t i] by (auto simp: announced_def inbox_defs)
next
  case (swap_asleep t i)
  then show ?case using not_holder[of t i] by (auto simp: announced_def inbox_defs)
next
  case (wake t i)
  then show ?case using not_holder[of t i] by (auto simp: announced_def inbox_defs)
qed (auto simp: announced_def inbox_defs)

lemma in_order_step: "thread_step t t' \<Longrightarrow> in_order t \<Longrightarrow> in_order t'"
proof (induction rule: thread_step.induct)
  case (take_swap t spent ps cs left ib)
  then show ?case using swap_out_fields[OF take_swap(3)] by (simp add: in_order_def inbox_defs)
qed (auto simp: in_order_def inbox_defs)

lemma one_claim_step: "thread_step t t' \<Longrightarrow> one_claim t \<Longrightarrow> one_claim t'"
proof (induction rule: thread_step.induct)
  case (take_swap t spent ps cs left ib)
  then show ?case using swap_out_fields[OF take_swap(3)] by (simp add: one_claim_def inbox_defs)
qed (auto simp: one_claim_def inbox_defs split: if_splits)

lemma wake_coming_step: "thread_step t t' \<Longrightarrow> wake_coming t \<Longrightarrow> wake_coming t'"
proof (induction rule: thread_step.induct)
  case (append_posted t i p)
  then show ?case by (simp add: wake_coming_def inbox_defs) (metis sender_pc.distinct)
next
  case (append_confirmation t i c)
  then show ?case by (simp add: wake_coming_def inbox_defs) (metis sender_pc.distinct)
next
  case (store_pending t i)
  then show ?case by (simp add: wake_coming_def inbox_defs) (metis sender_pc.distinct)
next
  case (store_pending_plain t i)
  then show ?case by (simp add: wake_coming_def inbox_defs) (metis sender_pc.distinct)
next
  case (load_asleep t i)
  then show ?case by (simp add: wake_coming_def inbox_defs) (metis sender_pc.distinct)
next
  case (swap_asleep t i)
  then show ?case by (simp add: wake_coming_def inbox_defs) (metis sender_pc.distinct)
next
  case (wake t i)
  then show ?case by (simp add: wake_coming_def inbox_defs) (metis sender_pc.distinct)
qed (auto simp: wake_coming_def inbox_defs)

lemma inbox_reach:
  assumes "thread_reach t"
  shows "announced t" and "in_order t" and "one_claim t" and "wake_coming t"
proof -
  have "announced t \<and> in_order t \<and> one_claim t \<and> wake_coming t"
    using assms
  proof (induction rule: thread_reach.induct)
    case thread_start
    show ?case by (simp add: announced_def in_order_def one_claim_def wake_coming_def new_io_threads_def
          new_inbox_def queued_in_def)
  next
    case (thread_more t t')
    then show ?case using announced_step in_order_step one_claim_step wake_coming_step by blast
  qed
  then show "announced t" and "in_order t" and "one_claim t" and "wake_coming t" by simp_all
qed

text \<open>A run for the witnesses: the io thread falls asleep, a sender pushes, sees it asleep and wakes it.\<close>

definition woken_sleeper :: io_threads where
  "woken_sleeper = new_io_threads\<lparr>io := Sleeping, token := True, naps := 1, claims := 1, pushed := [Fill],
     box := new_inbox\<lparr>ib_posted := [Fill], ib_pending := True\<rparr>\<rparr>"

lemma woken_sleeper_reach: "thread_reach woken_sleeper"
proof -
  let ?at = "\<lambda>i tok pc b. new_io_threads\<lparr>io := i, token := tok, senders := (\<lambda>_. Idle)(0 := pc), box := b\<rparr>"
  let ?b = "new_inbox\<lparr>ib_asleep := True\<rparr>"
  let ?q = "?b\<lparr>ib_posted := [Fill]\<rparr>"
  let ?p = "?q\<lparr>ib_pending := True\<rparr>"
  have "thread_reach (?at SaidAsleep False Idle ?b\<lparr>naps := 1\<rparr>)"
    using thread_more[OF thread_start say_asleep] by (simp add: new_io_threads_def set_asleep_def fun_upd_idem)
  from thread_more[OF this load_pending] have "thread_reach (?at Sleeping False Idle ?b\<lparr>naps := 1\<rparr>)"
    by (simp add: new_io_threads_def new_inbox_def)
  from thread_more[OF this append_posted[of _ 0 Fill]]
  have "thread_reach (?at Sleeping False Appended ?q\<lparr>naps := 1, pushed := [Fill], holder := Some 0\<rparr>)"
    by (simp add: new_io_threads_def add_posted_def new_inbox_def)
  from thread_more[OF this store_pending[of _ 0]]
  have "thread_reach (?at Sleeping False Stored ?p\<lparr>naps := 1, pushed := [Fill]\<rparr>)"
    by (simp add: new_io_threads_def set_pending_def)
  from thread_more[OF this load_asleep[of _ 0]]
  have "thread_reach (?at Sleeping False SawAsleep ?p\<lparr>naps := 1, pushed := [Fill]\<rparr>)"
    by (simp add: new_io_threads_def)
  from thread_more[OF this swap_asleep[of _ 0]]
  have "thread_reach (?at Sleeping False MustWake (?p\<lparr>ib_asleep := False\<rparr>)\<lparr>naps := 1, pushed := [Fill], claims := 1\<rparr>)"
    by (simp add: new_io_threads_def set_asleep_def)
  from thread_more[OF this wake[of _ 0]] show ?thesis
    by (simp add: new_io_threads_def woken_sleeper_def new_inbox_def fun_upd_idem)
qed

section \<open>Properties\<close>

text \<open>C8: no work is left waiting for an io thread that sleeps on: whenever it sleeps, no sender is inside a
  push and something is queued, the waker's event is there, so that the poll it sleeps in returns.\<close>

theorem no_lost_wake:
  assumes "thread_reach t" and "io t = Sleeping" and "\<forall>i. senders t i = Idle" and "queued_in (box t)"
  shows "token t"
proof -
  have "holder t = None"
    using inbox_reach(1)[OF assms(1)] assms(3) by (auto simp: announced_def)
  then have "ib_pending (box t)"
    using inbox_reach(1)[OF assms(1)] assms(4) by (simp add: announced_def)
  then show ?thesis
    using inbox_reach(4)[OF assms(1)] assms(2,3) by (simp add: wake_coming_def split: if_splits)
qed

theorem no_lost_wake_witness: "thread_reach woken_sleeper \<and> queued_in (box woken_sleeper) \<and> token woken_sleeper"
  using no_lost_wake[OF woken_sleeper_reach] woken_sleeper_reach
  by (simp add: woken_sleeper_def new_io_threads_def queued_in_def)

text \<open>C18: what senders push is taken whole, once and in the order of the pushes, the commands and the
  confirmations each in a queue of their own; and a sender is told to wake the io thread at most once for
  each time it said it would sleep.\<close>

theorem inbox_in_order:
  assumes "thread_reach t"
  shows "pushed t = taken t @ ib_posted (box t)
    \<and> pushed_confirmations t = taken_confirmations t @ ib_confirmations (box t) \<and> claims t \<le> naps t"
  using inbox_reach(2,3)[OF assms] by (auto simp: in_order_def one_claim_def)

theorem inbox_in_order_witness:
  "thread_reach woken_sleeper \<and> pushed woken_sleeper = taken woken_sleeper @ [Fill] \<and> claims woken_sleeper \<le> naps woken_sleeper"
  using inbox_in_order[OF woken_sleeper_reach] woken_sleeper_reach by (simp add: woken_sleeper_def)

end
