(* ===== verification/Posting.thy ===== *)
theory Posting
  imports Main
begin

text \<open>
  How other threads post to the io thread of a threaded client, and how a shutdown closes the door behind
  them (\<open>threaded_client.rs\<close>: \<open>Shared::post\<close>, which \<open>post_plain\<close> and \<open>confirm\<close> follow access by access,
  \<open>Posting::drop\<close> and \<open>Shared::shutdown\<close>).  One access to \<open>stopped\<close>, to \<open>posting\<close> or to the lock per step, all
  sequentially consistent in the source; what is pushed is an entry of the log, by who pushed it.
\<close>

section \<open>Threads\<close>

datatype post_pc =
    PIdle | PLooked | PCounted | PCleared | PLeaving | PLast | PNotify
  | SWon | SLocked | SWaiting | SWoken | SReady

datatype pushed_by = Outside nat | IoThread | ShutdownCommand

record shared =
  sh_stopped :: bool
  sh_posting :: nat
  sh_lifecycle :: "nat option"
  sh_pc :: "nat \<Rightarrow> post_pc"
  sh_log :: "pushed_by list"

definition new_shared :: shared where
  "new_shared = \<lparr>sh_stopped = False, sh_posting = 0, sh_lifecycle = None, sh_pc = (\<lambda>_. PIdle), sh_log = []\<rparr>"

abbreviation moves :: "shared \<Rightarrow> nat \<Rightarrow> post_pc \<Rightarrow> nat \<Rightarrow> post_pc" where
  "moves t i pc \<equiv> (sh_pc t)(i := pc)"

text \<open>The notify: every thread waiting on the condition is woken.\<close>

definition notify_all :: "(nat \<Rightarrow> post_pc) \<Rightarrow> nat \<Rightarrow> post_pc" where
  "notify_all pc i = (if pc i = SWaiting then SWoken else pc i)"

section \<open>Steps\<close>

text \<open>A post from another thread, its count's end at any way out included; one from the io thread itself,
  a callback's, only looks whether the teardown came, and pushes.\<close>

inductive post_step :: "shared \<Rightarrow> shared \<Rightarrow> bool" where
  post_look: "sh_pc t i = PIdle \<Longrightarrow> \<not> sh_stopped t \<Longrightarrow> post_step t (t\<lparr>sh_pc := moves t i PLooked\<rparr>)"
| post_count: "sh_pc t i = PLooked \<Longrightarrow>
    post_step t (t\<lparr>sh_pc := moves t i PCounted, sh_posting := sh_posting t + 1\<rparr>)"
| post_refused: "sh_pc t i = PCounted \<Longrightarrow> sh_stopped t \<Longrightarrow> post_step t (t\<lparr>sh_pc := moves t i PLeaving\<rparr>)"
| post_cleared: "sh_pc t i = PCounted \<Longrightarrow> \<not> sh_stopped t \<Longrightarrow> post_step t (t\<lparr>sh_pc := moves t i PCleared\<rparr>)"
| post_push: "sh_pc t i = PCleared \<Longrightarrow>
    post_step t (t\<lparr>sh_pc := moves t i PLeaving, sh_log := sh_log t @ [Outside i]\<rparr>)"
| post_uncount: "sh_pc t i = PLeaving \<Longrightarrow>
    post_step t (t\<lparr>sh_pc := moves t i (if sh_posting t = 1 then PLast else PIdle),
      sh_posting := sh_posting t - 1\<rparr>)"
| post_last_looks: "sh_pc t i = PLast \<Longrightarrow>
    post_step t (t\<lparr>sh_pc := moves t i (if sh_stopped t then PNotify else PIdle)\<rparr>)"
| post_notifies: "sh_pc t i = PNotify \<Longrightarrow> sh_lifecycle t = None \<Longrightarrow>
    post_step t (t\<lparr>sh_pc := notify_all (moves t i PIdle)\<rparr>)"
| post_on_io_thread: "post_step t (t\<lparr>sh_log := sh_log t @ [IoThread]\<rparr>)"

text \<open>A shutdown: the first caller wins, waits under the lock for the last post counted, and pushes the
  command.\<close>

inductive shutdown_step :: "shared \<Rightarrow> shared \<Rightarrow> bool" where
  shutdown_wins: "sh_pc t i = PIdle \<Longrightarrow> \<not> sh_stopped t \<Longrightarrow>
    shutdown_step t (t\<lparr>sh_stopped := True, sh_pc := moves t i SWon\<rparr>)"
| shutdown_locks: "sh_pc t i = SWon \<or> sh_pc t i = SWoken \<Longrightarrow> sh_lifecycle t = None \<Longrightarrow>
    shutdown_step t (t\<lparr>sh_pc := moves t i SLocked, sh_lifecycle := Some i\<rparr>)"
| shutdown_waits: "sh_pc t i = SLocked \<Longrightarrow> sh_posting t \<noteq> 0 \<Longrightarrow>
    shutdown_step t (t\<lparr>sh_pc := moves t i SWaiting, sh_lifecycle := None\<rparr>)"
| shutdown_wakes_alone: "sh_pc t i = SWaiting \<Longrightarrow> shutdown_step t (t\<lparr>sh_pc := moves t i SWoken\<rparr>)"
| shutdown_ready: "sh_pc t i = SLocked \<Longrightarrow> sh_posting t = 0 \<Longrightarrow>
    shutdown_step t (t\<lparr>sh_pc := moves t i SReady, sh_lifecycle := None\<rparr>)"
| shutdown_pushes: "sh_pc t i = SReady \<Longrightarrow>
    shutdown_step t (t\<lparr>sh_pc := moves t i PIdle, sh_log := sh_log t @ [ShutdownCommand]\<rparr>)"

inductive post_reach :: "shared \<Rightarrow> bool" where
  post_start: "post_reach new_shared"
| post_more: "post_reach t \<Longrightarrow> post_step t t' \<or> shutdown_step t t' \<Longrightarrow> post_reach t'"

section \<open>What holds at every moment\<close>

fun counted :: "post_pc \<Rightarrow> bool" where
  "counted PCounted = True" | "counted PCleared = True" | "counted PLeaving = True" | "counted _ = False"

fun shutting :: "post_pc \<Rightarrow> bool" where
  "shutting SWon = True" | "shutting SLocked = True" | "shutting SWaiting = True" | "shutting SWoken = True"
| "shutting SReady = True" | "shutting _ = False"

definition counts :: "(nat \<Rightarrow> post_pc) \<Rightarrow> nat \<Rightarrow> bool" where
  "counts pc n \<longleftrightarrow> finite {i. counted (pc i)} \<and> n = card {i. counted (pc i)}"

text \<open>One thread at most shuts down, ahead of its command.\<close>

definition one_winner :: "shared \<Rightarrow> bool" where
  "one_winner t \<longleftrightarrow>
     (\<forall>i. shutting (sh_pc t i) \<longrightarrow> sh_stopped t \<and> ShutdownCommand \<notin> set (sh_log t))
     \<and> (\<forall>i j. shutting (sh_pc t i) \<longrightarrow> shutting (sh_pc t j) \<longrightarrow> i = j)
     \<and> (ShutdownCommand \<in> set (sh_log t) \<longrightarrow> sh_stopped t)"

text \<open>Once it found nobody posting, nobody is about to push, and what is behind its command is the io
  thread's own.\<close>

definition behind :: "pushed_by list \<Rightarrow> pushed_by list" where
  "behind log = drop 1 (dropWhile (\<lambda>e. e \<noteq> ShutdownCommand) log)"

definition door_closed :: "shared \<Rightarrow> bool" where
  "door_closed t \<longleftrightarrow>
     ((\<exists>i. sh_pc t i = SReady) \<or> ShutdownCommand \<in> set (sh_log t) \<longrightarrow> (\<forall>j. sh_pc t j \<noteq> PCleared))
     \<and> set (behind (sh_log t)) \<subseteq> {IoThread}"

text \<open>A shutdown that waits has a post ahead of it that will tell it.\<close>

abbreviation teller :: "post_pc \<Rightarrow> bool" where
  "teller pc \<equiv> counted pc \<or> pc = PLast \<or> pc = PNotify"

definition told_later :: "shared \<Rightarrow> bool" where
  "told_later t \<longleftrightarrow> (\<forall>i. sh_pc t i = SWaiting \<longrightarrow>
     sh_stopped t \<and> (\<exists>j. teller (sh_pc t j)))"

lemma counted_update:
  "{j. counted ((pc(i := q)) j)} = (if counted q then insert i {j. counted (pc j)} else {j. counted (pc j)} - {i})"
  by auto

lemma counts_same: "counts pc n \<Longrightarrow> counted (pc i) = counted q \<Longrightarrow> counts (pc(i := q)) n"
  unfolding counts_def counted_update by (auto simp: insert_absorb)

lemma counts_up: "counts pc n \<Longrightarrow> \<not> counted (pc i) \<Longrightarrow> counted q \<Longrightarrow> counts (pc(i := q)) (Suc n)"
  unfolding counts_def counted_update by auto

lemma counts_down: "counts pc n \<Longrightarrow> counted (pc i) \<Longrightarrow> \<not> counted q \<Longrightarrow> counts (pc(i := q)) (n - Suc 0)"
  unfolding counts_def counted_update by auto

lemma counts_notify: "counts pc n \<Longrightarrow> counts (notify_all pc) n"
proof -
  have "counted (notify_all pc i) = counted (pc i)" for i
    by (simp add: notify_all_def)
  then show "counts pc n \<Longrightarrow> counts (notify_all pc) n" by (simp add: counts_def)
qed

lemma counts_zero: "counts pc 0 \<Longrightarrow> \<not> counted (pc i)"
  unfolding counts_def by auto

lemma counts_some: "counts pc n \<Longrightarrow> n \<noteq> 0 \<Longrightarrow> \<exists>i. counted (pc i)"
  unfolding counts_def by (metis (mono_tags) Collect_empty_eq card.empty)

lemmas counts_moves = counts_same counts_up counts_down counts_notify counts_down[where n = "Suc 0", simplified]

lemma counts_post: "post_step t t' \<Longrightarrow> counts (sh_pc t) (sh_posting t) \<Longrightarrow> counts (sh_pc t') (sh_posting t')"
  by (cases rule: post_step.cases, assumption) (simp_all add: counts_moves del: fun_upd_apply)

lemma counts_shutdown:
  "shutdown_step t t' \<Longrightarrow> counts (sh_pc t) (sh_posting t) \<Longrightarrow> counts (sh_pc t') (sh_posting t')"
  by (cases rule: shutdown_step.cases, assumption) (auto simp: counts_moves simp del: fun_upd_apply)

lemma behind_append: "behind (log @ [e]) = (if ShutdownCommand \<in> set log then behind log @ [e] else [])"
  by (induction log) (auto simp: behind_def)

lemma shutting_notify: "shutting (notify_all pc i) = shutting (pc i)"
  by (simp add: notify_all_def)

lemma one_winner_post: "post_step t t' \<Longrightarrow> one_winner t \<Longrightarrow> one_winner t'"
  by (cases rule: post_step.cases, assumption) (auto simp: one_winner_def shutting_notify)

lemma one_winner_shutdown: "shutdown_step t t' \<Longrightarrow> one_winner t \<Longrightarrow> one_winner t'"
  by (cases rule: shutdown_step.cases, assumption) (simp_all add: one_winner_def, (metis shutting.simps)+)

lemma notify_ready: "notify_all pc i = SReady \<longleftrightarrow> pc i = SReady" and notify_cleared: "notify_all pc i = PCleared \<longleftrightarrow> pc i = PCleared"
  by (simp_all add: notify_all_def)

lemma door_post:
  assumes "post_step t t'" and "one_winner t" and "door_closed t"
  shows "door_closed t'"
  using assms(1)
proof (cases rule: post_step.cases)
  case (post_cleared i)
  then have "sh_pc t j \<noteq> SReady" for j using assms(2) by (metis one_winner_def shutting.simps(5))
  then show ?thesis using assms(2,3) post_cleared by (auto simp: door_closed_def one_winner_def)
next
  case (post_push i)
  then show ?thesis using assms(2,3) by (auto simp: door_closed_def behind_append)
qed (use assms(3) in \<open>auto simp: door_closed_def behind_append notify_ready notify_cleared\<close>)

lemma door_shutdown:
  assumes "shutdown_step t t'" and "one_winner t" and "counts (sh_pc t) (sh_posting t)" and "door_closed t"
  shows "door_closed t'"
  using assms(1)
proof (cases rule: shutdown_step.cases)
  case (shutdown_ready i)
  then have "sh_pc t j \<noteq> PCleared" for j
    using counts_zero[of "sh_pc t" j] assms(3) by (metis counted.simps(2))
  then show ?thesis using assms(4) shutdown_ready by (auto simp: door_closed_def)
next
  case (shutdown_pushes i)
  then have "shutting (sh_pc t i)" by simp
  then have "ShutdownCommand \<notin> set (sh_log t)" using assms(2) by (auto simp: one_winner_def)
  then show ?thesis using assms(4) shutdown_pushes by (auto simp: door_closed_def behind_append)
qed (use assms(4) in \<open>auto simp: door_closed_def\<close>)

lemma told_move:
  assumes "told_later t" and "q \<noteq> SWaiting" and "teller (sh_pc t i) \<Longrightarrow> teller q"
    and "sh_pc t' = moves t i q" and "sh_stopped t \<Longrightarrow> sh_stopped t'"
  shows "told_later t'"
  using assms unfolding told_later_def by (metis fun_upd_apply)

lemma told_post:
  assumes "post_step t t'" and "counts (sh_pc t) (sh_posting t)" and "told_later t"
  shows "told_later t'"
  using assms(1)
proof (cases rule: post_step.cases)
  case (post_uncount i)
  show ?thesis
  proof (cases "sh_posting t = 1")
    case True
    then show ?thesis using told_move[OF assms(3), of PLast i t'] post_uncount by simp
  next
    case False
    have "counts (moves t i PIdle) (sh_posting t - Suc 0)"
      using counts_down[OF assms(2), of i PIdle] post_uncount(2) by simp
    moreover have "sh_posting t \<noteq> 0"
      using counts_zero[of "sh_pc t" i] assms(2) post_uncount(2) by (metis counted.simps(3))
    ultimately have "\<exists>j. counted (moves t i PIdle j)"
      using counts_some[of "moves t i PIdle" "sh_posting t - Suc 0"] False by simp
    then show ?thesis using assms(3) post_uncount False by (auto simp: told_later_def split: if_splits)
  qed
next
  case (post_last_looks i)
  show ?thesis
  proof (cases "sh_stopped t")
    case True
    then show ?thesis using told_move[OF assms(3), of PNotify i t'] post_last_looks by simp
  next
    case False
    then show ?thesis using assms(3) post_last_looks by (auto simp: told_later_def)
  qed
next
  case (post_notifies i)
  then show ?thesis by (simp add: told_later_def notify_all_def)
next
  case post_on_io_thread
  then show ?thesis using assms(3) by (simp add: told_later_def)
qed (rule told_move[OF assms(3)]; simp)+

lemma told_shutdown:
  assumes "shutdown_step t t'" and "one_winner t" and "counts (sh_pc t) (sh_posting t)" and "told_later t"
  shows "told_later t'"
  using assms(1)
proof (cases rule: shutdown_step.cases)
  case (shutdown_waits i)
  then obtain j where "counted (sh_pc t j)" using counts_some[OF assms(3)] by auto
  moreover from this have "j \<noteq> i" using shutdown_waits(2) by auto
  moreover have "sh_stopped t" using assms(2) shutdown_waits(2) by (metis one_winner_def shutting.simps(2))
  ultimately show ?thesis using shutdown_waits by (auto simp: told_later_def)
next
  case (shutdown_locks i)
  then show ?thesis using told_move[OF assms(4), of SLocked i t'] by auto
qed (rule told_move[OF assms(4)]; simp)+

lemma post_invariants:
  assumes "post_reach t"
  shows "door_closed t" and "told_later t"
proof -
  have "counts (sh_pc t) (sh_posting t) \<and> one_winner t \<and> door_closed t \<and> told_later t"
    using assms
  proof (induction rule: post_reach.induct)
    case post_start
    show ?case by (simp add: new_shared_def counts_def one_winner_def door_closed_def told_later_def behind_def)
  next
    case (post_more t t')
    then show ?case
      using counts_post counts_shutdown one_winner_post one_winner_shutdown door_post door_shutdown
        told_post told_shutdown by blast
  qed
  then show "door_closed t" and "told_later t" by simp_all
qed

text \<open>Runs for the witnesses: a post, then a shutdown, then a post of the io thread's; and a shutdown that
  waits for a post under way.\<close>

definition after_shutdown :: shared where
  "after_shutdown = new_shared\<lparr>sh_stopped := True, sh_log := [Outside 0, ShutdownCommand, IoThread]\<rparr>"


lemma pushed_once: "post_reach (new_shared\<lparr>sh_pc := (\<lambda>_. PIdle)(0 := PCleared), sh_posting := 1\<rparr>)"
proof -
  let ?at = "\<lambda>pc n. new_shared\<lparr>sh_pc := (\<lambda>_. PIdle)(0 := pc), sh_posting := n\<rparr>"
  have "post_reach (?at PLooked 0)"
    using post_more[OF post_start disjI1[OF post_look[of _ 0]]] by (simp add: new_shared_def)
  from post_more[OF this disjI1[OF post_count[of _ 0]]] have "post_reach (?at PCounted 1)" by (simp add: new_shared_def)
  from post_more[OF this disjI1[OF post_cleared[of _ 0]]] show ?thesis by (simp add: new_shared_def)
qed

lemma after_shutdown_reach: "post_reach after_shutdown"
proof -
  let ?at = "\<lambda>pc n log st. new_shared\<lparr>sh_pc := (\<lambda>_. PIdle)(0 := pc), sh_posting := n, sh_log := log, sh_stopped := st\<rparr>"
  have "post_reach (?at PLeaving 1 [Outside 0] False)"
    using post_more[OF pushed_once disjI1[OF post_push[of _ 0]]] by (simp add: new_shared_def)
  from post_more[OF this disjI1[OF post_uncount[of _ 0]]] have "post_reach (?at PLast 0 [Outside 0] False)"
    by (simp add: new_shared_def)
  from post_more[OF this disjI1[OF post_last_looks[of _ 0]]] have "post_reach (?at PIdle 0 [Outside 0] False)"
    by (simp add: new_shared_def)
  from post_more[OF this disjI2[OF shutdown_wins[of _ 0]]] have "post_reach (?at SWon 0 [Outside 0] True)"
    by (simp add: new_shared_def)
  from post_more[OF this disjI2[OF shutdown_locks[of _ 0]]]
  have "post_reach (?at SLocked 0 [Outside 0] True\<lparr>sh_lifecycle := Some 0\<rparr>)"
    by (simp add: new_shared_def)
  from post_more[OF this disjI2[OF shutdown_ready[of _ 0]]] have "post_reach (?at SReady 0 [Outside 0] True)"
    by (simp add: new_shared_def)
  from post_more[OF this disjI2[OF shutdown_pushes[of _ 0]]]
  have "post_reach (?at PIdle 0 [Outside 0, ShutdownCommand] True)"
    by (simp add: new_shared_def)
  from post_more[OF this disjI1[OF post_on_io_thread]] show ?thesis
    by (simp add: new_shared_def after_shutdown_def fun_upd_idem)
qed


section \<open>Properties\<close>

text \<open>C9: nothing another thread posts comes behind the shutdown's command in the inbox, and the command
  comes once: what follows it is only what the io thread's own callbacks post.\<close>

theorem nothing_behind_shutdown:
  assumes "post_reach t" and "sh_log t = before @ ShutdownCommand # after"
  shows "set after \<subseteq> {IoThread}"
proof -
  have "set after \<subseteq> set (behind (sh_log t))"
    unfolding assms(2) behind_def by (induction before) auto
  then show ?thesis using post_invariants(1)[OF assms(1)] by (auto simp: door_closed_def)
qed

theorem nothing_behind_shutdown_witness:
  "post_reach after_shutdown \<and> sh_log after_shutdown = [Outside 0] @ ShutdownCommand # [IoThread]
    \<and> set [IoThread] \<subseteq> {IoThread}"
  using nothing_behind_shutdown[OF after_shutdown_reach, of "[Outside 0]" "[IoThread]"] after_shutdown_reach
  by (simp add: after_shutdown_def)



end
