(* ===== verification/Pending.thy ===== *)
theory Pending
  imports Defaults
begin

text \<open>
  A result the io thread delivers later (\<open>pending.rs\<close>: \<open>Slot\<close>, \<open>Completer\<close>, \<open>Pending\<close>), waited for with \<open>wait()\<close>
  or awaited: what each function does under the slot's lock, and the two threads at it, one section under
  the lock per step.
\<close>

section \<open>Under the lock\<close>

record 'a slot =
  sl_result :: "(unit error + 'a) option"
  sl_waker :: "nat option"
  sl_blocked :: nat

definition new_slot :: "'a slot" where
  "new_slot = \<lparr>sl_result = None, sl_waker = None, sl_blocked = 0\<rparr>"

text \<open>The first result is kept; who is woken outside the lock: whether a thread blocks, and the task.\<close>

definition deliver :: "unit error + 'a \<Rightarrow> 'a slot \<Rightarrow> (bool \<times> nat option) \<times> 'a slot" where
  "deliver r sl =
    ((sl_blocked sl > 0, sl_waker sl),
     sl\<lparr>sl_result := (case sl_result sl of None \<Rightarrow> Some r | Some first \<Rightarrow> Some first), sl_waker := None\<rparr>)"

definition is_ready :: "'a slot \<Rightarrow> bool" where
  "is_ready sl \<longleftrightarrow> sl_result sl \<noteq> None"

text \<open>One turn of \<open>wait\<close>'s loop, up to the wait on the condition.\<close>

definition wait_look :: "'a slot \<Rightarrow> (unit error + 'a) option \<times> 'a slot" where
  "wait_look sl = (case sl_result sl of
     Some r \<Rightarrow> (Some r, sl\<lparr>sl_result := None\<rparr>)
   | None \<Rightarrow> (None, sl\<lparr>sl_blocked := sl_blocked sl + 1\<rparr>))"

definition poll :: "nat \<Rightarrow> 'a slot \<Rightarrow> (unit error + 'a) option \<times> 'a slot" where
  "poll waker sl = (case sl_result sl of
     Some r \<Rightarrow> (Some r, sl\<lparr>sl_result := None\<rparr>)
   | None \<Rightarrow> (None, sl\<lparr>sl_waker := Some waker\<rparr>))"

section \<open>The completer and the waiter\<close>

text \<open>A completer that is dropped unused delivers \<open>NotConnected\<close>; a \<open>Pending\<close> is waited for or awaited, by one
  owner, and a wait on the io thread itself is refused while nothing is there.\<close>

datatype completer_pc = Holds | Tells bool "nat option" | Gone

datatype 'a waiter_pc = Begins | Blocked | Resumed | Suspended | Polls | Has "unit error + 'a" | RefusedWait

record 'a slot_threads =
  st_slot :: "'a slot"
  st_completer :: completer_pc
  st_waiter :: "'a waiter_pc"
  st_on_io_thread :: bool
  st_delivered :: "(unit error + 'a) option"

definition new_slot_threads :: "bool \<Rightarrow> 'a slot_threads" where
  "new_slot_threads on_io = \<lparr>st_slot = new_slot, st_completer = Holds, st_waiter = Begins,
     st_on_io_thread = on_io, st_delivered = None\<rparr>"

text \<open>What the waiter does next with what a look gave it.\<close>

definition after_look :: "'a waiter_pc \<Rightarrow> (unit error + 'a) option \<times> 'a slot \<Rightarrow> 'a slot_threads \<Rightarrow> 'a slot_threads" where
  "after_look pc look t = t\<lparr>st_slot := snd look,
     st_waiter := (case fst look of Some r \<Rightarrow> Has r | None \<Rightarrow> pc)\<rparr>"

definition told :: "bool \<Rightarrow> nat option \<Rightarrow> 'a waiter_pc \<Rightarrow> 'a waiter_pc" where
  "told notify waker pc =
    (if notify \<and> pc = Blocked then Resumed else if waker \<noteq> None \<and> pc = Suspended then Polls else pc)"

inductive slot_step :: "'a slot_threads \<Rightarrow> 'a slot_threads \<Rightarrow> bool" where
  completes: "st_completer t = Holds \<Longrightarrow> deliver r (st_slot t) = ((notify, waker), sl) \<Longrightarrow>
    slot_step t (t\<lparr>st_slot := sl, st_completer := Tells notify waker, st_delivered := Some r\<rparr>)"
| drops: "st_completer t = Holds \<Longrightarrow> deliver (Inl NotConnected) (st_slot t) = ((notify, waker), sl) \<Longrightarrow>
    slot_step t (t\<lparr>st_slot := sl, st_completer := Tells notify waker, st_delivered := Some (Inl NotConnected)\<rparr>)"
| tells: "st_completer t = Tells notify waker \<Longrightarrow>
    slot_step t (t\<lparr>st_completer := Gone, st_waiter := told notify waker (st_waiter t)\<rparr>)"
| refused_wait: "st_waiter t = Begins \<Longrightarrow> st_on_io_thread t \<Longrightarrow> \<not> is_ready (st_slot t) \<Longrightarrow>
    slot_step t (t\<lparr>st_waiter := RefusedWait\<rparr>)"
| waits: "st_waiter t = Begins \<Longrightarrow> \<not> (st_on_io_thread t \<and> \<not> is_ready (st_slot t)) \<Longrightarrow>
    slot_step t (after_look Blocked (wait_look (st_slot t)) t)"
| waits_on: "st_waiter t = Resumed \<Longrightarrow>
    slot_step t (after_look Blocked (wait_look ((st_slot t)\<lparr>sl_blocked := sl_blocked (st_slot t) - 1\<rparr>)) t)"
| wakes_alone: "st_waiter t = Blocked \<Longrightarrow> slot_step t (t\<lparr>st_waiter := Resumed\<rparr>)"
| polls: "st_waiter t = Begins \<or> st_waiter t = Polls \<Longrightarrow>
    slot_step t (after_look Suspended (poll waker (st_slot t)) t)"
| polled_again: "st_waiter t = Suspended \<Longrightarrow> slot_step t (t\<lparr>st_waiter := Polls\<rparr>)"

inductive slot_reach :: "'a slot_threads \<Rightarrow> bool" where
  slot_start: "slot_reach (new_slot_threads on_io)"
| slot_more: "slot_reach t \<Longrightarrow> slot_step t t' \<Longrightarrow> slot_reach t'"

section \<open>What holds at every moment\<close>

definition slot_safe :: "'a slot_threads \<Rightarrow> bool" where
  "slot_safe t \<longleftrightarrow>
     (st_completer t = Holds \<longleftrightarrow> st_delivered t = None)
     \<and> (st_completer t = Holds \<longrightarrow> sl_result (st_slot t) = None \<and> (\<forall>r. st_waiter t \<noteq> Has r))
     \<and> (sl_result (st_slot t) = None \<or> sl_result (st_slot t) = st_delivered t)
     \<and> (\<forall>r. st_waiter t = Has r \<longrightarrow> st_delivered t = Some r)
     \<and> (st_delivered t = None \<or> sl_result (st_slot t) \<noteq> None \<or> (\<exists>r. st_waiter t = Has r))"

text \<open>Who blocks is counted, who is suspended left its waker, until the completer has told them.\<close>

definition slot_tells :: "'a slot_threads \<Rightarrow> bool" where
  "slot_tells t \<longleftrightarrow>
     (st_waiter t = Begins \<longrightarrow> sl_blocked (st_slot t) = 0)
     \<and> (st_waiter t = Blocked \<or> st_waiter t = Resumed \<longrightarrow> sl_blocked (st_slot t) = 1)
     \<and> (st_waiter t = Blocked \<longrightarrow> st_completer t = Holds \<or> (\<exists>w. st_completer t = Tells True w))
     \<and> (st_waiter t = Suspended \<longrightarrow> st_completer t = Holds \<and> sl_waker (st_slot t) \<noteq> None
          \<or> (\<exists>b w. st_completer t = Tells b (Some w)))"

lemmas slot_defs = deliver_def is_ready_def wait_look_def poll_def after_look_def told_def

lemma look_result:
  "fst (wait_look sl) = sl_result sl" "sl_result (snd (wait_look sl)) = None"
  "fst (poll w sl) = sl_result sl" "sl_result (snd (poll w sl)) = None"
  by (simp_all add: wait_look_def poll_def split: option.split)

lemma look_none:
  "sl_result sl = None \<Longrightarrow> sl_blocked (snd (wait_look sl)) = Suc (sl_blocked sl)"
  "sl_result sl = None \<Longrightarrow> sl_waker (snd (poll w sl)) = Some w"
  by (simp_all add: wait_look_def poll_def)

lemma deliver_fields:
  assumes "deliver r sl = ((notify, waker), sl')"
  shows "notify = (sl_blocked sl > 0)" and "waker = sl_waker sl" and "sl_blocked sl' = sl_blocked sl"
  using assms by (auto simp: deliver_def)

lemma slot_safe_look:
  assumes "slot_safe t" and "\<forall>r. st_waiter t \<noteq> Has r" and "\<forall>r. pc \<noteq> Has r"
    and "fst look = sl_result (st_slot t)" and "sl_result (snd look) = None"
  shows "slot_safe (after_look pc look t)"
  using assms by (cases "sl_result (st_slot t)") (auto simp: slot_safe_def after_look_def)

lemma slot_safe_step: "slot_step t t' \<Longrightarrow> slot_safe t \<Longrightarrow> slot_safe t'"
proof (induction rule: slot_step.induct)
  case (completes t r notify waker sl)
  then show ?case by (auto simp: slot_safe_def deliver_def)
next
  case (drops t notify waker sl)
  then show ?case by (auto simp: slot_safe_def deliver_def)
next
  case (waits t)
  then show ?case by (intro slot_safe_look) (simp_all add: look_result)
next
  case (waits_on t)
  then show ?case by (intro slot_safe_look) (simp_all add: look_result)
next
  case (polls t waker)
  from polls(1) have "\<forall>r. st_waiter t \<noteq> Has r" by auto
  then show ?case using polls(2) by (intro slot_safe_look) (simp_all add: look_result)
next
  case (tells t notify waker)
  then show ?case by (cases "st_waiter t") (auto simp: slot_safe_def told_def)
qed (simp_all add: slot_safe_def)

lemma slot_tells_look:
  assumes "slot_safe t" and "\<forall>r. st_waiter t \<noteq> Has r" and "fst look = sl_result (st_slot t)"
    and "sl_result (st_slot t) = None \<Longrightarrow>
      pc = Blocked \<and> sl_blocked (snd look) = 1 \<or> pc = Suspended \<and> sl_waker (snd look) \<noteq> None"
  shows "slot_tells (after_look pc look t)"
proof (cases "sl_result (st_slot t)")
  case None
  then have "st_completer t = Holds" using assms(1,2) by (auto simp: slot_safe_def)
  with assms(3) None assms(4)[OF None] show ?thesis by (elim disjE) (simp_all add: slot_tells_def after_look_def)
next
  case (Some r)
  then show ?thesis using assms(3) by (simp add: slot_tells_def after_look_def)
qed

lemma slot_tells_step:
  assumes "slot_step t t'" and "slot_safe t" and "slot_tells t"
  shows "slot_tells t'"
  using assms
proof (induction rule: slot_step.induct)
  case (completes t r notify waker sl)
  then show ?case using deliver_fields[OF completes(2)] by (simp add: slot_tells_def)
next
  case (drops t notify waker sl)
  then show ?case using deliver_fields[OF drops(2)] by (simp add: slot_tells_def)
next
  case (tells t notify waker)
  then show ?case by (cases "st_waiter t") (simp_all add: slot_tells_def told_def)
next
  case (waits t)
  then show ?case by (intro slot_tells_look) (simp_all add: look_result look_none slot_tells_def)
next
  case (waits_on t)
  then show ?case by (intro slot_tells_look) (simp_all add: look_result look_none slot_tells_def)
next
  case (polls t waker)
  from polls(1) have "\<forall>r. st_waiter t \<noteq> Has r" by auto
  then show ?case using polls(2) by (intro slot_tells_look) (simp_all add: look_result look_none)
qed (simp_all add: slot_tells_def)

lemma slot_reach_safe:
  assumes "slot_reach t"
  shows "slot_safe t" and "slot_tells t"
proof -
  have "slot_safe t \<and> slot_tells t"
    using assms
  proof (induction rule: slot_reach.induct)
    case (slot_start on_io)
    show ?case by (simp add: slot_safe_def slot_tells_def new_slot_threads_def new_slot_def)
  next
    case (slot_more t t')
    then show ?case using slot_safe_step slot_tells_step by blast
  qed
  then show "slot_safe t" and "slot_tells t" by simp_all
qed

text \<open>A run for the witness: the waiter blocks, the completer delivers and tells it.\<close>

definition told_waiter :: "nat slot_threads" where
  "told_waiter = \<lparr>st_slot = \<lparr>sl_result = Some (Inr 7), sl_waker = None, sl_blocked = 1\<rparr>, st_completer = Gone,
     st_waiter = Resumed, st_on_io_thread = False, st_delivered = Some (Inr 7)\<rparr>"

lemma told_waiter_reach: "slot_reach told_waiter"
proof -
  have "slot_reach (new_slot_threads False\<lparr>st_waiter := Blocked, st_slot := new_slot\<lparr>sl_blocked := 1\<rparr>\<rparr> :: nat slot_threads)"
    using slot_more[OF slot_start waits[of "new_slot_threads False"]]
    by (simp add: new_slot_threads_def new_slot_def wait_look_def after_look_def is_ready_def)
  from slot_more[OF this completes[of _ "Inr 7" True None]]
  have "slot_reach (new_slot_threads False\<lparr>st_waiter := Blocked, st_completer := Tells True None,
      st_slot := new_slot\<lparr>sl_blocked := 1, sl_result := Some (Inr 7)\<rparr>, st_delivered := Some (Inr 7)\<rparr> :: nat slot_threads)"
    by (simp add: new_slot_threads_def new_slot_def deliver_def)
  from slot_more[OF this tells[of _ True None]] show ?thesis
    by (simp add: new_slot_threads_def new_slot_def told_def told_waiter_def)
qed

section \<open>Properties\<close>

text \<open>C10: no caller waits for good: once the completer is done, used or dropped, its waiter neither blocks nor
  is suspended, and a waiter that got a result got the one delivered, which is still there for one that
  has not looked yet.\<close>

theorem pending_is_told:
  assumes "slot_reach t" and "st_completer t = Gone"
  shows "st_waiter t \<noteq> Blocked \<and> st_waiter t \<noteq> Suspended
    \<and> (case st_waiter t of Has r \<Rightarrow> st_delivered t = Some r | _ \<Rightarrow> sl_result (st_slot t) = st_delivered t)"
proof -
  have "sl_result (st_slot t) = st_delivered t" if "\<forall>r. st_waiter t \<noteq> Has r"
    using slot_reach_safe(1)[OF assms(1)] assms(2) that by (auto simp: slot_safe_def)
  moreover have "st_delivered t = Some r" if "st_waiter t = Has r" for r
    using slot_reach_safe(1)[OF assms(1)] that by (simp add: slot_safe_def)
  moreover have "st_waiter t \<noteq> Blocked \<and> st_waiter t \<noteq> Suspended"
    using slot_reach_safe(2)[OF assms(1)] assms(2) by (auto simp: slot_tells_def)
  ultimately show ?thesis by (cases "st_waiter t") simp_all
qed

theorem pending_is_told_witness: "slot_reach told_waiter \<and> sl_result (st_slot told_waiter) = Some (Inr 7)"
  using pending_is_told[OF told_waiter_reach] told_waiter_reach by (simp add: told_waiter_def)

end
