(* ===== verification/Frame_Reader.thy ===== *)
theory Frame_Reader
  imports Frame
begin

text \<open>
  Frames out of a byte stream (\<open>FrameReader\<close> of \<open>frame.rs\<close>): the reading buffer, the buffer of its
  own a large frame is read into, and the specification, a parser of the whole stream.  A read is
  what the source gave, at most the room the reader offers it.
\<close>

section \<open>The code\<close>

definition READ_BUFFER :: nat where
  "READ_BUFFER = 64 * 1024"

datatype next_item = Frame bytes | Started | Nothing | BadHeader | BadChecksum

record large =
  lheader :: header
  lbody :: bytes
  filled :: nat

record frame_reader =
  buffer :: bytes
  start :: nat
  endp :: nat
  rlarge :: "large option"
  started :: bool
  broken :: bool

text \<open>A reader with a buffer of \<open>n\<close> bytes; \<open>FrameReader::default\<close> has \<open>READ_BUFFER\<close>.\<close>

definition new_reader :: "nat \<Rightarrow> frame_reader" where
  "new_reader n = \<lparr>buffer = replicate n 0, start = 0, endp = 0, rlarge = None, started = False, broken = False\<rparr>"

definition default_reader :: frame_reader where
  "default_reader = new_reader READ_BUFFER"

text \<open>\<open>at\<close> bytes in, \<open>bs\<close> written over what is there: a slice copied into.\<close>

definition overwrite :: "nat \<Rightarrow> bytes \<Rightarrow> bytes \<Rightarrow> bytes" where
  "overwrite at bs b = take at b @ bs @ drop (at + length bs) b"

definition unread :: "frame_reader \<Rightarrow> bytes" where
  "unread r = take (endp r - start r) (drop (start r) (buffer r))"

definition compact :: "frame_reader \<Rightarrow> frame_reader" where
  "compact r = r\<lparr>buffer := overwrite 0 (unread r) (buffer r), endp := endp r - start r, start := 0\<rparr>"

text \<open>One read: \<open>source n\<close> is what \<open>Read::read\<close> gives for a slice of \<open>n\<close> bytes, an error or the
  bytes it put there.\<close>

definition read_from :: "(nat \<Rightarrow> 'e + bytes) \<Rightarrow> frame_reader \<Rightarrow> ('e + nat) \<times> frame_reader" where
  "read_from source r = (case rlarge r of
     Some l \<Rightarrow> (case source (length (lbody l) - filled l) of
         Inl e \<Rightarrow> (Inl e, r)
       | Inr bs \<Rightarrow> (Inr (length bs),
           r\<lparr>rlarge := Some (l\<lparr>lbody := overwrite (filled l) bs (lbody l), filled := filled l + length bs\<rparr>)\<rparr>))
   | None \<Rightarrow> let r = (if endp r = length (buffer r) then compact r else r) in
       (case source (length (buffer r) - endp r) of
         Inl e \<Rightarrow> (Inl e, r)
       | Inr bs \<Rightarrow> (Inr (length bs),
           r\<lparr>buffer := overwrite (endp r) bs (buffer r), endp := endp r + length bs\<rparr>)))"

text \<open>\<open>take\<close> with a large frame in hand, which calls nothing else.\<close>

definition take_large :: "cpu \<Rightarrow> large \<Rightarrow> frame_reader \<Rightarrow> next_item \<times> frame_reader" where
  "take_large cpu l r =
    (if filled l < length (lbody l) then (Nothing, r)
     else let r = r\<lparr>rlarge := None, started := False\<rparr> in
       if \<not> verify cpu (lheader l) (lbody l) then (BadChecksum, r) else (Frame (lbody l), r))"

definition next_started :: "cpu \<Rightarrow> frame_reader \<Rightarrow> next_item \<times> frame_reader" where
  "next_started cpu r =
    (if started r then (Nothing, r)
     else let r = r\<lparr>started := True\<rparr> in
       (case rlarge r of
          Some l \<Rightarrow> if filled l = length (lbody l) then take_large cpu l r else (Started, r)
        | None \<Rightarrow> (Started, r)))"

definition take_next :: "cpu \<Rightarrow> frame_reader \<Rightarrow> next_item \<times> frame_reader" where
  "take_next cpu r = (case rlarge r of
     Some l \<Rightarrow> take_large cpu l r
   | None \<Rightarrow>
     let available = endp r - start r in
     if available < HEADER_LENGTH then (Nothing, r)
     else (case unpack_header (take HEADER_LENGTH (drop (start r) (buffer r))) of
       None \<Rightarrow> (BadHeader, r)
     | Some h \<Rightarrow>
       let whole = HEADER_LENGTH + hlength h in
       if whole > length (buffer r) then
         (let here = available - HEADER_LENGTH;
              body = overwrite 0 (take here (drop (start r + HEADER_LENGTH) (buffer r))) (replicate (hlength h) 0)
          in next_started cpu (r\<lparr>start := 0, endp := 0,
               rlarge := Some \<lparr>lheader = h, lbody = body, filled = here\<rparr>\<rparr>))
       else if available < whole then
         next_started cpu (if start r + whole > length (buffer r) then compact r else r)
       else
         (let body = take (hlength h) (drop (start r + HEADER_LENGTH) (buffer r));
              r = r\<lparr>start := start r + whole\<rparr>;
              r = (if start r = endp r then r\<lparr>start := 0, endp := 0\<rparr> else r);
              r = r\<lparr>started := False\<rparr>
          in if \<not> verify cpu h body then (BadChecksum, r) else (Frame body, r))))"

definition next_frame :: "cpu \<Rightarrow> frame_reader \<Rightarrow> next_item \<times> frame_reader" where
  "next_frame cpu r =
    (if broken r then (Nothing, r)
     else let (item, r) = take_next cpu r in (item, r\<lparr>broken := (item = BadHeader \<or> item = BadChecksum)\<rparr>))"

definition holds_next :: "frame_reader \<Rightarrow> bool" where
  "holds_next r =
    (if broken r then False
     else (case rlarge r of
       Some l \<Rightarrow> filled l = length (lbody l)
     | None \<Rightarrow> let available = endp r - start r in
         if available < HEADER_LENGTH then False
         else let len = unat (from_le_bytes (take 4 (drop (start r) (buffer r))) :: u32);
                  whole = HEADER_LENGTH + len
              in len = 0 \<or> available \<ge> whole \<or> whole > length (buffer r)))"

section \<open>The stream's specification\<close>

datatype parsed = Need | Bad_Header | Bad_Checksum | Got bytes bytes

definition parse_frame :: "cpu \<Rightarrow> bytes \<Rightarrow> parsed" where
  "parse_frame cpu s =
    (if length s < 8 then Need
     else (case unpack_header (take 8 s) of
       None \<Rightarrow> Bad_Header
     | Some h \<Rightarrow>
       if length s < 8 + hlength h then Need
       else let body = take (hlength h) (drop 8 s) in
         if verify cpu h body then Got body (drop (8 + hlength h) s) else Bad_Checksum))"

lemma parse_frame_Got_shorter: "parse_frame cpu s = Got body rest \<Longrightarrow> length rest < length s"
  by (auto simp: parse_frame_def Let_def split: if_splits option.splits dest!: unpack_header_length)

text \<open>The frames of a stream, the error that ends it if there is one after the last of them.\<close>

function stream_items :: "cpu \<Rightarrow> bytes \<Rightarrow> next_item list" where
  "stream_items cpu s = (case parse_frame cpu s of
     Need \<Rightarrow> []
   | Bad_Header \<Rightarrow> [BadHeader]
   | Bad_Checksum \<Rightarrow> [BadChecksum]
   | Got body rest \<Rightarrow> Frame body # stream_items cpu rest)"
  by auto
termination
  by (relation "measure (\<lambda>(_, s). length s)") (auto dest: parse_frame_Got_shorter)

declare stream_items.simps [simp del]

definition ends_stream :: "next_item \<Rightarrow> bool" where
  "ends_stream x \<longleftrightarrow> x = BadHeader \<or> x = BadChecksum"

lemma parse_frame_append:
  "parse_frame cpu s \<noteq> Need \<Longrightarrow> parse_frame cpu (s @ t) =
    (case parse_frame cpu s of Got body rest \<Rightarrow> Got body (rest @ t) | p \<Rightarrow> p)"
  by (auto simp: parse_frame_def Let_def split: if_splits option.splits)

section \<open>The reader's state\<close>

text \<open>The bytes the reader holds that no frame handed out accounts for.\<close>

definition held_bytes :: "frame_reader \<Rightarrow> bytes" where
  "held_bytes r = (case rlarge r of
     None \<Rightarrow> unread r
   | Some l \<Rightarrow> to_le_bytes 4 (of_nat (hlength (lheader l)) :: u32) @ to_le_bytes 4 (hchecksum (lheader l))
       @ take (filled l) (lbody l))"

definition reader_ok :: "frame_reader \<Rightarrow> bool" where
  "reader_ok r \<longleftrightarrow> start r \<le> endp r \<and> endp r \<le> length (buffer r) \<and> 8 < length (buffer r) \<and>
     (case rlarge r of
        None \<Rightarrow> True
      | Some l \<Rightarrow> start r = 0 \<and> endp r = 0 \<and> length (lbody l) = hlength (lheader l) \<and>
          filled l \<le> length (lbody l) \<and> 0 < hlength (lheader l) \<and>
          hlength (lheader l) \<le> MAX_MESSAGE_SIZE)"

text \<open>The room the next read is offered.\<close>

definition room :: "frame_reader \<Rightarrow> nat" where
  "room r = (case rlarge r of
     Some l \<Rightarrow> length (lbody l) - filled l
   | None \<Rightarrow> if endp r = length (buffer r) then length (buffer r) - (endp r - start r)
       else length (buffer r) - endp r)"

lemma reader_ok_default [mx_inv]: "reader_ok default_reader"
  by (simp add: reader_ok_def default_reader_def new_reader_def READ_BUFFER_def)

lemma room_default: "room default_reader = 65536"
  by (simp add: room_def default_reader_def new_reader_def READ_BUFFER_def)

lemma length_overwrite [simp]: "at + length bs \<le> length b \<Longrightarrow> length (overwrite at bs b) = length b"
  by (simp add: overwrite_def)

lemma take_overwrite:
  "at + length bs \<le> length b \<Longrightarrow> take (at + length bs) (overwrite at bs b) = take at b @ bs"
  by (simp add: overwrite_def)

text \<open>The header's bytes, as a large frame's header stands for them.\<close>

definition header_bytes :: "header \<Rightarrow> bytes" where
  "header_bytes h = to_le_bytes 4 (of_nat (hlength h) :: u32) @ to_le_bytes 4 (hchecksum h)"

lemma length_header_bytes [simp]: "length (header_bytes h) = 8"
  by (simp add: header_bytes_def)

lemma unpack_header_bytes:
  "0 < hlength h \<Longrightarrow> hlength h \<le> MAX_MESSAGE_SIZE \<Longrightarrow> unpack_header (header_bytes h) = Some h"
  by (simp add: unpack_header_def header_bytes_def from_to_le_bytes body_size_u32)

lemma header_bytes_unpack:
  assumes "length bs = 8" "unpack_header bs = Some h"
  shows "header_bytes h = bs"
proof -
  have h: "hlength h = unat (from_le_bytes (take 4 bs) :: u32)" "hchecksum h = from_le_bytes (take 4 (drop 4 bs))"
    using assms(2) by (auto simp: unpack_header_def Let_def split: if_splits)
  have "to_le_bytes 4 (from_le_bytes (take 4 bs) :: u32) = take 4 bs"
    "to_le_bytes 4 (from_le_bytes (take 4 (drop 4 bs)) :: u32) = take 4 (drop 4 bs)"
    using to_from_le_bytes [of "take 4 bs", where 'a = 32] to_from_le_bytes [of "take 4 (drop 4 bs)", where 'a = 32]
      assms(1) by simp_all
  moreover have "take 4 bs @ take 4 (drop 4 bs) = bs"
    using assms(1) append_take_drop_id [of 4 bs] by simp
  ultimately show ?thesis
    by (simp add: header_bytes_def h)
qed

lemma held_large:
  "rlarge r = Some l \<Longrightarrow> held_bytes r = header_bytes (lheader l) @ take (filled l) (lbody l)"
  by (simp add: held_bytes_def header_bytes_def)

lemma held_buffer: "rlarge r = None \<Longrightarrow> held_bytes r = unread r"
  by (simp add: held_bytes_def)

lemma compact_ok:
  assumes "reader_ok r" "rlarge r = None"
  shows "reader_ok (compact r)" "unread (compact r) = unread r" "rlarge (compact r) = None"
    "broken (compact r) = broken r" "started (compact r) = started r" "start (compact r) = 0"
    "endp (compact r) = endp r - start r" "length (buffer (compact r)) = length (buffer r)"
  using assms by (auto simp: reader_ok_def compact_def unread_def overwrite_def)

section \<open>Reading\<close>

lemma read_from_ok:
  assumes "reader_ok r" "source (room r) = Inr bs" "length bs \<le> room r"
  obtains r' where "read_from source r = (Inr (length bs), r')" "reader_ok r'"
    "held_bytes r' = held_bytes r @ bs" "broken r' = broken r"
proof (cases "rlarge r")
  case (Some l)
  let ?r = "r\<lparr>rlarge := Some (l\<lparr>lbody := overwrite (filled l) bs (lbody l), filled := filled l + length bs\<rparr>)\<rparr>"
  have "read_from source r = (Inr (length bs), ?r)"
    using assms(2) Some by (simp add: read_from_def room_def)
  moreover have "reader_ok ?r" "held_bytes ?r = held_bytes r @ bs"
    using assms(1,3) Some
    by (auto simp: reader_ok_def room_def held_bytes_def take_overwrite)
  ultimately show ?thesis
    using that [of ?r] by simp
next
  case None
  define c where "c = (if endp r = length (buffer r) then compact r else r)"
  have c: "reader_ok c" "rlarge c = None" "unread c = unread r" "broken c = broken r"
      "length (buffer c) - endp c = room r"
    using assms(1) None compact_ok [OF assms(1) None] by (auto simp: c_def room_def)
  let ?r = "c\<lparr>buffer := overwrite (endp c) bs (buffer c), endp := endp c + length bs\<rparr>"
  have "read_from source r = (Inr (length bs), ?r)"
    using assms(2) None c(5) by (simp add: read_from_def c_def [symmetric] Let_def)
  moreover have "reader_ok ?r" "unread ?r = unread c @ bs"
    using c(1,2,5) assms(3) by (auto simp: reader_ok_def unread_def overwrite_def drop_take)
  ultimately show ?thesis
    using that [of ?r] c None by (simp add: held_buffer)
qed

section \<open>Taking what is next\<close>

text \<open>What \<open>item\<close>, with the reader it leaves, says of the bytes that were held.\<close>

definition taken_ok :: "cpu \<Rightarrow> frame_reader \<Rightarrow> next_item \<Rightarrow> frame_reader \<Rightarrow> bool" where
  "taken_ok cpu r item r' \<longleftrightarrow> reader_ok r' \<and> broken r' = broken r \<and>
     (case item of
        Frame body \<Rightarrow> parse_frame cpu (held_bytes r) = Got body (held_bytes r')
      | BadHeader \<Rightarrow> parse_frame cpu (held_bytes r) = Bad_Header
      | BadChecksum \<Rightarrow> parse_frame cpu (held_bytes r) = Bad_Checksum
      | _ \<Rightarrow> parse_frame cpu (held_bytes r) = Need \<and> held_bytes r' = held_bytes r \<and> 0 < room r')"

lemma started_irrelevant [simp]:
  "reader_ok (r\<lparr>started := b\<rparr>) = reader_ok r" "held_bytes (r\<lparr>started := b\<rparr>) = held_bytes r"
  "room (r\<lparr>started := b\<rparr>) = room r" "unread (r\<lparr>started := b\<rparr>) = unread r"
  by (simp_all add: reader_ok_def held_bytes_def unread_def room_def cong: option.case_cong)

lemma take_large_ok:
  assumes "reader_ok r" "rlarge r = Some l" "take_large cpu l r = (item, r')"
  shows "taken_ok cpu r item r'"
proof -
  have l: "length (lbody l) = hlength (lheader l)" "filled l \<le> length (lbody l)"
      "unpack_header (header_bytes (lheader l)) = Some (lheader l)"
    using assms(1,2) by (auto simp: reader_ok_def unpack_header_bytes)
  have parse: "parse_frame cpu (held_bytes r) =
      (if filled l < hlength (lheader l) then Need
       else if verify cpu (lheader l) (lbody l) then Got (lbody l) [] else Bad_Checksum)"
    using l by (auto simp: parse_frame_def held_large [OF assms(2)] Let_def)
  show ?thesis
    using assms l parse
    by (auto simp: take_large_def taken_ok_def Let_def room_def reader_ok_def held_bytes_def unread_def
        split: if_splits)
qed

lemma next_started_waits:
  assumes "rlarge r = None \<or> (\<exists>l. rlarge r = Some l \<and> filled l < length (lbody l))"
  shows "next_started cpu r = (if started r then Nothing else Started, r\<lparr>started := True\<rparr>)"
  using assms by (auto simp: next_started_def Let_def)

lemma take_next_waits:
  assumes "reader_ok r" "next_started cpu r = (item, r')" "held_bytes r = held_bytes r0"
    "broken r = broken r0" "parse_frame cpu (held_bytes r0) = Need" "0 < room r"
    "rlarge r = None \<or> (\<exists>l. rlarge r = Some l \<and> filled l < length (lbody l))"
  shows "taken_ok cpu r0 item r'"
proof -
  have "item = (if started r then Nothing else Started)" "r' = r\<lparr>started := True\<rparr>"
    using assms(2) next_started_waits [OF assms(7), of cpu] by simp_all
  then show ?thesis
    using assms by (simp add: taken_ok_def)
qed

text \<open>The three ways a header in the buffer goes on.  \<open>header_here\<close> says the buffer holds one.\<close>

definition header_here :: "frame_reader \<Rightarrow> header \<Rightarrow> bool" where
  "header_here r h \<longleftrightarrow> reader_ok r \<and> rlarge r = None \<and> 8 \<le> length (unread r) \<and>
     unpack_header (take 8 (unread r)) = Some h"

lemma take_8_unread:
  "8 \<le> length (unread r) \<Longrightarrow> take 8 (drop (start r) (buffer r)) = take 8 (unread r)"
  by (simp add: unread_def min.absorb1)

lemma header_hereD:
  assumes "header_here r h"
  shows "reader_ok r" "rlarge r = None" "held_bytes r = unread r" "0 < hlength h"
    "length (unread r) = endp r - start r" "start r \<le> endp r" "endp r \<le> length (buffer r)"
    "take 8 (drop (start r) (buffer r)) = take 8 (unread r)" "header_bytes h = take 8 (unread r)"
    "hlength h \<le> MAX_MESSAGE_SIZE"
proof -
  show "held_bytes r = unread r"
    using assms by (simp add: header_here_def held_buffer)
  show "take 8 (drop (start r) (buffer r)) = take 8 (unread r)"
    using assms by (intro take_8_unread) (simp add: header_here_def)
  show "header_bytes h = take 8 (unread r)"
    using assms by (intro header_bytes_unpack) (auto simp: header_here_def)
qed (use assms in \<open>auto simp: header_here_def reader_ok_def unread_def dest: unpack_header_length\<close>)

lemma parse_header_here:
  assumes "header_here r h"
  shows "parse_frame cpu (held_bytes r) =
    (if length (unread r) < 8 + hlength h then Need
     else let body = take (hlength h) (drop 8 (unread r)) in
       if verify cpu h body then Got body (drop (8 + hlength h) (unread r)) else Bad_Checksum)"
  using assms header_hereD(3) [OF assms] by (simp add: parse_frame_def header_here_def)

lemma drop_8_unread: "take (endp r - start r - 8) (drop (start r + 8) (buffer r)) = drop 8 (unread r)"
  by (simp add: unread_def drop_take add.commute)

lemma take_next_here:
  assumes "header_here r h"
  shows "take_next cpu r =
    (let whole = 8 + hlength h in
     if whole > length (buffer r) then
       next_started cpu (r\<lparr>start := 0, endp := 0, rlarge := Some \<lparr>lheader = h,
         lbody = overwrite 0 (drop 8 (unread r)) (replicate (hlength h) 0), filled = length (unread r) - 8\<rparr>\<rparr>)
     else if length (unread r) < whole then
       next_started cpu (if start r + whole > length (buffer r) then compact r else r)
     else
       (let body = take (hlength h) (drop (start r + 8) (buffer r));
            r = r\<lparr>start := start r + whole\<rparr>;
            r = (if start r = endp r then r\<lparr>start := 0, endp := 0\<rparr> else r);
            r = r\<lparr>started := False\<rparr>
        in if \<not> verify cpu h body then (BadChecksum, r) else (Frame body, r)))"
proof -
  note d = header_hereD [OF assms]
  have h: "unpack_header (take 8 (drop (start r) (buffer r))) = Some h" "\<not> endp r - start r < 8"
    using assms d(5,8) by (auto simp: header_here_def)
  show ?thesis
    unfolding take_next_def Let_def d(2) option.case HEADER_LENGTH_simp h(1) d(5) drop_8_unread [symmetric]
    using h(2) by simp
qed

lemma take_to_large:
  assumes "header_here r h" "length (buffer r) < 8 + hlength h" "take_next cpu r = (item, r')"
  shows "taken_ok cpu r item r'"
proof -
  note d = header_hereD [OF assms(1)]
  let ?l = "\<lparr>lheader = h, lbody = overwrite 0 (drop 8 (unread r)) (replicate (hlength h) 0),
    filled = length (unread r) - 8\<rparr>"
  let ?r = "r\<lparr>start := 0, endp := 0, rlarge := Some ?l\<rparr>"
  have short: "length (unread r) < 8 + hlength h" "8 \<le> length (unread r)"
    using assms(1,2) d(5,7) by (auto simp: header_here_def)
  have "reader_ok ?r" "filled ?l < length (lbody ?l)" "0 < room ?r"
    using d(1,4,10) short by (auto simp: reader_ok_def room_def overwrite_def)
  moreover have "held_bytes ?r = held_bytes r"
    using short d(3,9) by (simp add: held_large overwrite_def)
  moreover have "next_started cpu ?r = (item, r')"
    using assms(2,3) unfolding take_next_here [OF assms(1)] Let_def by simp
  ultimately show ?thesis
    using short parse_header_here [OF assms(1)] by (intro take_next_waits [of ?r]) auto
qed

lemma take_waits_in_buffer:
  assumes "header_here r h" "8 + hlength h \<le> length (buffer r)" "length (unread r) < 8 + hlength h"
    "take_next cpu r = (item, r')"
  shows "taken_ok cpu r item r'"
proof -
  note d = header_hereD [OF assms(1)] and c = compact_ok [OF header_hereD(1,2) [OF assms(1)]]
  let ?r = "if start r + (8 + hlength h) > length (buffer r) then compact r else r"
  have "next_started cpu ?r = (item, r')"
    using assms(2-4) unfolding take_next_here [OF assms(1)] Let_def by simp
  moreover have "reader_ok ?r" "held_bytes ?r = held_bytes r" "rlarge ?r = None" "broken ?r = broken r"
    using d(1,2) c by (auto simp: held_bytes_def)
  moreover have "0 < room ?r"
    using assms(2,3) d(2,5,6,7) c by (auto simp: room_def)
  ultimately show ?thesis
    using assms(3) parse_header_here [OF assms(1)] by (intro take_next_waits [of ?r]) auto
qed

lemma take_whole:
  assumes "header_here r h" "8 + hlength h \<le> length (unread r)" "take_next cpu r = (item, r')"
  shows "taken_ok cpu r item r'"
proof -
  note d = header_hereD [OF assms(1)]
  define w where "w = 8 + hlength h"
  let ?body = "take (hlength h) (drop 8 (unread r))"
  let ?r0 = "r\<lparr>start := start r + w\<rparr>"
  let ?r = "(if start ?r0 = endp ?r0 then ?r0\<lparr>start := 0, endp := 0\<rparr> else ?r0)\<lparr>started := False\<rparr>"
  have fits: "w \<le> length (buffer r)" "start r + w \<le> endp r"
    using assms(2) d(5-7) by (auto simp: w_def)
  have body: "take (hlength h) (drop (8 + start r) (buffer r)) = ?body"
    using fits by (simp add: unread_def w_def drop_take min_def)
  have "item = (if verify cpu h ?body then Frame ?body else BadChecksum)" "r' = ?r"
    using assms(2,3) fits body unfolding take_next_here [OF assms(1)] Let_def
    by (auto simp: w_def add.commute split: if_splits)
  moreover have "reader_ok ?r" "held_bytes ?r = drop w (unread r)"
    using d(1,2) fits by (auto simp: reader_ok_def held_bytes_def unread_def drop_take add.commute)
  ultimately show ?thesis
    using assms(2) parse_header_here [OF assms(1), of cpu] by (auto simp: taken_ok_def w_def)
qed

lemma take_next_ok:
  assumes "reader_ok r" "take_next cpu r = (item, r')"
  shows "taken_ok cpu r item r'"
proof (cases "rlarge r")
  case (Some l)
  then show ?thesis
    using assms by (intro take_large_ok) (auto simp: take_next_def)
next
  case None
  note held = held_buffer [OF None]
  have len: "length (unread r) = endp r - start r"
    using assms(1) by (auto simp: reader_ok_def unread_def)
  consider "length (unread r) < 8"
    | "8 \<le> length (unread r)" "unpack_header (take 8 (unread r)) = None"
    | h where "header_here r h"
    using assms(1) None by (fastforce simp: header_here_def)
  then show ?thesis
  proof cases
    case 1
    then show ?thesis
      using assms None held len
      by (auto simp: take_next_def taken_ok_def parse_frame_def room_def reader_ok_def)
  next
    case 2
    with take_8_unread [OF 2(1)] show ?thesis
      using assms None held len by (auto simp: take_next_def taken_ok_def parse_frame_def Let_def)
  next
    case 3
    then show ?thesis
      using assms(2) take_to_large take_waits_in_buffer take_whole by (meson not_le)
  qed
qed

section \<open>Any schedule of reads and looks\<close>

datatype reader_op = Read bytes | Next

definition shown :: "next_item \<Rightarrow> next_item list" where
  "shown item = (case item of Started \<Rightarrow> [] | Nothing \<Rightarrow> [] | _ \<Rightarrow> [item])"

fun run_reader :: "cpu \<Rightarrow> reader_op list \<Rightarrow> frame_reader \<Rightarrow> next_item list \<times> frame_reader" where
  "run_reader cpu [] r = ([], r)"
| "run_reader cpu (Read bs # ops) r = run_reader cpu ops (snd (read_from (\<lambda>_. Inr bs :: unit + bytes) r))"
| "run_reader cpu (Next # ops) r =
    (let (item, r) = next_frame cpu r; (items, r) = run_reader cpu ops r in (shown item @ items, r))"

text \<open>Every read gives at most what it was offered.\<close>

fun reads_fit :: "cpu \<Rightarrow> reader_op list \<Rightarrow> frame_reader \<Rightarrow> bool" where
  "reads_fit cpu [] r = True"
| "reads_fit cpu (Read bs # ops) r \<longleftrightarrow>
    length bs \<le> room r \<and> reads_fit cpu ops (snd (read_from (\<lambda>_. Inr bs :: unit + bytes) r))"
| "reads_fit cpu (Next # ops) r \<longleftrightarrow> reads_fit cpu ops (snd (next_frame cpu r))"

fun read_bytes :: "reader_op list \<Rightarrow> bytes" where
  "read_bytes [] = []"
| "read_bytes (Read bs # ops) = bs @ read_bytes ops"
| "read_bytes (Next # ops) = read_bytes ops"

lemma run_reader_broken:
  "reader_ok r \<Longrightarrow> reads_fit cpu ops r \<Longrightarrow> broken r \<Longrightarrow>
    fst (run_reader cpu ops r) = [] \<and> broken (snd (run_reader cpu ops r)) \<and>
    reader_ok (snd (run_reader cpu ops r))"
proof (induction ops arbitrary: r)
  case (Cons op ops)
  show ?case
  proof (cases op)
    case (Read bs)
    then show ?thesis
      using Cons read_from_ok [of r "\<lambda>_. Inr bs" bs] by (metis reads_fit.simps(2) run_reader.simps(2) snd_conv)
  next
    case Next
    then show ?thesis
      using Cons by (simp add: next_frame_def shown_def case_prod_beta)
  qed
qed simp

lemma stream_items_append:
  "stream_items cpu (s @ t) = (case parse_frame cpu s of
     Need \<Rightarrow> stream_items cpu (s @ t)
   | Bad_Header \<Rightarrow> [BadHeader]
   | Bad_Checksum \<Rightarrow> [BadChecksum]
   | Got body rest \<Rightarrow> Frame body # stream_items cpu (rest @ t))"
  using parse_frame_append [of cpu s t]
  by (cases "parse_frame cpu s") (simp_all add: stream_items.simps [of cpu "s @ t"])

text \<open>One look at the reader: what it shows, and the bytes it leaves, are the stream's.\<close>

lemma next_frame_ok:
  assumes "reader_ok r" "\<not> broken r" "next_frame cpu r = (item, r')"
  shows "reader_ok r' \<and> broken r' = ends_stream item \<and>
    stream_items cpu (held_bytes r @ t) =
      shown item @ (if broken r' then [] else stream_items cpu (held_bytes r' @ t)) \<and>
    (item = Nothing \<or> item = Started \<longrightarrow>
      held_bytes r' = held_bytes r \<and> parse_frame cpu (held_bytes r) = Need \<and> 0 < room r')"
proof -
  obtain r0 where r0: "take_next cpu r = (item, r0)" "r' = r0\<lparr>broken := ends_stream item\<rparr>"
    using assms(2,3) by (auto simp: next_frame_def ends_stream_def split: prod.splits)
  have same: "reader_ok r' = reader_ok r0" "held_bytes r' = held_bytes r0" "room r' = room r0"
    by (simp_all add: r0(2) reader_ok_def held_bytes_def unread_def room_def cong: option.case_cong)
  have "taken_ok cpu r item r0"
    using take_next_ok assms(1) r0(1) by blast
  then show ?thesis
    using stream_items_append [of cpu "held_bytes r" t] same
    by (cases item) (auto simp: taken_ok_def shown_def ends_stream_def r0(2))
qed

lemma run_reader_items:
  assumes "reader_ok r" "\<not> broken r" "reads_fit cpu ops r" "run_reader cpu ops r = (items, r')"
  shows "reader_ok r' \<and>
    items @ (if broken r' then [] else stream_items cpu (held_bytes r')) =
      stream_items cpu (held_bytes r @ read_bytes ops) \<and>
    (broken r' \<longrightarrow> (\<exists>x \<in> set items. ends_stream x))"
  using assms
proof (induction ops arbitrary: r items)
  case (Cons op ops)
  show ?case
  proof (cases op)
    case (Read bs)
    then obtain r1 where "read_from (\<lambda>_. Inr bs :: unit + bytes) r = (Inr (length bs), r1)" "reader_ok r1"
        "held_bytes r1 = held_bytes r @ bs" "broken r1 = broken r"
      using Cons.prems read_from_ok [of r "\<lambda>_. Inr bs" bs] by auto
    then show ?thesis
      using Cons.IH [of r1 items] Cons.prems Read by simp
  next
    case Next
    obtain item r1 where n: "next_frame cpu r = (item, r1)"
      by (cases "next_frame cpu r")
    note ok = next_frame_ok [OF Cons.prems(1,2) n, of "read_bytes ops"]
    obtain rest where rest: "run_reader cpu ops r1 = (rest, r')" "items = shown item @ rest"
      using Cons.prems(4) Next n by (auto split: prod.splits)
    have fit: "reads_fit cpu ops r1"
      using Cons.prems(3) Next n by simp
    show ?thesis
    proof (cases "broken r1")
      case True
      then show ?thesis
        using run_reader_broken [of r1 cpu ops] ok fit rest Next by (auto simp: ends_stream_def shown_def)
    next
      case False
      then show ?thesis
        using Cons.IH [of r1 rest] ok fit rest Next by auto
    qed
  qed
qed simp

text \<open>C1: whatever the reads bring and wherever they cut the stream, the frames and the error the
  reader hands out, then those still held whole, are exactly those of the bytes read so far, parsed
  as one stream: none is lost, split, joined or invented, and nothing follows an error.\<close>

theorem reader_refines_stream:
  assumes "reads_fit cpu ops default_reader" "run_reader cpu ops default_reader = (items, r)"
  shows "items @ (if broken r then [] else stream_items cpu (held_bytes r)) = stream_items cpu (read_bytes ops)"
proof -
  have "\<not> broken default_reader" "held_bytes default_reader = []"
    by (simp_all add: default_reader_def new_reader_def held_bytes_def unread_def)
  then show ?thesis
    using run_reader_items [OF reader_ok_default _ assms] by simp
qed

theorem reader_refines_stream_witness:
  "\<exists>items r. run_reader Other_Arch [Read (frame_of_body Other_Arch [7]), Next] default_reader = (items, r) \<and>
     items @ (if broken r then [] else stream_items Other_Arch (held_bytes r)) =
       stream_items Other_Arch (frame_of_body Other_Arch [7])"
proof -
  let ?ops = "[Read (frame_of_body Other_Arch [7]), Next]"
  obtain items r where run: "run_reader Other_Arch ?ops default_reader = (items, r)"
    by (cases "run_reader Other_Arch ?ops default_reader")
  have "reads_fit Other_Arch ?ops default_reader"
    by (simp add: frame_of_body_eq room_default)
  from reader_refines_stream [OF this run] run show ?thesis
    by auto
qed






end
