(* ===== verification/Core_New.thy ===== *)
theory Core_New
  imports Core_Basics
begin

text \<open>
  A new core (\<open>Core::new\<close>, \<open>core/mod.rs\<close>), and a core of concrete surroundings for the examples.
\<close>

text \<open>\<open>Ids::next\<close> always gives an id (\<open>next_id_total\<close>).\<close>

definition new_core :: "u32 \<Rightarrow> ids \<Rightarrow> incoming_mode \<Rightarrow> instant \<Rightarrow> env \<Rightarrow> core" where
  "new_core ty i mode at e =
    (let drawn = the (next_id i)
     in \<lparr>now = at, timers = new_timers, posted = [], actions = [], ids = snd drawn, instance_id = fst drawn,
         peer_type = ty, conns = [], next_conn = 0, by_peer_id = [], round_robin = [],
         client = new_client_state mode, outbox = new_outbox, ends = new_outbox_ends, batcher = new_batcher,
         confirmer = new_confirmer, queries = new_queries, queries_fill_posted = False,
         threaded = new_threaded, env = e, trackers = (\<lambda>_. Queued),
         next_tracker = 0, lanes = (\<lambda>_. \<lparr>ln_pinned = False, ln_generation = 0, ln_owner = 0,
           ln_connection = None, ln_holds = False\<rparr>), next_lane = 0, living_flags = (\<lambda>_. False),
         next_alloc = 0, outside = [], streams = (\<lambda>_. \<lparr>sm_messages = [], sm_wakers = [], sm_next_key = 0, sm_closed = False,
           sm_dropped = 0, sm_dropping = False, sm_blocked = 0, sm_capacity = 1, sm_name = []\<rparr>),
         streams_held = (\<lambda>_. False), calls = [], panicked = False\<rparr>)"

definition sample_env :: env where
  "sample_env = \<lparr>log_enabled = (\<lambda>_. True), fork_generation = 0, env_cpu = Other_Arch, message_len = (\<lambda>_. 1),
     message_encode = (\<lambda>_. Some [0]), message_decode = (\<lambda>_. None), envelope_len = (\<lambda>e. sum_list (map length (en_batch e))),
     envelope_encode = (\<lambda>e. Some (concat (en_batch e))), batch_decode = (\<lambda>_. None),
     confirmation_encode = (\<lambda>_. []), confirmation_decode = (\<lambda>_. None),
     welcome_encode = (\<lambda>_. []), welcome_decode = (\<lambda>_. None), peer_control_encode = (\<lambda>_. []),
     peer_status_decode = (\<lambda>_. None), delivery_error_encode = (\<lambda>_. []), delivery_error_decode = (\<lambda>_. None),
     search_encode = (\<lambda>_. []), vec_grow = (\<lambda>_ n. n), policy_answers = (\<lambda>_ _. False),
     handler_returns = (\<lambda>_ _. True), handler_confirms = (\<lambda>_ _. [])\<rparr>"

definition sample_core :: core where
  "sample_core = new_core 100 (seeded 5) QueueMode 10 sample_env"

definition sample_frame :: out_frame where
  "sample_frame = \<lparr>o_alloc = 0, o_bytes = [1, 2, 3], o_head = None, o_id = 7, o_type = 100, o_pinned = False,
     o_for_all = False, o_own = False, o_number = 0, o_deadline = None, o_batch = None, o_confirmed = False\<rparr>"

definition sample_conn :: conn where
  "sample_conn = (new_conn (''host'', 1980) sample_frame)\<lparr>c_living := True, c_registered := True, c_outgoing_max := 2\<rparr>"

text \<open>The sample core with one live connection, numbered 1.\<close>

definition sample_connected :: core where
  "sample_connected = sample_core\<lparr>conns := [(1, sample_conn)], by_peer_id := [(9, 1)], round_robin := [1]\<rparr>"

lemmas sample_defs = sample_core_def new_core_def sample_connected_def Let_def new_client_state_def new_outbox_def
  new_outbox_ends_def new_batcher_def new_confirmer_def new_threaded_def new_queries_def

end
