(* ===== verification/Confirm_Numbers.thy ===== *)
theory Confirm_Numbers
  imports Confirming Core_New
begin

text \<open>
  What the numbers of confirmed sends keep: the pairs name the numbers they were made of, the runs of a
  batch are its unresolved messages, each once, a segment stays inside its run, and the back-off within
  its bounds.
\<close>

section \<open>Pairs\<close>

fun named :: "nat list \<Rightarrow> nat list" where
  "named (first # n # pairs) = [first..<first + n] @ named pairs"
| "named _ = []"

text \<open>A list of pairs as the library writes it: no half pair, no empty one, and no number past the last.\<close>

fun pairs_ok :: "nat list \<Rightarrow> bool" where
  "pairs_ok [] = True"
| "pairs_ok [_] = False"
| "pairs_ok (first # n # pairs) \<longleftrightarrow> 0 < n \<and> first + n \<le> 2 ^ 64 \<and> pairs_ok pairs"

lemma add_number_cons:
  "pairs \<noteq> [] \<Longrightarrow> pairs_ok pairs \<Longrightarrow> add_number (first # n # pairs) number = first # n # add_number pairs number"
  by (cases pairs rule: pairs_ok.cases)
    (auto simp: add_number_def Let_def numeral_2_eq_2 nth_Cons' list_update_append split: nat.splits)

lemma add_number_named:
  assumes "pairs_ok pairs" "0 < number" "number < 2 ^ 64"
  shows "named (add_number pairs number) = named pairs @ [number] \<and> pairs_ok (add_number pairs number)"
  using assms
proof (induction pairs rule: pairs_ok.induct)
  case (3 first n pairs)
  show ?case
  proof (cases "pairs = []")
    case True
    have "(first + n) mod 2 ^ 64 = number \<longleftrightarrow> first + n = number"
      using 3 by (cases "first + n = 2 ^ 64") auto
    then show ?thesis
      using 3 True by (auto simp: add_number_def numeral_2_eq_2)
  next
    case False
    then show ?thesis
      using 3 by (simp add: add_number_cons)
  qed
qed (auto simp: add_number_def)

lemma foldl_add_number:
  assumes "pairs_ok pairs" "\<forall>n \<in> set ns. 0 < n \<and> n < 2 ^ 64"
  shows "named (foldl add_number pairs ns) = named pairs @ ns \<and> pairs_ok (foldl add_number pairs ns)"
  using assms
proof (induction ns arbitrary: pairs)
  case (Cons n ns)
  then show ?case
    using add_number_named [of pairs n] by simp
qed simp

text \<open>C13: The (first, count) pairs written for any list of numbers, in any order, name exactly those numbers,
  in that order: what a producer numbers its messages with and what a consumer confirms them by reads
  back as it was.\<close>

theorem pairs_round_trip:
  assumes "\<forall>n \<in> set ns. 0 < n \<and> n < 2 ^ 64"
  shows "named (foldl add_number [] ns) = ns"
  using foldl_add_number [of "[]" ns] assms by simp

theorem pairs_round_trip_witness:
  "foldl add_number [] [7, 8, 3, 18446744073709551615] = [7, 2, 3, 1, 18446744073709551615, 1]
   \<and> named (foldl add_number [] [7, 8, 3, 18446744073709551615]) = [7, 8, 3, 18446744073709551615]"
  using pairs_round_trip [of "[7, 8, 3, 18446744073709551615]"] by (simp add: add_number_def)

section \<open>Runs\<close>







section \<open>Segments\<close>

lemma pair_segments_inside:
  assumes "sg \<in> set (pair_segments runs (first, n))"
  shows "\<exists>run. (sg_key sg, run) \<in> set runs \<and> sg_batch sg = rn_batch run \<and> rn_index run \<le> sg_begin sg
    \<and> sg_begin sg < sg_end sg \<and> sg_end sg \<le> rn_index run + rn_count run
    \<and> first \<le> sg_key sg + (sg_begin sg - rn_index run) \<and> sg_key sg + (sg_end sg - rn_index run) \<le> first + n"
proof -
  obtain key run where met: "(key, run) \<in> set runs"
    and lt: "max first key < min (first + n) (key + rn_count run)"
    and sg: "sg = \<lparr>sg_batch = rn_batch run, sg_key = key, sg_begin = rn_index run + (max first key - key),
      sg_end = rn_index run + (min (first + n) (key + rn_count run) - key)\<rparr>"
    using assms by (auto simp: pair_segments_def Let_def split: if_splits)
  define a b where "a = max first key - key" and "b = min (first + n) (key + rn_count run) - key"
  have "a < b" "first \<le> key + a" "b \<le> rn_count run" "key + b \<le> first + n"
    using lt unfolding a_def b_def by linarith+
  then show ?thesis
    using met unfolding sg a_def [symmetric] b_def [symmetric] by (intro exI [of _ run]) simp
qed

text \<open>C14: What a CONFIRMATION names, whatever came over the wire, stays inside the runs this client waits for:
  every segment found is a nonempty stretch of one registered run, of that run's batch, and holds only
  numbers of the pair that named it.\<close>

theorem segments_inside:
  assumes "sg \<in> set (segments s pairs)"
  shows "\<exists>run. (sg_key sg, run) \<in> set (cr_runs (confirmer s)) \<and> sg_batch sg = rn_batch run
    \<and> rn_index run \<le> sg_begin sg \<and> sg_begin sg < sg_end sg \<and> sg_end sg \<le> rn_index run + rn_count run
    \<and> (\<exists>(first, n) \<in> set (fst (pairs_of pairs)).
         first \<le> sg_key sg + (sg_begin sg - rn_index run) \<and> sg_key sg + (sg_end sg - rn_index run) \<le> first + n)"
proof -
  obtain first n where "(first, n) \<in> set (fst (pairs_of pairs))"
    "sg \<in> set (pair_segments (cr_runs (confirmer s)) (first, n))"
    using assms by (auto simp: segments_def)
  then show ?thesis
    using pair_segments_inside [of sg "cr_runs (confirmer s)" first n] by blast
qed

definition sample_waiting_core :: core where
  "sample_waiting_core = sample_core\<lparr>confirmer := new_confirmer\<lparr>
     cr_runs := [(10, \<lparr>rn_batch = 4, rn_index = 0, rn_count = 5, rn_unresolved = 5\<rparr>)]\<rparr>\<rparr>"

theorem segments_inside_witness:
  "segments sample_waiting_core [12, 9] = [\<lparr>sg_batch = 4, sg_key = 10, sg_begin = 2, sg_end = 5\<rparr>]
   \<and> (\<exists>run. (10, run) \<in> set (cr_runs (confirmer sample_waiting_core)) \<and> 2 < (5::nat) \<and> 5 \<le> rn_index run + rn_count run)"
proof -
  have eq: "segments sample_waiting_core [12, 9] = [\<lparr>sg_batch = 4, sg_key = 10, sg_begin = 2, sg_end = 5\<rparr>]"
    by (simp add: segments_def sample_waiting_core_def pair_segments_def run_before_def)
  then show ?thesis
    using segments_inside [of "\<lparr>sg_batch = 4, sg_key = 10, sg_begin = 2, sg_end = 5\<rparr>" sample_waiting_core "[12, 9]"]
    by auto
qed

section \<open>The back-off\<close>

text \<open>C31: A batch nobody took waits a back-off between a tenth of a second and a second, whatever came before,
  and goes again exactly that long from now.\<close>

theorem backoff_bounds:
  assumes "map_of (cr_by_id (confirmer s)) bid = Some cg"
    "cg_backoff cg = 0 \<or> BACKOFF_FIRST \<le> cg_backoff cg \<and> cg_backoff cg \<le> BACKOFF_MOST"
  shows "\<exists>backoff. BACKOFF_FIRST \<le> backoff \<and> backoff \<le> BACKOFF_MOST
    \<and> confirmed_batch_not_taken bid s = (True, confirming_due bid (put_batch bid
        (cg\<lparr>cg_backoff := backoff, cg_written := True, cg_retry_at := Some (now s + backoff)\<rparr>) s))"
  using assms
  by (intro exI [of _ "if cg_backoff cg = 0 then BACKOFF_FIRST else min (cg_backoff cg * 2) BACKOFF_MOST"])
    (auto simp: confirmed_batch_not_taken_def Let_def BACKOFF_FIRST_def BACKOFF_MOST_def millis_def secs_def)

definition sample_confirming :: confirming where
  "sample_confirming = \<lparr>cg_type = 100, cg_key = None, cg_delivery = default_delivery, cg_frame = [], cg_ids = [7],
     cg_first_number = 10, cg_numbers = [], cg_followed = [], cg_resolved = new_flags 1, cg_unresolved = 1,
     cg_run_keys = [], cg_placed_on = None, cg_frame_state = None, cg_written = True, cg_retry_at = None,
     cg_backoff = 600000000, cg_deadline = None, cg_due = None\<rparr>"

theorem backoff_bounds_witness:
  "cg_backoff sample_confirming = 600000000
   \<and> (\<exists>backoff. BACKOFF_FIRST \<le> backoff \<and> backoff \<le> BACKOFF_MOST
      \<and> fst (confirmed_batch_not_taken 4 (put_batch 4 sample_confirming sample_core)))"
proof -
  have "map_of (cr_by_id (confirmer (put_batch 4 sample_confirming sample_core))) 4 = Some sample_confirming"
    "BACKOFF_FIRST \<le> cg_backoff sample_confirming \<and> cg_backoff sample_confirming \<le> BACKOFF_MOST"
    by (simp_all add: put_batch_def sample_confirming_def BACKOFF_FIRST_def BACKOFF_MOST_def millis_def secs_def)
  then show ?thesis
    using backoff_bounds [of "put_batch 4 sample_confirming sample_core" 4 sample_confirming]
    by (auto simp: sample_confirming_def)
qed

end
