(* ===== verification/Core_Frames.thy ===== *)
theory Core_Frames
  imports Confirming Core_New
begin

text \<open>
  What the operations leave as it was.  \<open>kept\<close> says that everything but the ends, the confirmed sends, the
  timers, the trackers and the log is as before.
\<close>

named_theorems mx_kept

definition kept :: "core \<Rightarrow> core \<Rightarrow> bool" where
  "kept s s' \<longleftrightarrow> now s' = now s \<and> env s' = env s \<and> instance_id s' = instance_id s \<and> batcher s' = batcher s
    \<and> by_peer_id s' = by_peer_id s \<and> cl_shuts_down (client s') = cl_shuts_down (client s)
    \<and> outbox s' = outbox s \<and> conns s' = conns s \<and> lanes s' = lanes s \<and> round_robin s' = round_robin s"

lemma kept_refl [mx_kept, simp, intro!]: "kept s s"
  by (simp add: kept_def)

lemma kept_trans: "kept s s' \<Longrightarrow> kept s' s'' \<Longrightarrow> kept s s''"
  by (simp add: kept_def)

lemma kept_fold: "(\<And>x s'. kept s s' \<Longrightarrow> kept s (f x s')) \<Longrightarrow> kept s s' \<Longrightarrow> kept s (fold f xs s')"
  by (induction xs arbitrary: s') auto

lemma keptD:
  assumes "kept s s'"
  shows "now s' = now s" "env s' = env s" "batcher s' = batcher s" "by_peer_id s' = by_peer_id s"
    "cl_shuts_down (client s') = cl_shuts_down (client s)" "outbox s' = outbox s" "conns s' = conns s"
    "lanes s' = lanes s" "round_robin s' = round_robin s"
  using assms by (simp_all add: kept_def)

section \<open>Small steps\<close>

lemma kept_update [mx_kept]:
  assumes "kept s s'"
  shows "kept s (s'\<lparr>ends := e\<rparr>)" "kept s (s'\<lparr>confirmer := cr\<rparr>)" "kept s (s'\<lparr>threaded := th\<rparr>)"
    "kept s (s'\<lparr>timers := tm\<rparr>)" "kept s (s'\<lparr>calls := cs\<rparr>)"
    "cl_shuts_down cl = cl_shuts_down (client s') \<Longrightarrow> kept s (s'\<lparr>client := cl\<rparr>)"
  using assms by (simp_all add: kept_def)

lemma kept_small [mx_kept]:
  assumes "kept s s'"
  shows "kept s (panic s')" "kept s (note_call c s')" "kept s (post p s')" "kept s (act a s')"
    "kept s (tracker_set t st s')" "kept s (snd (new_tracker st s'))" "kept s (cancel_timer k s')"
    "kept s (snd (arm_timer d x s'))" "kept s (snd (rearm_timer k d x s'))" "kept s (each_flush g s')"
    "kept s (put_batch bid cg s')" "kept s (snd (random64 s'))"
  using assms
  by (simp_all add: kept_def panic_def note_call_def post_def act_def tracker_set_def new_tracker_def
      cancel_timer_def arm_timer_def rearm_timer_def each_flush_def put_batch_def random64_def Let_def
      split: prod.splits option.splits)

lemma kept_post_callbacks [mx_kept]: "kept s s' \<Longrightarrow> kept s (post_callbacks s')"
  by (simp add: post_callbacks_def mx_kept)

lemma kept_flushes [mx_kept]:
  assumes "kept s s'"
  shows "kept s (flushes_lost_confirmed n s')" "kept s (flushes_lost n s')" "kept s (wait_flushes n k s')"
    "kept s (queued n t c s')"
  using assms by (simp_all add: flushes_lost_confirmed_def flushes_lost_def wait_flushes_def queued_def mx_kept)

lemma kept_drop_line_first [mx_kept]: "kept s s' \<Longrightarrow> kept s (snd (drop_line_first k t s'))"
  by (auto simp: drop_line_first_def Let_def case_prod_beta mx_kept split: option.split prod.split)

lemma kept_say_drop [mx_kept]: "kept s s' \<Longrightarrow> kept s (say_drop l ty peer txt n s')"
  by (simp add: say_drop_def Let_def case_prod_beta mx_kept)

lemma kept_stop_confirm_timer [mx_kept]: "kept s s' \<Longrightarrow> kept s (stop_confirm_timer s')"
  by (simp add: stop_confirm_timer_def Let_def mx_kept)

section \<open>Drops\<close>

lemma kept_report_record_drop [mx_kept]: "kept s s' \<Longrightarrow> kept s (report_record_drop mid ty reason s')"
  by (simp add: report_record_drop_def Let_def case_prod_beta mx_kept)

lemma kept_confirmed_end [mx_kept]: "kept s s' \<Longrightarrow> kept s (confirmed_end mid n ty t d p reason report s')"
  by (simp add: confirmed_end_def Let_def mx_kept split: option.split)

lemma kept_resolve_in [mx_kept]: "kept s s' \<Longrightarrow> kept s (snd (snd (resolve_in cg i p reason report s')))"
  by (simp add: resolve_in_def Let_def case_prod_beta mx_kept split: option.split)

lemma kept_resolve_fold:
  "kept s s' \<Longrightarrow> kept s (snd (fold (\<lambda>index (cg, s). snd (resolve_in cg index p reason report s)) xs (cg, s')))"
  by (induction xs arbitrary: cg s') (simp_all add: kept_resolve_in prod.case_eq_if split_beta,
      metis kept_resolve_in prod.collapse)

lemma kept_resolve_all [mx_kept]: "kept s s' \<Longrightarrow> kept s (snd (resolve_all reason report cg s'))"
  by (simp add: resolve_all_def kept_resolve_fold)

lemma kept_with_batch:
  assumes "\<And>cg s'. kept s s' \<Longrightarrow> kept s (snd (snd (work cg s')))" "kept s s'"
  shows "kept s (snd (with_batch bid work s'))"
  using assms by (simp add: with_batch_def Let_def case_prod_beta mx_kept split: option.split)

lemma kept_forget_resolved [mx_kept]: "kept s s' \<Longrightarrow> kept s (forget_resolved bid s')"
  by (simp add: forget_resolved_def Let_def mx_kept split: option.split)

lemma kept_confirmed_frame_dropped [mx_kept]: "kept s s' \<Longrightarrow> kept s (confirmed_frame_dropped bid reason s')"
  by (simp add: confirmed_frame_dropped_def Let_def case_prod_beta mx_kept kept_with_batch)

lemma kept_report_drop [mx_kept]: "kept s s' \<Longrightarrow> kept s (report_drop f reason s')"
  by (simp add: report_drop_def Let_def case_prod_beta mx_kept)

section \<open>Ends\<close>

lemma kept_end_flush_wait [mx_kept]: "kept s s' \<Longrightarrow> kept s (end_flush_wait n b s')"
  by (simp add: end_flush_wait_def end_flush_def Let_def mx_kept split: option.split)

lemma kept_finish_flush [mx_kept]: "kept s s' \<Longrightarrow> kept s (finish_flush fid s')"
  by (simp add: finish_flush_def Let_def mx_kept split: option.split flush_done.split)

lemma kept_check_flushes [mx_kept]: "kept s s' \<Longrightarrow> kept s (check_flushes s')"
  by (simp add: check_flushes_def Let_def case_prod_beta mx_kept kept_fold)

lemma kept_follow_event [mx_kept]: "kept s s' \<Longrightarrow> kept s (follow_event t w s')"
  by (simp add: follow_event_def mx_kept)

lemma kept_tracked_message_done [mx_kept]: "kept s s' \<Longrightarrow> kept s (tracked_message_done t w s')"
  by (simp add: tracked_message_done_def mx_kept)

lemma kept_lose_tracker [mx_kept]: "kept s s' \<Longrightarrow> kept s (lose_tracker t k n s')"
  by (simp add: lose_tracker_def Let_def mx_kept)

lemma kept_give_up_message [mx_kept]: "kept s s' \<Longrightarrow> kept s (snd (give_up_message f t k reason s'))"
  by (simp add: give_up_message_def Let_def mx_kept split: option.split)

lemma kept_follow_copies [mx_kept]: "kept s s' \<Longrightarrow> kept s (follow_copies ts d s')"
  by (simp add: follow_copies_def Let_def mx_kept kept_fold)

end
