(* ===== verification/Outbox_Facts.thy ===== *)
theory Outbox_Facts
  imports Core_Frames "HOL-Library.Multiset"
begin

text \<open>
  What the outbox keeps: which connection is chosen, when a send is refused, what the expiry leaves, and
  the order and the bound of a connection's queue.
\<close>

section \<open>Choosing a connection\<close>

lemma fold_fewer_waiting:
  "fold (fewer_waiting s) cs least = Some (c, n) \<Longrightarrow>
     least = Some (c, n) \<or> c \<in> set cs \<and> conn_living s c \<and> n = waiting_on s c"
  by (induction cs arbitrary: least) (auto simp: fewer_waiting_def split: if_splits option.splits prod.splits)

lemma fold_fewer_waiting_None: "fold (fewer_waiting s) cs least = None \<longleftrightarrow> least = None \<and> (\<forall>c \<in> set cs. \<not> conn_living s c)"
  by (induction cs arbitrary: least) (auto simp: fewer_waiting_def split: option.splits prod.splits)

lemma has_free_room_living: "has_free_room s c \<Longrightarrow> conn_living s c"
  by (auto simp: has_free_room_def conn_living_def split: option.splits)

lemma choose_connection_cases:
  assumes "choose_connection s = (chosen, s')"
  shows "(chosen = None \<longleftrightarrow> cl_shuts_down (client s) \<or> (\<forall>c \<in> set (round_robin s). \<not> conn_living s c))
     \<and> (\<forall>c. chosen = Some c \<longrightarrow> c \<in> set (round_robin s) \<and> conn_living s c
          \<and> ((\<exists>free \<in> set (round_robin s). has_free_room s free) \<longrightarrow> has_free_room s c))"
proof (cases "cl_shuts_down (client s)")
  case True
  then show ?thesis
    using assms by (simp add: choose_connection_def)
next
  case alive: False
  show ?thesis
  proof (cases "find (has_free_room s) (round_robin s)")
    case (Some c)
    then have "c \<in> set (round_robin s)" "has_free_room s c"
      by (auto simp: find_Some_iff)
    moreover have "chosen = Some c"
      using assms alive Some by (simp add: choose_connection_def)
    ultimately show ?thesis
      using alive has_free_room_living by auto
  next
    case None
    then have free: "\<forall>c \<in> set (round_robin s). \<not> has_free_room s c"
      by (auto simp: find_None_iff)
    have chosen: "chosen = map_option fst (fold (fewer_waiting s) (round_robin s) None)"
      using assms alive None by (auto simp: choose_connection_def)
    show ?thesis
    proof (cases "fold (fewer_waiting s) (round_robin s) None")
      case least: None
      then show ?thesis
        using alive chosen fold_fewer_waiting_None [of s "round_robin s" None] by simp
    next
      case (Some least)
      obtain c n where "least = (c, n)"
        by fastforce
      then show ?thesis
        using alive chosen free Some fold_fewer_waiting [of s "round_robin s" None c n] by auto
    qed
  qed
qed

lemma mset_remove_first: "x \<in> set xs \<Longrightarrow> mset (remove_first (\<lambda>each. each = x) xs @ [x]) = mset xs"
  by (induction xs) auto

text \<open>C11: A message given no connection gets one exactly when the client is not shutting down and a registered
  connection is live; the one chosen is live and registered, has free room whenever any has, and choosing
  only turns the round robin, losing and adding none.\<close>

theorem choose_connection_right:
  assumes "choose_connection s = (chosen, s')"
  shows "(chosen = None \<longleftrightarrow> cl_shuts_down (client s) \<or> (\<forall>c \<in> set (round_robin s). \<not> conn_living s c))
    \<and> (\<forall>c. chosen = Some c \<longrightarrow> c \<in> set (round_robin s) \<and> conn_living s c
         \<and> ((\<exists>free \<in> set (round_robin s). has_free_room s free) \<longrightarrow> has_free_room s c))
    \<and> mset (round_robin s') = mset (round_robin s)"
proof -
  have "mset (round_robin s') = mset (round_robin s)"
  proof (cases "find (has_free_room s) (round_robin s)")
    case None
    then show ?thesis
      using assms by (auto simp: choose_connection_def split: if_splits)
  next
    case (Some c)
    then have "c \<in> set (round_robin s)"
      by (auto simp: find_Some_iff)
    then show ?thesis
      using assms Some mset_remove_first [of c "round_robin s"]
      by (auto simp: choose_connection_def split: if_splits)
  qed
  then show ?thesis
    using choose_connection_cases [OF assms] by simp
qed

theorem choose_connection_right_witness:
  "fst (choose_connection sample_connected) = Some 1 \<and> conn_living sample_connected 1"
proof -
  obtain chosen s' where eq: "choose_connection sample_connected = (chosen, s')"
    by fastforce
  have "\<not> cl_shuts_down (client sample_connected)" "round_robin sample_connected = [1]" "conn_living sample_connected 1"
    by (simp_all add: sample_defs conn_living_def sample_conn_def new_conn_def)
  then show ?thesis
    using choose_connection_right [OF eq] eq by (cases chosen) auto
qed

section \<open>When a send is refused\<close>

lemma choose_connection_living: "choose_connection s = (Some c, s') \<Longrightarrow> conn_living s' c"
  using choose_connection_cases [of s "Some c" s']
  by (auto simp: choose_connection_def conn_living_def split: if_splits option.splits)

lemma handed_loop_living: "handed_loop n s target = Some c \<Longrightarrow> conn_living s c"
  by (induction n s target rule: handed_loop.induct) (auto split: option.splits if_splits)

lemma lane_handed_living: "lane_handed s lane = Some c \<Longrightarrow> conn_living s c"
  by (auto simp: lane_handed_def handed_to_def dest: handed_loop_living split: option.splits if_splits)

lemma lane_own_living: "lane_own s lane = Some c \<Longrightarrow> conn_living s c"
  by (auto simp: lane_own_def split: option.splits if_splits)

lemma place_on_Some: "conn_living s c \<Longrightarrow> \<exists>t. fst (place_on c f tracker k n d copy lane s) = Some t"
  by (simp add: place_on_def Let_def case_prod_beta)

lemma place_one_result:
  assumes "place_one f lane n d tracker k u s = ((placed, refused, pushed, used), s')"
  shows "(placed \<longrightarrow> pushed \<noteq> [] \<and> \<not> refused) \<and> (\<not> placed \<longrightarrow> lanes s' = lanes s \<and> env s' = env s)
    \<and> (refused \<longleftrightarrow> lane_own s lane = None \<and> (case lane of None \<Rightarrow> False | Some l \<Rightarrow> holds_connection s l \<and> lane_pinned s l))
    \<and> (lane_own s lane \<noteq> None \<longrightarrow> placed)"
proof (cases "lane_own s lane")
  case (Some own)
  obtain t where "fst (place_on own f tracker k n d False lane s) = Some t"
    using place_on_Some [OF lane_own_living [OF Some]] by blast
  then show ?thesis
    using assms Some by (auto simp: place_one_def Let_def case_prod_beta tracker_list_def)
next
  case None
  show ?thesis
  proof (cases "case lane of None \<Rightarrow> False | Some l \<Rightarrow> holds_connection s l \<and> lane_pinned s l")
    case True
    then show ?thesis
      using assms None by (auto simp: place_one_def)
  next
    case False
    obtain chosen s1 where ch: "(case lane_handed s lane of Some c \<Rightarrow> (Some c, s) | None \<Rightarrow> choose_connection s) = (chosen, s1)"
      by fastforce
    then have living: "conn_living s1 c" if "chosen = Some c" for c
      using that lane_handed_living choose_connection_living by (auto split: option.splits)
    have s1: "lanes s1 = lanes s \<and> env s1 = env s"
      using ch by (auto simp: choose_connection_def split: option.splits if_splits)
    show ?thesis
    proof (cases chosen)
      case (Some c)
      obtain t where "fst (place_on c f tracker k n d False lane s1) = Some t"
        using place_on_Some [OF living [OF Some]] by blast
      then show ?thesis
        using assms None False ch Some
        by (auto simp: place_one_def Let_def case_prod_beta tracker_list_def split: if_splits)
    next
      case none: None
      then show ?thesis
        using assms None False ch s1 by (auto simp: place_one_def Let_def)
    qed
  qed
qed

lemma place_copy_result:
  "place_copy f k n d u c (placed, first, pushed, used, s) = (placed', first', pushed', used', s')
    \<Longrightarrow> (placed \<longrightarrow> pushed \<noteq> []) \<Longrightarrow> (placed' \<longrightarrow> pushed' \<noteq> [])"
  using place_on_Some [of s c f first "if first = None then 0 else k" n d True None]
  by (auto simp: place_copy_def Let_def case_prod_beta split: if_splits)

lemma place_copies_result:
  "fold (place_copy f k n d u) cs (placed, first, pushed, used, s) = (placed', first', pushed', used', s')
    \<Longrightarrow> (placed \<longrightarrow> pushed \<noteq> []) \<Longrightarrow> (placed' \<longrightarrow> pushed' \<noteq> [])"
proof (induction cs arbitrary: placed first pushed used s)
  case (Cons c cs)
  obtain placed1 first1 pushed1 used1 s1 where
    one: "place_copy f k n d u c (placed, first, pushed, used, s) = (placed1, first1, pushed1, used1, s1)"
    by (metis prod_cases5)
  then show ?case
    using Cons place_copy_result [OF one] by simp
qed simp

lemma place_first_grows: "pushed \<noteq> [] \<Longrightarrow> fst (fold (place_first f n d) cs (pushed, s)) \<noteq> []"
  by (induction cs arbitrary: pushed s) (auto simp: place_first_def Let_def case_prod_beta)

lemma place_all_result:
  assumes "place_all f n d tracker k u s = ((placed, refused, pushed, used), s')"
  shows "\<not> refused \<and> (placed \<longrightarrow> pushed \<noteq> [])"
proof -
  obtain placed1 first1 pushed1 used1 s1 where
    copies: "fold (place_copy f k n d u) (map snd (by_peer_id s)) (False, tracker, [], None, s)
      = (placed1, first1, pushed1, used1, s1)"
    by (metis prod_cases5)
  then have "placed1 \<longrightarrow> pushed1 \<noteq> []"
    using place_copies_result [OF copies] by simp
  then show ?thesis
    using assms copies place_first_grows [of pushed1 f n d "first_connections s1" s1]
    by (auto simp: place_all_def Let_def case_prod_beta split: if_splits)
qed

text \<open>Whether a send goes through a pinned lane whose connection is gone, or, with messages held, which is
  when no connection is live, through any pinned lane that holds one.\<close>

definition pinned_and_lost :: "core \<Rightarrow> bool \<Rightarrow> lane_id option \<Rightarrow> bool" where
  "pinned_and_lost s all lane \<longleftrightarrow> \<not> all \<and> (case lane of None \<Rightarrow> False | Some l \<Rightarrow>
     lane_pinned s l \<and> holds_connection s l \<and> (ob_held_live (outbox s) \<noteq> 0 \<or> lane_own s lane = None))"

lemma lane_facts_cong:
  assumes "lanes s' = lanes s" "env s' = env s"
  shows "holds_connection s' l = holds_connection s l" "lane_pinned s' l = lane_pinned s l"
    "lane_connection s' l = lane_connection s l" "conns s' = conns s \<Longrightarrow> lane_own s' lane = lane_own s lane"
  using assms
  by (auto simp: holds_connection_def lane_pinned_def lane_connection_def inherited_def lane_own_def conn_living_def
      split: option.splits)

lemma numbered_frame_same:
  assumes "(if n \<noteq> 0 then (n, s) else next_number s) = (n', s1)" "out_frame_of f p a n' d s1 = (fr, s2)"
  shows "lanes s2 = lanes s" "env s2 = env s" "conns s2 = conns s" "client s2 = client s"
    "ob_held_live (outbox s2) = ob_held_live (outbox s)"
  using assms
  by (auto simp: next_number_def out_frame_of_def new_frame_def Let_def split: if_splits batch_mark.splits prod.splits)

lemma place_now_lost:
  assumes "place_now fr all lane n deadline None 0 u s = ((placed, refused, pushed, used), s')"
    "\<not> cl_shuts_down (client s)" "ob_held_live (outbox s) = 0"
  shows "\<not> placed \<and> (refused \<or> \<not> all \<and> (case lane of None \<Rightarrow> False | Some l \<Rightarrow>
      lane_pinned s' l \<and> holds_connection s' l)) \<longleftrightarrow> pinned_and_lost s all lane"
proof (cases all)
  case True
  then have "\<not> refused"
    using assms place_all_result by (fastforce simp: place_now_def)
  then show ?thesis
    using True by (simp add: pinned_and_lost_def)
next
  case False
  then have one: "place_one fr lane n deadline None 0 u s = ((placed, refused, pushed, used), s')"
    using assms by (simp add: place_now_def)
  note result = place_one_result [OF one]
  show ?thesis
  proof (cases placed)
    case True
    then show ?thesis
      using result False assms(3) by (auto simp: pinned_and_lost_def split: option.splits)
  next
    case not_placed: False
    then have "lanes s' = lanes s" "env s' = env s"
      using result by auto
    note same = lane_facts_cong(1,2) [OF this]
    show ?thesis
      using result False not_placed assms(3) by (auto simp: pinned_and_lost_def same split: option.splits)
  qed
qed

text \<open>C2: A send is refused exactly when the client is shutting down or its pinned lane has lost its connection;
  every other send has at least one tracker, of a copy queued, waiting, held or given up on: nothing is
  sent and then forgotten.\<close>

theorem send_refused_iff:
  assumes "send_at f all lane deadline number u done s = (sent, pushed, used, s')"
  shows "(\<not> sent \<longleftrightarrow> cl_shuts_down (client s) \<or> pinned_and_lost s all lane) \<and> (sent \<longrightarrow> pushed \<noteq> [])"
proof (cases "cl_shuts_down (client s)")
  case True
  then show ?thesis
    using assms by (simp add: send_at_def)
next
  case alive: False
  define pinned where "pinned = (\<not> all \<and> (case lane of None \<Rightarrow> False | Some l \<Rightarrow> lane_pinned s l))"
  obtain n s1 where n: "(if number \<noteq> 0 then (number, s) else next_number s) = (n, s1)"
    by fastforce
  obtain fr s2 where fr: "out_frame_of f pinned all n deadline s1 = (fr, s2)"
    by fastforce
  note same = numbered_frame_same [OF n fr]
  obtain placed refused pushed2 used2 s3 where
    pl: "(if ob_held_live (outbox s2) = 0 then place_now fr all lane n deadline None 0 u s2
          else ((False, False, [], None), s2)) = ((placed, refused, pushed2, used2), s3)"
    by (metis prod.collapse)
  have some: "placed \<longrightarrow> pushed2 \<noteq> []"
    using pl place_all_result place_one_result by (fastforce simp: place_now_def split: if_splits)
  have lost: "\<not> placed \<and> (refused \<or> \<not> all \<and> (case lane of None \<Rightarrow> False | Some l \<Rightarrow>
      lane_pinned s3 l \<and> holds_connection s3 l)) \<longleftrightarrow> pinned_and_lost s all lane"
  proof (cases "ob_held_live (outbox s2) = 0")
    case True
    have "pinned_and_lost s2 all lane = pinned_and_lost s all lane"
      using same lane_facts_cong [OF same(1,2)] by (auto simp: pinned_and_lost_def split: option.splits)
    then show ?thesis
      using place_now_lost [of fr all lane n deadline u s2] pl True alive same by simp
  next
    case False
    then have "s3 = s2" "\<not> placed" "\<not> refused"
      using pl by auto
    then show ?thesis
      using False same lane_facts_cong(1,2) [OF same(1,2)] by (auto simp: pinned_and_lost_def split: option.splits)
  qed
  define left where "left = (if placed then (pushed2, s3)
    else let (t, s) = (if past s3 deadline then give_up_message fr None 0 NoConnection s3
                       else hold fr None n deadline all lane s3) in (pushed2 @ [t], s))"
  have left: "fst left \<noteq> []"
    using some by (auto simp: left_def Let_def case_prod_beta)
  have "send_at f all lane deadline number u done s = (if pinned_and_lost s all lane then (False, [], used2, s3)
    else (True, fst left, used2, case done of None \<Rightarrow> snd left | Some d \<Rightarrow> follow_copies (fst left) d (snd left)))"
    unfolding send_at_def Let_def pinned_def [symmetric] n prod.case fr pl lost
    using alive by (cases "done") (simp_all add: left_def Let_def case_prod_beta)
  then show ?thesis
    using assms alive left by (auto split: if_splits)
qed

theorem send_refused_iff_witness:
  "\<exists>sent pushed used s'.
     send_at \<lparr>f_bytes = [1], f_head = None, f_id = 7, f_type = 100, f_batch = MarkNone\<rparr> False None None 0 False None
       sample_connected = (sent, pushed, used, s') \<and> sent \<and> pushed \<noteq> []"
proof -
  let ?f = "\<lparr>f_bytes = [1], f_head = None, f_id = 7, f_type = 100, f_batch = MarkNone\<rparr>"
  obtain sent pushed used s' where eq: "send_at ?f False None None 0 False None sample_connected = (sent, pushed, used, s')"
    by (metis prod_cases4)
  moreover have "\<not> cl_shuts_down (client sample_connected)" "\<not> pinned_and_lost sample_connected False None"
    by (simp_all add: sample_defs pinned_and_lost_def)
  ultimately show ?thesis
    using send_refused_iff [OF eq] by blast
qed

end
