(* ===== verification/Batch_Facts.thy ===== *)
theory Batch_Facts
  imports Outbox_Facts
begin

text \<open>
  What batching keeps: every message of a batch goes, within the limit; letting the batches go leaves none
  open; what is set is what applies; the bodies kept stay within their caps; and every drop is counted
  and told once.
\<close>

section \<open>What sending leaves of the batches open\<close>

definition calm :: "core \<Rightarrow> core \<Rightarrow> bool" where
  "calm s s' \<longleftrightarrow> (batcher s')\<lparr>bt_bodies := bt_bodies (batcher s)\<rparr> = batcher s \<and> now s' = now s
    \<and> by_peer_id s' = by_peer_id s"

named_theorems mx_calm

lemma calm_refl [mx_calm]: "calm s s"
  by (simp add: calm_def)

lemma calm_open: "calm s s' \<Longrightarrow> bt_open (batcher s') = bt_open (batcher s)"
proof -
  assume "calm s s'"
  then have "bt_open ((batcher s')\<lparr>bt_bodies := bt_bodies (batcher s)\<rparr>) = bt_open (batcher s)"
    by (simp add: calm_def)
  then show ?thesis
    by simp
qed

lemma kept_calm: "calm s s' \<Longrightarrow> kept s' s'' \<Longrightarrow> calm s s''"
  by (simp add: calm_def kept_def)

lemma calm_fold: "(\<And>x s'. calm s s' \<Longrightarrow> calm s (f x s')) \<Longrightarrow> calm s s' \<Longrightarrow> calm s (fold f xs s')"
  by (induction xs arbitrary: s') auto

lemma calm_update [mx_calm]:
  assumes "calm s s'"
  shows "calm s (s'\<lparr>outbox := ob\<rparr>)" "calm s (s'\<lparr>conns := cs\<rparr>)" "calm s (s'\<lparr>lanes := ls\<rparr>)"
    "calm s (s'\<lparr>round_robin := rr\<rparr>)" "calm s (s'\<lparr>client := cl\<rparr>)" "calm s (s'\<lparr>ends := e\<rparr>)"
    "calm s (s'\<lparr>confirmer := cr\<rparr>)" "calm s (s'\<lparr>next_alloc := na\<rparr>)" "calm s (s'\<lparr>actions := acs\<rparr>)"
  using assms by (simp_all add: calm_def)

lemma calm_kept_ops [mx_calm]:
  assumes "calm s s'"
  shows "calm s (panic s')" "calm s (note_call c s')" "calm s (snd (new_tracker st s'))" "calm s (cancel_timer k s')"
    "calm s (snd (rearm_timer k d x s'))" "calm s (put_batch bid cg s')" "calm s (snd (random64 s'))"
    "calm s (wait_flushes n i s')" "calm s (queued n t con s')" "calm s (snd (give_up_message f ot k2 reason s'))"
    "calm s (follow_copies ts sd s')" "calm s (confirmed_end mid n2 ty t2 d2 p reason2 report s')"
    "calm s (stop_confirm_timer s')"
  by (rule kept_calm [OF assms], simp add: mx_kept)+

lemma calm_small [mx_calm]:
  assumes "calm s s'"
  shows "calm s (act a s')" "calm s (put_conn c st s')" "calm s (snd (next_number s'))" "calm s (snd (wrap c s'))"
    "calm s (adopt l w s')" "calm s (snd (seeded_lane w p s'))" "calm s (snd (store_waiting wt s'))"
    "calm s (add_waiting n s')" "calm s (snd (out_frame_of f pin al n2 d s'))"
  using assms
  by (simp_all add: calm_def act_def put_conn_def next_number_def wrap_def panic_def adopt_def seeded_lane_def
      store_waiting_def add_waiting_def out_frame_of_def new_frame_def Let_def case_prod_beta split: option.split)

lemma calm_take_over [mx_calm]: "calm s s' \<Longrightarrow> calm s (snd (take_over c e s'))"
  by (simp add: take_over_def process_send_queue_def mx_calm split: option.split list.split prod.split)

lemma calm_arm_expiry [mx_calm]: "calm s s' \<Longrightarrow> calm s (arm_expiry s')"
  unfolding arm_expiry_def Let_def case_prod_beta by (simp add: mx_calm split: list.split)

lemma calm_expire_at [mx_calm]: "calm s s' \<Longrightarrow> calm s (expire_at k s')"
  by (simp add: expire_at_def Let_def mx_calm split: option.split)

lemma calm_hold [mx_calm]: "calm s s' \<Longrightarrow> calm s (snd (hold f t n d a l s'))"
  by (simp add: hold_def Let_def case_prod_beta mx_calm split: option.split)

lemma calm_place_on [mx_calm]: "calm s s' \<Longrightarrow> calm s (snd (place_on c f t k n d cp l s'))"
  by (simp add: place_on_def Let_def case_prod_beta mx_calm split: option.split)

lemma calm_choose_connection [mx_calm]: "calm s s' \<Longrightarrow> calm s (snd (choose_connection s'))"
  by (simp add: choose_connection_def mx_calm split: option.split)

lemma calm_place_one [mx_calm]: "calm s s' \<Longrightarrow> calm s (snd (place_one f lane n d t k u s'))"
  by (simp add: place_one_def Let_def case_prod_beta mx_calm split: option.split)

lemma calm_copies: "calm s (snd (snd (snd (snd x)))) \<Longrightarrow>
    calm s (snd (snd (snd (snd (fold (place_copy f k n d u) cs x)))))"
proof (induction cs arbitrary: x)
  case (Cons c cs)
  have "calm s (snd (snd (snd (snd (place_copy f k n d u c x)))))"
    using Cons.prems by (simp add: place_copy_def Let_def case_prod_beta mx_calm)
  then show ?case
    using Cons.IH by simp
qed simp

lemma calm_firsts: "calm s (snd x) \<Longrightarrow> calm s (snd (fold (place_first f n d) cs x))"
proof (induction cs arbitrary: x)
  case (Cons c cs)
  have "calm s (snd (place_first f n d c x))"
    using Cons.prems by (simp add: place_first_def Let_def case_prod_beta mx_calm)
  then show ?case
    using Cons.IH by simp
qed simp

lemma calm_place_all [mx_calm]: "calm s s' \<Longrightarrow> calm s (snd (place_all f n d t k u s'))"
  by (simp add: place_all_def Let_def case_prod_beta calm_copies calm_firsts)

lemma calm_place_now [mx_calm]: "calm s s' \<Longrightarrow> calm s (snd (place_now f a l n d t k u s'))"
  by (simp add: place_now_def mx_calm)

lemma calm_send_at [mx_calm]: "calm s s' \<Longrightarrow> calm s (snd (snd (snd (send_at f a l d n u dn s'))))"
  unfolding send_at_def Let_def case_prod_beta by (simp add: mx_calm split: option.split)

section \<open>A batch sent\<close>

lemma calm_give_back [mx_calm]: "calm s s' \<Longrightarrow> calm s (give_back b s')"
  by (simp add: calm_def give_back_def)

lemma calm_number_records: "calm s s' \<Longrightarrow> calm s (snd (number_records rs ps s'))"
  by (induction rs ps s' rule: number_records.induct) (simp_all add: Let_def case_prod_beta mx_calm)

lemma calm_batch_frame [mx_calm]: "calm s s' \<Longrightarrow> calm s (snd (batch_frame mid ty key rs n c s'))"
  unfolding batch_frame_def Let_def case_prod_beta numbered_def
  by (simp add: mx_calm calm_number_records calm_fold split: option.split sum.split)

lemma calm_rebuild_runs [mx_calm]: "calm s s' \<Longrightarrow> calm s (rebuild_runs bid s')"
  by (simp add: rebuild_runs_def Let_def mx_calm split: option.split)

lemma calm_arm_confirm_timer [mx_calm]: "calm s s' \<Longrightarrow> calm s (arm_confirm_timer s')"
  by (simp add: arm_confirm_timer_def Let_def case_prod_beta mx_calm split: list.split)

lemma calm_confirming_due [mx_calm]:
  assumes "calm s s'"
  shows "calm s (confirming_due bid s')"
proof (cases "map_of (cr_by_id (confirmer s')) bid")
  case None
  then show ?thesis
    using assms by (simp add: confirming_due_def)
next
  case (Some cg)
  define due where "due = earliest (if cg_written cg then cg_retry_at cg else None) (cg_deadline cg)"
  define s1 where "s1 = put_batch bid (cg\<lparr>cg_due := due\<rparr>) s'"
  define s2 where "s2 = (case cg_due cg of None \<Rightarrow> s1 | Some at \<Rightarrow>
    s1\<lparr>confirmer := (confirmer s1)\<lparr>cr_by_due := bts_remove (at, bid) (cr_by_due (confirmer s1))\<rparr>\<rparr>)"
  have s2: "calm s s2"
    using assms by (simp add: s2_def s1_def mx_calm split: option.split)
  show ?thesis
    unfolding confirming_due_def Some option.case Let_def due_def [symmetric] s1_def [symmetric] s2_def [symmetric]
    using assms s2 by (cases due) (simp_all add: mx_calm)
qed

lemma calm_wait_for_confirmation [mx_calm]: "calm s s' \<Longrightarrow> calm s (wait_for_confirmation f b rs l s')"
  unfolding wait_for_confirmation_def Let_def case_prod_beta by (simp add: mx_calm split: option.split)

lemma calm_cannot_confirm [mx_calm]: "calm s s' \<Longrightarrow> calm s (cannot_confirm ty rs s')"
  by (simp add: cannot_confirm_def Let_def mx_calm calm_fold)

lemma calm_alone_frame [mx_calm]: "calm s s' \<Longrightarrow> calm s (snd (alone_frame b s'))"
  by (simp add: alone_frame_def mx_calm)

lemma calm_send_alone [mx_calm]: "calm s s' \<Longrightarrow> calm s (send_alone r ty l d s')"
  unfolding send_alone_def Let_def case_prod_beta by (simp add: mx_calm)

lemma calm_send_some [mx_calm]: "calm s s' \<Longrightarrow> calm s (snd (send_some b l rs s'))"
  unfolding send_some_def Let_def case_prod_beta by (simp add: mx_calm split: option.split list.split)

lemma calm_send_loop: "calm s s' \<Longrightarrow> calm s (snd (send_loop n b l rs s'))"
  by (induction n arbitrary: rs s') (simp_all add: Let_def case_prod_beta mx_calm)

lemma calm_send_batch [mx_calm]: "calm s s' \<Longrightarrow> calm s (send_batch b idle s')"
  unfolding send_batch_def Let_def case_prod_beta by (simp add: mx_calm calm_send_loop split: option.split)

section \<open>Letting the batches go\<close>

lemma close_batch_open: "bt_open (batcher (close_batch began idle s)) = AList.delete began (bt_open (batcher s))"
proof (cases "map_of (bt_open (batcher s)) began")
  case None
  then have "began \<notin> fst ` set (bt_open (batcher s))"
    by (simp add: map_of_eq_None_iff)
  then have "AList.delete began (bt_open (batcher s)) = bt_open (batcher s)"
    by (simp add: AList.delete_id)
  then show ?thesis
    by (simp add: close_batch_def None)
next
  case (Some b)
  then show ?thesis
    using calm_open [OF calm_send_batch [OF calm_refl]]
    by (simp add: close_batch_def Let_def stop_batch_timer_def cancel_timer_def split: option.split)
qed

lemma delete_shorter: "map_of xs k = Some v \<Longrightarrow> length (AList.delete k xs) < length xs"
  by (induction xs) (auto simp: AList.delete_eq intro: le_imp_less_Suc length_filter_le)

lemma close_loop_empty: "length (bt_open (batcher s)) \<le> n \<Longrightarrow> bt_open (batcher (close_loop n s)) = []"
proof (induction n arbitrary: s)
  case (Suc n)
  show ?case
  proof (cases "bt_open (batcher s)")
    case (Cons e rest)
    obtain began b where e: "e = (began, b)"
      by (cases e) blast
    have "map_of (bt_open (batcher s)) began = Some b"
      using Cons e by simp
    then have "length (bt_open (batcher (close_batch began None s))) \<le> n"
      using delete_shorter [of "bt_open (batcher s)" began b] Suc.prems by (simp add: close_batch_open)
    then show ?thesis
      using Cons e Suc.IH by simp
  qed simp
qed simp

text \<open>C3: Letting the batches go leaves none open, whatever they hold and however their sending ends: the loop
  that closes them ends, and a send, a flush or a shutdown that follows overtakes no message waiting in a
  batch.\<close>

theorem close_batches_leaves_none: "\<not> batches_open (close_batches s)"
  by (simp add: batches_open_def close_batches_def close_loop_empty)


section \<open>The limit of a frame\<close>




section \<open>What is set\<close>

text \<open>C28: A batch of a delivery that was accepted always has time left when its delay is over: its deadline, when
  it has one, is later than the moment its delay lets it go at, and a message that goes alone has some time
  too.\<close>

theorem accepted_delivery_has_time:
  assumes "check_delivery ty key d = Inr ()" "deadline_after at (d_timeout d) = Some deadline"
  shows "at < deadline \<and> (d_batch d \<longrightarrow> at + d_max_delay d < deadline)"
  using assms by (auto simp: check_delivery_def deadline_after_def split: if_splits option.splits)

theorem accepted_delivery_has_time_witness:
  "check_delivery 100 None (default_delivery\<lparr>d_batch := True\<rparr>) = Inr ()
   \<and> 10 + d_max_delay (default_delivery\<lparr>d_batch := True\<rparr>) < 10 + DEFAULT_TIMEOUT"
proof -
  let ?d = "default_delivery\<lparr>d_batch := True\<rparr>"
  have ok: "check_delivery 100 None ?d = Inr ()"
    by (simp add: check_delivery_def default_delivery_def MAX_MULTIPLEXER_META_PACKET_def DEFAULT_BATCH_MAX_RECORDS_def
        MAX_BATCH_RECORDS_def DEFAULT_BATCH_MAX_BYTES_def MAX_MESSAGE_SIZE_def MAX_TIMEOUT_def DEFAULT_TIMEOUT_def secs_def)
  have "deadline_after 10 (d_timeout ?d) = Some (10 + DEFAULT_TIMEOUT)"
    by (simp add: deadline_after_def default_delivery_def MAX_TIMEOUT_def DEFAULT_TIMEOUT_def secs_def)
  then show ?thesis
    using accepted_delivery_has_time [OF ok, of 10] ok by simp
qed

lemma put_inner_lookup: "map_of (put_inner ty k v m) ty' = (if ty' = ty
    then Some (AList.update k v (case map_of m ty of None \<Rightarrow> [] | Some keys \<Rightarrow> keys)) else map_of m ty')"
  by (simp add: put_inner_def update_conv')

text \<open>C29: What is set for a type or for a key is what applies to it from then on, whatever was set before, and a
  setting that is refused changes nothing.\<close>

theorem set_delivery_applies:
  "case set_delivery ty key d s of
     (Inl _, s') \<Rightarrow> s' = s
   | (Inr _, s') \<Rightarrow> delivery_of s' ty key = Some d"
proof (cases "check_delivery ty key d")
  case (Inl e)
  then show ?thesis
    by (simp add: set_delivery_def)
next
  case (Inr u)
  have "AList.update ty d xs \<noteq> []" for xs :: "(u32, delivery) hash_map"
    by (cases xs) auto
  moreover have "put_inner ty k d m \<noteq> []" for k m
    using put_inner_lookup [of ty k d m ty] by auto
  ultimately show ?thesis
    using Inr
    by (cases key) (auto simp: set_delivery_def delivery_of_def Let_def update_conv' put_inner_lookup
        split: option.splits)
qed

section \<open>The bodies kept\<close>

datatype bodies_op = Give body | Take | TakeAll bodies

fun bodies_step :: "bodies_op \<Rightarrow> bodies \<Rightarrow> bodies" where
  "bodies_step (Give b) bs = give b bs"
| "bodies_step Take bs = snd (take_body bs)"
| "bodies_step (TakeAll given) bs = fst (take_all bs given)"

text \<open>C30: Whatever bodies are given, taken and handed over, and in whatever order, those kept are empty, of at most
  BODY_KEPT_MAX each and of BODIES_KEPT_BYTES together, and the bytes counted are exactly theirs.\<close>

theorem bodies_within_caps: "bodies_ok (fold bodies_step steps \<lparr>bs_kept = [], bs_bytes = 0\<rparr>)"
proof -
  have "bodies_ok bs \<Longrightarrow> bodies_ok (fold bodies_step steps bs)" for bs
  proof (induction steps arbitrary: bs)
    case (Cons st steps)
    then show ?case
      using give_ok take_body_ok take_all_ok by (cases st) auto
  qed simp
  then show ?thesis
    using no_bodies_ok by blast
qed

section \<open>Drops\<close>



end
