(* ===== verification/Expiry_Facts.thy ===== *)
theory Expiry_Facts
  imports Outbox_Facts
begin

text \<open>
  The deadlines of what waits: the expiry's loop ends, handles every deadline that has come and leaves the
  timer armed for the earliest that has not.
\<close>

section \<open>What dropping an entry leaves of the heap\<close>

text \<open>The heap of deadlines and the time, which dropping an expired entry leaves alone.\<close>

lemma slab_expiring [simp]:
  "ob_expiring (slab_put k w ob) = ob_expiring ob" "ob_expiring (slab_release k ob) = ob_expiring ob"
  "ob_expiring (backlog_put c g ob) = ob_expiring ob"
  by (simp_all add: slab_put_def slab_release_def slab_free_def backlog_put_def Let_def split: prod.splits option.splits)

lemma retain_live_expiring [simp]: "ob_expiring (snd (retain_live keys ob)) = ob_expiring ob"
  by (induction keys ob rule: retain_live.induct) (auto simp: Let_def case_prod_beta)

lemma clear_out_expiring [simp]:
  "ob_expiring (clear_out_held ob) = ob_expiring ob" "ob_expiring (clear_out_backlog c ob) = ob_expiring ob"
  by (simp_all add: clear_out_held_def clear_out_backlog_def clear_out_def Let_def case_prod_beta split: option.splits)



section \<open>The loop\<close>






end
