(* ===== verification/Spec2Isabelle.thy ===== *)
theory Spec2Isabelle
  imports Core_Run Inbox_Threads Posting Pending Ids Span_Set Endpoint Timers Xxh3_Paths Frame_Reader Log_Summary Confirm_Flags
    Confirm_Numbers Batch_Facts Queue_Facts Expiry_Facts
begin

text \<open>
  A verification library for the Rust client of the Multiplexer, the message broker of this repository:
  the crate under \<open>src/rust/mx-multiplexer/src\<close>, whose files are named here without that prefix.

  \<^bold>\<open>The program.\<close>  A client keeps connections to multiplexers and sends messages through them.  All of its
  logic is the core (\<open>core/\<close>), which does no input or output: a driver hands it the time, what was read and
  the ends of writes, runs the timers that are due and the work it posted, and carries out the actions it
  left.  A send is numbered, made a frame and placed on a connection's queue, or waits in the connection's
  backlog for room, or is held until a connection comes up, until its deadline (\<open>core/outbox\<close>).  Messages
  of a type or key with a delivery set gather in batches (\<open>core/batching.rs\<close>, \<open>core/bodies.rs\<close>) and may be
  kept until their consumer confirms them (\<open>core/confirming\<close>).

  \<^bold>\<open>The model.\<close>  A function of the code is a function of the model, from a state to a state, in the code's
  order.  \<open>core\<close> (\<open>Core_State\<close>) is the core's state.  An instant or a duration is a natural number of
  nanoseconds; a number that wraps is a word; a count the code decrements is an integer, so that an
  underflow would show as a negative.  A \<open>HashMap\<close> is an association list, in an order the code does not
  fix; a \<open>BTreeMap\<close>, a \<open>BTreeSet\<close> and a heap are ascending lists; a \<open>VecDeque\<close> is a list, its front first.
  A panic sets \<open>panicked\<close>.  Shared objects are numbers into a store: trackers, lanes and live flags; a
  tracker's strong count is the number of holds on it in the state, and each use adds those the functions
  running have in variables.  The calls of the program's callbacks are recorded in \<open>calls\<close>, as are log
  lines, whose ids and types are left out of the text.  What is not this program, the logger, the fork
  generation, the processor, prost's encoders and decoders and the growth of a \<open>Vec\<close>, is in \<open>env\<close>, a
  parameter of every core.

  \<^bold>\<open>The theories.\<close>
  \<^item> \<open>Prelude\<close>: shared lemmas, byte orders, the collections; \<open>Defaults\<close>: \<open>defaults.rs\<close>, \<open>constants.rs\<close>,
    \<open>error.rs\<close>.
  \<^item> \<open>Ids\<close>, \<open>Span_Set\<close>, \<open>Endpoint\<close>, \<open>Timers\<close>, \<open>Log_Summary\<close>, \<open>Confirm_Flags\<close>: \<open>ids.rs\<close>, \<open>spanset.rs\<close>,
    \<open>endpoint.rs\<close>, \<open>core/timers.rs\<close>, \<open>log_summary.rs\<close> and the flags of \<open>core/confirming/mod.rs\<close>, each with its
    invariants and what it promises.
  \<^item> \<open>Xxh3\<close>, \<open>Xxh3_Paths\<close>: \<open>xxh3.rs\<close>, every processor's path equal to the portable one; \<open>Frame\<close>,
    \<open>Frame_Reader\<close>: \<open>frame.rs\<close>, the writers equal to each other and the reader a refinement of the byte
    stream.
  \<^item> \<open>Core_State\<close>, \<open>Core_Basics\<close>, \<open>Core_New\<close>: the state, trackers, handles and \<open>core/lane.rs\<close>; \<open>Core_Drops\<close>:
    every drop (\<open>report_drop\<close> of \<open>core/client/mod.rs\<close>) and what it ends.
  \<^item> \<open>Outbox_Flush\<close>: \<open>core/outbox/flush.rs\<close>; \<open>Outbox_Slab\<close>: the waiting entries of \<open>core/outbox/state.rs\<close>, as
    an interpretation of a locale of keyed stores; \<open>Outbox_Place\<close>: \<open>core/outbox/expiry.rs\<close> and placing;
    \<open>Outbox_Send\<close>: sending and \<open>core/outbox/handover.rs\<close>; \<open>Conn_Queue\<close>: the queue and heartbeats of
    \<open>core/connection.rs\<close>.
  \<^item> \<open>Bodies\<close>, \<open>Batch_Send\<close>, \<open>Batching\<close>: \<open>core/bodies.rs\<close>, \<open>core/plain.rs\<close>, \<open>core/batching.rs\<close>;
    \<open>Confirm_Runs\<close>, \<open>Confirming\<close>: \<open>core/confirming\<close>.
  \<^item> \<open>Core_Frames\<close>: what the operations leave as it was; \<open>Outbox_Facts\<close>, \<open>Queue_Facts\<close>, \<open>Expiry_Facts\<close>,
    \<open>Batch_Facts\<close>, \<open>Confirm_Numbers\<close>: the properties of the core.

  \<^bold>\<open>What is shown of the core.\<close>  When a send is refused and that no other is forgotten; which connection is
  chosen; that the queue of a connection is bounded and the frame being written stays in front; that a
  pinned lane keeps its connection; that the expiry leaves no deadline that has come; that a freed key
  names nothing again; that letting the batches go leaves none and a batch goes whole, within its limit;
  that pairs of numbers read back, the runs of a batch are its unresolved messages and a confirmation
  reaches nothing else; that drops are counted and told once and the bodies kept stay within their caps.

  \<^bold>\<open>Bounds.\<close>  A loop that empties a queue runs with as many turns as the queue is long.  That this is
  enough is shown for the expiry (\<open>expire_loop_heap\<close>), for the batches let go (\<open>close_loop_empty\<close>) and for
  the frames of a batch (\<open>send_loop_done\<close>); for \<open>room_loop\<close> and \<open>place_held_loop\<close> each turn takes the front
  of its queue off, and no lemma states it yet.

  \<^bold>\<open>Not modelled.\<close>  The queries (\<open>core/query.rs\<close>) and with them the starting, reading, write ends and
  shutdown of connections, receiving in \<open>core/client/mod.rs\<close>, connecting and routing (\<open>core/client\<close>), the
  rest of \<open>core/threaded.rs\<close>, \<open>inbox.rs\<close>, \<open>pending.rs\<close> and \<open>message.rs\<close>: not yet.  The driver, the clients,
  the servers and \<open>fork.rs\<close> are input and output, threads and locks; \<open>proto/\<close> is generated.  No invariant
  ties the counters of the outbox to its entries yet, so the absence of panics is not shown for the core
  as a whole.
\<close>

end
